(* ===== verification/Prelude.thy ===== *)
theory Prelude
  imports Main "HOL-Library.AList" "HOL-Library.Char_ord" "HOL-Library.List_Lexorder"
    "HOL-Library.Product_Lexorder" "HOL-Library.Sublist"
begin

text \<open>
  Shared vocabulary of the development: Go maps as association lists with a free iteration
  order, the collection \<open>go_step\<close> of the equations that unfold one primitive step of a
  handler, and the generic facts on lists and maps that the component theories use.
\<close>

named_theorems go_step \<open>equations that execute one primitive step of a modelled handler\<close>
named_theorems store_spec \<open>read-after-write facts of the stores\<close>

section \<open>Go maps\<close>

text \<open>
  A Go \<open>map[string]T\<close> is an association list from keys to values. A read is \<open>map_of\<close>,
  a write \<open>AList.update\<close>, \<open>delete\<close> is \<open>AList.delete\<close>. The order in which \<open>range\<close>
  visits a map is not specified by the language: every iteration is given a ranking of the
  keys, an arbitrary function, and visits the entries in the order of their ranks.
\<close>

type_synonym 'v gomap = "(string \<times> 'v) list"

definition range_map :: "(string \<Rightarrow> nat) \<Rightarrow> 'v gomap \<Rightarrow> 'v list" where
  "range_map ord m = map snd (sort_key (\<lambda>kv. ord (fst kv)) m)"

definition gomap_ok :: "'v gomap \<Rightarrow> bool" where
  "gomap_ok m \<longleftrightarrow> distinct (map fst m)"

lemma map_of_update [simp, store_spec]: "map_of (AList.update k v m) = (map_of m)(k \<mapsto> v)"
  by (rule AList.update_conv')

lemma map_of_delete [simp, store_spec]: "map_of (AList.delete k m) = (map_of m)(k := None)"
  by (rule AList.delete_conv')

lemma gomap_ok_Nil [simp]: "gomap_ok []"
  by (simp add: gomap_ok_def)

lemma gomap_ok_update [simp]: "gomap_ok m \<Longrightarrow> gomap_ok (AList.update k v m)"
  by (simp add: gomap_ok_def AList.distinct_update)

lemma gomap_ok_delete [simp]: "gomap_ok m \<Longrightarrow> gomap_ok (AList.delete k m)"
  by (simp add: gomap_ok_def AList.distinct_delete)

lemma set_range_map [simp]: "set (range_map ord m) = snd ` set m"
  by (simp add: range_map_def)

lemma length_range_map [simp]: "length (range_map ord m) = length m"
  by (simp add: range_map_def)

lemma mem_range_map_iff:
  assumes "gomap_ok m"
  shows "v \<in> set (range_map ord m) \<longleftrightarrow> (\<exists>k. map_of m k = Some v)"
  using assms by (force simp: gomap_ok_def image_iff)

lemma range_map_get: "map_of m k = Some v \<Longrightarrow> v \<in> set (range_map ord m)"
  by (force dest: map_of_SomeD simp: image_iff)

lemma range_map_Nil [simp]: "range_map ord [] = []"
  by (simp add: range_map_def)

lemma range_map_single [simp]: "range_map ord [(k, v)] = [v]"
  by (simp add: range_map_def)

lemma set_update_subset: "set (AList.update k v m) \<subseteq> insert (k, v) (set m)"
  by (induction m) auto

section \<open>Lists and options\<close>

lemma find_Some_mem: "find P xs = Some x \<Longrightarrow> x \<in> set xs \<and> P x"
  by (auto simp: find_Some_iff)

lemma find_None_all: "find P xs = None \<longleftrightarrow> (\<forall>x \<in> set xs. \<not> P x)"
  by (auto simp: find_None_iff)

lemma prefix_length_drop: "prefix p s \<Longrightarrow> s = p @ drop (length p) s"
  by (auto simp: prefix_def)

lemma case_sum_if [go_step]:
  "(case (if b then x else y) of Inl e \<Rightarrow> f e | Inr v \<Rightarrow> g v) =
   (if b then (case x of Inl e \<Rightarrow> f e | Inr v \<Rightarrow> g v)
    else (case y of Inl e \<Rightarrow> f e | Inr v \<Rightarrow> g v))"
  by simp

end
