(* ===== verification/GoStrings.thy ===== *)
theory GoStrings
  imports Prelude
begin

text \<open>
  The functions of Go's package \<open>strings\<close> that the program uses, on byte strings. A Go
  string is a sequence of bytes, here a \<open>char list\<close>. \<open>TrimSpace\<close> removes every UTF-8
  encoded white space character of Unicode. \<open>ToLower\<close> and \<open>EqualFold\<close> are exact on ASCII
  text and on the non-ASCII characters whose case mapping meets an ASCII letter (the Kelvin
  sign, the dotted capital I, the long s); every other non-ASCII byte stays as it is, which
  no comparison of the program with an ASCII text can see.
\<close>

section \<open>Trimming\<close>

definition ws_tokens :: "string list" where
  "ws_tokens =
     [[CHR 0x09], [CHR 0x0A], [CHR 0x0B], [CHR 0x0C], [CHR 0x0D], [CHR 0x20],
      [CHR 0xC2, CHR 0x85], [CHR 0xC2, CHR 0xA0], [CHR 0xE1, CHR 0x9A, CHR 0x80],
      [CHR 0xE2, CHR 0x80, CHR 0x80], [CHR 0xE2, CHR 0x80, CHR 0x81],
      [CHR 0xE2, CHR 0x80, CHR 0x82], [CHR 0xE2, CHR 0x80, CHR 0x83],
      [CHR 0xE2, CHR 0x80, CHR 0x84], [CHR 0xE2, CHR 0x80, CHR 0x85],
      [CHR 0xE2, CHR 0x80, CHR 0x86], [CHR 0xE2, CHR 0x80, CHR 0x87],
      [CHR 0xE2, CHR 0x80, CHR 0x88], [CHR 0xE2, CHR 0x80, CHR 0x89],
      [CHR 0xE2, CHR 0x80, CHR 0x8A], [CHR 0xE2, CHR 0x80, CHR 0xA8],
      [CHR 0xE2, CHR 0x80, CHR 0xA9], [CHR 0xE2, CHR 0x80, CHR 0xAF],
      [CHR 0xE2, CHR 0x81, CHR 0x9F], [CHR 0xE3, CHR 0x80, CHR 0x80]]"

definition token_len :: "string list \<Rightarrow> string \<Rightarrow> nat" where
  "token_len toks s = (case find (\<lambda>t. t \<noteq> [] \<and> prefix t s) toks of None \<Rightarrow> 0 | Some t \<Rightarrow> length t)"

lemma token_len_Nil [simp]: "token_len toks [] = 0"
  by (auto simp: token_len_def split: option.splits dest: find_Some_mem)

lemma token_len_le: "token_len toks s \<le> length s"
  by (auto simp: token_len_def split: option.splits dest!: find_Some_mem prefix_length_le)

function strip_tokens :: "string list \<Rightarrow> string \<Rightarrow> string" where
  "strip_tokens toks s =
     (if token_len toks s = 0 then s else strip_tokens toks (drop (token_len toks s) s))"
  by pat_completeness auto
termination
  by (relation "measure (\<lambda>(toks, s). length s)")
    (auto simp: diff_less_mono2 intro!: diff_less intro: ccontr)

declare strip_tokens.simps [simp del]

lemma strip_tokens_Nil [simp]: "strip_tokens toks [] = []"
  by (subst strip_tokens.simps) simp

lemma strip_tokens_done [simp]: "token_len toks (strip_tokens toks s) = 0"
proof (induction toks s rule: strip_tokens.induct)
  case (1 toks s)
  then show ?case by (cases "token_len toks s = 0") (simp_all add: strip_tokens.simps [of toks s])
qed

lemma strip_tokens_id: "token_len toks s = 0 \<Longrightarrow> strip_tokens toks s = s"
  by (subst strip_tokens.simps) simp

lemma strip_tokens_suffix: "\<exists>p. s = p @ strip_tokens toks s"
proof (induction toks s rule: strip_tokens.induct)
  case (1 toks s)
  show ?case
  proof (cases "token_len toks s = 0")
    case True
    then show ?thesis by (simp add: strip_tokens_id)
  next
    case False
    with "1.IH" obtain p where
      "drop (token_len toks s) s = p @ strip_tokens toks (drop (token_len toks s) s)" by blast
    then have "s = (take (token_len toks s) s @ p) @ strip_tokens toks (drop (token_len toks s) s)"
      by (metis append.assoc append_take_drop_id)
    with False show ?thesis by (metis strip_tokens.simps)
  qed
qed

definition TrimLeftSpace :: "string \<Rightarrow> string" where
  "TrimLeftSpace s = strip_tokens ws_tokens s"

definition TrimRightSpace :: "string \<Rightarrow> string" where
  "TrimRightSpace s = rev (strip_tokens (map rev ws_tokens) (rev s))"

definition TrimSpace :: "string \<Rightarrow> string" where
  "TrimSpace s = TrimRightSpace (TrimLeftSpace s)"

lemma TrimSpace_Nil [simp]: "TrimSpace [] = []"
  by (simp add: TrimSpace_def TrimRightSpace_def TrimLeftSpace_def)

lemma token_len_zero_iff: "token_len toks s = 0 \<longleftrightarrow> (\<forall>t \<in> set toks. t \<noteq> [] \<longrightarrow> \<not> prefix t s)"
  by (auto simp: token_len_def find_None_iff split: option.splits dest!: find_Some_mem)

lemma token_len_prefix: "token_len toks (s @ r) = 0 \<Longrightarrow> token_len toks s = 0"
  by (meson token_len_zero_iff prefix_prefix)

lemma TrimRightSpace_prefix: "\<exists>q. s = TrimRightSpace s @ q"
proof -
  obtain p where "rev s = p @ strip_tokens (map rev ws_tokens) (rev s)"
    using strip_tokens_suffix by blast
  then have "s = rev (strip_tokens (map rev ws_tokens) (rev s)) @ rev p"
    by (metis rev_append rev_rev_ident)
  then show ?thesis by (auto simp: TrimRightSpace_def)
qed

lemma TrimSpace_idem [simp]: "TrimSpace (TrimSpace s) = TrimSpace s"
proof -
  obtain q where "TrimLeftSpace s = TrimSpace s @ q"
    using TrimRightSpace_prefix [of "TrimLeftSpace s"] by (auto simp: TrimSpace_def)
  then have "token_len ws_tokens (TrimSpace s @ q) = 0"
    by (metis TrimLeftSpace_def strip_tokens_done)
  then have "TrimLeftSpace (TrimSpace s) = TrimSpace s"
    by (simp add: TrimLeftSpace_def strip_tokens_id token_len_prefix)
  moreover have "TrimRightSpace (TrimRightSpace r) = TrimRightSpace r" for r
    by (simp add: TrimRightSpace_def strip_tokens_id)
  ultimately show ?thesis by (metis TrimSpace_def)
qed

text \<open>A text whose bytes are all printable ASCII is not changed.\<close>

definition ascii_graph :: "char \<Rightarrow> bool" where
  "ascii_graph c \<longleftrightarrow> 0x21 \<le> (of_char c :: nat) \<and> (of_char c :: nat) \<le> 0x7E"

lemma ws_tokens_not_graph: "t \<in> set ws_tokens \<Longrightarrow> \<exists>a b. t = a # b \<and> (\<forall>c \<in> set t. \<not> ascii_graph c)"
  by (auto simp: ws_tokens_def ascii_graph_def)

lemma token_len_graph:
  assumes "\<forall>t \<in> set toks. \<forall>c \<in> set t. \<not> ascii_graph c" and "\<forall>c \<in> set s. ascii_graph c"
  shows "token_len toks s = 0"
  using assms by (fastforce simp: token_len_zero_iff prefix_def neq_Nil_conv)

lemma TrimSpace_graph:
  assumes "\<forall>c \<in> set s. ascii_graph c"
  shows "TrimSpace s = s"
proof -
  have "token_len ws_tokens s = 0" and "token_len (map rev ws_tokens) (rev s) = 0"
    using assms by (intro token_len_graph; force dest: ws_tokens_not_graph)+
  then show ?thesis
    by (simp add: TrimSpace_def TrimLeftSpace_def TrimRightSpace_def strip_tokens_id)
qed

section \<open>Letter case\<close>

definition lower_char :: "char \<Rightarrow> char" where
  "lower_char c = (if 0x41 \<le> (of_char c :: nat) \<and> (of_char c :: nat) \<le> 0x5A
                   then char_of ((of_char c :: nat) + 32) else c)"

function bytes_map :: "(string \<times> char) list \<Rightarrow> string \<Rightarrow> string" where
  "bytes_map sp [] = []"
| "bytes_map sp (c # cs) =
     (case find (\<lambda>(t, _). t \<noteq> [] \<and> prefix t (c # cs)) sp of
        Some (t, l) \<Rightarrow> l # bytes_map sp (drop (length t - 1) cs)
      | None \<Rightarrow> lower_char c # bytes_map sp cs)"
  by pat_completeness auto
termination
  by (relation "measure (\<lambda>(sp, s). length s)") auto

definition ToLower :: "string \<Rightarrow> string" where
  "ToLower = bytes_map [([CHR 0xC4, CHR 0xB0], CHR ''i''), ([CHR 0xE2, CHR 0x84, CHR 0xAA], CHR ''k'')]"

definition fold_case :: "string \<Rightarrow> string" where
  "fold_case = bytes_map [([CHR 0xC5, CHR 0xBF], CHR ''s''), ([CHR 0xE2, CHR 0x84, CHR 0xAA], CHR ''k'')]"

definition EqualFold :: "string \<Rightarrow> string \<Rightarrow> bool" where
  "EqualFold s t \<longleftrightarrow> fold_case s = fold_case t"

lemma EqualFold_refl [simp]: "EqualFold s s"
  by (simp add: EqualFold_def)

lemma EqualFold_sym: "EqualFold s t \<longleftrightarrow> EqualFold t s"
  by (auto simp: EqualFold_def)

lemma EqualFold_trans: "EqualFold s t \<Longrightarrow> EqualFold t u \<Longrightarrow> EqualFold s u"
  by (simp add: EqualFold_def)

lemma bytes_map_ascii:
  assumes "\<forall>(t, _) \<in> set sp. \<forall>c \<in> set t. \<not> ascii_graph c" and "\<forall>c \<in> set s. ascii_graph c"
  shows "bytes_map sp s = map lower_char s"
  using assms(2)
proof (induction s)
  case Nil
  then show ?case by simp
next
  case (Cons c cs)
  have "find (\<lambda>(t, _). t \<noteq> [] \<and> prefix t (c # cs)) sp = None"
    using assms(1) Cons.prems by (fastforce simp: find_None_iff prefix_Cons neq_Nil_conv)
  with Cons show ?case by simp
qed

lemma ToLower_ascii: "\<forall>c \<in> set s. ascii_graph c \<Longrightarrow> ToLower s = map lower_char s"
  unfolding ToLower_def by (rule bytes_map_ascii) (auto simp: ascii_graph_def)

section \<open>Searching\<close>

abbreviation HasPrefix :: "string \<Rightarrow> string \<Rightarrow> bool" where
  "HasPrefix s p \<equiv> prefix p s"

abbreviation HasSuffix :: "string \<Rightarrow> string \<Rightarrow> bool" where
  "HasSuffix s p \<equiv> suffix p s"

definition TrimPrefix :: "string \<Rightarrow> string \<Rightarrow> string" where
  "TrimPrefix s p = (if prefix p s then drop (length p) s else s)"

definition TrimSuffix :: "string \<Rightarrow> string \<Rightarrow> string" where
  "TrimSuffix s p = (if suffix p s then take (length s - length p) s else s)"

fun Contains :: "string \<Rightarrow> string \<Rightarrow> bool" where
  "Contains [] sub = (sub = [])"
| "Contains (c # cs) sub = (prefix sub (c # cs) \<or> Contains cs sub)"

lemma Contains_iff: "Contains s sub \<longleftrightarrow> sublist sub s"
  by (induction s) (auto simp: sublist_Cons_right)

lemma TrimPrefix_append [simp]: "TrimPrefix (p @ s) p = s"
  by (simp add: TrimPrefix_def)

lemma TrimSuffix_append [simp]: "TrimSuffix (s @ p) p = s"
  by (simp add: TrimSuffix_def suffix_def)

text \<open>The text after the last slash, as \<open>path[strings.LastIndex(path, "/")+1:]\<close>.\<close>

definition after_last_slash :: "string \<Rightarrow> string" where
  "after_last_slash s = rev (takeWhile (\<lambda>c. c \<noteq> CHR ''/'') (rev s))"

lemma after_last_slash_append:
  "CHR ''/'' \<notin> set b \<Longrightarrow> after_last_slash (a @ CHR ''/'' # b) = b"
proof -
  assume "CHR ''/'' \<notin> set b"
  then have "takeWhile (\<lambda>c. c \<noteq> CHR ''/'') (rev b @ CHR ''/'' # rev a) = rev b"
    by (subst takeWhile_append2) auto
  then show ?thesis by (simp add: after_last_slash_def)
qed

definition TrimChar :: "char \<Rightarrow> string \<Rightarrow> string" where
  "TrimChar c s = rev (dropWhile (\<lambda>x. x = c) (rev (dropWhile (\<lambda>x. x = c) s)))"

section \<open>Formatting numbers\<close>

definition digit_char :: "nat \<Rightarrow> char" where
  "digit_char d = char_of (48 + d)"

function show_nat :: "nat \<Rightarrow> string" where
  "show_nat n = (if n < 10 then [digit_char n] else show_nat (n div 10) @ [digit_char (n mod 10)])"
  by pat_completeness auto
termination
  by (relation "measure id") auto

declare show_nat.simps [simp del]

definition pad_nat :: "nat \<Rightarrow> nat \<Rightarrow> string" where
  "pad_nat w n = (let t = show_nat n in replicate (w - length t) (CHR ''0'') @ t)"

definition show_int :: "int \<Rightarrow> string" where
  "show_int i = (if i < 0 then CHR ''-'' # show_nat (nat (- i)) else show_nat (nat i))"

definition quoted :: "string \<Rightarrow> string" where
  "quoted s = CHR 0x22 # s @ [CHR 0x22]"

section \<open>Digits and splitting\<close>

definition is_digit :: "char \<Rightarrow> bool" where
  "is_digit c \<longleftrightarrow> 48 \<le> (of_char c :: nat) \<and> (of_char c :: nat) \<le> 57"

definition digits_value :: "string \<Rightarrow> nat" where
  "digits_value ds = foldl (\<lambda>n c. 10 * n + (of_char c - 48)) 0 ds"

text \<open>\<open>strings.Split\<close> by a separator of one byte: always at least one part.\<close>

fun Split :: "string \<Rightarrow> char \<Rightarrow> string list" where
  "Split [] sep = [[]]"
| "Split (c # cs) sep =
     (if c = sep then [] # Split cs sep
      else (case Split cs sep of [] \<Rightarrow> [[c]] | x # xs \<Rightarrow> (c # x) # xs))"

definition Join :: "string list \<Rightarrow> string \<Rightarrow> string" where
  "Join parts sep = (case parts of [] \<Rightarrow> [] | x # xs \<Rightarrow> x @ concat (map (\<lambda>y. sep @ y) xs))"

lemma Split_not_empty [simp]: "Split s sep \<noteq> []"
  by (cases s) (auto split: list.splits)

lemma Join_Split: "Join (Split s sep) [sep] = s"
proof (induction s)
  case Nil
  then show ?case by (simp add: Join_def)
next
  case (Cons c s)
  then show ?case by (cases "Split s sep") (auto simp: Join_def)
qed

lemma Split_parts: "part \<in> set (Split s sep) \<Longrightarrow> sep \<notin> set part"
proof (induction s arbitrary: part)
  case Nil
  then show ?case by simp
next
  case (Cons c s)
  then show ?case by (cases "Split s sep") (auto split: if_splits)
qed

end
