(* ===== verification/GoFloat.thy ===== *)
theory GoFloat
  imports Prelude "HOL-Library.Log_Nat"
begin

text \<open>
  Go's \<open>float64\<close>: IEEE 754 binary64 with round-to-nearest-even, as executable functions on
  the rationals. A value is a finite number, an infinity or NaN; each arithmetic operation
  computes the exact result and rounds it once (the compiler fuses no multiplication and
  addition on amd64). The sign of zero is not kept: the program never divides by a computed
  zero. Comparisons with NaN are false, as in Go.
\<close>

section \<open>Rounding\<close>

datatype f64 = Fin rat | FInf bool \<comment> \<open>is it negative?\<close> | FNaN

definition flog2 :: "rat \<Rightarrow> int" where
  "flog2 x = (let (n, d) = quotient_of x; k = bitlen n - bitlen d
              in if 2 powi k \<le> x then k else k - 1)"

definition rnd_even :: "rat \<Rightarrow> int" where
  "rnd_even x = (let f = \<lfloor>x\<rfloor>; r = x - of_int f in
     if r < 1/2 then f else if r > 1/2 then f + 1 else if even f then f else f + 1)"

definition ulp_exp :: "rat \<Rightarrow> int" where
  "ulp_exp x = max (flog2 x - 52) (-1074)"

definition mant :: "rat \<Rightarrow> int" where
  "mant x = rnd_even (x / 2 powi (ulp_exp x))"

definition flpos :: "rat \<Rightarrow> rat" where
  "flpos x = of_int (mant x) * 2 powi (ulp_exp x)"

definition fbig :: "rat \<Rightarrow> bool" where
  "fbig x \<longleftrightarrow> 971 < ulp_exp x \<or> (ulp_exp x = 971 \<and> mant x = 2 ^ 53)"

definition fl :: "rat \<Rightarrow> f64" where
  "fl x = (if x = 0 then Fin 0 else if fbig \<bar>x\<bar> then FInf (x < 0)
           else Fin (sgn x * flpos \<bar>x\<bar>))"

section \<open>Operations\<close>

fun fneg :: "f64 \<Rightarrow> f64" where
  "fneg (Fin a) = Fin (- a)"
| "fneg (FInf n) = FInf (\<not> n)"
| "fneg FNaN = FNaN"

fun fadd :: "f64 \<Rightarrow> f64 \<Rightarrow> f64" where
  "fadd (Fin a) (Fin b) = fl (a + b)"
| "fadd (FInf n) (Fin b) = FInf n"
| "fadd (Fin a) (FInf n) = FInf n"
| "fadd (FInf m) (FInf n) = (if m = n then FInf m else FNaN)"
| "fadd FNaN b = FNaN"
| "fadd a FNaN = FNaN"

definition fsub :: "f64 \<Rightarrow> f64 \<Rightarrow> f64" where
  "fsub a b = fadd a (fneg b)"

fun fmul :: "f64 \<Rightarrow> f64 \<Rightarrow> f64" where
  "fmul (Fin a) (Fin b) = fl (a * b)"
| "fmul (FInf n) (Fin b) = (if b = 0 then FNaN else FInf (n \<noteq> (b < 0)))"
| "fmul (Fin a) (FInf n) = (if a = 0 then FNaN else FInf (n \<noteq> (a < 0)))"
| "fmul (FInf m) (FInf n) = FInf (m \<noteq> n)"
| "fmul FNaN b = FNaN"
| "fmul a FNaN = FNaN"

fun fdiv :: "f64 \<Rightarrow> f64 \<Rightarrow> f64" where
  "fdiv (Fin a) (Fin b) =
     (if b = 0 then (if a = 0 then FNaN else FInf (a < 0)) else fl (a / b))"
| "fdiv (FInf n) (Fin b) = FInf (n \<noteq> (b < 0))"
| "fdiv (Fin a) (FInf n) = Fin 0"
| "fdiv (FInf m) (FInf n) = FNaN"
| "fdiv FNaN b = FNaN"
| "fdiv a FNaN = FNaN"

fun flt :: "f64 \<Rightarrow> f64 \<Rightarrow> bool" where
  "flt (Fin a) (Fin b) = (a < b)"
| "flt (FInf m) (Fin b) = m"
| "flt (Fin a) (FInf n) = (\<not> n)"
| "flt (FInf m) (FInf n) = (m \<and> \<not> n)"
| "flt FNaN b = False"
| "flt a FNaN = False"

fun fle :: "f64 \<Rightarrow> f64 \<Rightarrow> bool" where
  "fle (Fin a) (Fin b) = (a \<le> b)"
| "fle (FInf m) (Fin b) = m"
| "fle (Fin a) (FInf n) = (\<not> n)"
| "fle (FInf m) (FInf n) = (m \<or> \<not> n)"
| "fle FNaN b = False"
| "fle a FNaN = False"

definition fint :: "int \<Rightarrow> f64" where
  "fint i = fl (of_int i)"

text \<open>\<open>math.Max\<close> and \<open>math.Min\<close>: an infinity of the right sign wins over NaN.\<close>

definition fmax :: "f64 \<Rightarrow> f64 \<Rightarrow> f64" where
  "fmax a b = (if a = FInf False \<or> b = FInf False then FInf False
     else if a = FNaN \<or> b = FNaN then FNaN else if flt b a then a else b)"

definition fmin :: "f64 \<Rightarrow> f64 \<Rightarrow> f64" where
  "fmin a b = (if a = FInf True \<or> b = FInf True then FInf True
     else if a = FNaN \<or> b = FNaN then FNaN else if flt a b then a else b)"

section \<open>The binary exponent\<close>

lemma powi_mono: "(m::int) \<le> n \<Longrightarrow> (2::rat) powi m \<le> 2 powi n"
  by (rule power_int_increasing) auto

lemma powi_mono_strict: "(m::int) < n \<Longrightarrow> (2::rat) powi m < 2 powi n"
  by (rule power_int_strict_increasing) auto

lemma powi_pos [simp]: "0 < (2::rat) powi n"
  by (simp add: zero_less_power_int)

lemma bitlen_powi:
  assumes "0 < n"
  shows "(2::rat) powi (bitlen n - 1) \<le> of_int n" and "of_int n < (2::rat) powi (bitlen n)"
proof -
  have b: "0 < bitlen n" using assms by (metis bitlen_eq_zero_iff bitlen_nonneg le_less not_le)
  have *: "2 ^ nat (bitlen n - 1) \<le> n" "n < 2 ^ nat (bitlen n)"
    using bitlen_bounds [OF assms] by auto
  have "(2::rat) powi (bitlen n - 1) = of_int (2 ^ nat (bitlen n - 1))"
    and "(2::rat) powi (bitlen n) = of_int (2 ^ nat (bitlen n))"
    using b by (simp_all add: power_int_def)
  with * show "(2::rat) powi (bitlen n - 1) \<le> of_int n" and "of_int n < (2::rat) powi (bitlen n)"
    by (simp_all only: of_int_le_iff of_int_less_iff)
qed

lemma flog2_bounds:
  assumes "0 < x"
  shows "2 powi (flog2 x) \<le> x" and "x < 2 powi (flog2 x + 1)"
proof -
  obtain n d where q: "quotient_of x = (n, d)" by (cases "quotient_of x")
  have d: "0 < d" using q by (rule quotient_of_denom_pos)
  have x: "x = of_int n / of_int d" using q by (rule quotient_of_div)
  have n: "0 < n" using assms d by (simp add: x zero_less_divide_iff)
  define k where "k = bitlen n - bitlen d"
  have "x < 2 powi (bitlen n) / 2 powi (bitlen d - 1)"
    unfolding x using bitlen_powi [OF n] bitlen_powi [OF d] n d
    by (intro frac_less) auto
  then have up: "x < 2 powi (k + 1)"
    by (simp add: k_def flip: power_int_diff) (simp add: algebra_simps)
  have "2 powi (bitlen n - 1) / 2 powi (bitlen d) \<le> x"
    unfolding x using bitlen_powi [OF n] bitlen_powi [OF d] n d
    by (intro frac_le) auto
  then have lo: "2 powi (k - 1) \<le> x"
    by (simp add: k_def flip: power_int_diff) (simp add: algebra_simps)
  have f: "flog2 x = (if 2 powi k \<le> x then k else k - 1)"
    by (simp add: flog2_def q k_def)
  show "2 powi (flog2 x) \<le> x" and "x < 2 powi (flog2 x + 1)"
    using up lo by (auto simp: f)
qed

lemma flog2_mono: "0 < x \<Longrightarrow> x \<le> y \<Longrightarrow> flog2 x \<le> flog2 y"
  by (smt (verit) flog2_bounds powi_mono order_trans not_less)

lemma flog2_less: "0 < x \<Longrightarrow> x < 2 powi e \<Longrightarrow> flog2 x < e"
  by (smt (verit) flog2_bounds powi_mono order_trans not_less)

section \<open>Rounding to an integer\<close>

lemma rnd_even_int [simp]: "rnd_even (of_int m) = m"
  by (simp add: rnd_even_def)

lemma rnd_even_cases: "rnd_even x = \<lfloor>x\<rfloor> \<or> rnd_even x = \<lfloor>x\<rfloor> + 1"
  by (simp add: rnd_even_def Let_def)

lemma rnd_even_mono:
  assumes "x \<le> y"
  shows "rnd_even x \<le> rnd_even y"
proof (cases "\<lfloor>x\<rfloor> = \<lfloor>y\<rfloor>")
  case True
  with assms show ?thesis by (auto simp: rnd_even_def Let_def)
next
  case False
  with assms have "\<lfloor>x\<rfloor> + 1 \<le> \<lfloor>y\<rfloor>"
    using floor_mono [OF assms] by linarith
  then show ?thesis using rnd_even_cases [of x] rnd_even_cases [of y] by linarith
qed

lemma rnd_even_ge: "of_int m \<le> x \<Longrightarrow> m \<le> rnd_even x"
  using rnd_even_mono [of "of_int m" x] by simp

lemma rnd_even_le: "x \<le> of_int m \<Longrightarrow> rnd_even x \<le> m"
  using rnd_even_mono [of x "of_int m"] by simp

section \<open>Rounding a positive number\<close>

lemma ulp_exp_mono: "0 < x \<Longrightarrow> x \<le> y \<Longrightarrow> ulp_exp x \<le> ulp_exp y"
  by (auto simp: ulp_exp_def dest: flog2_mono)

lemma powi_nat_int: "0 \<le> k \<Longrightarrow> \<exists>m. (2::rat) powi k = of_int m"
  by (rule exI [of _ "2 ^ nat k"]) (simp add: power_int_def)

lemma flpos_le_powi:
  assumes "0 < x" and "x \<le> 2 powi e" and "ulp_exp x \<le> e"
  shows "flpos x \<le> 2 powi e"
proof -
  obtain m where m: "(2::rat) powi (e - ulp_exp x) = of_int m"
    using powi_nat_int assms(3) by (metis diff_ge_0_iff_ge)
  have "x / 2 powi (ulp_exp x) \<le> of_int m"
    unfolding m [symmetric] using assms(2) by (simp add: power_int_diff divide_right_mono)
  then have "rnd_even (x / 2 powi (ulp_exp x)) \<le> m" by (rule rnd_even_le)
  then have "flpos x \<le> of_int m * 2 powi (ulp_exp x)"
    by (simp add: flpos_def mant_def)
  also have "\<dots> = 2 powi e"
    unfolding m [symmetric] by (simp flip: power_int_add)
  finally show ?thesis .
qed

lemma flpos_ge_powi:
  assumes "0 < x" and "2 powi e \<le> x" and "ulp_exp x \<le> e"
  shows "2 powi e \<le> flpos x"
proof -
  obtain m where m: "(2::rat) powi (e - ulp_exp x) = of_int m"
    using powi_nat_int assms(3) by (metis diff_ge_0_iff_ge)
  have "of_int m \<le> x / 2 powi (ulp_exp x)"
    unfolding m [symmetric] using assms(2) by (simp add: power_int_diff divide_right_mono)
  then have "m \<le> rnd_even (x / 2 powi (ulp_exp x))" by (rule rnd_even_ge)
  then have "of_int m * 2 powi (ulp_exp x) \<le> flpos x"
    by (simp add: flpos_def mant_def)
  moreover have "of_int m * 2 powi (ulp_exp x) = (2::rat) powi e"
    unfolding m [symmetric] by (simp flip: power_int_add)
  ultimately show ?thesis by simp
qed

lemma flpos_mono:
  assumes "0 < x" and "x \<le> y"
  shows "flpos x \<le> flpos y"
proof (cases "ulp_exp x = ulp_exp y")
  case True
  have "rnd_even (x / 2 powi ulp_exp y) \<le> rnd_even (y / 2 powi ulp_exp y)"
    using assms(2) by (intro rnd_even_mono divide_right_mono) auto
  with True show ?thesis by (simp add: flpos_def mant_def)
next
  case False
  then have lt: "ulp_exp x < ulp_exp y" using ulp_exp_mono [OF assms] by simp
  then have e: "flog2 x < flog2 y" "ulp_exp y = flog2 y - 52" "ulp_exp x \<le> flog2 y"
    by (auto simp: ulp_exp_def)
  have "x \<le> 2 powi (flog2 y)"
    using flog2_bounds(2) [OF assms(1)] powi_mono [of "flog2 x + 1" "flog2 y"] e(1) by linarith
  then have "flpos x \<le> 2 powi (flog2 y)"
    using flpos_le_powi assms(1) e(3) by blast
  also have "\<dots> \<le> flpos y"
    using flpos_ge_powi [of y "flog2 y"] flog2_bounds(1) [of y] assms e(2) by auto
  finally show ?thesis .
qed

lemma flpos_exact:
  assumes "0 < v" and "v = of_int m * 2 powi q" and "ulp_exp v \<le> q"
  shows "flpos v = v"
proof -
  obtain k where k: "(2::rat) powi (q - ulp_exp v) = of_int k"
    using powi_nat_int assms(3) by (metis diff_ge_0_iff_ge)
  have "v / 2 powi (ulp_exp v) = of_int m * 2 powi (q - ulp_exp v)"
    by (simp add: power_int_diff assms(2) [symmetric])
  also have "\<dots> = of_int (m * k)" by (simp add: k)
  finally have "v / 2 powi (ulp_exp v) = of_int (m * k)" .
  then show ?thesis
    by (metis flpos_def mant_def nonzero_eq_divide_eq powi_pos rnd_even_int less_irrefl)
qed

lemma ulp_exp_flpos:
  assumes "0 < x" and "0 < flpos x"
  shows "flpos (flpos x) = flpos x"
proof -
  define q where "q = ulp_exp x"
  define m where "m = rnd_even (x / 2 powi q)"
  have v: "flpos x = of_int m * 2 powi q" by (simp add: flpos_def mant_def m_def q_def)
  have q: "flog2 x - 52 \<le> q" "-1074 \<le> q" by (auto simp: q_def ulp_exp_def)
  have "x \<le> 2 powi (q + 53)"
    using flog2_bounds(2) [OF assms(1)] powi_mono [of "flog2 x + 1" "q + 53"] q by linarith
  then have le: "flpos x \<le> 2 powi (q + 53)"
    using flpos_le_powi [of x "q + 53"] assms(1) by (simp add: q_def)
  show ?thesis
  proof (cases "flpos x = 2 powi (q + 53)")
    case True
    have "flog2 (flpos x) < q + 54"
      by (rule flog2_less) (simp_all add: True powi_mono_strict)
    then have "ulp_exp (flpos x) \<le> q + 53" using q by (simp add: ulp_exp_def)
    then show ?thesis using flpos_exact [of "flpos x" 1 "q + 53"] True by simp
  next
    case False
    then have "flog2 (flpos x) < q + 53"
      using le assms(2) by (intro flog2_less) auto
    then have "ulp_exp (flpos x) \<le> q" using q by (simp add: ulp_exp_def)
    then show ?thesis using flpos_exact [OF assms(2) v] by simp
  qed
qed

section \<open>Rounding any number\<close>

lemma fl_pos: "0 < x \<Longrightarrow> fl x = (if fbig x then FInf False else Fin (flpos x))"
  by (simp add: fl_def)

lemma fl_zero [simp]: "fl 0 = Fin 0"
  by (simp add: fl_def)

lemma fneg_eq_Fin [simp]: "fneg v = Fin r \<longleftrightarrow> v = Fin (- r)"
  by (cases v) auto

lemma fl_minus: "fl (- x) = fneg (fl x)"
  by (auto simp: fl_def)

lemma flpos_nonneg: "0 < x \<Longrightarrow> 0 \<le> flpos x"
  by (auto simp: flpos_def mant_def intro!: mult_nonneg_nonneg rnd_even_ge)

lemma fl_nonneg_cases: "0 \<le> x \<Longrightarrow> (\<exists>r \<ge> 0. fl x = Fin r) \<or> fl x = FInf False"
  by (cases "x = 0") (auto simp: fl_pos flpos_nonneg)

lemma mant_le:
  assumes "0 < x"
  shows "mant x \<le> 2 ^ 53"
  unfolding mant_def
proof (rule rnd_even_le)
  have "x < 2 powi (ulp_exp x + 53)"
    using flog2_bounds(2) [OF assms] powi_mono [of "flog2 x + 1" "ulp_exp x + 53"]
    by (force simp: ulp_exp_def)
  then have "x \<le> 2 powi (ulp_exp x) * 2 ^ 53" by (simp add: power_int_add)
  then show "x / 2 powi ulp_exp x \<le> of_int (2 ^ 53)"
    by (simp add: divide_le_eq mult.commute)
qed

lemma mant_mono: "0 < x \<Longrightarrow> x \<le> y \<Longrightarrow> ulp_exp x = ulp_exp y \<Longrightarrow> mant x \<le> mant y"
  by (auto simp: mant_def intro!: rnd_even_mono divide_right_mono)

lemma fbig_mono:
  assumes "0 < x" and "x \<le> y" and "fbig x"
  shows "fbig y"
  using assms ulp_exp_mono [OF assms(1,2)] mant_mono [OF assms(1,2)] mant_le [of y]
  by (force simp: fbig_def)

lemma fl_mono_pos: "0 < x \<Longrightarrow> x \<le> y \<Longrightarrow> fle (fl x) (fl y)"
  using fbig_mono [of x y] flpos_mono [of x y] by (auto simp: fl_pos)

lemma fle_fneg: "fle (fneg a) (fneg b) = fle b a"
  by (cases a; cases b) auto

lemma fle_nonneg: "0 \<le> x \<Longrightarrow> fle (Fin 0) (fl x)"
  using fl_nonneg_cases by fastforce

lemma fle_nonpos:
  assumes "x \<le> 0"
  shows "fle (fl x) (Fin 0)"
proof -
  have "fle (Fin 0) (fl (- x))" using assms by (intro fle_nonneg) simp
  then have "fle (fneg (Fin 0)) (fneg (fl x))" by (simp add: fl_minus)
  then show ?thesis by (simp only: fle_fneg)
qed

lemma fle_trans: "fle a b \<Longrightarrow> fle b c \<Longrightarrow> fle a c"
  by (cases a; cases b; cases c) auto

lemma fl_mono:
  assumes "x \<le> y"
  shows "fle (fl x) (fl y)"
proof -
  consider "0 < x" | "x \<le> 0" "0 \<le> y" | "y < 0" by linarith
  then show ?thesis
  proof cases
    case 1
    with assms show ?thesis by (rule fl_mono_pos [rotated])
  next
    case 2
    then show ?thesis by (meson fle_nonneg fle_nonpos fle_trans)
  next
    case 3
    with assms have "fle (fl (- y)) (fl (- x))" by (intro fl_mono_pos) auto
    then show ?thesis by (simp add: fl_minus fle_fneg)
  qed
qed

text \<open>A value that the arithmetic can produce: rounding it again does not change it.\<close>

definition frep :: "f64 \<Rightarrow> bool" where
  "frep v = (case v of Fin r \<Rightarrow> fl r = Fin r | _ \<Rightarrow> True)"

lemma fbig_ge: "0 < v \<Longrightarrow> flpos v = v \<Longrightarrow> fbig v \<Longrightarrow> 2 powi 1024 \<le> v"
proof -
  assume v: "0 < v" "flpos v = v" and b: "fbig v"
  show "2 powi 1024 \<le> v"
  proof (cases "ulp_exp v = 971")
    case True
    then have "mant v = 2 ^ 53" using b by (auto simp: fbig_def)
    then have "v = 2 ^ 53 * 2 powi (ulp_exp v)" using v(2) by (simp add: flpos_def)
    also have "\<dots> = 2 powi (ulp_exp v + 53)" by (simp add: power_int_add)
    also have "ulp_exp v + 53 = 1024" using True by simp
    finally show ?thesis by (rule eq_refl [OF sym])
  next
    case False
    then have "1024 \<le> flog2 v" using b by (auto simp: fbig_def ulp_exp_def)
    then show ?thesis using flog2_bounds(1) [OF v(1)] powi_mono order_trans by blast
  qed
qed

lemma flpos_small:
  assumes "0 < x" and "\<not> fbig x"
  shows "flpos x < 2 powi 1024"
proof (cases "ulp_exp x = 971")
  case True
  then have "mant x < 2 ^ 53" using assms mant_le [OF assms(1)] by (auto simp: fbig_def)
  then have "(of_int (mant x) :: rat) < 2 ^ 53"
    by (metis of_int_less_iff of_int_numeral of_int_power)
  then have "flpos x < 2 ^ 53 * 2 powi (ulp_exp x)" by (simp add: flpos_def)
  also have "\<dots> = 2 powi (ulp_exp x + 53)" by (simp add: power_int_add)
  also have "ulp_exp x + 53 = 1024" using True by simp
  finally show ?thesis .
next
  case False
  then have l: "ulp_exp x + 53 < 1024" using assms(2) by (auto simp: fbig_def)
  have "(of_int (mant x) :: rat) \<le> 2 ^ 53"
    using mant_le [OF assms(1)] by (metis of_int_le_iff of_int_numeral of_int_power)
  then have "flpos x \<le> 2 ^ 53 * 2 powi (ulp_exp x)" by (simp add: flpos_def)
  also have "\<dots> = 2 powi (ulp_exp x + 53)" by (simp add: power_int_add)
  also have "\<dots> < 2 powi 1024" using l by (rule powi_mono_strict)
  finally show ?thesis .
qed

lemma fbig_flpos: "0 < x \<Longrightarrow> 0 < flpos x \<Longrightarrow> \<not> fbig x \<Longrightarrow> \<not> fbig (flpos x)"
  by (meson fbig_ge flpos_small not_less ulp_exp_flpos)

lemma fl_idem_pos: "0 < x \<Longrightarrow> fl x = Fin r \<Longrightarrow> fl r = Fin r"
  by (cases "r = 0")
    (auto simp: fl_pos ulp_exp_flpos fbig_flpos flpos_nonneg order_less_le split: if_splits)

lemma frep_fl [simp]: "frep (fl x)"
proof -
  consider "0 < x" | "x = 0" | "0 < - x" by linarith
  then show ?thesis
  proof cases
    case 1
    then show ?thesis by (cases "fl x") (auto simp: frep_def dest: fl_idem_pos)
  next
    case 2
    then show ?thesis by (simp add: frep_def)
  next
    case 3
    have "frep (fl (- x))"
    proof (cases "fl (- x)")
      case (Fin r)
      with 3 have "fl r = Fin r" by (rule fl_idem_pos)
      with Fin show ?thesis by (simp add: frep_def)
    qed (simp_all add: frep_def)
    then show ?thesis
      by (cases "fl x") (auto simp: frep_def fl_minus)
  qed
qed

lemma frep_fadd: "frep (fadd a b)"
  by (cases a; cases b) (auto simp: frep_def [of "FInf _"] frep_def [of FNaN])

lemma frep_fmul: "frep (fmul a b)"
  by (cases a; cases b) (auto simp: frep_def [of "FInf _"] frep_def [of FNaN])

lemma frep_zero [simp]: "frep (Fin 0)"
  by (simp add: frep_def)

lemma frep_fmin: "frep a \<Longrightarrow> frep b \<Longrightarrow> frep (fmin a b)"
  by (auto simp: fmin_def frep_def)

lemma fadd_0_left [simp]: "frep v \<Longrightarrow> fadd (Fin 0) v = v"
  by (cases v) (auto simp: frep_def)

lemma fadd_0_right [simp]: "frep v \<Longrightarrow> fadd v (Fin 0) = v"
  by (cases v) (auto simp: frep_def)

lemma fsub_self: "fsub (Fin r) (Fin r) = Fin 0"
  by (simp add: fsub_def)

lemma fadd_ge:
  assumes "frep (Fin r)" and "fle (Fin 0) b"
  shows "fle (Fin r) (fadd (Fin r) b)"
  using assms fl_mono [of r] by (cases b) (force simp: frep_def)+

section \<open>Values that are not negative\<close>

definition fnn :: "f64 \<Rightarrow> bool" where
  "fnn v \<longleftrightarrow> \<not> flt v (Fin 0)"

lemma fnn_fl: "0 \<le> x \<Longrightarrow> fnn (fl x)"
  using fl_nonneg_cases by (fastforce simp: fnn_def)

lemma fnn_Fin [simp]: "fnn (Fin r) = (0 \<le> r)"
  by (auto simp: fnn_def)

lemma fnn_fadd: "fnn a \<Longrightarrow> fnn b \<Longrightarrow> fnn (fadd a b)"
  by (cases a; cases b) (auto intro: fnn_fl simp: fnn_def [of "FInf _"] fnn_def [of FNaN])

lemma fnn_fmul: "fnn a \<Longrightarrow> fnn b \<Longrightarrow> fnn (fmul a b)"
  by (cases a; cases b) (auto intro: fnn_fl simp: fnn_def [of "FInf _"] fnn_def [of FNaN])

lemma fnn_fdiv: "fnn a \<Longrightarrow> fnn b \<Longrightarrow> fnn (fdiv a b)"
  by (cases a; cases b) (auto intro: fnn_fl simp: fnn_def [of "FInf _"] fnn_def [of FNaN])

lemma fnn_fint: "0 \<le> i \<Longrightarrow> fnn (fint i)"
  by (simp add: fint_def fnn_fl)

lemma fnn_fle: "fnn v \<Longrightarrow> v \<noteq> FNaN \<Longrightarrow> fle (Fin 0) v"
  by (cases v) (auto simp: fnn_def)

section \<open>Monotone operations\<close>

lemma flt_fle_trans: "flt a b \<Longrightarrow> fle b c \<Longrightarrow> flt a c"
  by (cases a; cases b; cases c) auto

lemma fle_same: "fle a b \<Longrightarrow> fle b b"
  by (cases a; cases b) auto

lemma fle_refl_lt: "flt a b \<Longrightarrow> fle b b"
  by (cases a; cases b) auto

lemma fle_fl_inf [simp]: "fle (fl x) (FInf False)"
  by (simp add: fl_def)

lemma fmul_mono_pos:
  assumes "flt (Fin 0) a" "fle a b" "flt (Fin 0) c" "fle c d"
  shows "fle (fmul a c) (fmul b d)"
  using assms
  by (cases a; cases b; cases c; cases d) (auto intro!: fl_mono mult_mono)

lemma fmul_pos_nn:
  assumes "flt (Fin 0) a" "fle a a'" "flt (Fin 0) b"
  shows "fle (Fin 0) (fmul a b)"
  using assms by (cases a; cases b) (auto intro: fle_nonneg)

lemma fadd_mono_nn:
  assumes "fle (Fin 0) a" "fle a b" "fle (Fin 0) c" "fle c d"
  shows "fle (fadd a c) (fadd b d)"
  using assms by (cases a; cases b; cases c; cases d) (auto intro!: fl_mono add_mono)


section \<open>Evaluation\<close>

text \<open>Equations that evaluate the rounding on integers.\<close>

text \<open>Numerator and denominator of \<open>x / 2 powi e\<close>.\<close>

definition scaled :: "rat \<Rightarrow> int \<Rightarrow> int \<times> int" where
  "scaled x e = (let (n, d) = quotient_of x
     in if 0 \<le> e then (n, push_bit (nat e) d) else (push_bit (nat (- e)) n, d))"

lemma scaled:
  assumes "scaled x e = (n, d)"
  shows "0 < d" and "x / 2 powi e = of_int n / of_int d"
proof -
  obtain a b where q: "quotient_of x = (a, b)" by (cases "quotient_of x")
  have "0 < b" "x = of_int a / of_int b"
    using q quotient_of_denom_pos quotient_of_div by auto
  then show "0 < d" "x / 2 powi e = of_int n / of_int d"
    using assms q
    by (auto simp: scaled_def push_bit_eq_mult power_int_def power_inverse field_simps split: if_splits)
qed

lemma flog2_code [code]:
  "flog2 x = (let (n, d) = quotient_of x; k = bitlen n - bitlen d; (n', d') = scaled x k
              in if d' \<le> n' then k else k - 1)"
proof -
  have "2 powi k \<le> x \<longleftrightarrow> d' \<le> n'" if "scaled x k = (n', d')" for k n' d'
  proof -
    have "2 powi k \<le> x \<longleftrightarrow> 1 \<le> x / 2 powi k" by (simp add: le_divide_eq)
    also have "\<dots> \<longleftrightarrow> d' \<le> n'" using scaled [OF that] by (simp add: le_divide_eq)
    finally show ?thesis .
  qed
  then show ?thesis by (auto simp: flog2_def Let_def split: prod.splits)
qed

lemma mant_code [code]:
  "mant x = (let (n, d) = scaled x (ulp_exp x); f = n div d; r = 2 * (n mod d)
             in if r < d then f else if r > d then f + 1 else if even f then f else f + 1)"
proof -
  obtain n d where s: "scaled x (ulp_exp x) = (n, d)" by (cases "scaled x (ulp_exp x)")
  note d = scaled(1) [OF s] and x = scaled(2) [OF s]
  have f: "\<lfloor>(of_int n :: rat) / of_int d\<rfloor> = n div d" by (simp add: floor_divide_of_int_eq)
  define m where "m = n mod d"
  have "of_int n = (of_int (n div d * d + m) :: rat)" by (simp add: m_def)
  then have r: "(of_int n :: rat) / of_int d - of_int (n div d) = of_int m / of_int d"
    using d by (simp add: add_divide_distrib)
  have "(of_int m :: rat) / of_int d < 1/2 \<longleftrightarrow> (of_int (2 * m) :: rat) < of_int d"
    "(of_int m :: rat) / of_int d > 1/2 \<longleftrightarrow> (of_int (2 * m) :: rat) > of_int d"
    using d by (auto simp: divide_less_eq less_divide_eq)
  then have lt: "(of_int m :: rat) / of_int d < 1/2 \<longleftrightarrow> 2 * m < d"
    and gt: "(of_int m :: rat) / of_int d > 1/2 \<longleftrightarrow> 2 * m > d"
    by (simp_all only: of_int_less_iff)
  show ?thesis
    unfolding mant_def s x rnd_even_def f Let_def prod.case r lt gt unfolding m_def ..
qed

definition dyadic :: "int \<Rightarrow> int \<Rightarrow> rat" where
  "dyadic m e = (if 0 \<le> e then of_int (push_bit (nat e) m) else Fract m (push_bit (nat (- e)) 1))"

lemma dyadic: "dyadic m e = of_int m * 2 powi e"
  by (simp add: dyadic_def power_int_def push_bit_eq_mult Fract_of_int_quotient power_inverse field_simps)

lemma fl_code [code]:
  "fl x = (if x = 0 then Fin 0
           else let a = \<bar>x\<bar>; e = ulp_exp a; m = mant a
                in if 971 < e \<or> (e = 971 \<and> m = 2 ^ 53) then FInf (x < 0)
                   else Fin (dyadic (if x < 0 then - m else m) e))"
  by (simp add: fl_def fbig_def flpos_def dyadic Let_def)

end
