(* ===== verification/GoTime.thy ===== *)
theory GoTime
  imports GoStrings GoFloat
begin

text \<open>
  Instants and durations of Go's package \<open>time\<close>. A \<open>time.Time\<close> is the number of
  nanoseconds since the Unix epoch in UTC, a \<open>time.Duration\<close> a number of nanoseconds.
  Go keeps a duration in an \<open>int64\<close>; the durations of the program (hours to months) and the
  instants of the clock are far from its bounds, so both are \<open>int\<close> here. The calendar is the
  proleptic Gregorian one, computed with integer arithmetic.
\<close>

type_synonym gotime = int
type_synonym duration = int

definition Second :: duration where "Second = 1000000000"
definition Minute :: duration where "Minute = 60 * Second"
definition Hour :: duration where "Hour = 60 * Minute"
definition Day :: duration where "Day = 24 * Hour"

lemmas duration_units = Second_def Minute_def Hour_def Day_def

text \<open>\<open>time.Time{}\<close>, the zero value: midnight of 1 January of the year 1.\<close>

definition zero_time :: gotime where
  "zero_time = - 62135596800 * Second"

text \<open>\<open>Duration.Hours()\<close> and the integer part of \<open>Duration.Seconds()\<close>; Go divides
  towards zero.\<close>

definition trunc_div :: "int \<Rightarrow> int \<Rightarrow> int" where
  "trunc_div a b = (if a < 0 then - ((- a) div b) else a div b)"

definition Hours :: "duration \<Rightarrow> f64" where
  "Hours d = (let h = trunc_div d Hour; n = d - h * Hour
              in fadd (fint h) (fdiv (fint n) (fint Hour)))"

definition whole_seconds :: "duration \<Rightarrow> int" where
  "whole_seconds d = trunc_div d Second"

lemma fnn_Hours:
  assumes "0 \<le> d"
  shows "fnn (Hours d)"
proof -
  have "0 \<le> trunc_div d Hour" and "0 \<le> d - trunc_div d Hour * Hour"
    using assms by (simp_all add: trunc_div_def duration_units minus_div_mult_eq_mod)
  then have "fnn (fint (trunc_div d Hour))" and "fnn (fint (d - trunc_div d Hour * Hour))"
    and "fnn (fint Hour)"
    by (simp_all add: fnn_fint duration_units)
  then show ?thesis by (simp add: Hours_def Let_def fnn_fadd fnn_fdiv)
qed

section \<open>The calendar\<close>

text \<open>Years start in March, so that the leap day is the last of its year.\<close>

definition civil_era :: "int \<Rightarrow> int \<times> int" where
  "civil_era day = (let z = day + 719468 in (z div 146097, z mod 146097))"

definition year_of_era :: "int \<Rightarrow> int" where
  "year_of_era doe = (doe - doe div 1460 + doe div 36524 - doe div 146096) div 365"

definition day_of_year :: "int \<Rightarrow> int" where
  "day_of_year day = (let doe = snd (civil_era day); yoe = year_of_era doe
                      in doe - (365 * yoe + yoe div 4 - yoe div 100))"

definition month_index :: "int \<Rightarrow> int" where
  "month_index doy = (5 * doy + 2) div 153"

definition day_of_month :: "int \<Rightarrow> int" where
  "day_of_month doy = doy - (153 * month_index doy + 2) div 5 + 1"

definition civil_from_days :: "int \<Rightarrow> int \<times> int \<times> int" where
  "civil_from_days day =
     (let (era, doe) = civil_era day;
          doy = day_of_year day;
          mp = month_index doy;
          m = (if mp < 10 then mp + 3 else mp - 9);
          y = year_of_era doe + era * 400
      in (if m \<le> 2 then y + 1 else y, m, day_of_month doy))"

text \<open>
  \<open>time.Date(now.Year(), now.Month(), 1, 0, 0, 0, 0, time.UTC)\<close>: midnight of the first day of
  the month that contains \<open>t\<close>.
\<close>

definition month_start :: "gotime \<Rightarrow> gotime" where
  "month_start t = (let (y, m, d) = civil_from_days (t div Day) in (t div Day - (d - 1)) * Day)"

lemma day_of_month_range: "1 \<le> day_of_month doy" "day_of_month doy \<le> 31"
proof -
  define p where "p = (5 * doy + 2) div 153"
  define q where "q = (153 * p + 2) div 5"
  have "153 * p \<le> 5 * doy + 2" and "5 * doy + 2 < 153 * p + 153"
    unfolding p_def by linarith+
  moreover have "5 * q \<le> 153 * p + 2" and "153 * p + 2 < 5 * q + 5"
    unfolding q_def by linarith+
  moreover have "day_of_month doy = doy - q + 1"
    by (simp only: day_of_month_def month_index_def p_def q_def)
  ultimately show "1 \<le> day_of_month doy" "day_of_month doy \<le> 31" by linarith+
qed

lemma day_of_month_bounds:
  assumes "civil_from_days day = (y, m, d)"
  shows "1 \<le> d" and "d \<le> 31"
  using assms day_of_month_range
  by (auto simp only: civil_from_days_def Let_def prod.inject split: prod.splits)

lemma month_start_le: "month_start t \<le> t"
  and month_start_within: "t - month_start t < 31 * Day"
proof -
  obtain y m d where c: "civil_from_days (t div Day) = (y, m, d)"
    by (cases "civil_from_days (t div Day)") auto
  have t: "t = (t div Day) * Day + t mod Day" "0 \<le> t mod Day" "t mod Day < Day"
    by (simp_all add: duration_units)
  have e: "t - month_start t = (d - 1) * Day + t mod Day"
    using t(1) by (simp add: month_start_def c algebra_simps)
  have "0 \<le> (d - 1) * Day" and "(d - 1) * Day \<le> 30 * Day"
    using day_of_month_bounds [OF c] by (simp_all add: duration_units)
  with e t show "month_start t \<le> t" and "t - month_start t < 31 * Day" by linarith+
qed

lemma month_start_midnight: "month_start t mod Day = 0"
  by (simp add: month_start_def split: prod.splits)

section \<open>Printing\<close>

text \<open>\<open>t.Format(time.RFC3339)\<close> of a UTC instant in the years 0 to 9999.\<close>

definition format_rfc3339 :: "gotime \<Rightarrow> string" where
  "format_rfc3339 t =
     (let (y, m, d) = civil_from_days (t div Day); s = nat ((t mod Day) div Second)
      in pad_nat 4 (nat y) @ ''-'' @ pad_nat 2 (nat m) @ ''-'' @ pad_nat 2 (nat d) @ ''T''
         @ pad_nat 2 (s div 3600) @ '':'' @ pad_nat 2 (s div 60 mod 60) @ '':''
         @ pad_nat 2 (s mod 60) @ ''Z'')"

text \<open>
  \<open>fmt.Sprintf("%s", d.Round(time.Second))\<close> of a duration that is not negative: rounded to
  seconds, half up, then hours, minutes and seconds from the first unit that is not zero.
\<close>

definition format_rounded_seconds :: "duration \<Rightarrow> string" where
  "format_rounded_seconds d =
     (let s = nat ((d + Second div 2) div Second); h = s div 3600; m = s div 60 mod 60
      in (if 0 < h then show_nat h @ ''h'' else [])
         @ (if 0 < h \<or> 0 < m then show_nat m @ ''m'' else [])
         @ show_nat (s mod 60) @ ''s'')"

text \<open>\<open>fmt.Sprintf("%.2f", v)\<close>: the exact value rounded half-even to hundredths.\<close>

definition format_2f :: "f64 \<Rightarrow> string" where
  "format_2f v = (case v of
       FNaN \<Rightarrow> ''NaN'' | FInf n \<Rightarrow> (if n then ''-Inf'' else ''+Inf'')
     | Fin r \<Rightarrow> (let c = nat (rnd_even (\<bar>r\<bar> * 100))
         in (if r < 0 then ''-'' else []) @ show_nat (c div 100) @ ''.'' @ pad_nat 2 (c mod 100)))"

end
