(* ===== verification/Domain.thy ===== *)
theory Domain
  imports GoTime
begin

text \<open>
  The data of \<open>internal/domain\<close>: records for the structs, datatypes for the string enums,
  and the errors. A pointer to an instant that may be nil is an option. Request structs are
  records too. Go's \<open>int\<close>, \<open>int32\<close> and \<open>int64\<close> fields of these structs are identifiers and
  counts the program only stores and compares, so they are \<open>int\<close>.
\<close>

section \<open>Projects\<close>

datatype ProjectStatus = PCreating | PFailed | PActive | PSuspended | PDeleting | PDeleted

fun project_status_text :: "ProjectStatus \<Rightarrow> string" where
  "project_status_text PCreating = ''creating''"
| "project_status_text PFailed = ''failed''"
| "project_status_text PActive = ''active''"
| "project_status_text PSuspended = ''suspended''"
| "project_status_text PDeleting = ''deleting''"
| "project_status_text PDeleted = ''deleted''"

record Project =
  p_ID :: string
  p_Name :: string
  p_OwnerID :: string
  p_Status :: ProjectStatus
  p_PublicURL :: string
  p_GrafanaURL :: string
  p_RepositoryOwner :: string
  p_RepositoryName :: string
  p_BaseBranch :: string
  p_ServiceName :: string
  p_DockerfilePath :: string
  p_ServiceType :: string
  p_ServicePort :: int
  p_ContainerPort :: int
  p_ReplicaCount :: int
  p_ResourceProfile :: string
  p_DedicatedLoadBalancer :: bool
  p_AppsBaseDomain :: string
  p_KubeconfigEncrypted :: string
  p_GitHubTokenEncrypted :: string
  p_SuspendedAt :: "gotime option"
  p_DeletionDueAt :: "gotime option"
  p_CreatedAt :: gotime
  p_UpdatedAt :: gotime

record CreateProjectRequest =
  cpr_Name :: string
  cpr_OwnerID :: string

record BootstrapGitHubFlowRequest =
  bf_RepositoryOwner :: string
  bf_RepositoryName :: string
  bf_BaseBranch :: string
  bf_StageSlug :: string
  bf_ServiceName :: string
  bf_DockerfilePath :: string
  bf_ServicePort :: int
  bf_ContainerPort :: int
  bf_ServiceType :: string
  bf_ReplicaCount :: int
  bf_ResourceProfile :: string
  bf_DedicatedLoadBalancer :: bool
  bf_GitHubToken :: string
  bf_AppsBaseDomain :: string

record UpdateDeploymentSettingsRequest =
  ud_RepositoryOwner :: string
  ud_RepositoryName :: string
  ud_BaseBranch :: string
  ud_ServiceName :: string
  ud_DockerfilePath :: string
  ud_ServicePort :: int
  ud_ContainerPort :: int
  ud_ServiceType :: string
  ud_ReplicaCount :: int
  ud_ResourceProfile :: string
  ud_DedicatedLoadBalancer :: bool

record BootstrapGitHubFlowResponse =
  br_ProjectID :: string
  br_RepositoryOwner :: string
  br_RepositoryName :: string
  br_BranchName :: string
  br_PullRequestURL :: string
  br_NoChanges :: bool

record GitHubBootstrapQuestionsRequest =
  qr_RepositoryOwner :: string
  qr_RepositoryName :: string
  qr_BaseBranch :: string
  qr_DockerfilePath :: string
  qr_ServiceName :: string
  qr_GitHubToken :: string

record GitHubBootstrapQuestion =
  q_Key :: string
  q_Title :: string
  q_Description :: string
  q_Required :: bool
  q_DefaultValue :: string
  q_Options :: "string list"

record GitHubBootstrapQuestionsResponse =
  qs_RepositoryOwner :: string
  qs_RepositoryName :: string
  qs_BaseBranch :: string
  qs_DetectedDockerfile :: string
  qs_DetectedServiceName :: string
  qs_DetectedContainerPort :: int
  qs_DetectedServicePort :: int
  qs_DetectedServiceType :: string
  qs_Questions :: "GitHubBootstrapQuestion list"

section \<open>Stages and releases\<close>

datatype StageStatus = SCreating | SActive | SDeleting | SDeleted | SFailed

record Stage =
  s_ID :: string
  s_ProjectID :: string
  s_Name :: string
  s_Slug :: string
  s_Status :: StageStatus
  s_PublicURL :: string
  s_CreatedAt :: gotime
  s_UpdatedAt :: gotime

record CreateStageRequest =
  csr_Name :: string

datatype ReleaseStatus = RPending | RBuilding | RDeploying | RSuccess | RFailed

record Release =
  r_ID :: string
  r_ProjectID :: string
  r_StageID :: string
  r_CommitSHA :: string
  r_CommitMessage :: string
  r_Status :: ReleaseStatus
  r_WorkflowRunID :: int
  r_ImageTag :: string
  r_CreatedAt :: gotime
  r_UpdatedAt :: gotime

record GitHubWorkflowRunPayload =
  wh_RunID :: int
  wh_Status :: string
  wh_Conclusion :: string
  wh_HeadSHA :: string
  wh_Path :: string
  wh_StageSlug :: string
  wh_ImageTag :: string
  wh_HeadCommitMessage :: string
  wh_RepositoryName :: string
  wh_RepositoryOwnerLogin :: string

record GitHubWorkflowRunLookupRequest =
  lq_RepositoryOwner :: string
  lq_RepositoryName :: string
  lq_GitHubToken :: string
  lq_Since :: gotime
  lq_WorkflowPath :: string

record GitHubWorkflowRunLookupResult =
  lr_ID :: int
  lr_Status :: string
  lr_Conclusion :: string
  lr_HeadSHA :: string
  lr_CommitMessage :: string
  lr_CreatedAt :: gotime
  lr_UpdatedAt :: gotime

section \<open>Users and billing\<close>

record User =
  u_ID :: string
  u_Email :: string
  u_BalanceRUB :: f64
  u_PasswordHash :: string
  u_GitHubTokenEncrypted :: string
  u_TelegramUsername :: string
  u_TelegramChatID :: int
  u_TelegramLinkedAt :: "gotime option"
  u_TelegramLinkCode :: string
  u_TelegramLinkExpiresAt :: "gotime option"
  u_TelegramNotificationsEnabled :: bool
  u_CreatedAt :: gotime

record RegisterRequest =
  rr_Email :: string
  rr_Password :: string
  rr_TelegramUsername :: string

record LoginRequest =
  lo_Email :: string
  lo_Password :: string

record TelegramSettings =
  ts_Username :: string
  ts_Linked :: bool
  ts_NotificationsEnabled :: bool
  ts_LinkCode :: string
  ts_LinkExpiresAt :: "gotime option"
  ts_DeepLinkURL :: string
  ts_BotUsername :: string
  ts_ConnectedAt :: "gotime option"

record UpdateTelegramSettingsRequest =
  ut_Username :: string
  ut_NotificationsEnabled :: bool

datatype TransactionType = TTopUp | TCharge | TRefund | TAdjustment

record BillingTransaction =
  tx_ID :: string
  tx_UserID :: string
  tx_ProjectID :: string
  tx_Type :: TransactionType
  tx_AmountRUB :: f64
  tx_Description :: string
  tx_CreatedAt :: gotime

record BillingSummary =
  bs_UserID :: string
  bs_Email :: string
  bs_BalanceRUB :: f64
  bs_SpentThisMonth :: f64
  bs_RefundRUB :: f64
  bs_PendingChargesRUB :: f64
  bs_AvailableRUB :: f64
  bs_ExemptFromGuard :: bool
  bs_GracePeriodEndsAt :: "gotime option"
  bs_GracePeriodRemainingSeconds :: int

datatype PaymentStatus = YKPending | YKSucceeded | YKCanceled

record YooKassaPayment =
  yk_ID :: string
  yk_YooKassaID :: string
  yk_UserID :: string
  yk_AmountRUB :: f64
  yk_Status :: PaymentStatus
  yk_CreatedAt :: gotime
  yk_UpdatedAt :: gotime

record CostBreakdown =
  cb_ProjectID :: string
  cb_ProcessorCoreHours :: f64
  cb_MemoryGigabyteHours :: f64
  cb_PersistentStorageGigabytes :: f64
  cb_OutgoingTrafficGigabytes :: f64
  cb_DedicatedLoadBalancerHours :: f64
  cb_Total :: f64
  cb_Currency :: string

record ResourceUsage =
  ru_ID :: string
  ru_ProjectID :: string
  ru_PeriodStart :: gotime
  ru_PeriodEnd :: gotime
  ru_CPUCores :: f64
  ru_MemoryGB :: f64
  ru_StorageGB :: f64
  ru_EgressGB :: f64
  ru_ReplicaCount :: int
  ru_PodUptimeHours :: f64
  ru_CPUCoreHours :: f64
  ru_MemoryGBHours :: f64
  ru_DedicatedLoadBalancerHours :: f64
  ru_RecordedAt :: gotime

record UsageAggregate =
  ua_CPUCoreHours :: f64
  ua_MemoryGBHours :: f64
  ua_StorageGB :: f64
  ua_EgressGB :: f64
  ua_DedicatedLoadBalancerHours :: f64

section \<open>Runtime status, URLs and logs\<close>

record ProjectPodStatus =
  pod_Name :: string
  pod_Phase :: string
  pod_Ready :: bool
  pod_Restarts :: int

record ServiceURL =
  su_Name :: string
  su_URL :: string

record StageURLs =
  sl_StageID :: string
  sl_StageName :: string
  sl_Slug :: string
  sl_Services :: "ServiceURL list"

record ProjectRuntimeStatus =
  rs_ProjectID :: string
  rs_Namespace :: string
  rs_NamespaceExists :: bool
  rs_DeploymentExists :: bool
  rs_ServiceExists :: bool
  rs_HTTPRouteExists :: bool
  rs_PublicURL :: string
  rs_ServiceURLs :: "ServiceURL list"
  rs_DesiredReplicas :: int
  rs_ReadyReplicas :: int
  rs_AvailableReplicas :: int
  rs_Pods :: "ProjectPodStatus list"
  rs_LastCheckedAt :: gotime
  rs_Message :: string

record ProjectLogEntry =
  le_Timestamp :: gotime
  le_Pod :: string
  le_Container :: string
  le_Stage :: string
  le_Level :: string
  le_Message :: string

record ProjectLogsRequest =
  pl_StageID :: string
  pl_StageSlug :: string
  pl_Pod :: string
  pl_Container :: string
  pl_Search :: string
  pl_Level :: string
  pl_Since :: string
  pl_Limit :: int

record ProjectLogsResponse =
  ps_ProjectID :: string
  ps_Namespace :: string
  ps_StageID :: string
  ps_StageSlug :: string
  ps_Query :: string
  ps_Entries :: "ProjectLogEntry list"

section \<open>Errors\<close>

text \<open>
  The sentinel errors, an error made from a text (\<open>errors.New\<close>, \<open>fmt.Errorf\<close> without
  \<open>%w\<close>), and an error wrapped by \<open>fmt.Errorf\<close>: the text before and after \<open>%w\<close>.
\<close>

datatype go_error =
    ErrProjectNotFound | ErrProjectEnvironmentUnavailable | ErrLogsUnavailable
  | ErrReleaseNotFound | ErrStageNotFound
  | ErrUserNotFound | ErrEmailTaken | ErrInvalidCredentials | ErrForbidden
  | ErrInsufficientBalance
  | ErrText string
  | ErrWrap string go_error string

fun Error :: "go_error \<Rightarrow> string" where
  "Error ErrProjectNotFound = ''project not found''"
| "Error ErrProjectEnvironmentUnavailable = ''project environment is unavailable''"
| "Error ErrLogsUnavailable = ''project logs are unavailable''"
| "Error ErrReleaseNotFound = ''release not found''"
| "Error ErrStageNotFound = ''stage not found''"
| "Error ErrUserNotFound = ''user not found''"
| "Error ErrEmailTaken = ''email already taken''"
| "Error ErrInvalidCredentials = ''invalid credentials''"
| "Error ErrForbidden = ''forbidden''"
| "Error ErrInsufficientBalance = ''insufficient balance''"
| "Error (ErrText t) = t"
| "Error (ErrWrap pre e post) = pre @ Error e @ post"

text \<open>\<open>errors.Is(err, target)\<close> for a sentinel target follows the chain of wrapped errors.\<close>

fun errors_Is :: "go_error \<Rightarrow> go_error \<Rightarrow> bool" where
  "errors_Is (ErrWrap pre e post) target = (ErrWrap pre e post = target \<or> errors_Is e target)"
| "errors_Is e target = (e = target)"

end
