(* ===== verification/GoBase64.thy ===== *)
theory GoBase64
  imports GoStrings
begin

text \<open>
  \<open>encoding/base64\<close> on byte strings: the padded standard encoding and the raw URL encoding, with the
  decoder of the library, which skips line breaks and ignores the unused bits of the last digit.
\<close>

section \<open>Alphabets\<close>

definition b64_std :: string where
  "b64_std = ''ABCDEFGHIJKLMNOPQRSTUVWXYZabcdefghijklmnopqrstuvwxyz0123456789+/''"

definition b64_url :: string where
  "b64_url = ''ABCDEFGHIJKLMNOPQRSTUVWXYZabcdefghijklmnopqrstuvwxyz0123456789-_''"

fun index_of :: "'a \<Rightarrow> 'a list \<Rightarrow> nat option" where
  "index_of x [] = None"
| "index_of x (y # ys) = (if x = y then Some 0 else map_option Suc (index_of x ys))"

lemma index_of_nth: "distinct xs \<Longrightarrow> n < length xs \<Longrightarrow> index_of (xs ! n) xs = Some n"
  by (induction xs arbitrary: n) (auto simp: nth_Cons split: nat.split)

lemma index_of_None: "x \<notin> set xs \<Longrightarrow> index_of x xs = None"
  by (induction xs) auto

text \<open>What the codec needs of an alphabet: 64 different printable characters, none of them \<open>=\<close>.\<close>

definition b64_alphabet :: "string \<Rightarrow> bool" where
  "b64_alphabet al \<longleftrightarrow> length al = 64 \<and> distinct al
     \<and> list_all (\<lambda>c. ascii_graph c \<and> c \<noteq> CHR ''='' \<and> c \<noteq> CHR ''.'') al"

lemma b64_alphabets: "b64_alphabet b64_std" "b64_alphabet b64_url"
  by code_simp+

section \<open>Bytes and characters\<close>

definition byte_of :: "char \<Rightarrow> nat" where
  "byte_of c = of_char c"

definition char_at :: "nat \<Rightarrow> char" where
  "char_at n = char_of n"

lemma byte_of_less [simp]: "byte_of c < 256"
  by (simp add: byte_of_def)

lemma char_at_byte_of [simp]: "char_at (byte_of c) = c"
  by (simp add: char_at_def byte_of_def)

lemma byte_of_char_at [simp]: "n < 256 \<Longrightarrow> byte_of (char_at n) = n"
  by (simp add: char_at_def byte_of_def)

section \<open>Encoding\<close>

fun b64_encode :: "string \<Rightarrow> bool \<Rightarrow> string \<Rightarrow> string" where
  "b64_encode al pad [] = []"
| "b64_encode al pad [x] =
     (let a = byte_of x
      in [al ! (a div 4), al ! (a mod 4 * 16)] @ (if pad then ''=='' else []))"
| "b64_encode al pad [x, y] =
     (let a = byte_of x; b = byte_of y
      in [al ! (a div 4), al ! (a mod 4 * 16 + b div 16), al ! (b mod 16 * 4)] @ (if pad then ''='' else []))"
| "b64_encode al pad (x # y # z # r) =
     (let a = byte_of x; b = byte_of y; c = byte_of z
      in [al ! (a div 4), al ! (a mod 4 * 16 + b div 16), al ! (b mod 16 * 4 + c div 64), al ! (c mod 64)]
         @ b64_encode al pad r)"

section \<open>Decoding\<close>

text \<open>Two, three or four digits give one, two or three bytes.\<close>

definition two_digits :: "nat \<Rightarrow> nat \<Rightarrow> string" where
  "two_digits i j = [char_at (i * 4 + j div 16)]"

definition three_digits :: "nat \<Rightarrow> nat \<Rightarrow> nat \<Rightarrow> string" where
  "three_digits i j k = [char_at (i * 4 + j div 16), char_at (j mod 16 * 16 + k div 4)]"

definition four_digits :: "nat \<Rightarrow> nat \<Rightarrow> nat \<Rightarrow> nat \<Rightarrow> string" where
  "four_digits i j k l =
     [char_at (i * 4 + j div 16), char_at (j mod 16 * 16 + k div 4), char_at (k mod 4 * 64 + l)]"

fun b64_quads :: "string \<Rightarrow> bool \<Rightarrow> string \<Rightarrow> string option" where
  "b64_quads al pad [] = Some []"
| "b64_quads al pad [a] = None"
| "b64_quads al pad [a, b] =
     (if pad then None
      else case (index_of a al, index_of b al) of
        (Some i, Some j) \<Rightarrow> Some (two_digits i j) | _ \<Rightarrow> None)"
| "b64_quads al pad [a, b, c] =
     (if pad then None
      else case (index_of a al, index_of b al, index_of c al) of
        (Some i, Some j, Some k) \<Rightarrow> Some (three_digits i j k) | _ \<Rightarrow> None)"
| "b64_quads al pad (a # b # c # d # r) =
     (if pad \<and> r = [] \<and> d = CHR ''=''
      then (if c = CHR ''=''
            then (case (index_of a al, index_of b al) of
                    (Some i, Some j) \<Rightarrow> Some (two_digits i j) | _ \<Rightarrow> None)
            else (case (index_of a al, index_of b al, index_of c al) of
                    (Some i, Some j, Some k) \<Rightarrow> Some (three_digits i j k) | _ \<Rightarrow> None))
      else case (index_of a al, index_of b al, index_of c al, index_of d al) of
        (Some i, Some j, Some k, Some l) \<Rightarrow> map_option ((@) (four_digits i j k l)) (b64_quads al pad r)
      | _ \<Rightarrow> None)"

definition line_break :: "char \<Rightarrow> bool" where
  "line_break c \<longleftrightarrow> byte_of c = 10 \<or> byte_of c = 13"

definition b64_decode :: "string \<Rightarrow> bool \<Rightarrow> string \<Rightarrow> string option" where
  "b64_decode al pad s = b64_quads al pad (filter (\<lambda>c. \<not> line_break c) s)"

definition StdEncode :: "string \<Rightarrow> string" where
  "StdEncode s = b64_encode b64_std True s"

definition StdDecode :: "string \<Rightarrow> string option" where
  "StdDecode s = b64_decode b64_std True s"

definition RawURLEncode :: "string \<Rightarrow> string" where
  "RawURLEncode s = b64_encode b64_url False s"

definition RawURLDecode :: "string \<Rightarrow> string option" where
  "RawURLDecode s = b64_decode b64_url False s"

section \<open>Lemmas\<close>

lemma alphabet_index:
  assumes "b64_alphabet al" and "n < 64"
  shows "index_of (al ! n) al = Some n" "al ! n \<in> set al"
  using assms by (auto simp: b64_alphabet_def intro!: index_of_nth nth_mem)

lemma alphabet_char:
  assumes "b64_alphabet al" and "c \<in> set al"
  shows "ascii_graph c" "c \<noteq> CHR ''=''" "c \<noteq> CHR ''.''"
  using assms by (auto simp: b64_alphabet_def list_all_iff)

lemma alphabet_neq:
  assumes "b64_alphabet al" and "n < 64"
  shows "al ! n \<noteq> CHR ''=''"
  using alphabet_index(2) [OF assms] alphabet_char(2) [OF assms(1)] by blast

lemma digit_bounds:
  "byte_of x div 4 < 64" "byte_of x mod 4 * 16 < 64" "byte_of x mod 4 * 16 + byte_of y div 16 < 64"
  "byte_of x mod 16 * 4 < 64" "byte_of x mod 16 * 4 + byte_of y div 64 < 64" "byte_of x mod 64 < 64"
  using byte_of_less [of x] byte_of_less [of y] by linarith+

lemma digits_split:
  fixes m n :: nat
  shows "n < 16 \<Longrightarrow> (m * 16 + n) div 16 = m" "n < 16 \<Longrightarrow> (m * 16 + n) mod 16 = n"
    "n < 4 \<Longrightarrow> (m * 4 + n) div 4 = m" "n < 4 \<Longrightarrow> (m * 4 + n) mod 4 = n"
  by simp_all

lemma high_digits: "byte_of y div 16 < 16" "byte_of z div 64 < 4"
  using byte_of_less [of y] byte_of_less [of z] by linarith+

lemma join_digits:
  "char_at (byte_of x div 4 * 4 + (byte_of x mod 4 * 16 + byte_of y div 16) div 16) = x"
  "char_at (byte_of x div 4 * 4 + (byte_of x mod 4 * 16) div 16) = x"
  "char_at ((byte_of x mod 4 * 16 + byte_of y div 16) mod 16 * 16
     + (byte_of y mod 16 * 4 + byte_of z div 64) div 4) = y"
  "char_at ((byte_of x mod 4 * 16 + byte_of y div 16) mod 16 * 16 + (byte_of y mod 16 * 4) div 4) = y"
  "char_at ((byte_of y mod 16 * 4 + byte_of z div 64) mod 4 * 64 + byte_of z mod 64) = z"
  by (simp_all only: digits_split high_digits nonzero_mult_div_cancel_right div_mult_mod_eq char_at_byte_of
      numeral_eq_iff semiring_norm zero_neq_numeral mult.commute [of 16] not_False_eq_True
      nonzero_mult_div_cancel_left mod_div_mult_eq)

lemma small_digits [simp]:
  "byte_of y div 16 div 16 = 0" "byte_of y div 16 mod 16 = byte_of y div 16"
  "byte_of z div 64 div 4 = 0" "byte_of z div 64 mod 4 = byte_of z div 64"
  using high_digits(1) [of y] high_digits(2) [of z] by simp_all

lemma b64_quads_encode:
  assumes "b64_alphabet al"
  shows "b64_quads al pad (b64_encode al pad s) = Some s"
  using assms
proof (induction al pad s rule: b64_encode.induct)
  case (1 al pad)
  then show ?case by simp
next
  case (2 al pad x)
  note ix = alphabet_index [OF 2(1)]
  show ?case
    by (auto simp: two_digits_def ix digit_bounds Let_def join_digits)
next
  case (3 al pad x y)
  note ix = alphabet_index [OF 3(1)] and ne = alphabet_neq [OF 3(1)]
  show ?case
    by (auto simp: three_digits_def ix ne digit_bounds Let_def join_digits)
next
  case (4 al pad x y z r)
  note ix = alphabet_index [OF 4(2)] and ne = alphabet_neq [OF 4(2)]
  show ?case
    using 4
    by (simp add: four_digits_def ix ne digit_bounds Let_def join_digits)
qed

lemma b64_encode_chars:
  assumes "b64_alphabet al"
  shows "set (b64_encode al pad s) \<subseteq> set al \<union> {CHR ''=''}"
  using assms
  by (induction al pad s rule: b64_encode.induct)
    (auto simp: Let_def digit_bounds alphabet_index(2))

lemma b64_encode_graph:
  assumes "b64_alphabet al" and "c \<in> set (b64_encode al pad s)"
  shows "ascii_graph c \<and> c \<noteq> CHR ''.'' \<and> \<not> line_break c"
proof -
  have "ascii_graph c \<and> c \<noteq> CHR ''.''"
    using b64_encode_chars [OF assms(1)] assms(2) alphabet_char [OF assms(1)]
    by (fastforce simp: ascii_graph_def)
  then show ?thesis by (auto simp: line_break_def ascii_graph_def byte_of_def)
qed

lemma b64_round_trip:
  assumes "b64_alphabet al"
  shows "b64_decode al pad (b64_encode al pad s) = Some s"
proof -
  have "filter (\<lambda>c. \<not> line_break c) (b64_encode al pad s) = b64_encode al pad s"
    using b64_encode_graph [OF assms] by (simp add: filter_id_conv)
  then show ?thesis by (simp add: b64_decode_def b64_quads_encode [OF assms])
qed

lemma Std_round_trip [simp]: "StdDecode (StdEncode s) = Some s"
  by (simp add: StdDecode_def StdEncode_def b64_round_trip b64_alphabets)

lemma RawURL_round_trip [simp]: "RawURLDecode (RawURLEncode s) = Some s"
  by (simp add: RawURLDecode_def RawURLEncode_def b64_round_trip b64_alphabets)

lemma StdEncode_Nil_iff [simp]: "StdEncode s = [] \<longleftrightarrow> s = []"
  unfolding StdEncode_def by (cases "(b64_std, True, s)" rule: b64_encode.cases) (simp_all add: Let_def)

lemma StdEncode_trimmed [simp]: "TrimSpace (StdEncode s) = StdEncode s"
  unfolding StdEncode_def by (rule TrimSpace_graph) (use b64_encode_graph [OF b64_alphabets(1)] in blast)

lemma RawURLEncode_no_dot: "CHR ''.'' \<notin> set (RawURLEncode s)"
  unfolding RawURLEncode_def using b64_encode_graph [OF b64_alphabets(2)] by blast

end
