(* ===== verification/GoCipher.thy ===== *)
theory GoCipher
  imports GoBase64 "HOL-Library.Word"
begin

unbundle bit_operations_syntax

text \<open>
  The ciphers and digests of Go's \<open>crypto\<close> packages that the program uses, on bytes: AES-256 in Galois
  counter mode with a 12-byte nonce and a 16-byte tag (\<open>crypto/aes\<close>, \<open>crypto/cipher\<close>), SHA-256 and HMAC
  (\<open>crypto/sha256\<close>, \<open>crypto/hmac\<close>), after FIPS 197, NIST SP 800-38D and FIPS 180-4.
\<close>

type_synonym byte = "8 word"

definition bytes_of :: "string \<Rightarrow> byte list" where
  "bytes_of s = map (\<lambda>c. word_of_nat (byte_of c)) s"

definition string_of :: "byte list \<Rightarrow> string" where
  "string_of bs = map (\<lambda>b. char_at (unat b)) bs"

lemma string_of_bytes_of [simp]: "string_of (bytes_of s) = s"
  by (simp add: string_of_def bytes_of_def o_def unat_of_nat map_idI)

lemma bytes_of_string_of [simp]: "bytes_of (string_of bs) = bs"
proof -
  have "unat b < 256" for b :: byte using unsigned_less [of b] by simp
  then show ?thesis by (simp add: string_of_def bytes_of_def o_def map_idI)
qed

lemma length_bytes_of [simp]: "length (bytes_of s) = length s"
  by (simp add: bytes_of_def)

lemma length_string_of [simp]: "length (string_of s) = length s"
  by (simp add: string_of_def)

definition xor_bytes :: "byte list \<Rightarrow> byte list \<Rightarrow> byte list" where
  "xor_bytes xs ys = map2 (XOR) xs ys"

definition be_bytes :: "nat \<Rightarrow> nat \<Rightarrow> byte list" where
  "be_bytes k n = map (\<lambda>i. word_of_nat (n div 256 ^ i)) (rev [0..<k])"

fun be_value :: "byte list \<Rightarrow> nat \<Rightarrow> nat" where
  "be_value [] acc = acc"
| "be_value (b # bs) acc = be_value bs (acc * 256 + unat b)"

section \<open>AES\<close>

definition xtime :: "byte \<Rightarrow> byte" where
  "xtime b = (if bit b 7 then push_bit 1 b XOR 0x1B else push_bit 1 b)"

fun gf_mul :: "nat \<Rightarrow> byte \<Rightarrow> byte \<Rightarrow> byte" where
  "gf_mul 0 a b = 0"
| "gf_mul (Suc n) a b = (if bit b 0 then a else 0) XOR gf_mul n (xtime a) (drop_bit 1 b)"

definition gf_times :: "byte \<Rightarrow> byte \<Rightarrow> byte" where
  "gf_times a b = gf_mul 8 a b"

text \<open>The inverse in the field is the power 254 = 2 * 127; zero stays zero.\<close>

definition gf_inverse :: "byte \<Rightarrow> byte" where
  "gf_inverse a = (let sq = (\<lambda>x. gf_times x x); step = (\<lambda>x. gf_times (sq x) a)
     in sq ((step ^^ 6) a))"

definition sub_byte :: "byte \<Rightarrow> byte" where
  "sub_byte a = (let b = gf_inverse a
     in b XOR word_rotl 1 b XOR word_rotl 2 b XOR word_rotl 3 b XOR word_rotl 4 b XOR 0x63)"

text \<open>The state is a list of 16 bytes, column by column.\<close>

definition sub_and_shift :: "byte list \<Rightarrow> byte list" where
  "sub_and_shift st = map (\<lambda>i. sub_byte (st ! ((i + 4 * (i mod 4)) mod 16))) [0..<16]"

definition mix_columns :: "byte list \<Rightarrow> byte list" where
  "mix_columns st = map (\<lambda>i. let c = 4 * (i div 4); r = i mod 4;
       a = st ! (c + r); b = st ! (c + (r + 1) mod 4)
     in xtime a XOR (xtime b XOR b) XOR st ! (c + (r + 2) mod 4) XOR st ! (c + (r + 3) mod 4)) [0..<16]"

text \<open>The key schedule of a 32-byte key: 60 words of four bytes.\<close>

fun key_words :: "nat \<Rightarrow> byte \<Rightarrow> byte list list \<Rightarrow> byte list list" where
  "key_words 0 rcon ws = ws"
| "key_words (Suc n) rcon ws =
     (let i = length ws; prev = ws ! (i - 1);
          temp = (if i mod 8 = 0
                  then xor_bytes (map sub_byte (rotate1 prev)) [rcon, 0, 0, 0]
                  else if i mod 8 = 4 then map sub_byte prev else prev);
          rcon' = (if i mod 8 = 0 then xtime rcon else rcon)
      in key_words n rcon' (ws @ [xor_bytes (ws ! (i - 8)) temp]))"

definition expand_key :: "byte list \<Rightarrow> byte list list" where
  "expand_key key = key_words 52 1 (map (\<lambda>i. take 4 (drop (4 * i) key)) [0..<8])"

definition round_key :: "byte list list \<Rightarrow> nat \<Rightarrow> byte list" where
  "round_key ws r = concat (take 4 (drop (4 * r) ws))"

fun aes_rounds :: "byte list list \<Rightarrow> nat list \<Rightarrow> byte list \<Rightarrow> byte list" where
  "aes_rounds ws [] st = st"
| "aes_rounds ws (r # rs) st =
     aes_rounds ws rs (xor_bytes (mix_columns (sub_and_shift st)) (round_key ws r))"

definition aes_block :: "byte list \<Rightarrow> byte list \<Rightarrow> byte list" where
  "aes_block key block =
     (let ws = expand_key key;
          st = aes_rounds ws [1..<14] (xor_bytes block (round_key ws 0));
          out = xor_bytes (sub_and_shift st) (round_key ws 14)
      in map (\<lambda>i. out ! i) [0..<16])"

lemma length_aes_block [simp]: "length (aes_block key block) = 16"
  by (simp add: aes_block_def Let_def)

section \<open>Galois counter mode\<close>

text \<open>The key stream from a counter on, and its exclusive or with the data.\<close>

function gctr :: "byte list \<Rightarrow> byte list \<Rightarrow> 32 word \<Rightarrow> byte list \<Rightarrow> byte list" where
  "gctr key nonce ctr xs =
     (if xs = [] then []
      else xor_bytes (take 16 xs) (aes_block key (nonce @ be_bytes 4 (unat ctr)))
           @ gctr key nonce (ctr + 1) (drop 16 xs))"
  by pat_completeness auto
termination
  by (relation "measure (\<lambda>(_, _, _, xs). length xs)") auto

declare gctr.simps [simp del]

text \<open>Multiplication in the field of \<open>2 ^ 128\<close> elements, bit 127 of the word first.\<close>

fun ghash_mul :: "nat \<Rightarrow> 128 word \<Rightarrow> 128 word \<Rightarrow> 128 word \<Rightarrow> 128 word" where
  "ghash_mul 0 x v z = z"
| "ghash_mul (Suc n) x v z =
     ghash_mul n x (if bit v 0 then drop_bit 1 v XOR push_bit 120 0xE1 else drop_bit 1 v)
       (if bit x n then z XOR v else z)"

function ghash :: "128 word \<Rightarrow> byte list \<Rightarrow> 128 word \<Rightarrow> 128 word" where
  "ghash h xs y =
     (if xs = [] then y
      else ghash h (drop 16 xs) (ghash_mul 128 (y XOR word_of_nat (be_value (take 16 xs) 0)) h 0))"
  by pat_completeness auto
termination
  by (relation "measure (\<lambda>(_, xs, _). length xs)") auto

declare ghash.simps [simp del]

definition pad16 :: "byte list \<Rightarrow> byte list" where
  "pad16 xs = xs @ replicate ((16 - length xs mod 16) mod 16) 0"

text \<open>The tag of a ciphertext without additional data.\<close>

definition gcm_tag :: "byte list \<Rightarrow> byte list \<Rightarrow> byte list \<Rightarrow> byte list" where
  "gcm_tag key nonce c =
     (let h = word_of_nat (be_value (aes_block key (replicate 16 0)) 0);
          s = ghash h (pad16 c @ be_bytes 8 0 @ be_bytes 8 (8 * length c)) 0
      in xor_bytes (be_bytes 16 (unat s)) (aes_block key (nonce @ be_bytes 4 1)))"

definition gcm_seal :: "byte list \<Rightarrow> byte list \<Rightarrow> byte list \<Rightarrow> byte list" where
  "gcm_seal key nonce plain = (let c = gctr key nonce 2 plain in c @ gcm_tag key nonce c)"

definition gcm_open :: "byte list \<Rightarrow> byte list \<Rightarrow> byte list \<Rightarrow> byte list option" where
  "gcm_open key nonce data =
     (if length data < 16 then None
      else (let c = take (length data - 16) data; tag = drop (length data - 16) data
            in if tag = gcm_tag key nonce c then Some (gctr key nonce 2 c) else None))"

lemma length_xor_bytes [simp]: "length (xor_bytes xs ys) = min (length xs) (length ys)"
  by (simp add: xor_bytes_def)

lemma xor_bytes_twice: "length xs \<le> length ys \<Longrightarrow> xor_bytes (xor_bytes xs ys) ys = xs"
proof (induction xs arbitrary: ys)
  case (Cons x xs)
  then show ?case by (cases ys) (auto simp: xor_bytes_def xor.assoc)
qed (simp add: xor_bytes_def)

lemma length_be_bytes [simp]: "length (be_bytes k n) = k"
  by (simp add: be_bytes_def)

lemma length_gcm_tag [simp]: "length (gcm_tag key nonce c) = 16"
  by (simp add: gcm_tag_def Let_def)

lemma gcm_tag_not_Nil [simp]: "gcm_tag key nonce c \<noteq> []"
  using length_gcm_tag [of key nonce c] by force

lemma length_gctr [simp]: "length (gctr key nonce ctr xs) = length xs"
  by (induction key nonce ctr xs rule: gctr.induct) (subst gctr.simps, auto)

text \<open>Counter mode undoes itself.\<close>

lemma gctr_twice: "gctr key nonce ctr (gctr key nonce ctr xs) = xs"
proof (induction key nonce ctr xs rule: gctr.induct)
  case (1 key nonce ctr xs)
  show ?case
  proof (cases "xs = []")
    case True
    then show ?thesis by (simp add: gctr.simps)
  next
    case False
    let ?k = "aes_block key (nonce @ be_bytes 4 (unat ctr))"
    let ?a = "xor_bytes (take 16 xs) ?k" and ?r = "gctr key nonce (ctr + 1) (drop 16 xs)"
    have enc: "gctr key nonce ctr xs = ?a @ ?r" using False by (subst gctr.simps) simp
    have "drop 16 xs \<noteq> [] \<Longrightarrow> length ?a = 16" by simp
    then have split: "take 16 (?a @ ?r) = ?a" "drop 16 (?a @ ?r) = ?r"
      by (cases "drop 16 xs = []"; simp add: gctr.simps)+
    have "?a @ ?r \<noteq> []" using False enc length_gctr [of key nonce ctr xs] by (metis length_0_conv)
    then have "gctr key nonce ctr (?a @ ?r) = xor_bytes ?a ?k @ gctr key nonce (ctr + 1) ?r"
      by (subst gctr.simps) (simp only: split if_False)
    also have "\<dots> = take 16 xs @ drop 16 xs"
      using 1 [OF False] by (simp add: xor_bytes_twice)
    finally show ?thesis by (simp add: enc)
  qed
qed

lemma gcm_round_trip [simp]: "gcm_open key nonce (gcm_seal key nonce p) = Some p"
  by (simp add: gcm_open_def gcm_seal_def Let_def gctr_twice)

lemma length_gcm_seal [simp]: "length (gcm_seal key nonce p) = length p + 16"
  by (simp add: gcm_seal_def Let_def)

section \<open>SHA-256 and HMAC\<close>

definition sha256_k :: "32 word list" where
  "sha256_k =
    [0x428A2F98, 0x71374491, 0xB5C0FBCF, 0xE9B5DBA5, 0x3956C25B, 0x59F111F1, 0x923F82A4, 0xAB1C5ED5,
     0xD807AA98, 0x12835B01, 0x243185BE, 0x550C7DC3, 0x72BE5D74, 0x80DEB1FE, 0x9BDC06A7, 0xC19BF174,
     0xE49B69C1, 0xEFBE4786, 0x0FC19DC6, 0x240CA1CC, 0x2DE92C6F, 0x4A7484AA, 0x5CB0A9DC, 0x76F988DA,
     0x983E5152, 0xA831C66D, 0xB00327C8, 0xBF597FC7, 0xC6E00BF3, 0xD5A79147, 0x06CA6351, 0x14292967,
     0x27B70A85, 0x2E1B2138, 0x4D2C6DFC, 0x53380D13, 0x650A7354, 0x766A0ABB, 0x81C2C92E, 0x92722C85,
     0xA2BFE8A1, 0xA81A664B, 0xC24B8B70, 0xC76C51A3, 0xD192E819, 0xD6990624, 0xF40E3585, 0x106AA070,
     0x19A4C116, 0x1E376C08, 0x2748774C, 0x34B0BCB5, 0x391C0CB3, 0x4ED8AA4A, 0x5B9CCA4F, 0x682E6FF3,
     0x748F82EE, 0x78A5636F, 0x84C87814, 0x8CC70208, 0x90BEFFFA, 0xA4506CEB, 0xBEF9A3F7, 0xC67178F2]"

definition sha256_init :: "32 word list" where
  "sha256_init = [0x6A09E667, 0xBB67AE85, 0x3C6EF372, 0xA54FF53A, 0x510E527F, 0x9B05688C, 0x1F83D9AB, 0x5BE0CD19]"

definition sha_pad :: "byte list \<Rightarrow> byte list" where
  "sha_pad m = m @ 0x80 # replicate ((119 - length m mod 64) mod 64) 0 @ be_bytes 8 (8 * length m)"

fun words32 :: "byte list \<Rightarrow> 32 word list" where
  "words32 (a # b # c # d # r) = word_of_nat (be_value [a, b, c, d] 0) # words32 r"
| "words32 _ = []"

fun sha256_schedule :: "nat \<Rightarrow> 32 word list \<Rightarrow> 32 word list" where
  "sha256_schedule 0 ws = ws"
| "sha256_schedule (Suc n) ws =
     (let t = length ws; x = ws ! (t - 15); y = ws ! (t - 2);
          s0 = word_rotr 7 x XOR word_rotr 18 x XOR drop_bit 3 x;
          s1 = word_rotr 17 y XOR word_rotr 19 y XOR drop_bit 10 y
      in sha256_schedule n (ws @ [ws ! (t - 16) + s0 + ws ! (t - 7) + s1]))"

fun sha256_rounds :: "(32 word \<times> 32 word) list \<Rightarrow> 32 word list \<Rightarrow> 32 word list" where
  "sha256_rounds ((k, w) # kws) [a, b, c, d, e, f, g, h] =
     (let t1 = h + (word_rotr 6 e XOR word_rotr 11 e XOR word_rotr 25 e)
               + ((e AND f) XOR (NOT e AND g)) + k + w;
          t2 = (word_rotr 2 a XOR word_rotr 13 a XOR word_rotr 22 a)
               + ((a AND b) XOR (a AND c) XOR (b AND c))
      in sha256_rounds kws [t1 + t2, a, b, c, d + t1, e, f, g])"
| "sha256_rounds _ st = st"

function sha256_blocks :: "byte list \<Rightarrow> 32 word list \<Rightarrow> 32 word list" where
  "sha256_blocks bs st =
     (if length bs < 64 then st
      else sha256_blocks (drop 64 bs)
             (map2 (+) st (sha256_rounds (zip sha256_k (sha256_schedule 48 (words32 (take 64 bs)))) st)))"
  by pat_completeness auto
termination
  by (relation "measure (\<lambda>(bs, _). length bs)") auto

declare sha256_blocks.simps [simp del]

definition sha256 :: "byte list \<Rightarrow> byte list" where
  "sha256 m = concat (map (\<lambda>w. be_bytes 4 (unat w)) (sha256_blocks (sha_pad m) sha256_init))"

definition hmac_sha256 :: "byte list \<Rightarrow> byte list \<Rightarrow> byte list" where
  "hmac_sha256 key m =
     (let k = (if length key > 64 then sha256 key else key);
          block = k @ replicate (64 - length k) 0
      in sha256 (map (\<lambda>b. b XOR 0x5C) block @ sha256 (map (\<lambda>b. b XOR 0x36) block @ m)))"

definition hex_of :: "byte list \<Rightarrow> string" where
  "hex_of bs = concat (map (\<lambda>b. [(''0123456789abcdef'') ! (unat b div 16), (''0123456789abcdef'') ! (unat b mod 16)]) bs)"

end
