(* ===== verification/GoNumbers.thy ===== *)
theory GoNumbers
  imports GoFloat GoStrings
begin

text \<open>The reading of numbers of Go's package \<open>strconv\<close>.\<close>

section \<open>\<open>strconv.ParseFloat\<close>\<close>

text \<open>
  The decimal and the special forms (\<open>inf\<close>, \<open>infinity\<close>, \<open>nan\<close>); hexadecimal literals and
  digit separators are rejected. A value out of range is an error, as in Go.
\<close>

definition parse_exponent :: "string \<Rightarrow> int option" where
  "parse_exponent t =
     (if t = '''' then Some 0
      else if hd t = CHR ''e'' then
        (let r = tl t; neg = (r \<noteq> [] \<and> hd r = CHR ''-'');
             ds = (if r \<noteq> [] \<and> (hd r = CHR ''-'' \<or> hd r = CHR ''+'') then tl r else r)
         in if ds \<noteq> [] \<and> list_all is_digit ds
            then Some ((if neg then - 1 else 1) * int (digits_value ds)) else None)
      else None)"

definition parse_decimal :: "bool \<Rightarrow> string \<Rightarrow> f64 option" where
  "parse_decimal neg l =
     (let ip = takeWhile is_digit l; r1 = dropWhile is_digit l;
          dot = (r1 \<noteq> [] \<and> hd r1 = CHR ''.'');
          fp = (if dot then takeWhile is_digit (tl r1) else []);
          r2 = (if dot then dropWhile is_digit (tl r1) else r1)
      in if ip @ fp = [] then None
         else case parse_exponent r2 of
           None \<Rightarrow> None
         | Some e \<Rightarrow>
             (case fl ((if neg then - 1 else 1) * of_nat (digits_value (ip @ fp))
                        * 10 powi (e - int (length fp))) of
                Fin r \<Rightarrow> Some (Fin r) | _ \<Rightarrow> None))"

definition ParseFloat :: "string \<Rightarrow> f64 option" where
  "ParseFloat s =
     (let signed = (s \<noteq> [] \<and> (hd s = CHR ''-'' \<or> hd s = CHR ''+''));
          neg = (s \<noteq> [] \<and> hd s = CHR ''-'');
          l = map lower_char (if signed then tl s else s)
      in if l = ''inf'' \<or> l = ''infinity'' then Some (FInf neg)
         else if l = ''nan'' \<and> \<not> signed then Some FNaN
         else parse_decimal neg l)"

end
