(* ===== verification/GoJson.thy ===== *)
theory GoJson
  imports GoNumbers GoBase64
begin

text \<open>
  \<open>encoding/json\<close>, as far as the program uses it: the parser of values with the library's treatment of
  escapes, surrogates and invalid UTF-8, the assignment of members to the fields of a struct (the last
  member whose name is the field's up to case wins, a null leaves the field, a value of another type is
  an error), and the text of strings and integers. The limit of 10000 on the nesting is not modelled.
\<close>

datatype json = JNull | JBool bool | JNum string | JStr string | JArr "json list" | JObj "(string \<times> json) list"

section \<open>UTF-8\<close>

text \<open>The length of the UTF-8 sequence a text starts with; 0 when the first byte starts none.\<close>

definition cont_byte :: "nat \<Rightarrow> nat \<Rightarrow> nat list \<Rightarrow> nat \<Rightarrow> bool" where
  "cont_byte lo hi bs i \<longleftrightarrow> i < length bs \<and> lo \<le> bs ! i \<and> bs ! i \<le> hi"

definition utf8_len :: "string \<Rightarrow> nat" where
  "utf8_len s =
     (let bs = map byte_of (take 4 s); c = cont_byte 0x80 0xBF bs
      in case bs of
        [] \<Rightarrow> 0
      | a # _ \<Rightarrow>
         if a < 0x80 then 1
         else if 0xC2 \<le> a \<and> a \<le> 0xDF \<and> c 1 then 2
         else if a = 0xE0 \<and> cont_byte 0xA0 0xBF bs 1 \<and> c 2 then 3
         else if a = 0xED \<and> cont_byte 0x80 0x9F bs 1 \<and> c 2 then 3
         else if 0xE1 \<le> a \<and> a \<le> 0xEF \<and> a \<noteq> 0xED \<and> c 1 \<and> c 2 then 3
         else if a = 0xF0 \<and> cont_byte 0x90 0xBF bs 1 \<and> c 2 \<and> c 3 then 4
         else if a = 0xF4 \<and> cont_byte 0x80 0x8F bs 1 \<and> c 2 \<and> c 3 then 4
         else if 0xF1 \<le> a \<and> a \<le> 0xF3 \<and> c 1 \<and> c 2 \<and> c 3 then 4
         else 0)"

definition utf8_rune :: "nat \<Rightarrow> string" where
  "utf8_rune r = map char_at
     (if r < 0x80 then [r]
      else if r < 0x800 then [0xC0 + r div 64, 0x80 + r mod 64]
      else if r < 0x10000 then [0xE0 + r div 4096, 0x80 + r div 64 mod 64, 0x80 + r mod 64]
      else [0xF0 + r div 262144, 0x80 + r div 4096 mod 64, 0x80 + r div 64 mod 64, 0x80 + r mod 64])"

definition replacement_char :: string where
  "replacement_char = utf8_rune 0xFFFD"

section \<open>Strings\<close>

definition hex_value :: "char \<Rightarrow> nat option" where
  "hex_value c = (let n = byte_of c in
     if 48 \<le> n \<and> n \<le> 57 then Some (n - 48)
     else if 97 \<le> n \<and> n \<le> 102 then Some (n - 87)
     else if 65 \<le> n \<and> n \<le> 70 then Some (n - 55) else None)"

definition hex4 :: "string \<Rightarrow> nat option" where
  "hex4 s = (case map hex_value (take 4 s) of
     [Some a, Some b, Some c, Some d] \<Rightarrow> Some (((a * 16 + b) * 16 + c) * 16 + d) | _ \<Rightarrow> None)"

definition simple_escape :: "char \<Rightarrow> char option" where
  "simple_escape e =
     map_of [(CHR 0x22, CHR 0x22), (CHR 0x5C, CHR 0x5C), (CHR ''/'', CHR ''/''), (CHR ''b'', CHR 0x08),
       (CHR ''f'', CHR 0x0C), (CHR ''n'', CHR 0x0A), (CHR ''r'', CHR 0x0D), (CHR ''t'', CHR 0x09)] e"

text \<open>The text of an escape \<open>\u\<close> and the number of bytes it used after the \<open>u\<close>.\<close>

definition unicode_escape :: "string \<Rightarrow> (string \<times> nat) option" where
  "unicode_escape s =
     (case hex4 s of
        None \<Rightarrow> None
      | Some r \<Rightarrow>
         if r < 0xD800 \<or> 0xDFFF < r then Some (utf8_rune r, 4)
         else if r < 0xDC00 \<and> take 2 (drop 4 s) = [CHR 0x5C, CHR ''u'']
         then (case hex4 (drop 6 s) of
                 Some r2 \<Rightarrow> if 0xDC00 \<le> r2 \<and> r2 \<le> 0xDFFF
                   then Some (utf8_rune (0x10000 + (r - 0xD800) * 1024 + (r2 - 0xDC00)), 10)
                   else Some (replacement_char, 4)
               | None \<Rightarrow> Some (replacement_char, 4))
         else Some (replacement_char, 4))"

text \<open>The rest of a string literal after its opening quote.\<close>

function json_chars :: "string \<Rightarrow> (string \<times> string) option" where
  "json_chars [] = None"
| "json_chars (c # cs) =
     (if c = CHR 0x22 then Some ([], cs)
      else if byte_of c < 0x20 then None
      else if c = CHR 0x5C
      then (case cs of
              [] \<Rightarrow> None
            | e # r \<Rightarrow>
               if e = CHR ''u''
               then (case unicode_escape r of
                       None \<Rightarrow> None
                     | Some (t, n) \<Rightarrow> map_option (apfst ((@) t)) (json_chars (drop n r)))
               else (case simple_escape e of
                       None \<Rightarrow> None
                     | Some x \<Rightarrow> map_option (apfst ((#) x)) (json_chars r)))
      else if byte_of c < 0x80 then map_option (apfst ((#) c)) (json_chars cs)
      else (let n = utf8_len (c # cs)
            in if n = 0 then map_option (apfst ((@) replacement_char)) (json_chars cs)
               else map_option (apfst ((@) (take n (c # cs)))) (json_chars (drop (n - 1) cs))))"
  by pat_completeness auto
termination
  by (relation "measure length") auto

section \<open>Values\<close>

definition json_space :: "char \<Rightarrow> bool" where
  "json_space c \<longleftrightarrow> c = CHR 0x20 \<or> c = CHR 0x09 \<or> c = CHR 0x0A \<or> c = CHR 0x0D"

definition skip_ws :: "string \<Rightarrow> string" where
  "skip_ws s = dropWhile json_space s"

definition span_digits :: "string \<Rightarrow> string \<times> string" where
  "span_digits s = (takeWhile is_digit s, dropWhile is_digit s)"

text \<open>A number: sign, integer part without leading zero, fraction, exponent.\<close>

definition json_int_part :: "string \<Rightarrow> (string \<times> string) option" where
  "json_int_part s =
     (case span_digits s of
        ([], _) \<Rightarrow> None
      | (d # ds, r) \<Rightarrow> if d = CHR ''0'' then Some ([d], ds @ r) else Some (d # ds, r))"

definition json_fraction :: "string \<Rightarrow> (string \<times> string) option" where
  "json_fraction s =
     (case s of
        c # r \<Rightarrow> if c = CHR ''.''
          then (case span_digits r of ([], _) \<Rightarrow> None | (ds, r') \<Rightarrow> Some (c # ds, r')) else Some ([], s)
      | [] \<Rightarrow> Some ([], s))"

definition json_exponent :: "string \<Rightarrow> (string \<times> string) option" where
  "json_exponent s =
     (case s of
        c # r \<Rightarrow> if c = CHR ''e'' \<or> c = CHR ''E''
          then (let (sg, r) = (case r of x # y \<Rightarrow> if x = CHR ''+'' \<or> x = CHR ''-'' then ([x], y) else ([], r)
                               | [] \<Rightarrow> ([], r))
                in case span_digits r of ([], _) \<Rightarrow> None | (ds, r') \<Rightarrow> Some (c # sg @ ds, r'))
          else Some ([], s)
      | [] \<Rightarrow> Some ([], s))"

definition json_number :: "string \<Rightarrow> (string \<times> string) option" where
  "json_number s =
     (let (sg, r) = (case s of c # r \<Rightarrow> if c = CHR ''-'' then ([c], r) else ([], s) | [] \<Rightarrow> ([], s))
      in Option.bind (json_int_part r) (\<lambda>(i, r).
         Option.bind (json_fraction r) (\<lambda>(f, r).
         Option.bind (json_exponent r) (\<lambda>(e, r). Some (sg @ i @ f @ e, r)))))"

definition json_atom :: "string \<Rightarrow> (json \<times> string) option" where
  "json_atom s =
     (if HasPrefix s ''null'' then Some (JNull, drop 4 s)
      else if HasPrefix s ''true'' then Some (JBool True, drop 4 s)
      else if HasPrefix s ''false'' then Some (JBool False, drop 5 s)
      else map_option (apfst JNum) (json_number s))"

text \<open>
  The fuel bounds the depth of the recursion; every recursive call has read at least one byte more, so
  the length of the text is enough.
\<close>

fun json_value :: "nat \<Rightarrow> string \<Rightarrow> (json \<times> string) option"
  and json_members :: "nat \<Rightarrow> string \<Rightarrow> ((string \<times> json) list \<times> string) option"
  and json_elements :: "nat \<Rightarrow> string \<Rightarrow> (json list \<times> string) option" where
  "json_value 0 s = None"
| "json_value (Suc n) s =
     (case skip_ws s of
        [] \<Rightarrow> None
      | c # cs \<Rightarrow>
         if c = CHR 0x7B
         then (case skip_ws cs of
                 [] \<Rightarrow> None
               | d # r \<Rightarrow> if d = CHR 0x7D then Some (JObj [], r)
                          else map_option (apfst JObj) (json_members n (d # r)))
         else if c = CHR 0x5B
         then (case skip_ws cs of
                 [] \<Rightarrow> None
               | d # r \<Rightarrow> if d = CHR 0x5D then Some (JArr [], r)
                          else map_option (apfst JArr) (json_elements n (d # r)))
         else if c = CHR 0x22 then map_option (apfst JStr) (json_chars cs)
         else json_atom (c # cs))"
| "json_members 0 s = None"
| "json_members (Suc n) s =
     (case s of
        [] \<Rightarrow> None
      | q # cs \<Rightarrow>
         if q \<noteq> CHR 0x22 then None
         else (case json_chars cs of
                 None \<Rightarrow> None
               | Some (k, r) \<Rightarrow>
                  (case skip_ws r of
                     [] \<Rightarrow> None
                   | c # r \<Rightarrow>
                      if c \<noteq> CHR '':'' then None
                      else (case json_value n r of
                              None \<Rightarrow> None
                            | Some (v, r) \<Rightarrow>
                               (case skip_ws r of
                                  [] \<Rightarrow> None
                                | d # r \<Rightarrow>
                                   if d = CHR '','' then map_option (apfst ((#) (k, v))) (json_members n (skip_ws r))
                                   else if d = CHR 0x7D then Some ([(k, v)], r)
                                   else None)))))"
| "json_elements 0 s = None"
| "json_elements (Suc n) s =
     (case json_value n s of
        None \<Rightarrow> None
      | Some (v, r) \<Rightarrow>
         (case skip_ws r of
            [] \<Rightarrow> None
          | d # r \<Rightarrow>
             if d = CHR '','' then map_option (apfst ((#) v)) (json_elements n r)
             else if d = CHR 0x5D then Some ([v], r)
             else None))"

text \<open>\<open>Decoder.Decode\<close> reads the first value, \<open>Unmarshal\<close> the whole text.\<close>

definition json_first :: "string \<Rightarrow> json option" where
  "json_first s = map_option fst (json_value (Suc (length s)) s)"

definition json_whole :: "string \<Rightarrow> json option" where
  "json_whole s =
     (case json_value (Suc (length s)) s of
        Some (v, r) \<Rightarrow> if skip_ws r = [] then Some v else None | None \<Rightarrow> None)"

section \<open>Fields of structs\<close>

fun field :: "(json \<Rightarrow> 'a \<Rightarrow> 'a option) \<Rightarrow> string \<Rightarrow> (string \<times> json) list \<Rightarrow> 'a \<Rightarrow> 'a option" where
  "field conv name [] x = Some x"
| "field conv name ((k, v) # kvs) x =
     (if EqualFold k name \<and> v \<noteq> JNull
      then (case conv v x of None \<Rightarrow> None | Some y \<Rightarrow> field conv name kvs y)
      else field conv name kvs x)"

definition as_string :: "json \<Rightarrow> string \<Rightarrow> string option" where
  "as_string v x = (case v of JStr s \<Rightarrow> Some s | _ \<Rightarrow> None)"

definition as_bool :: "json \<Rightarrow> bool \<Rightarrow> bool option" where
  "as_bool v x = (case v of JBool b \<Rightarrow> Some b | _ \<Rightarrow> None)"

definition int64 :: "int \<Rightarrow> bool" where
  "int64 i \<longleftrightarrow> - (2 ^ 63) \<le> i \<and> i < 2 ^ 63"

definition parse_int :: "string \<Rightarrow> int option" where
  "parse_int s =
     (let (neg, ds) = (case s of c # r \<Rightarrow> if c = CHR ''-'' then (True, r) else (False, s) | [] \<Rightarrow> (False, s))
      in if ds = [] \<or> \<not> list_all is_digit ds then None
         else (let i = (if neg then - int (digits_value ds) else int (digits_value ds))
               in if int64 i then Some i else None))"

definition as_int :: "json \<Rightarrow> int \<Rightarrow> int option" where
  "as_int v x = (case v of JNum n \<Rightarrow> parse_int n | _ \<Rightarrow> None)"

definition as_float :: "json \<Rightarrow> f64 \<Rightarrow> f64 option" where
  "as_float v x = (case v of JNum n \<Rightarrow> ParseFloat n | _ \<Rightarrow> None)"

text \<open>The members of the value a struct is decoded from; a null leaves the struct as it is.\<close>

definition members_of :: "json \<Rightarrow> (string \<times> json) list option" where
  "members_of v = (case v of JObj kvs \<Rightarrow> Some kvs | JNull \<Rightarrow> Some [] | _ \<Rightarrow> None)"

section \<open>Writing\<close>

definition hex_char :: "nat \<Rightarrow> char" where
  "hex_char n = ''0123456789abcdef'' ! n"

definition escape_u :: "nat \<Rightarrow> string" where
  "escape_u n = [CHR 0x5C, CHR ''u'', CHR ''0'', CHR ''0'', hex_char (n div 16), hex_char (n mod 16)]"

definition escape_ascii :: "char \<Rightarrow> string" where
  "escape_ascii c =
     (if c = CHR 0x22 \<or> c = CHR 0x5C then [CHR 0x5C, c]
      else if c = CHR 0x08 then [CHR 0x5C, CHR ''b'']
      else if c = CHR 0x0C then [CHR 0x5C, CHR ''f'']
      else if c = CHR 0x0A then [CHR 0x5C, CHR ''n'']
      else if c = CHR 0x0D then [CHR 0x5C, CHR ''r'']
      else if c = CHR 0x09 then [CHR 0x5C, CHR ''t'']
      else if byte_of c < 0x20 \<or> c = CHR ''<'' \<or> c = CHR ''>'' \<or> c = CHR ''&'' then escape_u (byte_of c)
      else [c])"

function json_escape :: "string \<Rightarrow> string" where
  "json_escape [] = []"
| "json_escape (c # cs) =
     (if byte_of c < 0x80 then escape_ascii c @ json_escape cs
      else (let n = utf8_len (c # cs); t = take n (c # cs)
            in if n = 0 then [CHR 0x5C] @ ''ufffd'' @ json_escape cs
               else (if t = utf8_rune 0x2028 then [CHR 0x5C] @ ''u2028''
                     else if t = utf8_rune 0x2029 then [CHR 0x5C] @ ''u2029'' else t)
                    @ json_escape (drop (n - 1) cs)))"
  by pat_completeness auto
termination
  by (relation "measure length") auto

definition json_text :: "string \<Rightarrow> string" where
  "json_text s = CHR 0x22 # json_escape s @ [CHR 0x22]"

end
