(* ===== verification/Secrets.thy ===== *)
theory Secrets
  imports Domain GoCipher GoJson
begin

text \<open>
  \<open>internal/crypto/aes.go\<close> and \<open>internal/auth/jwt.go\<close>: the encryption of stored secrets with AES-256-GCM
  and the signed tokens of sessions. The random nonce of an encryption is an argument, \<open>None\<close> when the
  random source fails; so is the clock of the token functions.
\<close>

section \<open>Encryption of stored secrets\<close>

definition NewCryptoService :: "byte list \<Rightarrow> go_error + byte list" where
  "NewCryptoService key =
     (if length key \<noteq> 32 then Inl (ErrText ''encryption key must be exactly 32 bytes (AES-256)'')
      else Inr key)"

text \<open>\<open>aes.NewCipher\<close> and \<open>cipher.NewGCM\<close> cannot fail on a key that \<open>NewCryptoService\<close> accepted.\<close>

definition EncryptSecret :: "byte list \<Rightarrow> byte list option \<Rightarrow> string \<Rightarrow> go_error + string" where
  "EncryptSecret key random plaintext =
     (case random of
        None \<Rightarrow> Inl (ErrWrap ''generate nonce: '' (ErrText ''read random'') '''')
      | Some nonce \<Rightarrow> Inr (StdEncode (string_of (nonce @ gcm_seal key nonce (bytes_of plaintext)))))"

text \<open>The messages of the base 64 decoder and of GCM carry no position here.\<close>

definition DecryptSecret :: "byte list \<Rightarrow> string \<Rightarrow> go_error + string" where
  "DecryptSecret key ciphertext =
     (case StdDecode ciphertext of
        None \<Rightarrow> Inl (ErrWrap ''decode base64: '' (ErrText ''illegal base64 data'') '''')
      | Some raw \<Rightarrow>
         (let bytes = bytes_of raw
          in if length bytes < 12 then Inl (ErrText ''ciphertext too short'')
             else case gcm_open key (take 12 bytes) (drop 12 bytes) of
               None \<Rightarrow> Inl (ErrWrap ''decrypt: '' (ErrText ''cipher: message authentication failed'') '''')
             | Some plain \<Rightarrow> Inr (string_of plain)))"

text \<open>What the services rely on in the cipher.\<close>

locale cipher =
  fixes encrypt :: "'n \<Rightarrow> string \<Rightarrow> go_error + string"
    and decrypt :: "string \<Rightarrow> go_error + string"
    and nonce_ok :: "'n \<Rightarrow> bool"
  assumes decrypt_encrypt: "nonce_ok n \<Longrightarrow> encrypt n x = Inr c \<Longrightarrow> decrypt c = Inr x"
    and not_blank: "encrypt n x = Inr c \<Longrightarrow> c \<noteq> '''' \<and> TrimSpace c = c"
begin

text \<open>Two secrets with one ciphertext are one secret, so a stored secret identifies its plain text.\<close>

lemma ciphertext_determines:
  assumes "nonce_ok n" "nonce_ok m" "encrypt n x = Inr c" "encrypt m y = Inr c"
  shows "x = y"
  using decrypt_encrypt [OF assms(1,3)] decrypt_encrypt [OF assms(2,4)] by simp

lemma stored_secret_present: "encrypt n x = Inr c \<Longrightarrow> TrimSpace c \<noteq> ''''"
  using not_blank by metis

end

definition nonce_fits :: "byte list option \<Rightarrow> bool" where
  "nonce_fits random \<longleftrightarrow> (case random of None \<Rightarrow> True | Some nonce \<Rightarrow> length nonce = 12)"

lemma Decrypt_Encrypt:
  assumes "nonce_fits n" and "EncryptSecret key n x = Inr c"
  shows "DecryptSecret key c = Inr x"
  using assms by (auto simp: EncryptSecret_def DecryptSecret_def nonce_fits_def Let_def split: option.splits)

interpretation aes: cipher "EncryptSecret key" "DecryptSecret key" nonce_fits
  by unfold_locales
    (auto simp: Decrypt_Encrypt EncryptSecret_def string_of_def gcm_seal_def Let_def split: option.splits)

section \<open>Tokens\<close>

record Claims =
  cl_UserID :: string
  cl_Email :: string
  cl_Exp :: int

definition ErrInvalidToken :: go_error where
  "ErrInvalidToken = ErrText ''invalid token''"

definition ErrTokenExpired :: go_error where
  "ErrTokenExpired = ErrText ''token expired''"

definition unix_seconds :: "int \<Rightarrow> int" where
  "unix_seconds t = t div 1000000000"

definition sign :: "string \<Rightarrow> string \<Rightarrow> string" where
  "sign data secret = RawURLEncode (string_of (hmac_sha256 (bytes_of secret) (bytes_of data)))"

definition token_header :: string where
  "token_header = ''{'' @ json_text ''alg'' @ '':'' @ json_text ''HS256'' @ '','' @ json_text ''typ'' @ '':''
     @ json_text ''JWT'' @ ''}''"

definition claims_json :: "Claims \<Rightarrow> string" where
  "claims_json c = ''{'' @ json_text ''sub'' @ '':'' @ json_text (cl_UserID c) @ '','' @ json_text ''email'' @ '':''
     @ json_text (cl_Email c) @ '','' @ json_text ''exp'' @ '':'' @ show_int (cl_Exp c) @ ''}''"

definition GenerateToken :: "int \<Rightarrow> string \<Rightarrow> string \<Rightarrow> string \<Rightarrow> int \<Rightarrow> string" where
  "GenerateToken now userID email secret ttl =
     (let header = RawURLEncode token_header;
          payload = RawURLEncode (claims_json
            \<lparr>cl_UserID = userID, cl_Email = email, cl_Exp = unix_seconds (now + ttl)\<rparr>);
          data = header @ ''.'' @ payload
      in data @ ''.'' @ sign data secret)"

text \<open>\<open>json.Unmarshal\<close> into the claims.\<close>

definition claims_of_json :: "string \<Rightarrow> Claims option" where
  "claims_of_json t =
     Option.bind (json_whole t) (\<lambda>v.
     Option.bind (members_of v) (\<lambda>kvs.
     Option.bind (field as_string ''sub'' kvs '''') (\<lambda>sub.
     Option.bind (field as_string ''email'' kvs '''') (\<lambda>email.
     Option.bind (field as_int ''exp'' kvs 0) (\<lambda>e.
     Some \<lparr>cl_UserID = sub, cl_Email = email, cl_Exp = e\<rparr>)))))"

definition ValidateClaims :: "int \<Rightarrow> string \<Rightarrow> string \<Rightarrow> go_error + Claims" where
  "ValidateClaims now token secret =
     (case Split token (CHR ''.'') of
        [header, payload, signature] \<Rightarrow>
          if sign (header @ ''.'' @ payload) secret \<noteq> signature then Inl ErrInvalidToken
          else (case RawURLDecode payload of
                  None \<Rightarrow> Inl ErrInvalidToken
                | Some raw \<Rightarrow>
                   (case claims_of_json raw of
                      None \<Rightarrow> Inl ErrInvalidToken
                    | Some claims \<Rightarrow>
                       if unix_seconds now > cl_Exp claims then Inl ErrTokenExpired else Inr claims))
      | _ \<Rightarrow> Inl ErrInvalidToken)"

section \<open>Reading back what was written\<close>

definition ascii :: "string \<Rightarrow> bool" where
  "ascii s \<longleftrightarrow> list_all (\<lambda>c. byte_of c < 0x80) s"

lemma hex_value_char: "n < 16 \<Longrightarrow> hex_value (hex_char n) = Some n"
proof -
  assume "n < 16"
  then have "n \<in> set [0..<16]" by simp
  moreover have "list_all (\<lambda>n. hex_value (hex_char n) = Some n) [0..<16]" by code_simp
  ultimately show ?thesis by (simp add: list_all_iff)
qed

lemma unicode_escape_ascii:
  assumes "n < 0x80"
  shows "unicode_escape (CHR ''0'' # CHR ''0'' # hex_char (n div 16) # hex_char (n mod 16) # r)
    = Some ([char_at n], 4)"
proof -
  have "hex_value (CHR ''0'') = Some 0" by code_simp
  with assms show ?thesis
    by (simp add: unicode_escape_def hex4_def hex_value_char utf8_rune_def)
qed

lemma byte_of_backslash: "byte_of (CHR 0x5C) = 0x5C"
  by code_simp

lemma json_chars_escape_ascii:
  assumes "byte_of c < 0x80"
  shows "json_chars (escape_ascii c @ t) = map_option (apfst ((#) c)) (json_chars t)"
proof -
  have u: "json_chars (escape_u (byte_of c) @ t) = map_option (apfst ((#) c)) (json_chars t)"
    using unicode_escape_ascii [OF assms, of t]
    by (simp add: escape_u_def byte_of_backslash) (simp add: fun_eq_iff apfst_def map_prod_def option.map_comp o_def cong: option.map_cong)
  show ?thesis
  proof (cases "c \<in> {CHR 0x22, CHR 0x5C, CHR 0x08, CHR 0x0C, CHR 0x0A, CHR 0x0D, CHR 0x09}")
    case True
    then show ?thesis
      by (auto simp: escape_ascii_def byte_of_backslash simple_escape_def)
  next
    case False
    then have e: "escape_ascii c = (if byte_of c < 0x20 \<or> c = CHR ''<'' \<or> c = CHR ''>'' \<or> c = CHR ''&''
        then escape_u (byte_of c) else [c])"
      by (simp add: escape_ascii_def)
    show ?thesis
    proof (cases "byte_of c < 0x20 \<or> c = CHR ''<'' \<or> c = CHR ''>'' \<or> c = CHR ''&''")
      case True
      with u show ?thesis by (simp only: e if_True)
    next
      case outer: False
      with assms False show ?thesis by (simp add: e)
    qed
  qed
qed

lemma json_chars_escape:
  "ascii s \<Longrightarrow> json_chars (json_escape s @ CHR 0x22 # r) = Some (s, r)"
  by (induction s) (simp_all add: ascii_def json_chars_escape_ascii)

text \<open>Numbers.\<close>

lemma is_digit_char [simp]: "d < 10 \<Longrightarrow> is_digit (digit_char d)"
  by (simp add: is_digit_def digit_char_def)

lemma show_nat_digits: "list_all is_digit (show_nat n)"
proof (induction n rule: show_nat.induct)
  case (1 n)
  then show ?case by (subst show_nat.simps) auto
qed

lemma show_nat_not_Nil [simp]: "show_nat n \<noteq> []"
  by (subst show_nat.simps) simp

lemma digits_value_snoc: "d < 10 \<Longrightarrow> digits_value (ds @ [digit_char d]) = 10 * digits_value ds + d"
  by (simp add: digits_value_def digit_char_def)

lemma digits_value_show [simp]: "digits_value (show_nat n) = n"
proof (induction n rule: show_nat.induct)
  case (1 n)
  show ?case
  proof (cases "n < 10")
    case True
    then show ?thesis
      using digits_value_snoc [of n "[]"] by (subst show_nat.simps) (simp add: digits_value_def)
  next
    case False
    with 1 show ?thesis by (subst show_nat.simps) (simp add: digits_value_snoc)
  qed
qed

lemma show_nat_head: "n \<noteq> 0 \<Longrightarrow> hd (show_nat n) \<noteq> CHR ''0''"
proof (induction n rule: show_nat.induct)
  case (1 n)
  have "digit_char n \<noteq> CHR ''0''" if "n < 10" "n \<noteq> 0"
  proof -
    have "is_digit (digit_char n)" "digits_value [digit_char n] = n" using digits_value_snoc [of n "[]"] that
      by (simp_all add: digits_value_def)
    then show ?thesis using that by (auto simp: digits_value_def)
  qed
  with 1 show ?case by (subst show_nat.simps) auto
qed

lemma span_digits_append:
  "list_all is_digit ds \<Longrightarrow> \<not> is_digit c \<Longrightarrow> span_digits (ds @ c # r) = (ds, c # r)"
  by (auto simp: span_digits_def list_all_iff takeWhile_append dropWhile_append)

lemma json_int_part_show:
  assumes "\<not> is_digit c"
  shows "json_int_part (show_nat n @ c # r) = Some (show_nat n, c # r)"
proof (cases "n = 0")
  case True
  moreover have "digit_char 0 = CHR ''0''" by code_simp
  ultimately have "show_nat n = ''0''" by (subst show_nat.simps) simp
  with assms show ?thesis
    using span_digits_append [OF show_nat_digits assms, of n r] by (simp add: json_int_part_def)
next
  case False
  then show ?thesis
    using span_digits_append [OF show_nat_digits assms, of n r] show_nat_head [OF False] show_nat_not_Nil [of n]
    by (cases "show_nat n") (simp_all add: json_int_part_def del: show_nat_not_Nil)
qed

definition ends_number :: "char \<Rightarrow> bool" where
  "ends_number c \<longleftrightarrow> \<not> is_digit c \<and> c \<notin> {CHR ''.'', CHR ''e'', CHR ''E''}"

lemma show_nat_cases: "\<exists>d ds. show_nat n = d # ds \<and> is_digit d"
  using show_nat_digits [of n] by (cases "show_nat n") auto

lemma json_number_show:
  assumes "ends_number c"
  shows "json_number (show_int i @ c # r) = Some (show_int i, c # r)"
proof -
  obtain d ds where d: "show_nat (nat i) = d # ds" "is_digit d" using show_nat_cases by blast
  have "d \<noteq> CHR ''-''" using d(2) by (auto simp: is_digit_def)
  then show ?thesis
    using json_int_part_show [of c "nat i" r] json_int_part_show [of c "nat (- i)" r] assms d(1)
    by (auto simp: json_number_def show_int_def json_fraction_def json_exponent_def ends_number_def)
qed

lemma json_atom_show:
  assumes "ends_number c"
  shows "json_atom (show_int i @ c # r) = Some (JNum (show_int i), c # r)"
proof -
  obtain d ds where d: "show_nat (nat i) = d # ds" "is_digit d" using show_nat_cases by blast
  then have "\<exists>d ds. show_int i = d # ds \<and> d \<notin> {CHR ''n'', CHR ''t'', CHR ''f''}"
    by (auto simp: show_int_def is_digit_def)
  with json_number_show [OF assms, of i r] show ?thesis by (auto simp: json_atom_def)
qed

lemma parse_int_show: "int64 i \<Longrightarrow> parse_int (show_int i) = Some i"
proof -
  assume i: "int64 i"
  obtain d ds where d: "show_nat (nat i) = d # ds" "is_digit d" using show_nat_cases by blast
  have "d \<noteq> CHR ''-''" using d(2) by (auto simp: is_digit_def)
  with i d(1) show ?thesis
    using show_nat_digits [of "nat i"] show_nat_digits [of "nat (- i)"] digits_value_show [of "nat i"]
    by (auto simp: parse_int_def show_int_def)
qed

section \<open>Tokens are read back\<close>

lemma skip_ws_id: "\<not> json_space c \<Longrightarrow> skip_ws (c # r) = c # r"
  by (simp add: skip_ws_def)

lemma structural_chars [simp]:
  "\<not> json_space (CHR 0x22)" "\<not> json_space (CHR '':'')" "\<not> json_space (CHR '','')"
  "\<not> json_space (CHR 0x7B)" "\<not> json_space (CHR 0x7D)" "ends_number (CHR 0x7D)"
  by (simp_all add: json_space_def ends_number_def is_digit_def)

lemma json_value_text:
  "ascii s \<Longrightarrow> json_value (Suc n) (json_text s @ r) = Some (JStr s, r)"
  by (simp add: json_text_def skip_ws_id json_chars_escape)

lemma json_value_int:
  assumes "ends_number c"
  shows "json_value (Suc n) (show_int i @ c # r) = Some (JNum (show_int i), c # r)"
proof -
  obtain d ds where d: "show_nat (nat i) = d # ds" "is_digit d" using show_nat_cases by blast
  then have "\<exists>d ds. show_int i = d # ds \<and> \<not> json_space d \<and> d \<notin> {CHR 0x7B, CHR 0x5B, CHR 0x22}"
    by (auto simp: show_int_def is_digit_def json_space_def)
  with json_atom_show [OF assms, of i r] show ?thesis by (auto simp: skip_ws_id)
qed

lemma json_members_string:
  assumes "ascii k" "ascii v" and "json_members (Suc n) r = Some (kvs, t)"
  shows "json_members (Suc (Suc n)) (json_text k @ CHR '':'' # json_text v @ CHR '','' # r) = Some ((k, JStr v) # kvs, t)"
proof -
  obtain r' where "r = CHR 0x22 # r'" using assms(3) by (cases r) (auto split: if_splits)
  with assms show ?thesis
    using json_value_text [OF assms(2), of n "CHR '','' # r"]
    by (simp add: json_text_def [of k] json_chars_escape skip_ws_id)
qed

lemma json_members_last:
  assumes "ascii k" and "json_value n t = Some (v, CHR 0x7D # r)"
  shows "json_members (Suc n) (json_text k @ CHR '':'' # t) = Some ([(k, v)], r)"
  using assms by (simp add: json_text_def json_chars_escape skip_ws_id)

lemma field_names [simp]:
  "EqualFold ''sub'' ''email'' = False" "EqualFold ''sub'' ''exp'' = False" "EqualFold ''email'' ''sub'' = False"
  "EqualFold ''email'' ''exp'' = False" "EqualFold ''exp'' ''sub'' = False" "EqualFold ''exp'' ''email'' = False"
  by code_simp+

lemma json_text_quote: "\<exists>r. json_text s = CHR 0x22 # r"
  by (simp add: json_text_def)

lemma claims_round_trip:
  assumes "ascii (cl_UserID c)" "ascii (cl_Email c)" "int64 (cl_Exp c)"
  shows "claims_of_json (claims_json c) = Some c"
proof -
  have names: "ascii ''sub''" "ascii ''email''" "ascii ''exp''" by code_simp+
  let ?e = "json_text ''exp'' @ '':'' @ show_int (cl_Exp c) @ ''}''"
  let ?m = "json_text ''email'' @ '':'' @ json_text (cl_Email c) @ '','' @ ?e"
  let ?s = "json_text ''sub'' @ '':'' @ json_text (cl_UserID c) @ '','' @ ?m"
  let ?kvs = "[(''sub'', JStr (cl_UserID c)), (''email'', JStr (cl_Email c)), (''exp'', JNum (show_int (cl_Exp c)))]"
  have e: "json_members (Suc (Suc n)) ?e = Some ([(''exp'', JNum (show_int (cl_Exp c)))], [])" for n
    using json_members_last [OF names(3) json_value_int [of "CHR 0x7D"], of n "cl_Exp c" "[]"] by simp
  have m: "json_members (Suc (Suc (Suc n))) ?m = Some (tl ?kvs, [])" for n
    using json_members_string [OF names(2) assms(2) e] by simp
  have s: "json_members (Suc (Suc (Suc (Suc n)))) ?s = Some (?kvs, [])" for n
    using json_members_string [OF names(1) assms(1) m] by simp
  have len: "\<exists>n. length (claims_json c) = Suc (Suc (Suc (Suc (Suc n))))"
    by (simp add: claims_json_def json_text_def)
  then obtain n where n: "Suc (length (claims_json c)) = Suc (Suc (Suc (Suc (Suc (Suc n)))))" by auto
  obtain r where r: "?s = CHR 0x22 # r" by (auto simp: json_text_def)
  have "json_value (Suc (length (claims_json c))) (claims_json c) = map_option (apfst JObj) (json_members (Suc (Suc (Suc (Suc (Suc n))))) ?s)"
    unfolding n using r by (simp add: claims_json_def skip_ws_id)
  then have "json_whole (claims_json c) = Some (JObj ?kvs)"
    using s [of "Suc n"] by (simp add: json_whole_def skip_ws_def)
  then show ?thesis
    using assms(3) by (simp add: claims_of_json_def members_of_def as_string_def as_int_def parse_int_show)
qed

lemma Split_append: "sep \<notin> set a \<Longrightarrow> Split (a @ sep # b) sep = a # Split b sep"
  by (induction a) auto

lemma Split_none: "sep \<notin> set a \<Longrightarrow> Split a sep = [a]"
  by (induction a) auto

lemma Split_GenerateToken:
  "Split (GenerateToken now uid email secret ttl) (CHR ''.'') =
     (let h = RawURLEncode token_header;
          p = RawURLEncode (claims_json \<lparr>cl_UserID = uid, cl_Email = email, cl_Exp = unix_seconds (now + ttl)\<rparr>)
      in [h, p, sign (h @ ''.'' @ p) secret])"
  by (simp add: GenerateToken_def Let_def sign_def Split_append Split_none RawURLEncode_no_dot)

section \<open>Properties\<close>

text \<open>C30 What is encrypted is decrypted: with any key and any 12-byte nonce, decrypting the ciphertext of a text
  gives the text, and the ciphertext is a non-blank text without surrounding white space, as the stores and the
  checks for a configured token need it.\<close>

theorem encryption_round_trip:
  assumes "length nonce = 12"
  shows "\<exists>c. EncryptSecret key (Some nonce) x = Inr c \<and> DecryptSecret key c = Inr x \<and> TrimSpace c = c \<and> c \<noteq> ''''"
proof -
  obtain c where c: "EncryptSecret key (Some nonce) x = Inr c" by (simp add: EncryptSecret_def)
  have "nonce_fits (Some nonce)" using assms by (simp add: nonce_fits_def)
  from aes.decrypt_encrypt [OF this c] aes.not_blank [OF c] c show ?thesis by blast
qed

theorem encryption_round_trip_witness:
  "\<exists>c. EncryptSecret (replicate 32 1) (Some (replicate 12 7)) ''kubeconfig'' = Inr c
     \<and> DecryptSecret (replicate 32 1) c = Inr ''kubeconfig''"
  using encryption_round_trip [of "replicate 12 7" "replicate 32 1" "''kubeconfig''"] by auto



text \<open>C37 Only the holder of the secret makes tokens: an accepted token has three parts, its last part is the HMAC
  of the first two under the secret, its claims are those of its second part, and it has not expired.\<close>

theorem accepted_token_is_signed:
  assumes "ValidateClaims now token secret = Inr c"
  shows "\<exists>h p raw. token = h @ ''.'' @ p @ ''.'' @ sign (h @ ''.'' @ p) secret
    \<and> RawURLDecode p = Some raw \<and> claims_of_json raw = Some c \<and> unix_seconds now \<le> cl_Exp c"
proof -
  obtain h p sg where s: "Split token (CHR ''.'') = [h, p, sg]" "sg = sign (h @ ''.'' @ p) secret"
    and rest: "\<exists>raw. RawURLDecode p = Some raw \<and> claims_of_json raw = Some c \<and> unix_seconds now \<le> cl_Exp c"
    using assms by (auto simp: ValidateClaims_def split: list.splits if_splits option.splits)
  have "token = h @ ''.'' @ p @ ''.'' @ sg"
    using Join_Split [of token "CHR ''.''"] by (simp add: s(1) Join_def)
  with s(2) rest show ?thesis by blast
qed

theorem accepted_token_is_signed_witness:
  "\<exists>h p. GenerateToken 0 ''id-1'' ''ann@example.com'' ''secret'' 10 = h @ ''.'' @ p @ ''.'' @ sign (h @ ''.'' @ p) ''secret''"
proof -
  have "ascii ''id-1''" "ascii ''ann@example.com''" by code_simp+
  then have "ValidateClaims 0 (GenerateToken 0 ''id-1'' ''ann@example.com'' ''secret'' 10) ''secret''
      = Inr \<lparr>cl_UserID = ''id-1'', cl_Email = ''ann@example.com'', cl_Exp = 0\<rparr>"
    by (simp add: ValidateClaims_def Split_GenerateToken Let_def claims_round_trip unix_seconds_def int64_def)
  from accepted_token_is_signed [OF this] show ?thesis by blast
qed

end
