(* ===== verification/Requests.thy ===== *)
theory Requests
  imports Domain Secrets
begin

text \<open>
  The requests and responses of \<open>internal/http\<close>: what a handler reads of a request (the method, the decoded
  segments of the path, the query, headers, the session cookie and the body), the decoding of the request
  bodies, and the authentication of \<open>middleware/auth.go\<close>. Parsing the HTTP message itself is the work of
  \<open>net/http\<close>; a body that cannot be read is \<open>None\<close>.
\<close>

section \<open>Requests\<close>

record Request =
  rq_Method :: string
  rq_Path :: "string list"
  rq_Query :: "string \<Rightarrow> string"
  rq_Header :: "string \<Rightarrow> string"
  rq_Cookie :: "string option"
  rq_Body :: "string option"

section \<open>Responses\<close>

text \<open>The value a handler encodes into the body.\<close>

datatype Payload =
    PlNone | PlError string | PlStatus string | PlToken string | PlSettings TelegramSettings
  | PlSummary BillingSummary | PlConfirmation string | PlConfigured bool
  | PlProjects "Project list" | PlProject Project | PlCost CostBreakdown | PlLogs ProjectLogsResponse
  | PlRuntime ProjectRuntimeStatus | PlStage Stage | PlStages "Stage list" | PlURLs "StageURLs list"
  | PlQuestions GitHubBootstrapQuestionsResponse | PlFlow BootstrapGitHubFlowResponse
  | PlReleases "Release list" | PlRelease Release | PlYaml string | PlTransactions "BillingTransaction list"

record Response =
  rp_Status :: nat
  rp_Body :: Payload
  rp_SetCookie :: "string option"

definition respond :: "nat \<Rightarrow> Payload \<Rightarrow> Response" where
  "respond status body = \<lparr>rp_Status = status, rp_Body = body, rp_SetCookie = None\<rparr>"

text \<open>The \<open>switch\<close> over \<open>errors.Is\<close> that ends every handler: the first matching sentinel gives the status.\<close>

fun error_status :: "(go_error \<times> nat) list \<Rightarrow> nat \<Rightarrow> go_error \<Rightarrow> nat" where
  "error_status [] dflt e = dflt"
| "error_status ((target, status) # cases) dflt e = (if errors_Is e target then status else error_status cases dflt e)"

definition fail_with :: "(go_error \<times> nat) list \<Rightarrow> nat \<Rightarrow> go_error \<Rightarrow> Response" where
  "fail_with cases dflt e = respond (error_status cases dflt e) (PlError (Error e))"

section \<open>Decoding of bodies\<close>

definition decode_register :: "json \<Rightarrow> RegisterRequest option" where
  "decode_register v =
     Option.bind (members_of v) (\<lambda>kvs.
     Option.bind (field as_string ''email'' kvs '''') (\<lambda>email.
     Option.bind (field as_string ''password'' kvs '''') (\<lambda>password.
     Option.bind (field as_string ''telegramUsername'' kvs '''') (\<lambda>telegram.
     Some \<lparr>rr_Email = email, rr_Password = password, rr_TelegramUsername = telegram\<rparr>))))"

definition decode_login :: "json \<Rightarrow> LoginRequest option" where
  "decode_login v =
     Option.bind (members_of v) (\<lambda>kvs.
     Option.bind (field as_string ''email'' kvs '''') (\<lambda>email.
     Option.bind (field as_string ''password'' kvs '''') (\<lambda>password.
     Some \<lparr>lo_Email = email, lo_Password = password\<rparr>)))"

definition decode_telegram_settings :: "json \<Rightarrow> UpdateTelegramSettingsRequest option" where
  "decode_telegram_settings v =
     Option.bind (members_of v) (\<lambda>kvs.
     Option.bind (field as_string ''username'' kvs '''') (\<lambda>username.
     Option.bind (field as_bool ''notificationsEnabled'' kvs False) (\<lambda>enabled.
     Some \<lparr>ut_Username = username, ut_NotificationsEnabled = enabled\<rparr>)))"

text \<open>The amount of a top-up, of \<open>TopUpBalanceRequest\<close> and of the anonymous struct of \<open>InitiateTopUp\<close>.\<close>

definition decode_amount :: "json \<Rightarrow> f64 option" where
  "decode_amount v = Option.bind (members_of v) (\<lambda>kvs. field as_float ''amountRub'' kvs (Fin 0))"

definition decode_token :: "json \<Rightarrow> string option" where
  "decode_token v = Option.bind (members_of v) (\<lambda>kvs. field as_string ''token'' kvs '''')"

definition decode_create_project :: "json \<Rightarrow> CreateProjectRequest option" where
  "decode_create_project v =
     Option.bind (members_of v) (\<lambda>kvs.
     Option.bind (field as_string ''name'' kvs '''') (\<lambda>name.
     Option.bind (field as_string ''ownerId'' kvs '''') (\<lambda>ownr.
     Some \<lparr>cpr_Name = name, cpr_OwnerID = ownr\<rparr>)))"

definition decode_create_stage :: "json \<Rightarrow> CreateStageRequest option" where
  "decode_create_stage v =
     Option.bind (members_of v) (\<lambda>kvs. map_option (\<lambda>n. \<lparr>csr_Name = n\<rparr>) (field as_string ''name'' kvs ''''))"

definition decode_settings :: "json \<Rightarrow> UpdateDeploymentSettingsRequest option" where
  "decode_settings v =
     Option.bind (members_of v) (\<lambda>kvs.
     Option.bind (field as_string ''repositoryOwner'' kvs '''') (\<lambda>ro.
     Option.bind (field as_string ''repositoryName'' kvs '''') (\<lambda>rn.
     Option.bind (field as_string ''baseBranch'' kvs '''') (\<lambda>bb.
     Option.bind (field as_string ''serviceName'' kvs '''') (\<lambda>sn.
     Option.bind (field as_string ''dockerfilePath'' kvs '''') (\<lambda>dp.
     Option.bind (field as_int ''servicePort'' kvs 0) (\<lambda>sp.
     Option.bind (field as_int ''containerPort'' kvs 0) (\<lambda>cp.
     Option.bind (field as_string ''serviceType'' kvs '''') (\<lambda>st.
     Option.bind (field as_int ''replicaCount'' kvs 0) (\<lambda>rc.
     Option.bind (field as_string ''resourceProfile'' kvs '''') (\<lambda>rp.
     Option.bind (field as_bool ''dedicatedLoadBalancer'' kvs False) (\<lambda>lb.
     Some \<lparr>ud_RepositoryOwner = ro, ud_RepositoryName = rn, ud_BaseBranch = bb, ud_ServiceName = sn,
           ud_DockerfilePath = dp, ud_ServicePort = sp, ud_ContainerPort = cp, ud_ServiceType = st,
           ud_ReplicaCount = rc, ud_ResourceProfile = rp, ud_DedicatedLoadBalancer = lb\<rparr>))))))))))))"

definition decode_questions :: "json \<Rightarrow> GitHubBootstrapQuestionsRequest option" where
  "decode_questions v =
     Option.bind (members_of v) (\<lambda>kvs.
     Option.bind (field as_string ''repositoryOwner'' kvs '''') (\<lambda>ro.
     Option.bind (field as_string ''repositoryName'' kvs '''') (\<lambda>rn.
     Option.bind (field as_string ''baseBranch'' kvs '''') (\<lambda>bb.
     Option.bind (field as_string ''dockerfilePath'' kvs '''') (\<lambda>dp.
     Option.bind (field as_string ''serviceName'' kvs '''') (\<lambda>sn.
     Option.bind (field as_string ''githubToken'' kvs '''') (\<lambda>gt.
     Some \<lparr>qr_RepositoryOwner = ro, qr_RepositoryName = rn, qr_BaseBranch = bb, qr_DockerfilePath = dp,
           qr_ServiceName = sn, qr_GitHubToken = gt\<rparr>)))))))"

text \<open>\<open>AppsBaseDomain\<close> is not read from the request.\<close>

definition decode_bootstrap :: "json \<Rightarrow> BootstrapGitHubFlowRequest option" where
  "decode_bootstrap v =
     Option.bind (members_of v) (\<lambda>kvs.
     Option.bind (field as_string ''repositoryOwner'' kvs '''') (\<lambda>ro.
     Option.bind (field as_string ''repositoryName'' kvs '''') (\<lambda>rn.
     Option.bind (field as_string ''baseBranch'' kvs '''') (\<lambda>bb.
     Option.bind (field as_string ''stageSlug'' kvs '''') (\<lambda>sl.
     Option.bind (field as_string ''serviceName'' kvs '''') (\<lambda>sn.
     Option.bind (field as_string ''dockerfilePath'' kvs '''') (\<lambda>dp.
     Option.bind (field as_int ''servicePort'' kvs 0) (\<lambda>sp.
     Option.bind (field as_int ''containerPort'' kvs 0) (\<lambda>cp.
     Option.bind (field as_string ''serviceType'' kvs '''') (\<lambda>st.
     Option.bind (field as_int ''replicaCount'' kvs 0) (\<lambda>rc.
     Option.bind (field as_string ''resourceProfile'' kvs '''') (\<lambda>rp.
     Option.bind (field as_bool ''dedicatedLoadBalancer'' kvs False) (\<lambda>lb.
     Option.bind (field as_string ''githubToken'' kvs '''') (\<lambda>gt.
     Some \<lparr>bf_RepositoryOwner = ro, bf_RepositoryName = rn, bf_BaseBranch = bb, bf_StageSlug = sl,
           bf_ServiceName = sn, bf_DockerfilePath = dp, bf_ServicePort = sp, bf_ContainerPort = cp,
           bf_ServiceType = st, bf_ReplicaCount = rc, bf_ResourceProfile = rp,
           bf_DedicatedLoadBalancer = lb, bf_GitHubToken = gt, bf_AppsBaseDomain = ''''\<rparr>))))))))))))))"

text \<open>Nested structs: the members are assigned into the struct decoded so far.\<close>

definition decode_run :: "json \<Rightarrow> GitHubWorkflowRunPayload \<Rightarrow> GitHubWorkflowRunPayload option" where
  "decode_run v x =
     (case v of JObj kvs \<Rightarrow>
        Option.bind (field as_int ''id'' kvs (wh_RunID x)) (\<lambda>i.
        Option.bind (field as_string ''status'' kvs (wh_Status x)) (\<lambda>st.
        Option.bind (field as_string ''conclusion'' kvs (wh_Conclusion x)) (\<lambda>c.
        Option.bind (field as_string ''head_sha'' kvs (wh_HeadSHA x)) (\<lambda>sha.
        Option.bind (field as_string ''path'' kvs (wh_Path x)) (\<lambda>p.
        Option.bind (field as_string ''stage_slug'' kvs (wh_StageSlug x)) (\<lambda>sl.
        Option.bind (field as_string ''image_tag'' kvs (wh_ImageTag x)) (\<lambda>tag.
        Option.bind (field (\<lambda>u m. case u of JObj l \<Rightarrow> field as_string ''message'' l m | _ \<Rightarrow> None)
                       ''head_commit'' kvs (wh_HeadCommitMessage x)) (\<lambda>msg.
        Some (x\<lparr>wh_RunID := i, wh_Status := st, wh_Conclusion := c, wh_HeadSHA := sha, wh_Path := p,
                wh_StageSlug := sl, wh_ImageTag := tag, wh_HeadCommitMessage := msg\<rparr>)))))))))
      | _ \<Rightarrow> None)"

definition decode_repository :: "json \<Rightarrow> GitHubWorkflowRunPayload \<Rightarrow> GitHubWorkflowRunPayload option" where
  "decode_repository v x =
     (case v of JObj kvs \<Rightarrow>
        Option.bind (field as_string ''name'' kvs (wh_RepositoryName x)) (\<lambda>n.
        Option.bind (field (\<lambda>u l. case u of JObj k \<Rightarrow> field as_string ''login'' k l | _ \<Rightarrow> None)
                       ''owner'' kvs (wh_RepositoryOwnerLogin x)) (\<lambda>login.
        Some (x\<lparr>wh_RepositoryName := n, wh_RepositoryOwnerLogin := login\<rparr>)))
      | _ \<Rightarrow> None)"

definition empty_run :: GitHubWorkflowRunPayload where
  "empty_run = \<lparr>wh_RunID = 0, wh_Status = '''', wh_Conclusion = '''', wh_HeadSHA = '''', wh_Path = '''',
     wh_StageSlug = '''', wh_ImageTag = '''', wh_HeadCommitMessage = '''', wh_RepositoryName = '''',
     wh_RepositoryOwnerLogin = ''''\<rparr>"

definition decode_workflow :: "json \<Rightarrow> GitHubWorkflowRunPayload option" where
  "decode_workflow v =
     Option.bind (members_of v) (\<lambda>kvs.
     Option.bind (field as_string ''action'' kvs '''') (\<lambda>_.
     Option.bind (field decode_run ''workflow_run'' kvs empty_run) (\<lambda>x.
     field decode_repository ''repository'' kvs x)))"

text \<open>The event, the identifier and the status of a payment notification.\<close>

definition decode_payment :: "json \<Rightarrow> (string \<times> string) option" where
  "decode_payment v =
     Option.bind (members_of v) (\<lambda>kvs.
     Option.bind (field as_string ''event'' kvs '''') (\<lambda>event.
     Option.bind (field (\<lambda>u (i, st). case u of JObj l \<Rightarrow>
           Option.bind (field as_string ''id'' l i) (\<lambda>i.
           Option.bind (field as_string ''status'' l st) (\<lambda>st. Some (i, st))) | _ \<Rightarrow> None)
         ''object'' kvs ('''', '''')) (\<lambda>(i, st).
     Some (event, i))))"

text \<open>
  A Telegram update: the chat, the sender's name and the text of its message, \<open>None\<close> without one.
  \<open>Message\<close> is a pointer: a null sets it to nil, an object is decoded into the struct it points to.
\<close>

definition decode_message :: "(string \<times> json) list \<Rightarrow> int \<times> string \<times> string \<Rightarrow> (int \<times> string \<times> string) option" where
  "decode_message kvs m =
     (case m of (chat, sender, text) \<Rightarrow>
        Option.bind (field as_string ''text'' kvs text) (\<lambda>text.
        Option.bind (field (\<lambda>u c. case u of JObj l \<Rightarrow> field as_int ''id'' l c | _ \<Rightarrow> None) ''chat'' kvs chat) (\<lambda>chat.
        Option.bind (field (\<lambda>u n. case u of JObj l \<Rightarrow> field as_string ''username'' l n | _ \<Rightarrow> None) ''from'' kvs sender) (\<lambda>sender.
        Some (chat, sender, text)))))"

fun decode_update_members ::
  "(string \<times> json) list \<Rightarrow> (int \<times> string \<times> string) option \<Rightarrow> (int \<times> string \<times> string) option option" where
  "decode_update_members [] m = Some m"
| "decode_update_members ((k, v) # kvs) m =
     (if \<not> EqualFold k ''message'' then decode_update_members kvs m
      else case v of
        JNull \<Rightarrow> decode_update_members kvs None
      | JObj l \<Rightarrow>
         (case decode_message l (case m of Some x \<Rightarrow> x | None \<Rightarrow> (0, '''', '''')) of
            None \<Rightarrow> None | Some x \<Rightarrow> decode_update_members kvs (Some x))
      | _ \<Rightarrow> None)"

definition decode_update :: "json \<Rightarrow> (int \<times> string \<times> string) option option" where
  "decode_update v = Option.bind (members_of v) (\<lambda>kvs. decode_update_members kvs None)"

section \<open>\<open>strconv.Atoi\<close>\<close>

definition Atoi :: "string \<Rightarrow> int option" where
  "Atoi s = (case s of c # r \<Rightarrow> if c = CHR ''+'' then (if r \<noteq> [] \<and> hd r = CHR ''-'' then None else parse_int r) else parse_int s
             | [] \<Rightarrow> None)"

section \<open>Authentication\<close>

text \<open>A bearer token of the header, else the cookie; the empty token is none.\<close>

definition bearer_token :: "Request \<Rightarrow> string" where
  "bearer_token rq =
     (let header = rq_Header rq ''Authorization''
      in if HasPrefix header ''Bearer '' then TrimPrefix header ''Bearer ''
         else case rq_Cookie rq of Some c \<Rightarrow> c | None \<Rightarrow> '''')"

definition RequireAuth :: "string \<Rightarrow> int \<Rightarrow> Request \<Rightarrow> Response + string" where
  "RequireAuth secret now rq =
     (let token = bearer_token rq
      in if token = '''' then Inl (respond 401 (PlError ''missing or invalid authorization header''))
         else case ValidateClaims now token secret of
           Inl e \<Rightarrow> Inl (respond 401 (PlError ''invalid or expired token''))
         | Inr claims \<Rightarrow> Inr (cl_UserID claims))"

definition verifyGitHubSignature :: "string \<Rightarrow> string \<Rightarrow> string \<Rightarrow> bool" where
  "verifyGitHubSignature body sig secret \<longleftrightarrow> HasPrefix sig ''sha256=''
     \<and> sig = ''sha256='' @ hex_of (hmac_sha256 (bytes_of secret) (bytes_of body))"

end
