(* ===== verification/MemoryStores.thy ===== *)
theory MemoryStores
  imports Domain
begin

text \<open>
  The in-memory stores of \<open>internal/store/memory\<close>. Every method holds the store's mutex from
  its first to its last line, so a method is one atomic function from the store's state to its
  result and new state. The section on contracts states the ports of \<open>internal/service/deps.go\<close>
  as locales, and interprets each on these stores.
\<close>

section \<open>Contracts of the store ports\<close>

text \<open>A store that keeps the last value written under each key.\<close>

locale keyed_store =
  fixes get :: "'s \<Rightarrow> string \<Rightarrow> 'a option"
    and put :: "'s \<Rightarrow> 'a \<Rightarrow> 's"
    and key :: "'a \<Rightarrow> string"
  assumes get_put: "get (put s x) k = (if k = key x then Some x else get s k)"
begin

lemma read_own_write: "get (put s x) (key x) = Some x"
  by (simp add: get_put)

lemma write_frame: "k \<noteq> key x \<Longrightarrow> get (put s x) k = get s k"
  by (simp add: get_put)

lemma last_write_wins: "key x = key y \<Longrightarrow> get (put (put s x) y) = get (put s y)"
  by (simp add: get_put fun_eq_iff)

lemma writes_commute: "key x \<noteq> key y \<Longrightarrow> get (put (put s x) y) = get (put (put s y) x)"
  by (auto simp: get_put fun_eq_iff)

lemma writes_keep:
  assumes "\<forall>k v. get s k = Some v \<longrightarrow> P k v" and "P (key x) x"
  shows "\<forall>k v. get (put s x) k = Some v \<longrightarrow> P k v"
  using assms by (auto simp: get_put)

end

text \<open>A store whose writes fail: creating a key that exists, updating one that does not. It keeps a value in a form of its
  own, and an update merges the new value with the stored one.\<close>

locale guarded_store =
  fixes get :: "'s \<Rightarrow> string \<Rightarrow> 'a option"
    and create :: "'s \<Rightarrow> 'a \<Rightarrow> go_error + 's"
    and update :: "'s \<Rightarrow> 'a \<Rightarrow> go_error + 's"
    and key :: "'a \<Rightarrow> string"
    and form :: "'a \<Rightarrow> 'a"
    and merge :: "'a \<Rightarrow> 'a \<Rightarrow> 'a"
  assumes create_fails: "get s (key x) \<noteq> None \<Longrightarrow> \<exists>e. create s x = Inl e"
    and create_ok: "get s (key x) = None \<Longrightarrow>
      \<exists>s'. create s x = Inr s' \<and> (\<forall>k. get s' k = (if k = key x then Some (form x) else get s k))"
    and update_fails: "get s (key x) = None \<Longrightarrow> \<exists>e. update s x = Inl e"
    and update_ok: "get s (key x) = Some old \<Longrightarrow>
      \<exists>s'. update s x = Inr s' \<and> (\<forall>k. get s' k = (if k = key x then Some (merge old x) else get s k))"
begin

lemma create_get: "create s x = Inr s' \<Longrightarrow> get s' (key x) = Some (form x)"
  using create_fails [of s x] create_ok [of s x] by fastforce

lemma create_frame: "create s x = Inr s' \<Longrightarrow> k \<noteq> key x \<Longrightarrow> get s' k = get s k"
  using create_fails [of s x] create_ok [of s x] by fastforce

lemma update_dom: "update s x = Inr s' \<Longrightarrow> get s' k = None \<longleftrightarrow> get s k = None"
proof -
  assume u: "update s x = Inr s'"
  then obtain old where o: "get s (key x) = Some old"
    using update_fails [of s x] by (cases "get s (key x)") auto
  from update_ok [OF this] u have "get s' k = (if k = key x then Some (merge old x) else get s k)"
    by auto
  with o show ?thesis by simp
qed

lemma update_frame: "update s x = Inr s' \<Longrightarrow> k \<noteq> key x \<Longrightarrow> get s' k = get s k"
  using update_fails [of s x] update_ok [of s x] by (cases "get s (key x)") fastforce+

lemma no_create_over: "create s x = Inr s' \<Longrightarrow> \<exists>e. create s' x = Inl e"
  using create_fails [of s' x] create_get [of s x s'] by simp

end

text \<open>An append-only journal that is read back by a key, in the order of recording.\<close>

locale journal =
  fixes append_entry :: "'s \<Rightarrow> 'a \<Rightarrow> 's"
    and list_by :: "'s \<Rightarrow> string \<Rightarrow> 'a list"
    and key :: "'a \<Rightarrow> string"
  assumes list_append: "list_by (append_entry s x) k = list_by s k @ (if key x = k then [x] else [])"
begin

lemma list_after_all:
  "list_by (foldl append_entry s xs) k = list_by s k @ filter (\<lambda>x. key x = k) xs"
  by (induction xs arbitrary: s) (auto simp: list_append)

lemma history_kept: "prefix (list_by s k) (list_by (foldl append_entry s xs) k)"
  by (simp add: list_after_all)

end

section \<open>ProjectStore\<close>

type_synonym ProjectStore = "Project gomap"

definition ProjectStore_Create :: "ProjectStore \<Rightarrow> Project \<Rightarrow> go_error + ProjectStore" where
  "ProjectStore_Create st p =
     (case map_of st (p_ID p) of
        Some _ \<Rightarrow> Inl (ErrText ''project already exists'')
      | None \<Rightarrow> Inr (AList.update (p_ID p) p st))"

definition ProjectStore_GetByID :: "ProjectStore \<Rightarrow> string \<Rightarrow> Project option" where
  "ProjectStore_GetByID st pid = map_of st pid"

definition ProjectStore_List :: "(string \<Rightarrow> nat) \<Rightarrow> ProjectStore \<Rightarrow> Project list" where
  "ProjectStore_List ord st = range_map ord st"

text \<open>What \<open>Update\<close> writes: a blank field of the new value keeps the stored one.\<close>

definition keep_text :: "string \<Rightarrow> string \<Rightarrow> string" where
  "keep_text old new = (if new = '''' then old else new)"

definition keep_int :: "int \<Rightarrow> int \<Rightarrow> int" where
  "keep_int old new = (if new = 0 then old else new)"

definition merge_project :: "Project \<Rightarrow> Project \<Rightarrow> Project" where
  "merge_project existing p = p\<lparr>
     p_KubeconfigEncrypted := keep_text (p_KubeconfigEncrypted existing) (p_KubeconfigEncrypted p),
     p_RepositoryOwner := keep_text (p_RepositoryOwner existing) (p_RepositoryOwner p),
     p_RepositoryName := keep_text (p_RepositoryName existing) (p_RepositoryName p),
     p_BaseBranch := keep_text (p_BaseBranch existing) (p_BaseBranch p),
     p_ServiceName := keep_text (p_ServiceName existing) (p_ServiceName p),
     p_DockerfilePath := keep_text (p_DockerfilePath existing) (p_DockerfilePath p),
     p_ServiceType := keep_text (p_ServiceType existing) (p_ServiceType p),
     p_GrafanaURL := keep_text (p_GrafanaURL existing) (p_GrafanaURL p),
     p_ServicePort := keep_int (p_ServicePort existing) (p_ServicePort p),
     p_ContainerPort := keep_int (p_ContainerPort existing) (p_ContainerPort p),
     p_ReplicaCount := keep_int (p_ReplicaCount existing) (p_ReplicaCount p),
     p_ResourceProfile := keep_text (p_ResourceProfile existing) (p_ResourceProfile p),
     p_GitHubTokenEncrypted := keep_text (p_GitHubTokenEncrypted existing) (p_GitHubTokenEncrypted p)\<rparr>"

definition ProjectStore_Update :: "ProjectStore \<Rightarrow> Project \<Rightarrow> go_error + ProjectStore" where
  "ProjectStore_Update st p =
     (case map_of st (p_ID p) of
        None \<Rightarrow> Inl (ErrText ''project not found'')
      | Some existing \<Rightarrow> Inr (AList.update (p_ID p) (merge_project existing p) st))"

definition ProjectStore_UpdateGitHubToken :: "ProjectStore \<Rightarrow> string \<Rightarrow> string \<Rightarrow> go_error + ProjectStore" where
  "ProjectStore_UpdateGitHubToken st pid enc =
     (case map_of st pid of
        None \<Rightarrow> Inl (ErrText ''project not found'')
      | Some p \<Rightarrow> Inr (AList.update pid (p\<lparr>p_GitHubTokenEncrypted := enc\<rparr>) st))"

definition ProjectStore_UpdateKubeconfig :: "ProjectStore \<Rightarrow> string \<Rightarrow> string \<Rightarrow> go_error + ProjectStore" where
  "ProjectStore_UpdateKubeconfig st pid enc =
     (case map_of st pid of
        None \<Rightarrow> Inl (ErrText ''project not found'')
      | Some p \<Rightarrow> Inr (AList.update pid (p\<lparr>p_KubeconfigEncrypted := enc\<rparr>) st))"

interpretation projects: guarded_store ProjectStore_GetByID ProjectStore_Create ProjectStore_Update p_ID
  "\<lambda>p. p" merge_project
  by unfold_locales
    (auto simp: ProjectStore_GetByID_def ProjectStore_Create_def ProjectStore_Update_def)

lemma merge_project_same [simp]:
  "p_ID (merge_project e p) = p_ID p" "p_Name (merge_project e p) = p_Name p"
  "p_OwnerID (merge_project e p) = p_OwnerID p" "p_Status (merge_project e p) = p_Status p"
  "p_PublicURL (merge_project e p) = p_PublicURL p"
  "p_SuspendedAt (merge_project e p) = p_SuspendedAt p"
  "p_DeletionDueAt (merge_project e p) = p_DeletionDueAt p"
  "p_AppsBaseDomain (merge_project e p) = p_AppsBaseDomain p"
  "p_DedicatedLoadBalancer (merge_project e p) = p_DedicatedLoadBalancer p"
  "p_CreatedAt (merge_project e p) = p_CreatedAt p"
  "p_UpdatedAt (merge_project e p) = p_UpdatedAt p"
  by (simp_all add: merge_project_def)

lemma keep_text_same [simp]: "keep_text t t = t"
  by (simp add: keep_text_def)

lemma keep_int_same [simp]: "keep_int i i = i"
  by (simp add: keep_int_def)

lemma keep_text_nonblank: "keep_text old new = '''' \<longleftrightarrow> old = '''' \<and> new = ''''"
  by (auto simp: keep_text_def)

text \<open>The stored projects sit under their own identifiers.\<close>

definition project_store_ok :: "ProjectStore \<Rightarrow> bool" where
  "project_store_ok st \<longleftrightarrow> gomap_ok st \<and> (\<forall>(k, p) \<in> set st. p_ID p = k)"

lemma project_store_ok_get: "project_store_ok st \<Longrightarrow> map_of st k = Some p \<Longrightarrow> p_ID p = k"
  by (auto simp: project_store_ok_def dest: map_of_SomeD)

lemma project_store_ok_write:
  "project_store_ok st \<Longrightarrow> p_ID p = k \<Longrightarrow> project_store_ok (AList.update k p st)"
  by (auto simp: project_store_ok_def dest!: set_update_subset [THEN subsetD])

lemma project_store_ok_ops:
  assumes "project_store_ok st"
  shows "ProjectStore_Create st p = Inr st' \<Longrightarrow> project_store_ok st'"
    and "ProjectStore_Update st p = Inr st' \<Longrightarrow> project_store_ok st'"
    and "ProjectStore_UpdateGitHubToken st k t = Inr st' \<Longrightarrow> project_store_ok st'"
    and "ProjectStore_UpdateKubeconfig st k t = Inr st' \<Longrightarrow> project_store_ok st'"
  using assms
  by (auto simp: ProjectStore_Create_def ProjectStore_Update_def ProjectStore_UpdateGitHubToken_def
      ProjectStore_UpdateKubeconfig_def project_store_ok_get intro!: project_store_ok_write
      split: option.splits)

section \<open>StageStore\<close>

type_synonym StageStore = "Stage gomap"

definition StageStore_Create :: "StageStore \<Rightarrow> Stage \<Rightarrow> StageStore" where
  "StageStore_Create st s = AList.update (s_ID s) s st"

definition StageStore_GetByID :: "StageStore \<Rightarrow> string \<Rightarrow> Stage option" where
  "StageStore_GetByID st sid = map_of st sid"

definition StageStore_GetBySlug :: "(string \<Rightarrow> nat) \<Rightarrow> StageStore \<Rightarrow> string \<Rightarrow> string \<Rightarrow> Stage option" where
  "StageStore_GetBySlug ord st pid slug =
     find (\<lambda>s. s_ProjectID s = pid \<and> s_Slug s = slug) (range_map ord st)"

definition StageStore_ListByProject :: "(string \<Rightarrow> nat) \<Rightarrow> StageStore \<Rightarrow> string \<Rightarrow> Stage list" where
  "StageStore_ListByProject ord st pid =
     sort_key (\<lambda>s. (s_CreatedAt s, s_ID s)) (filter (\<lambda>s. s_ProjectID s = pid) (range_map ord st))"

definition StageStore_Update :: "StageStore \<Rightarrow> Stage \<Rightarrow> StageStore" where
  "StageStore_Update st s = AList.update (s_ID s) s st"

interpretation stages: keyed_store StageStore_GetByID StageStore_Update s_ID
  by unfold_locales (simp add: StageStore_GetByID_def StageStore_Update_def)

definition stage_store_ok :: "StageStore \<Rightarrow> bool" where
  "stage_store_ok st \<longleftrightarrow> gomap_ok st \<and> (\<forall>(k, s) \<in> set st. s_ID s = k)"

lemma stage_store_ok_get: "stage_store_ok st \<Longrightarrow> map_of st k = Some s \<Longrightarrow> s_ID s = k"
  by (auto simp: stage_store_ok_def dest: map_of_SomeD)

lemma stage_store_ok_write:
  "stage_store_ok st \<Longrightarrow> stage_store_ok (StageStore_Create st s)"
  "stage_store_ok st \<Longrightarrow> stage_store_ok (StageStore_Update st s)"
  by (auto simp: stage_store_ok_def StageStore_Create_def StageStore_Update_def
      dest!: set_update_subset [THEN subsetD])

lemma GetBySlug_Some:
  "StageStore_GetBySlug ord st pid slug = Some s \<Longrightarrow>
     s_ProjectID s = pid \<and> s_Slug s = slug \<and> s \<in> snd ` set st"
  by (auto simp: StageStore_GetBySlug_def dest!: find_Some_mem)

lemma GetBySlug_None:
  assumes "StageStore_GetBySlug ord st pid slug = None" and "map_of st k = Some s"
  shows "\<not> (s_ProjectID s = pid \<and> s_Slug s = slug)"
  using assms range_map_get [OF assms(2), of ord]
  by (auto simp: StageStore_GetBySlug_def find_None_all)

section \<open>ReleaseStore\<close>

type_synonym ReleaseStore = "Release gomap"

definition ReleaseStore_Create :: "ReleaseStore \<Rightarrow> Release \<Rightarrow> ReleaseStore" where
  "ReleaseStore_Create st r = AList.update (r_ID r) r st"

definition ReleaseStore_GetByID :: "ReleaseStore \<Rightarrow> string \<Rightarrow> Release option" where
  "ReleaseStore_GetByID st rid = map_of st rid"

definition ReleaseStore_ListByProject :: "(string \<Rightarrow> nat) \<Rightarrow> ReleaseStore \<Rightarrow> string \<Rightarrow> Release list" where
  "ReleaseStore_ListByProject ord st pid = filter (\<lambda>r. r_ProjectID r = pid) (range_map ord st)"

definition ReleaseStore_Update :: "ReleaseStore \<Rightarrow> Release \<Rightarrow> ReleaseStore" where
  "ReleaseStore_Update st r = AList.update (r_ID r) r st"

definition ReleaseStore_GetByWorkflowRunID :: "(string \<Rightarrow> nat) \<Rightarrow> ReleaseStore \<Rightarrow> int \<Rightarrow> Release option" where
  "ReleaseStore_GetByWorkflowRunID ord st run = find (\<lambda>r. r_WorkflowRunID r = run) (range_map ord st)"

interpretation releases: keyed_store ReleaseStore_GetByID ReleaseStore_Update r_ID
  by unfold_locales (simp add: ReleaseStore_GetByID_def ReleaseStore_Update_def)

lemma GetByWorkflowRunID_None:
  assumes "ReleaseStore_GetByWorkflowRunID ord st run = None" and "map_of st k = Some r"
  shows "r_WorkflowRunID r \<noteq> run"
  using assms range_map_get [OF assms(2), of ord]
  by (auto simp: ReleaseStore_GetByWorkflowRunID_def find_None_all)

section \<open>BillingTransactionStore, UsageStore, YooKassaPaymentStore\<close>

type_synonym TxStore = "BillingTransaction list"

definition TxStore_Record :: "TxStore \<Rightarrow> BillingTransaction \<Rightarrow> TxStore" where
  "TxStore_Record st tx = st @ [tx]"

definition TxStore_ListByUser :: "TxStore \<Rightarrow> string \<Rightarrow> BillingTransaction list" where
  "TxStore_ListByUser st uid = filter (\<lambda>tx. tx_UserID tx = uid) st"

definition TxStore_ListByProject :: "TxStore \<Rightarrow> string \<Rightarrow> BillingTransaction list" where
  "TxStore_ListByProject st pid = filter (\<lambda>tx. tx_ProjectID tx = pid) st"

interpretation user_journal: journal TxStore_Record TxStore_ListByUser tx_UserID
  by unfold_locales (simp add: TxStore_Record_def TxStore_ListByUser_def)

interpretation project_journal: journal TxStore_Record TxStore_ListByProject tx_ProjectID
  by unfold_locales (simp add: TxStore_Record_def TxStore_ListByProject_def)

type_synonym UsageStore = "ResourceUsage list"

definition UsageStore_Record :: "UsageStore \<Rightarrow> ResourceUsage \<Rightarrow> UsageStore" where
  "UsageStore_Record st u = st @ [u]"

definition empty_aggregate :: UsageAggregate where
  "empty_aggregate = \<lparr>ua_CPUCoreHours = Fin 0, ua_MemoryGBHours = Fin 0, ua_StorageGB = Fin 0,
     ua_EgressGB = Fin 0, ua_DedicatedLoadBalancerHours = Fin 0\<rparr>"

definition in_window :: "string \<Rightarrow> gotime \<Rightarrow> gotime \<Rightarrow> ResourceUsage \<Rightarrow> bool" where
  "in_window pid from_t to_t r \<longleftrightarrow>
     ru_ProjectID r = pid \<and> \<not> ru_PeriodStart r < from_t \<and> \<not> ru_PeriodEnd r > to_t"

definition add_usage :: "string \<Rightarrow> gotime \<Rightarrow> gotime \<Rightarrow> ResourceUsage \<Rightarrow> UsageAggregate \<Rightarrow> UsageAggregate" where
  "add_usage pid from_t to_t r agg =
     (if in_window pid from_t to_t r
      then agg\<lparr>ua_CPUCoreHours := fadd (ua_CPUCoreHours agg) (ru_CPUCoreHours r),
               ua_MemoryGBHours := fadd (ua_MemoryGBHours agg) (ru_MemoryGBHours r),
               ua_StorageGB := (if flt (ua_StorageGB agg) (ru_StorageGB r) then ru_StorageGB r
                                else ua_StorageGB agg),
               ua_EgressGB := fadd (ua_EgressGB agg) (ru_EgressGB r)\<rparr>
      else agg)"

definition UsageStore_AggregateForProject :: "UsageStore \<Rightarrow> string \<Rightarrow> gotime \<Rightarrow> gotime \<Rightarrow> UsageAggregate" where
  "UsageStore_AggregateForProject st pid from_t to_t =
     fold (add_usage pid from_t to_t) st empty_aggregate"

type_synonym PaymentStore = "YooKassaPayment list"

definition PaymentStore_Create :: "PaymentStore \<Rightarrow> YooKassaPayment \<Rightarrow> PaymentStore" where
  "PaymentStore_Create st p = st @ [p]"

definition PaymentStore_GetByYooKassaID :: "PaymentStore \<Rightarrow> string \<Rightarrow> YooKassaPayment option" where
  "PaymentStore_GetByYooKassaID st yid = find (\<lambda>p. yk_YooKassaID p = yid) st"

text \<open>The first payment of that identifier is marked; without one nothing changes.\<close>

fun PaymentStore_MarkSucceeded :: "gotime \<Rightarrow> PaymentStore \<Rightarrow> string \<Rightarrow> PaymentStore" where
  "PaymentStore_MarkSucceeded now [] yid = []"
| "PaymentStore_MarkSucceeded now (p # ps) yid =
     (if yk_YooKassaID p = yid
      then p\<lparr>yk_Status := YKSucceeded, yk_UpdatedAt := now\<rparr> # ps
      else p # PaymentStore_MarkSucceeded now ps yid)"

lemma MarkSucceeded_get:
  "PaymentStore_GetByYooKassaID st yid = Some p \<Longrightarrow>
   PaymentStore_GetByYooKassaID (PaymentStore_MarkSucceeded now st yid) yid =
     Some (p\<lparr>yk_Status := YKSucceeded, yk_UpdatedAt := now\<rparr>)"
  by (induction st) (auto simp: PaymentStore_GetByYooKassaID_def split: if_splits)

lemma MarkSucceeded_other:
  "yid \<noteq> yid' \<Longrightarrow>
   PaymentStore_GetByYooKassaID (PaymentStore_MarkSucceeded now st yid) yid' =
     PaymentStore_GetByYooKassaID st yid'"
  by (induction st) (auto simp: PaymentStore_GetByYooKassaID_def)

end
