(* ===== verification/UserStores.thy ===== *)
theory UserStores
  imports Domain
begin

text \<open>
  The in-memory user store of \<open>internal/store/memory/user_store.go\<close>: users by identifier and
  by email, two maps that every method keeps in step. The contract of the port is the locale
  \<open>user_port\<close>: an update of one user changes this user's fields and nothing else, under both
  indexes.
\<close>

record UserStore =
  us_byID :: "User gomap"
  us_byEmail :: "User gomap"

definition NewUserStore :: UserStore where
  "NewUserStore = \<lparr>us_byID = [], us_byEmail = []\<rparr>"

text \<open>The two assignments that end every write.\<close>

definition us_write :: "UserStore \<Rightarrow> string \<Rightarrow> User \<Rightarrow> UserStore" where
  "us_write st uid u = st\<lparr>us_byID := AList.update uid u (us_byID st),
                         us_byEmail := AList.update (u_Email u) u (us_byEmail st)\<rparr>"

lemma us_write_byID [simp, store_spec]:
  "map_of (us_byID (us_write st uid u)) k = (if k = uid then Some u else map_of (us_byID st) k)"
  by (simp add: us_write_def)

lemma us_write_byEmail [simp, store_spec]:
  "map_of (us_byEmail (us_write st uid u)) e =
     (if e = u_Email u then Some u else map_of (us_byEmail st) e)"
  by (simp add: us_write_def)

definition UserStore_Create :: "UserStore \<Rightarrow> User \<Rightarrow> go_error + UserStore" where
  "UserStore_Create st u =
     (case map_of (us_byEmail st) (u_Email u) of
        Some _ \<Rightarrow> Inl ErrEmailTaken
      | None \<Rightarrow> Inr (us_write st (u_ID u) u))"

definition UserStore_GetByEmail :: "UserStore \<Rightarrow> string \<Rightarrow> User option" where
  "UserStore_GetByEmail st email = map_of (us_byEmail st) email"

definition UserStore_GetByID :: "UserStore \<Rightarrow> string \<Rightarrow> User option" where
  "UserStore_GetByID st uid = map_of (us_byID st) uid"

definition UserStore_GetByTelegramUsername :: "(string \<Rightarrow> nat) \<Rightarrow> UserStore \<Rightarrow> string \<Rightarrow> User option" where
  "UserStore_GetByTelegramUsername ord st username =
     (let normalized = TrimPrefix (TrimSpace username) ''@''
      in find (\<lambda>u. EqualFold (u_TelegramUsername u) normalized) (range_map ord (us_byID st)))"

definition UserStore_GetByTelegramLinkCode :: "(string \<Rightarrow> nat) \<Rightarrow> UserStore \<Rightarrow> string \<Rightarrow> User option" where
  "UserStore_GetByTelegramLinkCode ord st code =
     find (\<lambda>u. u_TelegramLinkCode u = code) (range_map ord (us_byID st))"

definition UserStore_GetByTelegramChatID :: "(string \<Rightarrow> nat) \<Rightarrow> UserStore \<Rightarrow> int \<Rightarrow> User option" where
  "UserStore_GetByTelegramChatID ord st chat =
     find (\<lambda>u. u_TelegramChatID u = chat) (range_map ord (us_byID st))"

definition UserStore_UpdateBalance :: "UserStore \<Rightarrow> string \<Rightarrow> f64 \<Rightarrow> go_error + UserStore" where
  "UserStore_UpdateBalance st uid balance =
     (case map_of (us_byID st) uid of
        None \<Rightarrow> Inl ErrUserNotFound
      | Some u \<Rightarrow> Inr (us_write st uid (u\<lparr>u_BalanceRUB := balance\<rparr>)))"

definition UserStore_UpdateGitHubToken :: "UserStore \<Rightarrow> string \<Rightarrow> string \<Rightarrow> go_error + UserStore" where
  "UserStore_UpdateGitHubToken st uid enc =
     (case map_of (us_byID st) uid of
        None \<Rightarrow> Inl ErrUserNotFound
      | Some u \<Rightarrow> Inr (us_write st uid (u\<lparr>u_GitHubTokenEncrypted := enc\<rparr>)))"

text \<open>A blank user name clears the whole link, as in \<open>ClearTelegramSettings\<close>.\<close>

definition telegram_cleared :: "User \<Rightarrow> User" where
  "telegram_cleared u = u\<lparr>u_TelegramUsername := '''', u_TelegramChatID := 0,
     u_TelegramLinkedAt := None, u_TelegramLinkCode := '''', u_TelegramLinkExpiresAt := None,
     u_TelegramNotificationsEnabled := False\<rparr>"

definition UserStore_UpdateTelegramSettings ::
  "UserStore \<Rightarrow> string \<Rightarrow> string \<Rightarrow> string \<Rightarrow> gotime option \<Rightarrow> bool \<Rightarrow> go_error + UserStore" where
  "UserStore_UpdateTelegramSettings st uid username code expires enabled =
     (case map_of (us_byID st) uid of
        None \<Rightarrow> Inl ErrUserNotFound
      | Some u \<Rightarrow>
         (let u' = u\<lparr>u_TelegramUsername := username, u_TelegramLinkCode := code,
                     u_TelegramLinkExpiresAt := expires, u_TelegramNotificationsEnabled := enabled\<rparr>
          in Inr (us_write st uid (if username = '''' then telegram_cleared u' else u'))))"

definition UserStore_LinkTelegramChat :: "UserStore \<Rightarrow> string \<Rightarrow> int \<Rightarrow> gotime \<Rightarrow> go_error + UserStore" where
  "UserStore_LinkTelegramChat st uid chat linked_at =
     (case map_of (us_byID st) uid of
        None \<Rightarrow> Inl ErrUserNotFound
      | Some u \<Rightarrow> Inr (us_write st uid (u\<lparr>u_TelegramChatID := chat, u_TelegramLinkedAt := Some linked_at,
          u_TelegramLinkCode := '''', u_TelegramLinkExpiresAt := None,
          u_TelegramNotificationsEnabled := True\<rparr>)))"

definition UserStore_DisableTelegramNotifications :: "UserStore \<Rightarrow> string \<Rightarrow> go_error + UserStore" where
  "UserStore_DisableTelegramNotifications st uid =
     (case map_of (us_byID st) uid of
        None \<Rightarrow> Inl ErrUserNotFound
      | Some u \<Rightarrow> Inr (us_write st uid (u\<lparr>u_TelegramNotificationsEnabled := False\<rparr>)))"

definition UserStore_ClearTelegramSettings :: "UserStore \<Rightarrow> string \<Rightarrow> go_error + UserStore" where
  "UserStore_ClearTelegramSettings st uid =
     (case map_of (us_byID st) uid of
        None \<Rightarrow> Inl ErrUserNotFound
      | Some u \<Rightarrow> Inr (us_write st uid (telegram_cleared u)))"

section \<open>The two indexes agree\<close>

definition user_store_ok :: "UserStore \<Rightarrow> bool" where
  "user_store_ok st \<longleftrightarrow> gomap_ok (us_byID st) \<and> gomap_ok (us_byEmail st)
     \<and> (\<forall>k u. map_of (us_byID st) k = Some u \<longrightarrow> u_ID u = k \<and> map_of (us_byEmail st) (u_Email u) = Some u)
     \<and> (\<forall>e u. map_of (us_byEmail st) e = Some u \<longrightarrow> u_Email u = e \<and> map_of (us_byID st) (u_ID u) = Some u)"

lemma user_store_ok_New [simp]: "user_store_ok NewUserStore"
  by (simp add: user_store_ok_def NewUserStore_def)

lemma user_store_ok_get:
  "user_store_ok st \<Longrightarrow> map_of (us_byID st) k = Some u \<Longrightarrow> u_ID u = k"
  by (auto simp: user_store_ok_def)

lemma user_store_ok_rewrite:
  assumes ok: "user_store_ok st" and u: "map_of (us_byID st) uid = Some u"
    and v: "u_ID v = u_ID u" "u_Email v = u_Email u"
  shows "user_store_ok (us_write st uid v)"
proof -
  have uid: "u_ID u = uid" and mail: "map_of (us_byEmail st) (u_Email u) = Some u"
    using ok u by (auto simp: user_store_ok_def)
  have byid: "u_ID w = k \<and> map_of (us_byEmail st) (u_Email w) = Some w"
    if "map_of (us_byID st) k = Some w" for k w
    using ok that by (auto simp: user_store_ok_def)
  have bymail: "u_Email w = e \<and> map_of (us_byID st) (u_ID w) = Some w"
    if "map_of (us_byEmail st) e = Some w" for e w
    using ok that by (auto simp: user_store_ok_def)
  have 1: "u_Email w \<noteq> u_Email u" if "map_of (us_byID st) k = Some w" "k \<noteq> uid" for k w
    using byid [OF that(1)] that(2) mail uid by auto
  have 2: "u_ID w \<noteq> uid" if "map_of (us_byEmail st) e = Some w" "e \<noteq> u_Email u" for e w
    using bymail [OF that(1)] that(2) u by auto
  have "gomap_ok (us_byID st)" and "gomap_ok (us_byEmail st)"
    using ok by (auto simp: user_store_ok_def)
  then show ?thesis
    using v uid byid bymail 1 2 by (simp add: user_store_ok_def us_write_def)
qed

lemma user_store_ok_create:
  assumes ok: "user_store_ok st" and i: "map_of (us_byID st) (u_ID v) = None"
    and e: "map_of (us_byEmail st) (u_Email v) = None"
  shows "user_store_ok (us_write st (u_ID v) v)"
proof -
  have "u_Email w \<noteq> u_Email v" if "map_of (us_byID st) k = Some w" for k w
    using ok that e by (metis option.distinct(1) user_store_ok_def)
  moreover have "u_ID w \<noteq> u_ID v" if "map_of (us_byEmail st) k = Some w" for k w
    using ok that i by (metis option.distinct(1) user_store_ok_def)
  ultimately show ?thesis
    using ok by (simp add: user_store_ok_def us_write_def)
qed

text \<open>The contract of the port: what an update of one user promises.\<close>

locale user_port =
  fixes get :: "'s \<Rightarrow> string \<Rightarrow> User option"
    and ok :: "'s \<Rightarrow> bool"
    and update :: "'s \<Rightarrow> string \<Rightarrow> go_error + 's"
    and change :: "User \<Rightarrow> User"
  assumes unknown: "get s uid = None \<Longrightarrow> update s uid = Inl ErrUserNotFound"
    and known: "get s uid = Some u \<Longrightarrow>
      \<exists>s'. update s uid = Inr s' \<and> (\<forall>k. get s' k = (if k = uid then Some (change u) else get s k))"
    and keeps_ok: "ok s \<Longrightarrow> update s uid = Inr s' \<Longrightarrow> ok s'"
begin

lemma update_get: "update s uid = Inr s' \<Longrightarrow> get s' uid = map_option change (get s uid)"
  using unknown [of s uid] known [of s uid] by (cases "get s uid") fastforce+

lemma update_frame: "update s uid = Inr s' \<Longrightarrow> k \<noteq> uid \<Longrightarrow> get s' k = get s k"
  using unknown [of s uid] known [of s uid] by (cases "get s uid") fastforce+

lemma error_iff: "update s uid = Inl e \<longleftrightarrow> get s uid = None \<and> e = ErrUserNotFound"
  using unknown [of s uid] known [of s uid] by (cases "get s uid") fastforce+

lemma users_kept: "update s uid = Inr s' \<Longrightarrow> get s' k = None \<longleftrightarrow> get s k = None"
  using update_get [of s uid s'] update_frame [of s uid s' k] by (cases "k = uid") auto

end

lemmas user_store_defs =
  UserStore_UpdateBalance_def UserStore_UpdateGitHubToken_def UserStore_UpdateTelegramSettings_def
  UserStore_LinkTelegramChat_def UserStore_DisableTelegramNotifications_def
  UserStore_ClearTelegramSettings_def

interpretation balances: user_port UserStore_GetByID user_store_ok
  "\<lambda>s uid. UserStore_UpdateBalance s uid b" "\<lambda>u. u\<lparr>u_BalanceRUB := b\<rparr>" for b
  by unfold_locales (auto simp: UserStore_GetByID_def user_store_defs 
      intro: user_store_ok_rewrite split: option.splits)

interpretation tokens: user_port UserStore_GetByID user_store_ok
  "\<lambda>s uid. UserStore_UpdateGitHubToken s uid t" "\<lambda>u. u\<lparr>u_GitHubTokenEncrypted := t\<rparr>" for t
  by unfold_locales (auto simp: UserStore_GetByID_def user_store_defs 
      intro: user_store_ok_rewrite split: option.splits)

interpretation chat_links: user_port UserStore_GetByID user_store_ok
  "\<lambda>s uid. UserStore_LinkTelegramChat s uid chat t"
  "\<lambda>u. u\<lparr>u_TelegramChatID := chat, u_TelegramLinkedAt := Some t, u_TelegramLinkCode := '''',
     u_TelegramLinkExpiresAt := None, u_TelegramNotificationsEnabled := True\<rparr>" for chat t
  by unfold_locales (auto simp: UserStore_GetByID_def user_store_defs 
      intro: user_store_ok_rewrite split: option.splits)

interpretation muting: user_port UserStore_GetByID user_store_ok
  UserStore_DisableTelegramNotifications "\<lambda>u. u\<lparr>u_TelegramNotificationsEnabled := False\<rparr>"
  by unfold_locales (auto simp: UserStore_GetByID_def user_store_defs 
      intro: user_store_ok_rewrite split: option.splits)

interpretation clearing: user_port UserStore_GetByID user_store_ok
  UserStore_ClearTelegramSettings telegram_cleared
  by unfold_locales (auto simp: UserStore_GetByID_def user_store_defs 
      telegram_cleared_def intro: user_store_ok_rewrite split: option.splits)

interpretation settings: user_port UserStore_GetByID user_store_ok
  "\<lambda>s uid. UserStore_UpdateTelegramSettings s uid name code expires enabled"
  "\<lambda>u. let u' = u\<lparr>u_TelegramUsername := name, u_TelegramLinkCode := code,
        u_TelegramLinkExpiresAt := expires, u_TelegramNotificationsEnabled := enabled\<rparr>
       in if name = '''' then telegram_cleared u' else u'" for name code expires enabled
  by unfold_locales (auto simp: UserStore_GetByID_def user_store_defs  Let_def
      telegram_cleared_def intro: user_store_ok_rewrite split: option.splits if_splits)

end
