(* ===== verification/Runtime.thy ===== *)
theory Runtime
  imports MemoryStores UserStores
begin

text \<open>
  The world around the services and their state. A \<open>World\<close> holds what the code cannot
  determine: the clock, the random identifiers, the iteration order of Go maps, and the answers
  of the systems behind the ports (cluster, GitHub, payment gateway, Telegram, cipher, password
  hash). Each answer is a function of the position of the call in the run and of the call
  itself, so a theorem over all worlds holds for every behaviour of the outside. Every call is
  recorded in \<open>trace\<close>. A \<open>Sys\<close> is the state: the stores and the mutable fields of the
  services.
\<close>

section \<open>Calls to the outside\<close>

text \<open>
  The Telegram texts, as the format string (the constructor) with its arguments.
\<close>

datatype Message =
    MsgProjectFailed string string | MsgProjectActive string | MsgProjectDeleted string
  | MsgProjectSuspended string | MsgProjectResumed string
  | MsgStageFailed string string | MsgStageCreated string string
  | MsgBillingGrace f64 gotime | MsgBillingSuspended string | MsgBillingDeleted string
  | MsgCpuCritical string f64 f64 | MsgCpuWarning string f64 f64
  | MsgMemoryCritical string f64 f64 | MsgMemoryWarning string f64 f64
  | MsgHelp | MsgCodeUnknown | MsgCodeExpired | MsgAdminMismatch | MsgLinked string
  | MsgChatUnknown | MsgMuted
  | MsgText string

datatype ext_call =
    CreateProjectEnvironment string | DeleteProjectEnvironment string
  | SuspendProjectEnvironment string | ResumeProjectEnvironment string
  | ApplyImage string string | FetchProjectKubeconfig string | FetchProjectRuntimeStatus string
  | CreateStageEnvironment string string | DeleteStageEnvironment string string
  | ApplyImageToStage string string string | FetchStageRuntimeStatus string string
  | SetupProjectAutomation string
  | BuildBootstrapQuestions string GitHubBootstrapQuestionsRequest
  | BootstrapRepositoryFlow string BootstrapGitHubFlowRequest
  | FindLatestDeployWorkflowRun GitHubWorkflowRunLookupRequest
  | SendMessage int Message
  | CreatePayment f64 string string "(string \<times> string) list"
  | ReadProjectLogs string ProjectLogsRequest
  | CollectUsage string
  | Sleep duration
  | Encrypt string | Decrypt string
  | HashPassword string | ComparePassword string string

record ResourceSnapshot =
  sn_CPUCores :: f64
  sn_MemoryGB :: f64
  sn_StorageGB :: f64
  sn_EgressGBDelta :: f64
  sn_ReplicaCount :: int
  sn_PodUptimeHours :: f64

record Tariff =
  CPUCoreHourRUB :: f64
  MemoryGBHourRUB :: f64
  StorageGBMonthRUB :: f64
  EgressGBRUB :: f64
  DedicatedLoadBalancerHourRUB :: f64

text \<open>The engine of the server: with PostgreSQL it computes the costs by a tariff, without it they are constants.\<close>

datatype MonetizationEngine = EngineMock | PostgresEngine Tariff

section \<open>Configuration and world\<close>

text \<open>The fields that the constructors and setters fix when the server starts.\<close>

record Config =
  appsBaseDomain :: string
  appsURLScheme :: string
  appsURLPort :: string
  monetization :: MonetizationEngine
  hasNotifications :: bool
  hasSender :: bool
  hasLogReader :: bool
  hasPaymentGateway :: bool
  hasPaymentStore :: bool
  botUsername :: string
  adminTelegramUsers :: "string list"
  defaultBalanceRUB :: f64
  yookassaReturn :: string

record World = Config +
  clock :: "nat \<Rightarrow> gotime"
  newID :: "nat \<Rightarrow> string"
  newLinkCode :: "nat \<Rightarrow> string"
  rank :: "nat \<Rightarrow> string \<Rightarrow> nat"
  ans_err :: "nat \<Rightarrow> ext_call \<Rightarrow> go_error option"
  ans_text :: "nat \<Rightarrow> ext_call \<Rightarrow> go_error + string"
  ans_status :: "nat \<Rightarrow> ext_call \<Rightarrow> go_error + ProjectRuntimeStatus"
  ans_questions :: "nat \<Rightarrow> ext_call \<Rightarrow> go_error + GitHubBootstrapQuestionsResponse"
  ans_flow :: "nat \<Rightarrow> ext_call \<Rightarrow> go_error + BootstrapGitHubFlowResponse"
  ans_runs :: "nat \<Rightarrow> ext_call \<Rightarrow> go_error + GitHubWorkflowRunLookupResult list"
  ans_logs :: "nat \<Rightarrow> ext_call \<Rightarrow> go_error + ProjectLogsResponse"
  ans_payment :: "nat \<Rightarrow> ext_call \<Rightarrow> go_error + string \<times> string"
  ans_usage :: "nat \<Rightarrow> ext_call \<Rightarrow> go_error + ResourceSnapshot"
  new_token :: "nat \<Rightarrow> string \<Rightarrow> string \<Rightarrow> go_error + string"

section \<open>State\<close>

record Sys =
  tick :: nat
  trace :: "ext_call list"
  y_projects :: ProjectStore
  y_stages :: StageStore
  y_releases :: ReleaseStore
  y_users :: UserStore
  y_txs :: TxStore
  y_usage :: UsageStore
  y_payments :: PaymentStore
  pendingCharges :: "f64 gomap"
  graceStartedAt :: "gotime gomap"
  billingGracePeriod :: duration
  billingRetentionPeriod :: duration
  urlsCache :: "(StageURLs list \<times> gotime) gomap"
  deliveredUntil :: "gotime gomap"
  goroutines :: "Project list"

definition empty_sys :: Sys where
  "empty_sys = \<lparr>tick = 0, trace = [], y_projects = [], y_stages = [], y_releases = [],
     y_users = NewUserStore, y_txs = [], y_usage = [], y_payments = [], pendingCharges = [],
     graceStartedAt = [], billingGracePeriod = 24 * Hour, billingRetentionPeriod = 0,
     urlsCache = [], deliveredUntil = [], goroutines = []\<rparr>"

text \<open>The state behind the calls and the clock: what a frame property compares.\<close>

definition stores_of :: "Sys \<Rightarrow> Sys" where
  "stores_of s = s\<lparr>tick := 0, trace := []\<rparr>"

section \<open>Primitive steps\<close>

definition now :: "('b) World_scheme \<Rightarrow> Sys \<Rightarrow> gotime \<times> Sys" where
  [go_step]: "now w s = (clock w (tick s), s\<lparr>tick := Suc (tick s)\<rparr>)"

definition fresh_id :: "('b) World_scheme \<Rightarrow> Sys \<Rightarrow> string \<times> Sys" where
  [go_step]: "fresh_id w s = (newID w (tick s), s\<lparr>tick := Suc (tick s)\<rparr>)"

definition fresh_code :: "('b) World_scheme \<Rightarrow> Sys \<Rightarrow> string \<times> Sys" where
  [go_step]: "fresh_code w s = (newLinkCode w (tick s), s\<lparr>tick := Suc (tick s)\<rparr>)"

definition map_order :: "('b) World_scheme \<Rightarrow> Sys \<Rightarrow> (string \<Rightarrow> nat) \<times> Sys" where
  [go_step]: "map_order w s = (rank w (tick s), s\<lparr>tick := Suc (tick s)\<rparr>)"

definition call :: "(nat \<Rightarrow> ext_call \<Rightarrow> 'r) \<Rightarrow> ext_call \<Rightarrow> Sys \<Rightarrow> 'r \<times> Sys" where
  [go_step]: "call answer c s =
     (answer (tick s) c, s\<lparr>tick := Suc (tick s), trace := trace s @ [c]\<rparr>)"

lemma stores_of_tick [simp]: "stores_of (s\<lparr>tick := n\<rparr>) = stores_of s"
  by (simp add: stores_of_def)

lemma stores_of_trace [simp]: "stores_of (s\<lparr>trace := t\<rparr>) = stores_of s"
  by (simp add: stores_of_def)

lemma stores_of_call [simp]: "stores_of (snd (call answer c s)) = stores_of s"
  by (simp add: call_def stores_of_def)

lemma stores_of_eqD:
  assumes "stores_of s' = stores_of s"
  shows "y_projects s' = y_projects s" "y_stages s' = y_stages s" "y_releases s' = y_releases s"
    "y_users s' = y_users s" "y_txs s' = y_txs s" "y_usage s' = y_usage s"
    "y_payments s' = y_payments s" "pendingCharges s' = pendingCharges s"
    "graceStartedAt s' = graceStartedAt s"
  using assms by (cases s; cases s'; simp add: stores_of_def)+

text \<open>A world for the witnesses: every call succeeds, the clock counts seconds.\<close>

definition calm_status :: ProjectRuntimeStatus where
  "calm_status = \<lparr>rs_ProjectID = '''', rs_Namespace = ''ns'', rs_NamespaceExists = True,
     rs_DeploymentExists = True, rs_ServiceExists = True, rs_HTTPRouteExists = True,
     rs_PublicURL = '''', rs_ServiceURLs = [], rs_DesiredReplicas = 1, rs_ReadyReplicas = 1,
     rs_AvailableReplicas = 1, rs_Pods = [], rs_LastCheckedAt = 0, rs_Message = ''''\<rparr>"

definition id_of :: "nat \<Rightarrow> string" where
  "id_of n = ''id-'' @ show_nat n"

definition calm_world :: World where
  "calm_world = \<lparr>appsBaseDomain = ''apps.io'', appsURLScheme = ''https'', appsURLPort = '''',
     monetization = PostgresEngine \<lparr>CPUCoreHourRUB = Fin 1, MemoryGBHourRUB = Fin 1, StorageGBMonthRUB = Fin 1,
       EgressGBRUB = Fin 1, DedicatedLoadBalancerHourRUB = Fin 1\<rparr>,
     hasNotifications = True, hasSender = True, hasLogReader = True, hasPaymentGateway = True,
     hasPaymentStore = True, botUsername = ''bot'', adminTelegramUsers = [],
     defaultBalanceRUB = Fin 100, yookassaReturn = ''/'',
     clock = (\<lambda>n. int n * Second), newID = id_of, newLinkCode = id_of,
     rank = (\<lambda>n k. length k), ans_err = (\<lambda>n c. None), ans_text = (\<lambda>n c. Inr ''text''),
     ans_status = (\<lambda>n c. Inr calm_status),
     ans_questions = (\<lambda>n c. Inl (ErrText ''none'')), ans_flow = (\<lambda>n c. Inl (ErrText ''none'')),
     ans_runs = (\<lambda>n c. Inr []), ans_logs = (\<lambda>n c. Inl (ErrText ''none'')),
     ans_payment = (\<lambda>n c. Inr (''yk'', ''url'')), ans_usage = (\<lambda>n c. Inl (ErrText ''none'')),
     new_token = (\<lambda>n a b. Inr (a @ ''.'' @ b))\<rparr>"

end
