(* ===== verification/Notifications.thy ===== *)
theory Notifications
  imports Runtime
begin

text \<open>
  \<open>internal/service/notification_service.go\<close> and \<open>telegram_helpers.go\<close>: Telegram settings,
  the link between an account and a chat, and alerts with a quiet period per key. The critical
  sections of \<open>s.mu\<close> are single steps. The texts of the alerts are the constructors of
  \<open>Message\<close>.
\<close>

section \<open>User names\<close>

definition telegram_char :: "char \<Rightarrow> bool" where
  "telegram_char c \<longleftrightarrow> (let n = (of_char c :: nat) in
     (0x61 \<le> n \<and> n \<le> 0x7A) \<or> (0x41 \<le> n \<and> n \<le> 0x5A) \<or> (0x30 \<le> n \<and> n \<le> 0x39) \<or> n = 0x5F)"

definition normalizeTelegramUsername :: "string \<Rightarrow> string" where
  "normalizeTelegramUsername value =
     (let username = TrimPrefix (TrimSpace value) ''@''
      in if username = '''' then '''' else filter telegram_char username)"

fun admin_loop :: "string list \<Rightarrow> string list \<Rightarrow> string list" where
  "admin_loop [] seen = []"
| "admin_loop (u # us) seen =
     (let v = normalizeTelegramUsername u; key = ToLower v
      in if v = '''' then admin_loop us seen
         else if key \<in> set seen then admin_loop us seen
         else v # admin_loop us (key # seen))"

definition SetAdminTelegramUsernames :: "string list \<Rightarrow> string list" where
  "SetAdminTelegramUsernames usernames = admin_loop usernames []"

definition isAdminUsername :: "World \<Rightarrow> string \<Rightarrow> bool" where
  "isAdminUsername w username =
     (let normalized = normalizeTelegramUsername username
      in normalized \<noteq> '''' \<and> list_ex (\<lambda>a. EqualFold a normalized) (adminTelegramUsers w))"

section \<open>Settings\<close>

definition no_settings :: TelegramSettings where
  "no_settings = \<lparr>ts_Username = '''', ts_Linked = False, ts_NotificationsEnabled = False,
     ts_LinkCode = '''', ts_LinkExpiresAt = None, ts_DeepLinkURL = '''', ts_BotUsername = '''',
     ts_ConnectedAt = None\<rparr>"

definition buildTelegramSettings :: "World \<Rightarrow> User \<Rightarrow> TelegramSettings" where
  "buildTelegramSettings w u =
     (let pending = (u_TelegramChatID u = 0 \<and> u_TelegramLinkCode u \<noteq> '''')
      in \<lparr>ts_Username = u_TelegramUsername u, ts_Linked = (u_TelegramChatID u \<noteq> 0),
          ts_NotificationsEnabled = u_TelegramNotificationsEnabled u,
          ts_LinkCode = (if pending then u_TelegramLinkCode u else ''''),
          ts_LinkExpiresAt = (if pending then u_TelegramLinkExpiresAt u else None),
          ts_DeepLinkURL = (if pending \<and> botUsername w \<noteq> ''''
             then ''https://t.me/'' @ botUsername w @ ''?start='' @ u_TelegramLinkCode u else ''''),
          ts_BotUsername = botUsername w, ts_ConnectedAt = u_TelegramLinkedAt u\<rparr>)"

definition GetTelegramSettings :: "World \<Rightarrow> string \<Rightarrow> Sys \<Rightarrow> (go_error + TelegramSettings) \<times> Sys" where
  "GetTelegramSettings w uid s =
     (case UserStore_GetByID (y_users s) uid of
        None \<Rightarrow> (Inl ErrUserNotFound, s)
      | Some u \<Rightarrow> (Inr (buildTelegramSettings w u), s))"

definition ClearTelegramSettings :: "World \<Rightarrow> string \<Rightarrow> Sys \<Rightarrow> (go_error + TelegramSettings) \<times> Sys" where
  "ClearTelegramSettings w uid s =
     (case UserStore_ClearTelegramSettings (y_users s) uid of
        Inl e \<Rightarrow> (Inl e, s)
      | Inr us \<Rightarrow> (Inr no_settings, s\<lparr>y_users := us\<rparr>))"

text \<open>A link code is kept while it is unused, for the same user name and not expired.\<close>

definition needs_new_code :: "User \<Rightarrow> bool \<Rightarrow> gotime \<Rightarrow> bool" where
  "needs_new_code u usernameChanged t \<longleftrightarrow>
     u_TelegramChatID u = 0 \<or> usernameChanged \<or> u_TelegramLinkCode u = ''''
     \<or> (case u_TelegramLinkExpiresAt u of None \<Rightarrow> True | Some e \<Rightarrow> t > e)"

definition UpdateTelegramSettings ::
  "World \<Rightarrow> string \<Rightarrow> UpdateTelegramSettingsRequest \<Rightarrow> Sys \<Rightarrow> (go_error + TelegramSettings) \<times> Sys" where
  "UpdateTelegramSettings w uid req s =
     (case UserStore_GetByID (y_users s) uid of
        None \<Rightarrow> (Inl ErrUserNotFound, s)
      | Some u \<Rightarrow>
        (let username = normalizeTelegramUsername (ut_Username req)
         in if username = '''' then
              (case UserStore_ClearTelegramSettings (y_users s) uid of
                 Inl e \<Rightarrow> (Inl e, s)
               | Inr us \<Rightarrow> (Inr no_settings, s\<lparr>y_users := us\<rparr>))
            else
              (let enabled = ut_NotificationsEnabled req;
                   usernameChanged = (\<not> EqualFold (u_TelegramUsername u) username);
                   (t, s) = now w s;
                   (expiresAt, linkCode, s) =
                     (if needs_new_code u usernameChanged t
                      then (let (t', s) = now w s; (c, s) = fresh_code w s
                            in (Some (t' + 24 * Hour), c, s))
                      else (u_TelegramLinkExpiresAt u, u_TelegramLinkCode u, s))
               in case UserStore_UpdateTelegramSettings (y_users s) uid username linkCode expiresAt enabled of
                    Inl e \<Rightarrow> (Inl e, s)
                  | Inr us \<Rightarrow>
                     (let u1 = u\<lparr>u_TelegramUsername := username, u_TelegramLinkCode := linkCode,
                                 u_TelegramLinkExpiresAt := expiresAt,
                                 u_TelegramNotificationsEnabled := enabled\<rparr>;
                          u2 = (if usernameChanged
                                then u1\<lparr>u_TelegramChatID := 0, u_TelegramLinkedAt := None\<rparr> else u1)
                      in (Inr (buildTelegramSettings w u2), s\<lparr>y_users := us\<rparr>)))))"

section \<open>Alerts\<close>

definition send :: "World \<Rightarrow> int \<Rightarrow> Message \<Rightarrow> Sys \<Rightarrow> go_error option \<times> Sys" where
  "send w chat m s = call (ans_err w) (SendMessage chat m) s"

definition alert_key :: "string \<Rightarrow> string \<Rightarrow> string" where
  "alert_key uid key = uid @ '':'' @ key"

definition quiet :: "gotime gomap \<Rightarrow> string \<Rightarrow> gotime \<Rightarrow> bool" where
  "quiet m k t = (case map_of m k of None \<Rightarrow> False | Some until \<Rightarrow> t < until)"

definition SendUserAlert ::
  "World \<Rightarrow> string \<Rightarrow> string \<Rightarrow> Message \<Rightarrow> duration \<Rightarrow> Sys \<Rightarrow> go_error option \<times> Sys" where
  "SendUserAlert w uid key m ttl s =
     (if \<not> hasSender w then (None, s)
      else case UserStore_GetByID (y_users s) uid of
        None \<Rightarrow> (None, s)
      | Some u \<Rightarrow>
         if u_TelegramChatID u = 0 \<or> \<not> u_TelegramNotificationsEnabled u then (None, s)
         else (let (t, s) = now w s; k = alert_key uid key
               in if quiet (deliveredUntil s) k t then (None, s)
                  else send w (u_TelegramChatID u) m
                         (s\<lparr>deliveredUntil := AList.update k (t + ttl) (deliveredUntil s)\<rparr>)))"

definition formatSystemAlertText :: "string \<Rightarrow> string" where
  "formatSystemAlertText text =
     (let trimmed = TrimSpace text
      in if trimmed = '''' then ''[admin]''
         else if HasPrefix (ToLower trimmed) ''[admin]'' then trimmed
         else ''[admin] '' @ trimmed)"

text \<open>The loop of \<open>SendSystemAlert\<close> over the admins; the first error is kept.\<close>

fun admin_alerts ::
  "World \<Rightarrow> string list \<Rightarrow> string \<Rightarrow> Message \<Rightarrow> duration \<Rightarrow> go_error option \<Rightarrow> Sys \<Rightarrow> go_error option \<times> Sys" where
  "admin_alerts w [] key m ttl firstErr s = (firstErr, s)"
| "admin_alerts w (a # as) key m ttl firstErr s =
     (let (ord, s) = map_order w s
      in case UserStore_GetByTelegramUsername ord (y_users s) a of
           None \<Rightarrow> admin_alerts w as key m ttl firstErr s
         | Some u \<Rightarrow>
            if u_TelegramChatID u = 0 then admin_alerts w as key m ttl firstErr s
            else (let (t, s) = now w s; k = ''admin:'' @ u_ID u @ '':'' @ key
                  in if quiet (deliveredUntil s) k t then admin_alerts w as key m ttl firstErr s
                     else (let (e, s) = send w (u_TelegramChatID u) m
                             (s\<lparr>deliveredUntil := AList.update k (t + ttl) (deliveredUntil s)\<rparr>)
                           in admin_alerts w as key m ttl (if firstErr = None then e else firstErr) s)))"

definition SendSystemAlert ::
  "World \<Rightarrow> string \<Rightarrow> string \<Rightarrow> duration \<Rightarrow> Sys \<Rightarrow> go_error option \<times> Sys" where
  "SendSystemAlert w key text ttl s =
     (if \<not> hasSender w \<or> adminTelegramUsers w = [] then (None, s)
      else admin_alerts w (adminTelegramUsers w) key (MsgText (formatSystemAlertText text)) ttl None s)"

text \<open>\<open>ProjectService.notifyUser\<close>: a failed alert is logged and dropped.\<close>

definition notifyUser ::
  "World \<Rightarrow> string \<Rightarrow> string \<Rightarrow> Message \<Rightarrow> duration \<Rightarrow> Sys \<Rightarrow> Sys" where
  "notifyUser w uid key m ttl s =
     (if \<not> hasNotifications w \<or> uid = '''' then s else snd (SendUserAlert w uid key m ttl s))"

section \<open>Bot commands\<close>

definition reply :: "World \<Rightarrow> int \<Rightarrow> Message \<Rightarrow> Sys \<Rightarrow> go_error option \<times> Sys" where
  "reply w chat m s = (if hasSender w then send w chat m s else (None, s))"

definition admin_mismatch :: "World \<Rightarrow> User \<Rightarrow> string \<Rightarrow> bool" where
  "admin_mismatch w u senderUsername \<longleftrightarrow> isAdminUsername w (u_TelegramUsername u)
     \<and> (let n = normalizeTelegramUsername senderUsername
        in n = '''' \<or> \<not> isAdminUsername w n \<or> \<not> EqualFold n (u_TelegramUsername u))"

definition handleStart :: "World \<Rightarrow> int \<Rightarrow> string \<Rightarrow> string \<Rightarrow> Sys \<Rightarrow> go_error option \<times> Sys" where
  "handleStart w chat senderUsername text s =
     (let code = TrimSpace (TrimPrefix text ''/start'')
      in if code = '''' then reply w chat MsgHelp s
         else (let (ord, s) = map_order w s
               in case UserStore_GetByTelegramLinkCode ord (y_users s) code of
                    None \<Rightarrow> reply w chat MsgCodeUnknown s
                  | Some u \<Rightarrow>
                    (let (t, s) = now w s
                     in if (case u_TelegramLinkExpiresAt u of None \<Rightarrow> True | Some e \<Rightarrow> t > e)
                        then reply w chat MsgCodeExpired s
                        else if admin_mismatch w u senderUsername then reply w chat MsgAdminMismatch s
                        else (let (t', s) = now w s
                              in case UserStore_LinkTelegramChat (y_users s) (u_ID u) chat t' of
                                   Inl e \<Rightarrow> (Some e, s)
                                 | Inr us \<Rightarrow> reply w chat (MsgLinked (u_Email u)) (s\<lparr>y_users := us\<rparr>)))))"

definition handleStop :: "World \<Rightarrow> int \<Rightarrow> Sys \<Rightarrow> go_error option \<times> Sys" where
  "handleStop w chat s =
     (let (ord, s) = map_order w s
      in case UserStore_GetByTelegramChatID ord (y_users s) chat of
           None \<Rightarrow> reply w chat MsgChatUnknown s
         | Some u \<Rightarrow>
           (case UserStore_DisableTelegramNotifications (y_users s) (u_ID u) of
              Inl e \<Rightarrow> (Some e, s)
            | Inr us \<Rightarrow> reply w chat MsgMuted (s\<lparr>y_users := us\<rparr>)))"

text \<open>An update without a message is \<open>None\<close>; a message has a chat, a sender and a text.\<close>

definition HandleTelegramUpdate ::
  "World \<Rightarrow> (int \<times> string \<times> string) option \<Rightarrow> Sys \<Rightarrow> go_error option \<times> Sys" where
  "HandleTelegramUpdate w update s =
     (case update of
        None \<Rightarrow> (None, s)
      | Some (chat, sender, raw) \<Rightarrow>
         if chat = 0 then (None, s)
         else (let text = TrimSpace raw
               in if HasPrefix text ''/start'' then handleStart w chat sender text s
                  else if HasPrefix text ''/stop'' then handleStop w chat s
                  else reply w chat MsgHelp s))"

section \<open>What these operations leave alone\<close>

lemma send_stores [simp]: "stores_of (snd (send w chat m s)) = stores_of s"
  by (simp add: send_def)

text \<open>An alert touches no store: only the quiet periods, the clock and the trace.\<close>

definition core_of :: "Sys \<Rightarrow> Sys" where
  "core_of s = s\<lparr>tick := 0, trace := [], deliveredUntil := []\<rparr>"

lemma core_of_simps [simp]:
  "core_of (s\<lparr>tick := n\<rparr>) = core_of s" "core_of (s\<lparr>trace := tr\<rparr>) = core_of s"
  "core_of (s\<lparr>deliveredUntil := d\<rparr>) = core_of s"
  by (simp_all add: core_of_def)

lemma core_of_call [simp]: "core_of (snd (call answer c s)) = core_of s"
  by (simp add: call_def)

lemma core_of_send [simp]: "core_of (snd (send w chat m s)) = core_of s"
  by (simp add: send_def)

lemma core_of_SendUserAlert [simp]: "core_of (snd (SendUserAlert w uid key m ttl s)) = core_of s"
  by (auto simp: SendUserAlert_def now_def Let_def split: option.splits)

lemma core_of_notifyUser [simp]: "core_of (notifyUser w uid key m ttl s) = core_of s"
  by (simp add: notifyUser_def)

lemma core_of_eqD:
  assumes "core_of s' = core_of s"
  shows "y_projects s' = y_projects s" "y_stages s' = y_stages s" "y_releases s' = y_releases s"
    "y_users s' = y_users s" "y_txs s' = y_txs s" "y_usage s' = y_usage s"
    "y_payments s' = y_payments s" "pendingCharges s' = pendingCharges s"
    "graceStartedAt s' = graceStartedAt s" "billingGracePeriod s' = billingGracePeriod s"
    "billingRetentionPeriod s' = billingRetentionPeriod s" "urlsCache s' = urlsCache s"
    "goroutines s' = goroutines s"
  using assms by (cases s; cases s'; simp add: core_of_def)+

lemma notifyUser_fields [simp]:
  "y_projects (notifyUser w uid key m ttl s) = y_projects s"
  "y_stages (notifyUser w uid key m ttl s) = y_stages s"
  "y_releases (notifyUser w uid key m ttl s) = y_releases s"
  "y_users (notifyUser w uid key m ttl s) = y_users s"
  "y_txs (notifyUser w uid key m ttl s) = y_txs s"
  "y_usage (notifyUser w uid key m ttl s) = y_usage s"
  "y_payments (notifyUser w uid key m ttl s) = y_payments s"
  "pendingCharges (notifyUser w uid key m ttl s) = pendingCharges s"
  "graceStartedAt (notifyUser w uid key m ttl s) = graceStartedAt s"
  "billingGracePeriod (notifyUser w uid key m ttl s) = billingGracePeriod s"
  "billingRetentionPeriod (notifyUser w uid key m ttl s) = billingRetentionPeriod s"
  "urlsCache (notifyUser w uid key m ttl s) = urlsCache s"
  "goroutines (notifyUser w uid key m ttl s) = goroutines s"
  by (rule core_of_eqD [OF core_of_notifyUser])+

section \<open>Properties\<close>

lemma reply_users: "y_users (snd (reply w c m s)) = y_users s"
  by (simp add: reply_def send_def call_def)

lemma reply_usersD: "reply w c m s = (e, s') \<Longrightarrow> y_users s' = y_users s"
  using reply_users [of w c m s] by simp

lemma alert_sent:
  assumes "SendUserAlert w uid key m ttl s = (e, s1)" and "trace s1 \<noteq> trace s"
  shows "map_of (deliveredUntil s1) (alert_key uid key) = Some (clock w (tick s) + ttl)"
  using assms by (auto simp: SendUserAlert_def now_def send_def call_def Let_def split: option.splits if_splits)

text \<open>No alert storm: once an alert was sent to a user for a subject, no alert on this subject is sent to the
  user again before its quiet period is over, whatever the text and whoever asks, even if the first sending
  failed.\<close>

theorem quiet_period:
  assumes "SendUserAlert w uid key m ttl s = (e, s1)" and "trace s1 \<noteq> trace s"
    and "map_of (deliveredUntil s2) (alert_key uid key) = map_of (deliveredUntil s1) (alert_key uid key)"
    and "clock w (tick s2) < clock w (tick s) + ttl"
  shows "fst (SendUserAlert w uid key m' ttl' s2) = None \<and> trace (snd (SendUserAlert w uid key m' ttl' s2)) = trace s2"
proof -
  have "quiet (deliveredUntil s2) (alert_key uid key) (clock w (tick s2))"
    using alert_sent [OF assms(1,2)] assms(3,4) by (simp add: quiet_def)
  then show ?thesis
    by (auto simp: SendUserAlert_def now_def Let_def split: option.split)
qed

definition linked_user :: User where
  "linked_user = \<lparr>u_ID = ''u1'', u_Email = ''ann@example.com'', u_BalanceRUB = Fin 0, u_PasswordHash = '''',
     u_GitHubTokenEncrypted = '''', u_TelegramUsername = ''ann'', u_TelegramChatID = 42,
     u_TelegramLinkedAt = Some 0, u_TelegramLinkCode = '''', u_TelegramLinkExpiresAt = None,
     u_TelegramNotificationsEnabled = True, u_CreatedAt = 0\<rparr>"

definition linked_sys :: Sys where
  "linked_sys = empty_sys\<lparr>y_users := us_write NewUserStore ''u1'' linked_user\<rparr>"

theorem quiet_period_witness:
  "trace (snd (SendUserAlert calm_world ''u1'' ''k'' MsgHelp 0 (snd (SendUserAlert calm_world ''u1'' ''k'' MsgHelp Hour linked_sys))))
     = [SendMessage 42 MsgHelp]"
proof -
  have s: "snd (SendUserAlert calm_world ''u1'' ''k'' MsgHelp Hour linked_sys) =
    linked_sys\<lparr>tick := 2, trace := [SendMessage 42 MsgHelp],
      deliveredUntil := [(alert_key ''u1'' ''k'', Hour)]\<rparr>"
    by (simp add: SendUserAlert_def linked_sys_def UserStore_GetByID_def now_def send_def call_def quiet_def Let_def)
      (simp add: linked_user_def calm_world_def empty_sys_def)
  have clk: "clock calm_world n = int n * Second" for n by (simp add: calm_world_def)
  have e: "trace linked_sys = []" "tick linked_sys = 0" by (simp_all add: linked_sys_def empty_sys_def)
  show ?thesis
    using quiet_period [of calm_world "''u1''" "''k''" MsgHelp Hour linked_sys, OF surjective_pairing,
        of "snd (SendUserAlert calm_world ''u1'' ''k'' MsgHelp Hour linked_sys)" MsgHelp 0]
    unfolding s by (simp add: clk e Hour_def Minute_def Second_def)
qed

text \<open>C40 A chat is linked only by the right code: when the command \<open>/start\<close> changes the accounts at all, it named
  the non-blank link code of exactly the account it links, the code had an expiry that had not passed, the sender of an
  administrator's code was that administrator, and the code cannot be used again.\<close>

theorem link_needs_code:
  assumes "handleStart w chat sender text s = (e, s')" and "y_users s' \<noteq> y_users s"
  shows "\<exists>u us. u \<in> snd ` set (us_byID (y_users s)) \<and> u_TelegramLinkCode u = TrimSpace (TrimPrefix text ''/start'')
    \<and> u_TelegramLinkCode u \<noteq> '''' \<and> (\<exists>d. u_TelegramLinkExpiresAt u = Some d \<and> clock w (Suc (tick s)) \<le> d)
    \<and> \<not> admin_mismatch w u sender
    \<and> UserStore_LinkTelegramChat (y_users s) (u_ID u) chat (clock w (Suc (Suc (tick s)))) = Inr us \<and> y_users s' = us
    \<and> map_option u_TelegramLinkCode (UserStore_GetByID us (u_ID u)) = Some ''''"
proof -
  let ?code = "TrimSpace (TrimPrefix text ''/start'')" and ?t = "clock w (Suc (tick s))"
  have "y_users (snd (handleStart w chat sender text s)) \<noteq> y_users s" using assms by simp
  then obtain u where u: "UserStore_GetByTelegramLinkCode (rank w (tick s)) (y_users s) ?code = Some u" "?code \<noteq> ''''"
      and d: "\<exists>d. u_TelegramLinkExpiresAt u = Some d \<and> ?t \<le> d" "\<not> admin_mismatch w u sender"
    by (auto simp: handleStart_def map_order_def now_def Let_def reply_users split: if_splits option.splits)
  have code: "u_TelegramLinkCode u = ?code" "u \<in> snd ` set (us_byID (y_users s))"
    using u(1) by (auto simp: UserStore_GetByTelegramLinkCode_def dest!: find_Some_mem)
  obtain us where us: "UserStore_LinkTelegramChat (y_users s) (u_ID u) chat (clock w (Suc (Suc (tick s)))) = Inr us"
      "y_users s' = us"
  proof -
    obtain e where "u_TelegramLinkExpiresAt u = Some e" "?t \<le> e" using d(1) by blast
    with u d(2) have "y_users (snd (handleStart w chat sender text s)) =
        (case UserStore_LinkTelegramChat (y_users s) (u_ID u) chat (clock w (Suc (Suc (tick s)))) of
           Inl e \<Rightarrow> y_users s | Inr us \<Rightarrow> us)"
      by (simp add: handleStart_def map_order_def now_def Let_def reply_users split: sum.split)
    with assms that show ?thesis by (simp split: sum.splits)
  qed
  have "UserStore_GetByID (y_users s) (u_ID u) \<noteq> None"
    using us(1) by (auto simp: UserStore_GetByID_def UserStore_LinkTelegramChat_def split: option.splits)
  then have "map_option u_TelegramLinkCode (UserStore_GetByID us (u_ID u)) = Some ''''"
    using chat_links.update_get [OF us(1)] by auto
  then show ?thesis
    by (intro exI [of _ u] exI [of _ us] conjI) (use code u(2) d us in simp_all)
qed

definition waiting_user :: User where
  "waiting_user = linked_user\<lparr>u_TelegramChatID := 0, u_TelegramLinkCode := ''c0de'', u_TelegramLinkExpiresAt := Some Hour\<rparr>"

definition waiting_sys :: Sys where
  "waiting_sys = empty_sys\<lparr>y_users := us_write NewUserStore ''u1'' waiting_user\<rparr>"

lemma waiting_code: "TrimSpace (TrimPrefix ''/start c0de'' ''/start'') = ''c0de''"
  by code_simp

lemma waiting_links: "y_users (snd (handleStart calm_world 7 ''ann'' ''/start c0de'' waiting_sys)) \<noteq> y_users waiting_sys"
proof -
  have "\<not> admin_mismatch calm_world waiting_user ''ann''"
    by (simp add: admin_mismatch_def isAdminUsername_def calm_world_def)
  moreover have "UserStore_GetByTelegramLinkCode ord (y_users waiting_sys) ''c0de'' = Some waiting_user" for ord
    by (simp add: UserStore_GetByTelegramLinkCode_def waiting_sys_def us_write_def NewUserStore_def)
      (simp add: waiting_user_def)
  moreover have "u_TelegramLinkExpiresAt waiting_user = Some Hour" "u_ID waiting_user = ''u1''"
    by (simp_all add: waiting_user_def linked_user_def)
  moreover have "clock calm_world n = int n * Second" for n by (simp add: calm_world_def)
  moreover obtain us where "UserStore_LinkTelegramChat (y_users waiting_sys) ''u1'' 7 (2 * Second) = Inr us"
      "UserStore_GetByID us ''u1'' \<noteq> UserStore_GetByID (y_users waiting_sys) ''u1''"
    by (simp add: UserStore_LinkTelegramChat_def waiting_sys_def UserStore_GetByID_def us_write_def NewUserStore_def)
      (auto simp: waiting_user_def linked_user_def)
  moreover have "tick waiting_sys = 0" by (simp add: waiting_sys_def empty_sys_def)
  ultimately show ?thesis
    by (auto simp: handleStart_def waiting_code map_order_def now_def reply_users duration_units)
qed

theorem link_needs_code_witness:
  "\<exists>us. y_users (snd (handleStart calm_world 7 ''ann'' ''/start c0de'' waiting_sys)) = us
     \<and> map_option u_TelegramLinkCode (UserStore_GetByID us ''u1'') = Some ''''"
proof -
  have "u_ID u = ''u1''" if "u \<in> snd ` set (us_byID (y_users waiting_sys))" for u
    using that by (simp add: waiting_sys_def us_write_def NewUserStore_def waiting_user_def linked_user_def)
  with link_needs_code [OF surjective_pairing waiting_links] show ?thesis by metis
qed

text \<open>The list of administrators is clean: the kept names are in normal form, no two of them differ only in
  case, and every non-blank name that was given is among them up to case.\<close>

theorem admin_names_normalised:
  "(\<lambda>u. ToLower (normalizeTelegramUsername u)) ` {u \<in> set us. normalizeTelegramUsername u \<noteq> ''''}
     = ToLower ` set (SetAdminTelegramUsernames us)
   \<and> distinct (map ToLower (SetAdminTelegramUsernames us))
   \<and> set (SetAdminTelegramUsernames us) \<subseteq> normalizeTelegramUsername ` set us
   \<and> '''' \<notin> set (SetAdminTelegramUsernames us)"
proof -
  have "(\<lambda>u. ToLower (normalizeTelegramUsername u)) ` {u \<in> set us. normalizeTelegramUsername u \<noteq> ''''} - set seen
      = ToLower ` set (admin_loop us seen)
    \<and> distinct (map ToLower (admin_loop us seen)) \<and> ToLower ` set (admin_loop us seen) \<inter> set seen = {}
    \<and> set (admin_loop us seen) \<subseteq> normalizeTelegramUsername ` set us \<and> '''' \<notin> set (admin_loop us seen)" for seen
  proof (induction us arbitrary: seen)
    case (Cons u us)
    let ?v = "normalizeTelegramUsername u"
    show ?case
      using Cons.IH [of seen] Cons.IH [of "ToLower ?v # seen"]
      by (cases "?v = ''''"; cases "ToLower ?v \<in> set seen") (auto simp: Let_def)
  qed simp
  from this [of "[]"] show ?thesis by (simp add: SetAdminTelegramUsernames_def)
qed

text \<open>When a user changes the Telegram user name, the reply says that no chat is linked, while the store, whose update
  does not touch the chat, keeps the old chat and goes on sending to it.\<close>

lemma renamed_user_keeps_chat:
  assumes "UserStore_GetByID (y_users s) uid = Some u" and "u_ID u = uid" and "u_TelegramChatID u \<noteq> 0"
    and "normalizeTelegramUsername (ut_Username req) \<noteq> ''''"
    and "\<not> EqualFold (u_TelegramUsername u) (normalizeTelegramUsername (ut_Username req))"
  shows "\<exists>ts s' u'. UpdateTelegramSettings w uid req s = (Inr ts, s') \<and> \<not> ts_Linked ts
    \<and> UserStore_GetByID (y_users s') uid = Some u' \<and> u_TelegramChatID u' = u_TelegramChatID u"
proof -
  have u: "map_of (us_byID (y_users s)) uid = Some u" using assms(1) by (simp add: UserStore_GetByID_def)
  let ?name = "normalizeTelegramUsername (ut_Username req)"
  have "needs_new_code u True t" for t by (simp add: needs_new_code_def)
  with assms u show ?thesis
    by (simp add: UpdateTelegramSettings_def now_def fresh_code_def UserStore_UpdateTelegramSettings_def
        UserStore_GetByID_def buildTelegramSettings_def Let_def)
qed

end
