(* ===== verification/Accounts.thy ===== *)
theory Accounts
  imports Notifications
begin

text \<open>
  \<open>internal/service/auth_service.go\<close>: registration, login, the balance and its top-ups, and
  the payment webhook. Signing a token is a parameter of the world (\<open>new_token\<close>), so are
  hashing and comparing passwords. The description sent with a payment is a function of its
  amount and is not a separate argument of the call.
\<close>

definition Register :: "World \<Rightarrow> RegisterRequest \<Rightarrow> Sys \<Rightarrow> (go_error + string) \<times> Sys" where
  "Register w req s =
     (if TrimSpace (rr_Email req) = '''' \<or> TrimSpace (rr_Password req) = ''''
      then (Inl (ErrText ''email and password are required''), s)
      else if UserStore_GetByEmail (y_users s) (rr_Email req) \<noteq> None then (Inl ErrEmailTaken, s)
      else (let (h, s) = call (ans_text w) (HashPassword (rr_Password req)) s
            in case h of
                 Inl e \<Rightarrow> (Inl (ErrWrap ''hash password: '' e ''''), s)
               | Inr hash \<Rightarrow>
                (let name = normalizeTelegramUsername (rr_TelegramUsername req);
                     (expires, code, s) =
                       (if name \<noteq> '''' then (let (t, s) = now w s; (c, s) = fresh_code w s
                                             in (Some (t + 24 * Hour), c, s))
                        else (None, '''', s));
                     (uid, s) = fresh_id w s;
                     (created, s) = now w s;
                     u = \<lparr>u_ID = uid, u_Email = rr_Email req, u_BalanceRUB = defaultBalanceRUB w,
                          u_PasswordHash = hash, u_GitHubTokenEncrypted = '''',
                          u_TelegramUsername = name, u_TelegramChatID = 0, u_TelegramLinkedAt = None,
                          u_TelegramLinkCode = code, u_TelegramLinkExpiresAt = expires,
                          u_TelegramNotificationsEnabled = (name \<noteq> ''''), u_CreatedAt = created\<rparr>
                 in case UserStore_Create (y_users s) u of
                      Inl e \<Rightarrow> (Inl e, s)
                    | Inr us \<Rightarrow>
                       (case new_token w (tick s) uid (rr_Email req) of
                          Inl e \<Rightarrow> (Inl (ErrWrap ''generate token: '' e ''''), s\<lparr>y_users := us, tick := Suc (tick s)\<rparr>)
                        | Inr tok \<Rightarrow> (Inr tok, s\<lparr>y_users := us, tick := Suc (tick s)\<rparr>)))))"

definition Login :: "World \<Rightarrow> LoginRequest \<Rightarrow> Sys \<Rightarrow> (go_error + string) \<times> Sys" where
  "Login w req s =
     (case UserStore_GetByEmail (y_users s) (lo_Email req) of
        None \<Rightarrow> (Inl ErrInvalidCredentials, s)
      | Some u \<Rightarrow>
         (let (e, s) = call (ans_err w) (ComparePassword (u_PasswordHash u) (lo_Password req)) s
          in case e of
               Some _ \<Rightarrow> (Inl ErrInvalidCredentials, s)
             | None \<Rightarrow>
                (case new_token w (tick s) (u_ID u) (u_Email u) of
                   Inl e \<Rightarrow> (Inl (ErrWrap ''generate token: '' e ''''), s\<lparr>tick := Suc (tick s)\<rparr>)
                 | Inr tok \<Rightarrow> (Inr tok, s\<lparr>tick := Suc (tick s)\<rparr>))))"

definition GetUser :: "string \<Rightarrow> Sys \<Rightarrow> (go_error + User) \<times> Sys" where
  "GetUser uid s =
     (case UserStore_GetByID (y_users s) uid of
        None \<Rightarrow> (Inl ErrUserNotFound, s) | Some u \<Rightarrow> (Inr u, s))"

definition topup_description :: "f64 \<Rightarrow> string" where
  "topup_description amount = ''balance top-up: +'' @ format_2f amount
     @ [CHR 0x20, CHR 0xE2, CHR 0x82, CHR 0xBD]"

definition topup_entry :: "string \<Rightarrow> string \<Rightarrow> f64 \<Rightarrow> gotime \<Rightarrow> BillingTransaction" where
  "topup_entry tid uid amount t = \<lparr>tx_ID = tid, tx_UserID = uid, tx_ProjectID = '''',
     tx_Type = TTopUp, tx_AmountRUB = amount, tx_Description = topup_description amount,
     tx_CreatedAt = t\<rparr>"

text \<open>
  \<open>TopUpBalance\<close> reads the user and writes the balance back in two separate store calls: the
  two halves are also named, for the runs in which other requests run in between.
\<close>

definition topup_read :: "string \<Rightarrow> f64 \<Rightarrow> Sys \<Rightarrow> go_error + User" where
  "topup_read uid amount s =
     (if fle amount (Fin 0) then Inl (ErrText ''top up amount must be positive'')
      else case UserStore_GetByID (y_users s) uid of
        None \<Rightarrow> Inl ErrUserNotFound
      | Some u \<Rightarrow> Inr (u\<lparr>u_BalanceRUB := fadd (u_BalanceRUB u) amount\<rparr>))"

definition topup_write :: "World \<Rightarrow> User \<Rightarrow> string \<Rightarrow> f64 \<Rightarrow> Sys \<Rightarrow> (go_error + User) \<times> Sys" where
  "topup_write w u uid amount s =
     (case UserStore_UpdateBalance (y_users s) (u_ID u) (u_BalanceRUB u) of
        Inl e \<Rightarrow> (Inl e, s)
      | Inr us \<Rightarrow>
         (let (tid, s) = fresh_id w (s\<lparr>y_users := us\<rparr>); (t, s) = now w s
          in (Inr u, s\<lparr>y_txs := TxStore_Record (y_txs s) (topup_entry tid uid amount t)\<rparr>)))"

definition TopUpBalance :: "World \<Rightarrow> string \<Rightarrow> f64 \<Rightarrow> Sys \<Rightarrow> (go_error + User) \<times> Sys" where
  "TopUpBalance w uid amount s =
     (case topup_read uid amount s of
        Inl e \<Rightarrow> (Inl e, s) | Inr u \<Rightarrow> topup_write w u uid amount s)"

definition InitiateTopUp :: "World \<Rightarrow> string \<Rightarrow> f64 \<Rightarrow> Sys \<Rightarrow> (go_error + string) \<times> Sys" where
  "InitiateTopUp w uid amount s =
     (if \<not> hasPaymentGateway w \<or> \<not> hasPaymentStore w
      then (Inl (ErrText ''payment gateway not configured''), s)
      else if flt amount (Fin 1) then (Inl (ErrText ''minimum top-up amount is 900 RUB''), s)
      else (let (internalID, s) = fresh_id w s;
                (r, s) = call (ans_payment w)
                  (CreatePayment amount internalID (yookassaReturn w)
                     [(''user_id'', uid), (''internal_payment_id'', internalID)]) s
            in case r of
                 Inl e \<Rightarrow> (Inl (ErrWrap ''create yookassa payment: '' e ''''), s)
               | Inr (yookassaID, confirmationURL) \<Rightarrow>
                (let (t1, s) = now w s; (t2, s) = now w s
                 in (Inr confirmationURL, s\<lparr>y_payments := PaymentStore_Create (y_payments s)
                      \<lparr>yk_ID = internalID, yk_YooKassaID = yookassaID, yk_UserID = uid,
                       yk_AmountRUB = amount, yk_Status = YKPending, yk_CreatedAt = t1,
                       yk_UpdatedAt = t2\<rparr>\<rparr>))))"

definition HandleYooKassaWebhook :: "World \<Rightarrow> string \<Rightarrow> Sys \<Rightarrow> go_error option \<times> Sys" where
  "HandleYooKassaWebhook w yid s =
     (if \<not> hasPaymentStore w then (None, s)
      else case PaymentStore_GetByYooKassaID (y_payments s) yid of
        None \<Rightarrow> (None, s)
      | Some p \<Rightarrow>
         if yk_Status p = YKSucceeded then (None, s)
         else (let (t, s) = now w s;
                   s = s\<lparr>y_payments := PaymentStore_MarkSucceeded t (y_payments s) yid\<rparr>;
                   (r, s) = TopUpBalance w (yk_UserID p) (yk_AmountRUB p) s
               in case r of
                    Inl e \<Rightarrow> (Some (ErrWrap (''credit balance for payment '' @ yid @ '': '') e ''''), s)
                  | Inr _ \<Rightarrow> (None, s)))"

section \<open>Lemmas\<close>

definition balance_of :: "Sys \<Rightarrow> string \<Rightarrow> f64 option" where
  "balance_of s uid = map_option u_BalanceRUB (UserStore_GetByID (y_users s) uid)"

lemma topup_read_Inr:
  "topup_read uid amount s = Inr v \<longleftrightarrow> \<not> fle amount (Fin 0) \<and>
     (\<exists>u. UserStore_GetByID (y_users s) uid = Some u \<and> v = u\<lparr>u_BalanceRUB := fadd (u_BalanceRUB u) amount\<rparr>)"
  by (auto simp: topup_read_def split: option.splits)

lemma TopUpBalance_known:
  assumes "user_store_ok (y_users s)" and "UserStore_GetByID (y_users s) uid = Some u"
    and "\<not> fle amount (Fin 0)"
  shows "TopUpBalance w uid amount s =
    (Inr (u\<lparr>u_BalanceRUB := fadd (u_BalanceRUB u) amount\<rparr>),
     s\<lparr>y_users := us_write (y_users s) uid (u\<lparr>u_BalanceRUB := fadd (u_BalanceRUB u) amount\<rparr>),
       tick := Suc (Suc (tick s)),
       y_txs := y_txs s @ [topup_entry (newID w (tick s)) uid amount (clock w (Suc (tick s)))]\<rparr>)"
proof -
  have "u_ID u = uid"
    using assms(1,2) by (auto simp: UserStore_GetByID_def dest: user_store_ok_get)
  with assms show ?thesis
    by (simp add: TopUpBalance_def topup_read_def topup_write_def UserStore_UpdateBalance_def
        UserStore_GetByID_def fresh_id_def now_def TxStore_Record_def)
qed

lemma TopUpBalance_unknown:
  "UserStore_GetByID (y_users s) uid = None \<Longrightarrow> \<exists>e. TopUpBalance w uid amount s = (Inl e, s)"
  by (simp add: TopUpBalance_def topup_read_def)

lemma TopUpBalance_error: "TopUpBalance w uid amount s = (Inl e, s') \<Longrightarrow> s' = s"
  by (auto simp: TopUpBalance_def topup_write_def fresh_id_def now_def split: sum.splits)

lemma TopUpBalance_payments [simp]: "y_payments (snd (TopUpBalance w uid amount s)) = y_payments s"
  by (auto simp: TopUpBalance_def topup_write_def fresh_id_def now_def split: sum.splits)

lemma TopUpBalance_ok:
  "user_store_ok (y_users s) \<Longrightarrow> user_store_ok (y_users (snd (TopUpBalance w uid amount s)))"
  by (auto simp: TopUpBalance_def topup_write_def fresh_id_def now_def dest: balances.keeps_ok
      split: sum.splits)

lemma webhook_done:
  "hasPaymentStore w \<Longrightarrow> PaymentStore_GetByYooKassaID (y_payments s) yid = Some p \<Longrightarrow>
   yk_Status p = YKSucceeded \<Longrightarrow> HandleYooKassaWebhook w yid s = (None, s)"
  by (simp add: HandleYooKassaWebhook_def)

lemma webhook_payments:
  "hasPaymentStore w \<Longrightarrow> PaymentStore_GetByYooKassaID (y_payments s) yid = Some p \<Longrightarrow>
   yk_Status p \<noteq> YKSucceeded \<Longrightarrow>
   y_payments (snd (HandleYooKassaWebhook w yid s)) =
     PaymentStore_MarkSucceeded (clock w (tick s)) (y_payments s) yid"
  by (simp add: HandleYooKassaWebhook_def now_def Let_def split: prod.splits sum.splits)
    (metis TopUpBalance_payments Sys.select_convs Sys.surjective Sys.update_convs snd_conv)

section \<open>Properties\<close>

definition sample_user :: User where
  "sample_user = \<lparr>u_ID = ''u1'', u_Email = ''a@b.io'', u_BalanceRUB = Fin 5, u_PasswordHash = ''h'',
     u_GitHubTokenEncrypted = '''', u_TelegramUsername = ''neo'', u_TelegramChatID = 7,
     u_TelegramLinkedAt = Some 0, u_TelegramLinkCode = '''', u_TelegramLinkExpiresAt = None,
     u_TelegramNotificationsEnabled = True, u_CreatedAt = 0\<rparr>"

definition sample_sys :: Sys where
  "sample_sys = empty_sys\<lparr>y_users := us_write NewUserStore ''u1'' sample_user\<rparr>"

lemma sample_users [simp]:
  "UserStore_GetByID (y_users sample_sys) uid = (if uid = ''u1'' then Some sample_user else None)"
  "UserStore_GetByEmail (y_users sample_sys) e = (if e = ''a@b.io'' then Some sample_user else None)"
  by (simp_all add: sample_sys_def UserStore_GetByID_def UserStore_GetByEmail_def sample_user_def NewUserStore_def)

lemma sample_sys_ok [simp]: "user_store_ok (y_users sample_sys)"
  using user_store_ok_create [of NewUserStore sample_user]
  by (simp add: sample_sys_def) (simp add: sample_user_def NewUserStore_def)

text \<open>A top-up of a known user by a positive amount adds exactly that amount to the balance,
  appends one top-up entry with the amount to the user's journal, and touches no other account.\<close>

theorem topup_credits:
  assumes "user_store_ok (y_users s)" and "UserStore_GetByID (y_users s) uid = Some u"
    and "flt (Fin 0) amount" and "TopUpBalance w uid amount s = (r, s')"
  shows "balance_of s' uid = Some (fadd (u_BalanceRUB u) amount)
    \<and> (\<exists>t. TxStore_ListByUser (y_txs s') uid = TxStore_ListByUser (y_txs s) uid @ [t]
           \<and> tx_Type t = TTopUp \<and> tx_AmountRUB t = amount)
    \<and> (\<forall>k. k \<noteq> uid \<longrightarrow> UserStore_GetByID (y_users s') k = UserStore_GetByID (y_users s) k)
    \<and> user_store_ok (y_users s')"
proof -
  have "\<not> fle amount (Fin 0)" using assms(3) by (cases amount) auto
  from TopUpBalance_known [OF assms(1,2) this, of w] assms(4)
  have s': "s' = s\<lparr>y_users := us_write (y_users s) uid (u\<lparr>u_BalanceRUB := fadd (u_BalanceRUB u) amount\<rparr>),
       tick := Suc (Suc (tick s)),
       y_txs := y_txs s @ [topup_entry (newID w (tick s)) uid amount (clock w (Suc (tick s)))]\<rparr>"
    by simp
  have "user_store_ok (y_users s')"
    using TopUpBalance_ok [OF assms(1), of w uid amount] assms(4) by simp
  then show ?thesis
    by (simp add: s' balance_of_def UserStore_GetByID_def TxStore_ListByUser_def topup_entry_def)
qed

theorem topup_credits_witness:
  "balance_of (snd (TopUpBalance calm_world ''u1'' (Fin 3) sample_sys)) ''u1'' = Some (fadd (Fin 5) (Fin 3))"
  using topup_credits [of sample_sys "''u1''" sample_user "Fin 3" calm_world
      "fst (TopUpBalance calm_world ''u1'' (Fin 3) sample_sys)"
      "snd (TopUpBalance calm_world ''u1'' (Fin 3) sample_sys)"]
  by (simp add: sample_user_def)

primrec topups :: "World \<Rightarrow> string \<Rightarrow> f64 list \<Rightarrow> Sys \<Rightarrow> Sys" where
  "topups w uid [] s = s"
| "topups w uid (a # as) s = topups w uid as (snd (TopUpBalance w uid a s))"

text \<open>C19 Refinement: the code's account is the abstract account. A sequence of top-ups on one user
  leaves the balance that folding the amounts over the old balance gives, in the same order of
  additions, and the journal grows by one entry per top-up.\<close>

theorem topups_refine_account:
  assumes "user_store_ok (y_users s)" and "balance_of s uid = Some b" and "list_all (flt (Fin 0)) as"
  shows "balance_of (topups w uid as s) uid = Some (foldl fadd b as)
    \<and> length (y_txs (topups w uid as s)) = length (y_txs s) + length as"
  using assms
proof (induction as arbitrary: s b)
  case Nil
  then show ?case by simp
next
  case (Cons a as)
  let ?s = "snd (TopUpBalance w uid a s)"
  obtain u where u: "UserStore_GetByID (y_users s) uid = Some u" "b = u_BalanceRUB u"
    using Cons.prems(2) by (auto simp: balance_of_def)
  have "\<not> fle a (Fin 0)" using Cons.prems(3) by (cases a) auto
  note known = TopUpBalance_known [OF Cons.prems(1) u(1) this, of w]
  have "balance_of ?s uid = Some (fadd b a)" "length (y_txs ?s) = Suc (length (y_txs s))"
    by (simp_all add: known u(2) balance_of_def UserStore_GetByID_def)
  moreover have "user_store_ok (y_users ?s)" using Cons.prems(1) by (rule TopUpBalance_ok)
  ultimately show ?case using Cons.IH [of ?s "fadd b a"] Cons.prems(3) by simp
qed

theorem topups_refine_account_witness:
  "balance_of (topups calm_world ''u1'' [Fin 1, Fin 2] sample_sys) ''u1'' =
   Some (fadd (fadd (Fin 5) (Fin 1)) (Fin 2))"
  using topups_refine_account [of sample_sys "''u1''" "Fin 5" "[Fin 1, Fin 2]" calm_world]
  by (simp add: balance_of_def) (simp add: sample_user_def)

text \<open>A top-up fails only for an amount that is not positive or an unknown user, and a failed one
  changes nothing at all.\<close>

theorem topup_failure_is_clean:
  assumes "user_store_ok (y_users s)" and "TopUpBalance w uid amount s = (Inl e, s')"
  shows "s' = s \<and> (fle amount (Fin 0) \<or> UserStore_GetByID (y_users s) uid = None)"
proof -
  have "s' = s" using assms(2) by (rule TopUpBalance_error)
  moreover have "fle amount (Fin 0) \<or> UserStore_GetByID (y_users s) uid = None"
  proof (rule ccontr)
    assume "\<not> ?thesis"
    then obtain u where "UserStore_GetByID (y_users s) uid = Some u" "\<not> fle amount (Fin 0)" by auto
    from TopUpBalance_known [OF assms(1) this, of w] assms(2) show False by simp
  qed
  ultimately show ?thesis by blast
qed

theorem topup_failure_is_clean_witness:
  "fle (Fin (- 1)) (Fin 0) \<and> snd (TopUpBalance calm_world ''u1'' (Fin (- 1)) sample_sys) = sample_sys"
  using topup_failure_is_clean [of sample_sys calm_world "''u1''" "Fin (- 1)"
      "ErrText ''top up amount must be positive''" sample_sys]
  by (simp add: TopUpBalance_def topup_read_def)

text \<open>Two top-ups whose reads both happen before the writes lose one: the balance ends with the
  second amount only, although both are in the journal. The store offers no atomic addition.\<close>

theorem interleaved_topups_lose_one:
  assumes "user_store_ok (y_users s)" and "UserStore_GetByID (y_users s) uid = Some u"
    and "topup_read uid a s = Inr ua" and "topup_read uid b s = Inr ub"
    and "topup_write w ua uid a s = (ra, s1)" and "topup_write w ub uid b s1 = (rb, s2)"
  shows "balance_of s2 uid = Some (fadd (u_BalanceRUB u) b)
    \<and> length (TxStore_ListByUser (y_txs s2) uid) = length (TxStore_ListByUser (y_txs s) uid) + 2"
proof -
  have id: "u_ID u = uid" using assms(1,2) by (auto simp: UserStore_GetByID_def dest: user_store_ok_get)
  have ua: "ua = u\<lparr>u_BalanceRUB := fadd (u_BalanceRUB u) a\<rparr>" "ub = u\<lparr>u_BalanceRUB := fadd (u_BalanceRUB u) b\<rparr>"
    using assms(2-4) by (auto simp: topup_read_Inr)
  show ?thesis
    using assms(2,5,6)
    by (auto simp: ua id topup_write_def UserStore_UpdateBalance_def UserStore_GetByID_def fresh_id_def
        now_def TxStore_Record_def balance_of_def TxStore_ListByUser_def topup_entry_def)
qed

theorem interleaved_topups_lose_one_witness:
  "balance_of (snd (topup_write calm_world (sample_user\<lparr>u_BalanceRUB := fadd (Fin 5) (Fin 2)\<rparr>) ''u1'' (Fin 2)
     (snd (topup_write calm_world (sample_user\<lparr>u_BalanceRUB := fadd (Fin 5) (Fin 1)\<rparr>) ''u1'' (Fin 1) sample_sys))))
     ''u1'' = Some (fadd (Fin 5) (Fin 2))"
proof -
  have b: "u_BalanceRUB sample_user = Fin 5" by (simp add: sample_user_def)
  show ?thesis
    using interleaved_topups_lose_one [of sample_sys "''u1''" sample_user "Fin 1"
        "sample_user\<lparr>u_BalanceRUB := fadd (Fin 5) (Fin 1)\<rparr>" "Fin 2"
        "sample_user\<lparr>u_BalanceRUB := fadd (Fin 5) (Fin 2)\<rparr>" calm_world, OF _ _ _ _ surjective_pairing surjective_pairing]
    by (simp add: topup_read_def b)
qed

text \<open>C23 The payment webhook is idempotent: delivering the same notification again changes nothing
  and reports success, whatever the first delivery did.\<close>

theorem payment_webhook_idempotent:
  "HandleYooKassaWebhook w yid (snd (HandleYooKassaWebhook w yid s)) =
     (None, snd (HandleYooKassaWebhook w yid s))"
proof (cases "hasPaymentStore w")
  case False
  then show ?thesis by (simp add: HandleYooKassaWebhook_def)
next
  case True
  note store = this
  show ?thesis
  proof (cases "PaymentStore_GetByYooKassaID (y_payments s) yid")
    case None
    then show ?thesis by (simp add: HandleYooKassaWebhook_def)
  next
    case (Some p)
    show ?thesis
    proof (cases "yk_Status p = YKSucceeded")
      case True
      with store Some show ?thesis by (simp add: webhook_done)
    next
      case False
      then show ?thesis
        using store Some by (simp add: webhook_done webhook_payments MarkSucceeded_get)
    qed
  qed
qed

text \<open>A credited payment is lost when the account cannot be credited at that moment: the payment is
  already marked as succeeded, the webhook fails once, and its retry reports success without
  crediting anything.\<close>

theorem webhook_failure_loses_payment:
  assumes "hasPaymentStore w" and "PaymentStore_GetByYooKassaID (y_payments s) yid = Some p"
    and "yk_Status p = YKPending" and "UserStore_GetByID (y_users s) (yk_UserID p) = None"
    and "HandleYooKassaWebhook w yid s = (e1, s1)"
  shows "e1 \<noteq> None \<and> y_users s1 = y_users s \<and> y_txs s1 = y_txs s
    \<and> map_option yk_Status (PaymentStore_GetByYooKassaID (y_payments s1) yid) = Some YKSucceeded
    \<and> HandleYooKassaWebhook w yid s1 = (None, s1)"
proof -
  let ?s = "s\<lparr>tick := Suc (tick s), y_payments := PaymentStore_MarkSucceeded (clock w (tick s)) (y_payments s) yid\<rparr>"
  obtain e where "TopUpBalance w (yk_UserID p) (yk_AmountRUB p) ?s = (Inl e, ?s)"
    using TopUpBalance_unknown [of ?s "yk_UserID p" w "yk_AmountRUB p"] assms(4) by auto
  then have h: "HandleYooKassaWebhook w yid s =
      (Some (ErrWrap (''credit balance for payment '' @ yid @ '': '') e ''''), ?s)"
    using assms(1-3) by (simp add: HandleYooKassaWebhook_def now_def)
  with assms(5) have s1: "e1 \<noteq> None" "s1 = ?s" by auto
  have "PaymentStore_GetByYooKassaID (y_payments ?s) yid =
      Some (p\<lparr>yk_Status := YKSucceeded, yk_UpdatedAt := clock w (tick s)\<rparr>)"
    using assms(2) by (simp add: MarkSucceeded_get)
  then show ?thesis
    using assms(1) s1 by (simp add: webhook_done)
qed

definition orphan_payment :: YooKassaPayment where
  "orphan_payment = \<lparr>yk_ID = ''i'', yk_YooKassaID = ''yk'', yk_UserID = ''gone'', yk_AmountRUB = Fin 900,
     yk_Status = YKPending, yk_CreatedAt = 0, yk_UpdatedAt = 0\<rparr>"

theorem webhook_failure_loses_payment_witness:
  "fst (HandleYooKassaWebhook calm_world ''yk'' (sample_sys\<lparr>y_payments := [orphan_payment]\<rparr>)) \<noteq> None"
  using webhook_failure_loses_payment [of calm_world "sample_sys\<lparr>y_payments := [orphan_payment]\<rparr>" "''yk''"
      orphan_payment, OF _ _ _ _ surjective_pairing]
  by (simp add: PaymentStore_GetByYooKassaID_def) (simp add: orphan_payment_def calm_world_def)

definition find_user :: "Sys \<Rightarrow> string \<Rightarrow> User option" where
  "find_user s email = UserStore_GetByEmail (y_users s) email"

text \<open>A registration that succeeds creates one account with the default balance, found by its
  identifier and by its email, and changes what no other email finds; it needs a free email.\<close>

theorem registration_creates_account:
  assumes "Register w req s = (Inr tok, s')"
  shows "find_user s (rr_Email req) = None
    \<and> (\<exists>u. find_user s' (rr_Email req) = Some u \<and> UserStore_GetByID (y_users s') (u_ID u) = Some u
        \<and> u_BalanceRUB u = defaultBalanceRUB w \<and> u_TelegramChatID u = 0)
    \<and> find_user s' = (find_user s)(rr_Email req := find_user s' (rr_Email req))"
  using assms
  by (auto simp: Register_def find_user_def UserStore_GetByEmail_def UserStore_Create_def UserStore_GetByID_def
      fresh_id_def fresh_code_def now_def call_def Let_def fun_eq_iff
      split: if_splits sum.splits option.splits prod.splits)

definition sample_registration :: RegisterRequest where
  "sample_registration = \<lparr>rr_Email = ''c@d.io'', rr_Password = ''pw'', rr_TelegramUsername = ''''\<rparr>"

lemma sample_register:
  "\<exists>tok s'. Register calm_world sample_registration sample_sys = (Inr tok, s')"
proof -
  have "TrimSpace ''c@d.io'' = ''c@d.io''" "TrimSpace ''pw'' = ''pw''"
    by (rule TrimSpace_graph; simp add: ascii_graph_def)+
  moreover have "TrimPrefix [] ''@'' = []" by (simp add: TrimPrefix_def)
  ultimately show ?thesis
    using sample_users(2) [of "''c@d.io''"]
    by (simp add: Register_def sample_registration_def normalizeTelegramUsername_def calm_world_def call_def
        fresh_id_def now_def UserStore_Create_def UserStore_GetByEmail_def)
qed

theorem registration_creates_account_witness:
  "find_user sample_sys (rr_Email sample_registration) = None"
  using sample_register registration_creates_account [of calm_world sample_registration sample_sys] by blast

text \<open>A login never tells whether the email exists: unless signing the token fails, the only error
  is the one for invalid credentials; and no login changes a store.\<close>

theorem login_reveals_nothing:
  assumes "Login w req s = (Inl e, s')"
  shows "(e = ErrInvalidCredentials \<or> (\<exists>c. e = ErrWrap ''generate token: '' c ''''))
    \<and> stores_of s' = stores_of s"
  using assms by (auto simp: Login_def call_def Let_def split: option.splits sum.splits)

theorem login_reveals_nothing_witness:
  "stores_of (snd (Login calm_world \<lparr>lo_Email = ''x'', lo_Password = ''y''\<rparr> sample_sys)) = stores_of sample_sys"
  using login_reveals_nothing [of calm_world "\<lparr>lo_Email = ''x'', lo_Password = ''y''\<rparr>" sample_sys
      ErrInvalidCredentials sample_sys]
  by (simp add: Login_def)

end
