(* ===== verification/Monetization.thy ===== *)
theory Monetization
  imports Runtime GoNumbers
begin

text \<open>
  The tariff and the cost engine of \<open>internal/monetization\<close>. Prices and costs are \<open>float64\<close>
  values, computed in the order of the code with one rounding per operation.
\<close>

section \<open>Tariff\<close>

definition DefaultTariff :: Tariff where
  "DefaultTariff = \<lparr>CPUCoreHourRUB = fl (72/100), MemoryGBHourRUB = fl (9/100),
     StorageGBMonthRUB = fl 45, EgressGBRUB = fl (108/100),
     DedicatedLoadBalancerHourRUB = fl (75/100)\<rparr>"

definition parseEnvFloat :: "(string \<Rightarrow> string) \<Rightarrow> string \<Rightarrow> f64" where
  "parseEnvFloat getenv key =
     (let s = TrimSpace (getenv key)
      in if s = '''' then Fin 0 else case ParseFloat s of None \<Rightarrow> Fin 0 | Some v \<Rightarrow> v)"

definition env_or :: "(string \<Rightarrow> string) \<Rightarrow> string \<Rightarrow> f64 \<Rightarrow> f64" where
  "env_or getenv key dflt =
     (let v = parseEnvFloat getenv key in if flt (Fin 0) v then v else dflt)"

definition TariffFromEnvironment :: "(string \<Rightarrow> string) \<Rightarrow> Tariff" where
  "TariffFromEnvironment getenv =
     \<lparr>CPUCoreHourRUB = env_or getenv ''TARIFF_CPU_CORE_HOUR_RUB'' (CPUCoreHourRUB DefaultTariff),
      MemoryGBHourRUB = env_or getenv ''TARIFF_MEMORY_GB_HOUR_RUB'' (MemoryGBHourRUB DefaultTariff),
      StorageGBMonthRUB = env_or getenv ''TARIFF_STORAGE_GB_MONTH_RUB'' (StorageGBMonthRUB DefaultTariff),
      EgressGBRUB = env_or getenv ''TARIFF_EGRESS_GB_RUB'' (EgressGBRUB DefaultTariff),
      DedicatedLoadBalancerHourRUB =
        env_or getenv ''TARIFF_DEDICATED_LOAD_BALANCER_HOUR_RUB'' (DedicatedLoadBalancerHourRUB DefaultTariff)\<rparr>"

section \<open>Cost\<close>

text \<open>\<open>d.Hours() / (30*24)\<close>\<close>

definition month_fraction :: "duration \<Rightarrow> f64" where
  "month_fraction d = fdiv (Hours d) (fint 720)"

definition ComputeUsageCost :: "Tariff \<Rightarrow> ResourceUsage \<Rightarrow> f64" where
  "ComputeUsageCost t u =
     fadd (fadd (fadd (fadd
       (fmul (ru_CPUCoreHours u) (CPUCoreHourRUB t))
       (fmul (ru_MemoryGBHours u) (MemoryGBHourRUB t)))
       (fmul (fmul (ru_StorageGB u) (StorageGBMonthRUB t))
             (month_fraction (ru_PeriodEnd u - ru_PeriodStart u))))
       (fmul (ru_EgressGB u) (EgressGBRUB t)))
       (fmul (ru_DedicatedLoadBalancerHours u) (DedicatedLoadBalancerHourRUB t))"

definition GetProjectCost_at :: "Tariff \<Rightarrow> UsageStore \<Rightarrow> gotime \<Rightarrow> string \<Rightarrow> CostBreakdown" where
  "GetProjectCost_at t st at_time pid =
     (let monthStart = month_start at_time;
          usage = UsageStore_AggregateForProject st pid monthStart at_time;
          storageMonthFraction = month_fraction (at_time - monthStart);
          total = fadd (fadd (fadd (fadd
            (fmul (ua_CPUCoreHours usage) (CPUCoreHourRUB t))
            (fmul (ua_MemoryGBHours usage) (MemoryGBHourRUB t)))
            (fmul (fmul (ua_StorageGB usage) (StorageGBMonthRUB t)) storageMonthFraction))
            (fmul (ua_EgressGB usage) (EgressGBRUB t)))
            (fmul (ua_DedicatedLoadBalancerHours usage) (DedicatedLoadBalancerHourRUB t))
      in \<lparr>cb_ProjectID = pid, cb_ProcessorCoreHours = ua_CPUCoreHours usage,
          cb_MemoryGigabyteHours = ua_MemoryGBHours usage,
          cb_PersistentStorageGigabytes = ua_StorageGB usage,
          cb_OutgoingTrafficGigabytes = ua_EgressGB usage,
          cb_DedicatedLoadBalancerHours = ua_DedicatedLoadBalancerHours usage,
          cb_Total = total, cb_Currency = ''RUB''\<rparr>)"

text \<open>The cost that the mock reports for every project.\<close>

definition mock_cost :: "string \<Rightarrow> CostBreakdown" where
  "mock_cost pid = \<lparr>cb_ProjectID = pid, cb_ProcessorCoreHours = fl (125/10), cb_MemoryGigabyteHours = fl 48,
     cb_PersistentStorageGigabytes = fl 10, cb_OutgoingTrafficGigabytes = fl (21/10),
     cb_DedicatedLoadBalancerHours = Fin 0, cb_Total = fl (1374/100), cb_Currency = ''RUB''\<rparr>"

definition Engine_ComputeUsageCost :: "MonetizationEngine \<Rightarrow> ResourceUsage \<Rightarrow> f64" where
  "Engine_ComputeUsageCost e usage = (case e of EngineMock \<Rightarrow> Fin 0 | PostgresEngine t \<Rightarrow> ComputeUsageCost t usage)"

text \<open>\<open>GetProjectCost\<close> of the engine reads the clock, then the usage store.\<close>

definition Engine_GetProjectCost :: "World \<Rightarrow> string \<Rightarrow> Sys \<Rightarrow> (go_error + CostBreakdown) \<times> Sys" where
  "Engine_GetProjectCost w pid s =
     (case monetization w of
        EngineMock \<Rightarrow> (Inr (mock_cost pid), s)
      | PostgresEngine tariff \<Rightarrow> (let (t, s) = now w s in (Inr (GetProjectCost_at tariff (y_usage s) t pid), s)))"

section \<open>Lemmas\<close>

definition tariff_positive :: "Tariff \<Rightarrow> bool" where
  "tariff_positive t \<longleftrightarrow> flt (Fin 0) (CPUCoreHourRUB t) \<and> flt (Fin 0) (MemoryGBHourRUB t)
     \<and> flt (Fin 0) (StorageGBMonthRUB t) \<and> flt (Fin 0) (EgressGBRUB t)
     \<and> flt (Fin 0) (DedicatedLoadBalancerHourRUB t)"

definition tariff_nn :: "Tariff \<Rightarrow> bool" where
  "tariff_nn t \<longleftrightarrow> fnn (CPUCoreHourRUB t) \<and> fnn (MemoryGBHourRUB t) \<and> fnn (StorageGBMonthRUB t)
     \<and> fnn (EgressGBRUB t) \<and> fnn (DedicatedLoadBalancerHourRUB t)"

definition usage_nn :: "ResourceUsage \<Rightarrow> bool" where
  "usage_nn u \<longleftrightarrow> fnn (ru_CPUCoreHours u) \<and> fnn (ru_MemoryGBHours u) \<and> fnn (ru_StorageGB u)
     \<and> fnn (ru_EgressGB u) \<and> fnn (ru_DedicatedLoadBalancerHours u)"

lemma flt_fnn: "flt (Fin 0) v \<Longrightarrow> fnn v"
  by (cases v) (auto simp: fnn_def)

lemma tariff_positive_nn: "tariff_positive t \<Longrightarrow> tariff_nn t"
  by (simp add: tariff_positive_def tariff_nn_def flt_fnn)

lemma env_or_positive: "flt (Fin 0) d \<Longrightarrow> flt (Fin 0) (env_or getenv key d)"
  by (simp add: env_or_def Let_def)

lemma DefaultTariff_positive: "tariff_positive DefaultTariff"
  by code_simp

lemma fnn_month_fraction: "0 \<le> d \<Longrightarrow> fnn (month_fraction d)"
  by (simp add: month_fraction_def fnn_fdiv fnn_Hours fnn_fint)

definition aggregate_nn :: "UsageAggregate \<Rightarrow> bool" where
  "aggregate_nn a \<longleftrightarrow> fnn (ua_CPUCoreHours a) \<and> fnn (ua_MemoryGBHours a) \<and> fnn (ua_StorageGB a)
     \<and> fnn (ua_EgressGB a) \<and> fnn (ua_DedicatedLoadBalancerHours a)"

lemma add_usage_nn: "usage_nn u \<Longrightarrow> aggregate_nn a \<Longrightarrow> aggregate_nn (add_usage pid x y u a)"
  by (simp add: add_usage_def aggregate_nn_def usage_nn_def fnn_fadd)

lemma AggregateForProject_nn:
  assumes "\<forall>u \<in> set st. usage_nn u"
  shows "aggregate_nn (UsageStore_AggregateForProject st pid x y)"
proof -
  have "aggregate_nn a \<Longrightarrow> aggregate_nn (fold (add_usage pid x y) st a)" for a
    using assms by (induction st arbitrary: a) (auto simp: add_usage_nn)
  then show ?thesis
    by (simp add: UsageStore_AggregateForProject_def empty_aggregate_def aggregate_nn_def)
qed

text \<open>Only the records of the project inside the window count.\<close>

lemma fold_add_usage_filter:
  "fold (add_usage pid x y) st a = fold (add_usage pid x y) (filter (in_window pid x y) st) a"
  by (induction st arbitrary: a) (auto simp: add_usage_def)

lemma fold_add_usage_lb:
  "ua_DedicatedLoadBalancerHours (fold (add_usage pid x y) st a) = ua_DedicatedLoadBalancerHours a"
  by (induction st arbitrary: a) (auto simp: add_usage_def)

text \<open>The storage of the aggregate is an upper bound of the records' storage.\<close>

lemma fold_add_usage_storage_mono:
  assumes "\<forall>u \<in> set st. ru_StorageGB u \<noteq> FNaN" and "ua_StorageGB a \<noteq> FNaN"
  shows "fle (ua_StorageGB a) (ua_StorageGB (fold (add_usage pid x y) st a))
    \<and> ua_StorageGB (fold (add_usage pid x y) st a) \<noteq> FNaN"
  using assms
proof (induction st arbitrary: a)
  case Nil
  then show ?case by (cases "ua_StorageGB a") auto
next
  case (Cons u st)
  have le: "fle (ua_StorageGB a) (ua_StorageGB (add_usage pid x y u a))"
    using Cons.prems by (cases "ua_StorageGB a"; cases "ru_StorageGB u") (auto simp: add_usage_def)
  have nn: "ua_StorageGB (add_usage pid x y u a) \<noteq> FNaN"
    using Cons.prems by (auto simp: add_usage_def)
  have "fle (ua_StorageGB (add_usage pid x y u a))
      (ua_StorageGB (fold (add_usage pid x y) st (add_usage pid x y u a)))
    \<and> ua_StorageGB (fold (add_usage pid x y) st (add_usage pid x y u a)) \<noteq> FNaN"
    using Cons.prems nn by (intro Cons.IH) auto
  with le show ?case by (auto intro: fle_trans)
qed

lemma fold_add_usage_storage_ge:
  assumes "u \<in> set st" and "in_window pid x y u"
    and "\<forall>u \<in> set st. ru_StorageGB u \<noteq> FNaN" and "ua_StorageGB a \<noteq> FNaN"
  shows "fle (ru_StorageGB u) (ua_StorageGB (fold (add_usage pid x y) st a))"
  using assms
proof (induction st arbitrary: a)
  case Nil
  then show ?case by simp
next
  case (Cons v st)
  have nn: "ua_StorageGB (add_usage pid x y v a) \<noteq> FNaN"
    using Cons.prems by (auto simp: add_usage_def)
  show ?case
  proof (cases "u = v")
    case True
    have "fle (ru_StorageGB u) (ua_StorageGB (add_usage pid x y v a))"
      using Cons.prems True
      by (cases "ua_StorageGB a"; cases "ru_StorageGB u") (auto simp: add_usage_def)
    then show ?thesis
      using fold_add_usage_storage_mono [of st "add_usage pid x y v a" pid x y] Cons.prems nn
      by (auto intro: fle_trans)
  next
    case False
    then show ?thesis using Cons.prems nn Cons.IH [of "add_usage pid x y v a"] by auto
  qed
qed

text \<open>
  A usage record whose period is the month so far and whose quantities are the aggregate's:
  the two cost functions agree on it.
\<close>

definition month_usage :: "UsageAggregate \<Rightarrow> gotime \<Rightarrow> ResourceUsage \<Rightarrow> bool" where
  "month_usage a t u \<longleftrightarrow> ru_PeriodStart u = month_start t \<and> ru_PeriodEnd u = t
     \<and> ru_CPUCoreHours u = ua_CPUCoreHours a \<and> ru_MemoryGBHours u = ua_MemoryGBHours a
     \<and> ru_StorageGB u = ua_StorageGB a \<and> ru_EgressGB u = ua_EgressGB a
     \<and> ru_DedicatedLoadBalancerHours u = ua_DedicatedLoadBalancerHours a"

section \<open>Properties\<close>

text \<open>Whatever the environment contains, every price of the tariff is positive: a value that is
  missing, unreadable, NaN, zero or negative falls back to the default price.\<close>

theorem environment_tariff_positive: "tariff_positive (TariffFromEnvironment getenv)"
proof -
  have d: "tariff_positive DefaultTariff" by (rule DefaultTariff_positive)
  show ?thesis
    using d unfolding tariff_positive_def
    by (simp add: TariffFromEnvironment_def env_or_positive)
qed

text \<open>The cost of a project's month so far is never negative when no price and no recorded
  quantity is: charges cannot turn into credit.\<close>

theorem month_cost_nonnegative:
  assumes "tariff_nn t" and "\<forall>u \<in> set st. usage_nn u"
  shows "fnn (cb_Total (GetProjectCost_at t st at_time pid))"
proof -
  let ?a = "UsageStore_AggregateForProject st pid (month_start at_time) at_time"
  have "aggregate_nn ?a" using assms(2) by (rule AggregateForProject_nn)
  moreover have "fnn (month_fraction (at_time - month_start at_time))"
    using month_start_le [of at_time] by (intro fnn_month_fraction) simp
  ultimately show ?thesis
    using assms(1)
    by (simp add: GetProjectCost_at_def Let_def aggregate_nn_def tariff_nn_def fnn_fadd fnn_fmul)
qed

definition sample_usage :: ResourceUsage where
  "sample_usage = \<lparr>ru_ID = ''m1'', ru_ProjectID = ''p1'', ru_PeriodStart = 0, ru_PeriodEnd = Hour,
     ru_CPUCores = Fin 1, ru_MemoryGB = Fin 2, ru_StorageGB = Fin 5, ru_EgressGB = Fin 0,
     ru_ReplicaCount = 1, ru_PodUptimeHours = Fin 1, ru_CPUCoreHours = Fin 1,
     ru_MemoryGBHours = Fin 2, ru_DedicatedLoadBalancerHours = Fin 1, ru_RecordedAt = Hour\<rparr>"

theorem month_cost_nonnegative_witness:
  "fnn (cb_Total (GetProjectCost_at DefaultTariff [sample_usage] Hour ''p1''))"
  by (rule month_cost_nonnegative)
    (simp_all add: DefaultTariff_positive tariff_positive_nn usage_nn_def sample_usage_def)

text \<open>The aggregate of a month, as one usage record whose period is the month so far.\<close>

definition month_record :: "UsageAggregate \<Rightarrow> gotime \<Rightarrow> ResourceUsage \<Rightarrow> ResourceUsage" where
  "month_record a t u = u\<lparr>ru_PeriodStart := month_start t, ru_PeriodEnd := t,
     ru_CPUCoreHours := ua_CPUCoreHours a, ru_MemoryGBHours := ua_MemoryGBHours a,
     ru_StorageGB := ua_StorageGB a, ru_EgressGB := ua_EgressGB a,
     ru_DedicatedLoadBalancerHours := ua_DedicatedLoadBalancerHours a\<rparr>"

text \<open>The two price formulas of the engine agree: the month's cost is the cost of one usage
  record that holds the aggregate and spans the month so far, rounding included.\<close>

theorem month_cost_is_usage_cost:
  "cb_Total (GetProjectCost_at t st at_time pid) =
   ComputeUsageCost t (month_record
     (UsageStore_AggregateForProject st pid (month_start at_time) at_time) at_time u)"
  by (simp add: GetProjectCost_at_def ComputeUsageCost_def month_record_def Let_def)

text \<open>The monthly aggregate depends only on the project's own records that lie inside the window,
  and its storage is the peak: at least the storage of each of them.\<close>

theorem aggregate_window_and_peak:
  assumes "u \<in> set st" and "in_window pid from_t to_t u" and "\<forall>v \<in> set st. ru_StorageGB v \<noteq> FNaN"
  shows "UsageStore_AggregateForProject st pid from_t to_t =
      UsageStore_AggregateForProject (filter (in_window pid from_t to_t) st) pid from_t to_t
    \<and> fle (ru_StorageGB u) (ua_StorageGB (UsageStore_AggregateForProject st pid from_t to_t))"
  using fold_add_usage_filter [of pid from_t to_t st empty_aggregate]
    fold_add_usage_storage_ge [OF assms, of empty_aggregate]
  by (simp add: UsageStore_AggregateForProject_def empty_aggregate_def)

theorem aggregate_window_and_peak_witness:
  "fle (Fin 5) (ua_StorageGB (UsageStore_AggregateForProject [sample_usage] ''p1'' 0 Day))"
  using aggregate_window_and_peak [of sample_usage "[sample_usage]" "''p1''" 0 Day]
  by (simp add: sample_usage_def in_window_def duration_units)

text \<open>The in-memory usage store loses the dedicated load balancer: whatever hours were recorded,
  their sum in the aggregate is zero, so such a month costs the same as one without it.\<close>

theorem memory_aggregate_drops_load_balancer:
  "ua_DedicatedLoadBalancerHours (UsageStore_AggregateForProject st pid from_t to_t) = Fin 0
   \<and> cb_Total (GetProjectCost_at t (map (\<lambda>u. u\<lparr>ru_DedicatedLoadBalancerHours := h\<rparr>) st) at_time pid) =
     cb_Total (GetProjectCost_at t st at_time pid)"
proof -
  have "fold (add_usage pid x y) (map (\<lambda>u. u\<lparr>ru_DedicatedLoadBalancerHours := h\<rparr>) st) a =
      fold (add_usage pid x y) st a" for x y a
    by (induction st arbitrary: a) (simp_all add: add_usage_def in_window_def)
  then show ?thesis
    by (simp add: GetProjectCost_at_def UsageStore_AggregateForProject_def fold_add_usage_lb
        empty_aggregate_def Let_def)
qed

end
