(* ===== verification/Sha1.thy ===== *)
theory Sha1
  imports Domain "HOL-Library.Word"
begin

unbundle bit_operations_syntax

text \<open>
  SHA-1 of \<open>crypto/sha1\<close> on byte strings, and the dashboard identifier that
  \<open>internal/domain/grafana.go\<close> derives from it.
\<close>

type_synonym w32 = "32 word"

definition sha1_pad :: "nat list \<Rightarrow> nat list" where
  "sha1_pad m = (let l = length m; k = (119 - l mod 64) mod 64
     in m @ 128 # replicate k 0 @ map (\<lambda>i. (8 * l) div 256 ^ i mod 256) (rev [0..<8]))"

fun be_words :: "nat list \<Rightarrow> w32 list" where
  "be_words (a # b # c # d # r) =
     word_of_nat (((a * 256 + b) * 256 + c) * 256 + d) # be_words r"
| "be_words _ = []"

fun sha1_schedule :: "nat \<Rightarrow> w32 list \<Rightarrow> w32 list" where
  "sha1_schedule 0 ws = ws"
| "sha1_schedule (Suc n) ws =
     (let t = length ws;
          x = (ws ! (t - 3) XOR ws ! (t - 8) XOR ws ! (t - 14) XOR ws ! (t - 16))
      in sha1_schedule n (ws @ [word_rotl 1 x]))"

definition sha1_f :: "nat \<Rightarrow> w32 \<Rightarrow> w32 \<Rightarrow> w32 \<Rightarrow> w32 \<times> w32" where
  "sha1_f t b c d =
     (if t < 20 then ((b AND c) OR (NOT b AND d), 0x5A827999)
      else if t < 40 then (b XOR c XOR d, 0x6ED9EBA1)
      else if t < 60 then ((b AND c) OR (b AND d) OR (c AND d), 0x8F1BBCDC)
      else (b XOR c XOR d, 0xCA62C1D6))"

type_synonym sha1_state = "w32 \<times> w32 \<times> w32 \<times> w32 \<times> w32"

fun sha1_rounds :: "nat \<Rightarrow> w32 list \<Rightarrow> sha1_state \<Rightarrow> sha1_state" where
  "sha1_rounds t [] st = st"
| "sha1_rounds t (w # ws) (a, b, c, d, e) =
     (let (f, k) = sha1_f t b c d
      in sha1_rounds (Suc t) ws (word_rotl 5 a + f + e + k + w, a, word_rotl 30 b, c, d))"

definition sha1_block :: "w32 list \<Rightarrow> sha1_state \<Rightarrow> sha1_state" where
  "sha1_block ws st =
     (case (st, sha1_rounds 0 (sha1_schedule 64 ws) st) of
        ((a, b, c, d, e), (a', b', c', d', e')) \<Rightarrow> (a + a', b + b', c + c', d + d', e + e'))"

function sha1_blocks :: "w32 list \<Rightarrow> sha1_state \<Rightarrow> sha1_state" where
  "sha1_blocks ws st =
     (if length ws < 16 then st else sha1_blocks (drop 16 ws) (sha1_block (take 16 ws) st))"
  by pat_completeness auto
termination
  by (relation "measure (\<lambda>(ws, st). length ws)") auto

declare sha1_blocks.simps [simp del]

definition sha1_init :: sha1_state where
  "sha1_init = (0x67452301, 0xEFCDAB89, 0x98BADCFE, 0x10325476, 0xC3D2E1F0)"

definition hex_digit :: "nat \<Rightarrow> char" where
  "hex_digit n = (''0123456789abcdef'') ! n"

definition hex_word :: "w32 \<Rightarrow> string" where
  "hex_word x = map (\<lambda>i. hex_digit (unat x div 16 ^ i mod 16)) (rev [0..<8])"

definition sha1_hex :: "string \<Rightarrow> string" where
  "sha1_hex s =
     (case sha1_blocks (be_words (sha1_pad (map of_char s))) sha1_init of
        (a, b, c, d, e) \<Rightarrow> hex_word a @ hex_word b @ hex_word c @ hex_word d @ hex_word e)"

definition ProjectGrafanaDashboardUID :: "string \<Rightarrow> string" where
  "ProjectGrafanaDashboardUID pid = ''project-'' @ take 32 (sha1_hex pid)"

lemma length_hex_word [simp]: "length (hex_word x) = 8"
  by (simp add: hex_word_def)

lemma length_sha1_hex [simp]: "length (sha1_hex s) = 40"
  unfolding sha1_hex_def
  by (cases "sha1_blocks (be_words (sha1_pad (map of_char s))) sha1_init" rule: prod_cases5) simp

lemma hex_digit_mem: "n < 16 \<Longrightarrow> hex_digit n \<in> set ''0123456789abcdef''"
  unfolding hex_digit_def by (rule nth_mem) simp

lemma set_hex_word: "set (hex_word x) \<subseteq> set ''0123456789abcdef''"
proof -
  have "hex_digit (unat x div 16 ^ i mod 16) \<in> set ''0123456789abcdef''" for i
    by (rule hex_digit_mem) simp
  then show ?thesis unfolding hex_word_def set_map by blast
qed

lemma set_sha1_hex: "set (sha1_hex s) \<subseteq> set ''0123456789abcdef''"
proof -
  obtain a b c d e where st: "sha1_blocks (be_words (sha1_pad (map of_char s))) sha1_init = (a, b, c, d, e)"
    by (rule prod_cases5)
  show ?thesis
    unfolding sha1_hex_def st prod.case set_append using set_hex_word by blast
qed

end
