(* ===== verification/ProjectHelpers.thy ===== *)
theory ProjectHelpers
  imports Runtime Sha1
begin

text \<open>
  The pure functions of \<open>internal/service/project_service.go\<close>: normalisation of user input,
  stage slugs and workflow paths, public links, the deploy reserve, and the classification of
  cluster errors. Cyrillic texts are given by their UTF-8 bytes.
\<close>

definition utf8 :: "nat list \<Rightarrow> string" where
  "utf8 bs = map char_of bs"

section \<open>Normalisation of settings\<close>

definition normalizedServiceType :: "string \<Rightarrow> string" where
  "normalizedServiceType value =
     (let v = ToLower (TrimSpace value)
      in if v = ''loadbalancer'' then ''loadbalancer''
         else if v = ''clusterip'' then ''clusterip'' else '''')"

definition normalizedReplicaCount :: "int \<Rightarrow> int" where
  "normalizedReplicaCount value = (if value \<le> 0 then 1 else if value > 10 then 10 else value)"

definition normalizedResourceProfile :: "string \<Rightarrow> string" where
  "normalizedResourceProfile value =
     (let v = ToLower (TrimSpace value)
      in if v = ''starter'' then ''starter''
         else if v = ''performance'' then ''performance''
         else if v = ''balanced'' then ''balanced'' else ''balanced'')"

section \<open>Stage slugs and workflow files\<close>

definition is_slug_char :: "char \<Rightarrow> bool" where
  "is_slug_char c \<longleftrightarrow> (0x61 \<le> (of_char c :: nat) \<and> (of_char c :: nat) \<le> 0x7A)
     \<or> (0x30 \<le> (of_char c :: nat) \<and> (of_char c :: nat) \<le> 0x39)"

text \<open>
  The loop over the runes of the lower-cased name, with its flag \<open>lastDash\<close>. A rune outside
  ASCII is a run of bytes outside \<open>a-z0-9\<close>, and a run of those makes one dash.
\<close>

fun slug_loop :: "string \<Rightarrow> bool \<Rightarrow> string" where
  "slug_loop [] lastDash = []"
| "slug_loop (c # cs) lastDash =
     (if is_slug_char c then c # slug_loop cs False
      else if lastDash then slug_loop cs True
      else CHR ''-'' # slug_loop cs True)"

definition slugifyStageName :: "string \<Rightarrow> string" where
  "slugifyStageName value =
     (let raw = TrimSpace (ToLower value)
      in if raw = '''' then '''' else TrimChar (CHR ''-'') (slug_loop raw False))"

definition stageWorkflowPath :: "string \<Rightarrow> string" where
  "stageWorkflowPath stageSlug =
     (if stageSlug = '''' \<or> stageSlug = ''production'' then ''.github/workflows/deploy-service.yml''
      else ''.github/workflows/deploy-service-'' @ stageSlug @ ''.yml'')"

definition stageSlugFromWorkflowPath :: "string \<Rightarrow> string" where
  "stageSlugFromWorkflowPath path =
     (let base = after_last_slash path
      in if base = ''deploy-service.yml'' \<or> base = ''deploy-deploy-service.yml'' then ''production''
         else if HasPrefix base ''deploy-service-'' \<and> HasSuffix base ''.yml''
         then TrimSuffix (TrimPrefix base ''deploy-service-'') ''.yml''
         else '''')"

section \<open>Links\<close>

definition effectiveBaseDomain :: "World \<Rightarrow> Project \<Rightarrow> string" where
  "effectiveBaseDomain w p =
     (let d = TrimSpace (p_AppsBaseDomain p) in if d \<noteq> '''' then d else appsBaseDomain w)"

definition with_port :: "World \<Rightarrow> string \<Rightarrow> string" where
  "with_port w host =
     (if appsURLPort w = '''' \<or> appsURLPort w = ''80'' \<or> appsURLPort w = ''443''
      then appsURLScheme w @ ''://'' @ host
      else appsURLScheme w @ ''://'' @ host @ '':'' @ appsURLPort w)"

definition projectPublicURL :: "World \<Rightarrow> Project \<Rightarrow> string" where
  "projectPublicURL w p =
     (let baseDomain = effectiveBaseDomain w p
      in if baseDomain = '''' then '''' else with_port w (p_ID p @ ''.'' @ baseDomain))"

definition stagePublicURL :: "World \<Rightarrow> Project \<Rightarrow> string \<Rightarrow> string" where
  "stagePublicURL w p stageSlug =
     (let baseDomain = effectiveBaseDomain w p
      in if baseDomain = '''' then ''''
         else with_port w
           (if stageSlug = '''' \<or> stageSlug = ''production'' then p_ID p @ ''.'' @ baseDomain
            else p_ID p @ ''.'' @ stageSlug @ ''.'' @ baseDomain))"

definition projectGrafanaURL :: "World \<Rightarrow> Project \<Rightarrow> string" where
  "projectGrafanaURL w p =
     (let baseDomain = effectiveBaseDomain w p
      in if baseDomain = '''' then ''''
         else appsURLScheme w @ ''://grafana-'' @ p_ID p @ ''.'' @ baseDomain @ ''/d/''
              @ ProjectGrafanaDashboardUID (p_ID p) @ ''/project-metrics?orgId=1&refresh=30s'')"

definition usesSharedProjectIngress :: "Project \<Rightarrow> bool" where
  "usesSharedProjectIngress p \<longleftrightarrow>
     normalizedServiceType (p_ServiceType p) = ''loadbalancer'' \<and> \<not> p_DedicatedLoadBalancer p"

definition hydrateProjectLinks :: "World \<Rightarrow> Project \<Rightarrow> Project" where
  "hydrateProjectLinks w p =
     (if effectiveBaseDomain w p = '''' then p
      else let g = projectGrafanaURL w p;
               p1 = (if TrimSpace g \<noteq> '''' then p\<lparr>p_GrafanaURL := g\<rparr> else p)
           in if TrimSpace (p_PublicURL p1) = '''' \<and> usesSharedProjectIngress p1
              then p1\<lparr>p_PublicURL := projectPublicURL w p1\<rparr> else p1)"

definition resolveRepositoryForRequest :: "string \<Rightarrow> string \<Rightarrow> Project \<Rightarrow> string \<times> string" where
  "resolveRepositoryForRequest requestOwner requestName p =
     (let repositoryOwner = TrimSpace requestOwner; repositoryName = TrimSpace requestName
      in (if repositoryOwner = '''' then TrimSpace (p_RepositoryOwner p) else repositoryOwner,
          if repositoryName = '''' then TrimSpace (p_RepositoryName p) else repositoryName))"

section \<open>The deploy reserve\<close>

definition profile_multiplier :: "string \<Rightarrow> f64" where
  "profile_multiplier profile =
     (if profile = ''starter'' then fl (9/10)
      else if profile = ''balanced'' then fl (115/100)
      else if profile = ''performance'' then fl (145/100) else Fin 1)"

definition base_reserve :: "string \<Rightarrow> bool \<Rightarrow> f64" where
  "base_reserve serviceType dedicated =
     (if serviceType = ''loadbalancer''
      then (if dedicated then fadd (fl (85/100)) (fl (75/100)) else fl (85/100))
      else fl (45/100))"

definition scaled_reserve :: "string \<Rightarrow> bool \<Rightarrow> int \<Rightarrow> string \<Rightarrow> f64" where
  "scaled_reserve serviceType dedicated replicaCount resourceProfile =
     fmul (fmul (base_reserve serviceType dedicated)
                (profile_multiplier (normalizedResourceProfile resourceProfile)))
          (fadd (fl (85/100))
                (fmul (fl (15/100)) (fmax (Fin 1) (fint (normalizedReplicaCount replicaCount)))))"

definition estimateRequiredDeployReserve ::
  "string \<Rightarrow> bool \<Rightarrow> f64 \<Rightarrow> int \<Rightarrow> string \<Rightarrow> f64" where
  "estimateRequiredDeployReserve serviceType dedicated spentThisMonth replicaCount resourceProfile =
     fadd (scaled_reserve serviceType dedicated replicaCount resourceProfile)
          (fmin (Fin 3) (fmul spentThisMonth (fl (8/100))))"

section \<open>Classification of errors and of workflow runs\<close>

definition isRetryableProjectProvisionError :: "go_error \<Rightarrow> bool" where
  "isRetryableProjectProvisionError e =
     (let lower = ToLower (Error e)
      in Contains lower ''retry in a few seconds'' \<or> Contains lower ''not ready yet''
       \<or> Contains lower ''failed to wait for kubeconfig secret''
       \<or> Contains lower ''context deadline exceeded'' \<or> Contains lower ''timeout''
       \<or> Contains lower ''connection refused'' \<or> Contains lower ''temporary failure''
       \<or> Contains lower ''temporarily unavailable'' \<or> Contains lower ''untolerated taint''
       \<or> Contains lower ''failedscheduling'')"

definition stageEnvironmentUnavailableMessage :: string where
  "stageEnvironmentUnavailableMessage = utf8 [
     208, 189, 208, 181, 32, 209, 131, 208, 180, 208, 176, 208, 187, 208, 190, 209, 129, 209,
     140, 32, 209, 129, 208, 190, 208, 183, 208, 180, 208, 176, 209, 130, 209, 140, 32, 208,
     186, 208, 190, 208, 189, 209, 130, 209, 131, 209, 128, 58, 32, 208, 184, 208, 189, 209,
     132, 209, 128, 208, 176, 209, 129, 209, 130, 209, 128, 209, 131, 208, 186, 209, 130, 209,
     131, 209, 128, 208, 176, 32, 208, 191, 209, 128, 208, 190, 208, 181, 208, 186, 209, 130,
     208, 176, 32, 208, 189, 208, 181, 208, 180, 208, 190, 209, 129, 209, 130, 209, 131, 208,
     191, 208, 189, 208, 176, 46, 32, 208, 159, 209, 128, 208, 190, 208, 178, 208, 181, 209,
     128, 209, 140, 209, 130, 208, 181, 44, 32, 209, 135, 209, 130, 208, 190, 32, 208, 191,
     209, 128, 208, 190, 208, 181, 208, 186, 209, 130, 32, 208, 176, 208, 186, 209, 130, 208,
     184, 208, 178, 208, 181, 208, 189, 44, 32, 208, 183, 208, 176, 209, 130, 208, 181, 208,
     188, 32, 208, 189, 208, 176, 208, 182, 208, 188, 208, 184, 209, 130, 208, 181, 32, 194,
     171, 208, 145, 208, 181, 208, 183, 208, 190, 208, 191, 208, 176, 209, 129, 208, 189, 208,
     190, 32, 208, 178, 208, 190, 208, 183, 208, 190, 208, 177, 208, 189, 208, 190, 208, 178,
     208, 184, 209, 130, 209, 140, 194, 187, 32, 208, 184, 32, 208, 191, 208, 190, 208, 178,
     209, 130, 208, 190, 209, 128, 208, 184, 209, 130, 208, 181, 32, 208, 191, 208, 190, 208,
     191, 209, 139, 209, 130, 208, 186, 209, 131, 46, 32, 208, 149, 209, 129, 208, 187, 208,
     184, 32, 208, 191, 209, 128, 208, 190, 208, 177, 208, 187, 208, 181, 208, 188, 208, 176,
     32, 209, 129, 208, 190, 209, 133, 209, 128, 208, 176, 208, 189, 209, 143, 208, 181, 209,
     130, 209, 129, 209, 143, 44, 32, 208, 191, 208, 181, 209, 128, 208, 181, 209, 129, 208,
     190, 208, 183, 208, 180, 208, 176, 208, 185, 209, 130, 208, 181, 32, 208, 191, 209, 128,
     208, 190, 208, 181, 208, 186, 209, 130, 46]"

definition kubeconfigUnavailableMessage :: string where
  "kubeconfigUnavailableMessage = utf8 [
     107, 117, 98, 101, 99, 111, 110, 102, 105, 103, 32, 208, 191, 209, 128, 208, 190, 208,
     181, 208, 186, 209, 130, 208, 176, 32, 208, 191, 208, 190, 208, 186, 208, 176, 32, 208,
     189, 208, 181, 208, 180, 208, 190, 209, 129, 209, 130, 209, 131, 208, 191, 208, 181, 208,
     189, 58, 32, 118, 99, 108, 117, 115, 116, 101, 114, 32, 208, 181, 209, 137, 209, 145, 32,
     208, 183, 208, 176, 208, 191, 209, 131, 209, 129, 208, 186, 208, 176, 208, 181, 209, 130,
     209, 129, 209, 143, 32, 208, 184, 208, 187, 208, 184, 32, 208, 189, 208, 181, 208, 180,
     208, 190, 209, 129, 209, 130, 209, 131, 208, 191, 208, 181, 208, 189, 46, 32, 208, 159,
     208, 190, 208, 180, 208, 190, 208, 182, 208, 180, 208, 184, 209, 130, 208, 181, 32, 50,
     48, 226, 128, 147, 54, 48, 32, 209, 129, 208, 181, 208, 186, 209, 131, 208, 189, 208, 180,
     32, 208, 184, 32, 208, 191, 208, 190, 208, 191, 209, 128, 208, 190, 208, 177, 209, 131,
     208, 185, 209, 130, 208, 181, 32, 209, 129, 208, 189, 208, 190, 208, 178, 208, 176, 46,
     32, 208, 149, 209, 129, 208, 187, 208, 184, 32, 208, 191, 209, 128, 208, 190, 208, 181,
     208, 186, 209, 130, 32, 208, 177, 209, 139, 208, 187, 32, 208, 190, 209, 129, 209, 130,
     208, 176, 208, 189, 208, 190, 208, 178, 208, 187, 208, 181, 208, 189, 44, 32, 208, 178,
     208, 190, 208, 183, 208, 190, 208, 177, 208, 189, 208, 190, 208, 178, 208, 184, 209, 130,
     208, 181, 32, 208, 181, 208, 179, 208, 190, 32, 208, 184, 32, 208, 191, 208, 190, 208,
     178, 209, 130, 208, 190, 209, 128, 208, 184, 209, 130, 208, 181, 32, 208, 191, 208, 190,
     208, 191, 209, 139, 209, 130, 208, 186, 209, 131, 46]"

text \<open>The start of the commit message that a bootstrap gives its pending release.\<close>

definition pendingReleasePrefix :: string where
  "pendingReleasePrefix = utf8 [
     208, 158, 208, 182, 208, 184, 208, 180, 208, 176, 208, 181, 209, 130, 32, 208, 183, 208,
     176, 208, 191, 209, 131, 209, 129, 208, 186, 208, 176, 32, 208, 180, 208, 181, 208, 191,
     208, 187, 208, 190, 209, 143, 32, 208, 184, 208, 183, 32, 80, 82, 58]"

definition mapProjectEnvironmentError :: "go_error \<Rightarrow> string \<Rightarrow> go_error" where
  "mapProjectEnvironmentError e userMessage =
     (if errors_Is e ErrProjectEnvironmentUnavailable then e
      else let lower = ToLower (Error e) in
        if Contains lower ''get vcluster kubeconfig for project''
         \<or> Contains lower ''get kubeconfig secret for project''
         \<or> (Contains lower ''kubeconfig secret'' \<and> Contains lower ''not ready'')
         \<or> Contains lower ''ensure external endpoint for project''
         \<or> Contains lower ''external ip for vcluster service''
         \<or> Contains lower ''ylb.networkloadbalancers.count''
         \<or> (Contains lower (''namespaces '' @ CHR 0x22 # ''project-'') \<and> Contains lower ''not found'')
         \<or> (Contains lower (''secrets '' @ CHR 0x22 # ''vc-vcluster-'') \<and> Contains lower ''not found'')
        then ErrWrap '''' ErrProjectEnvironmentUnavailable ('': '' @ userMessage)
        else e)"

definition mapStageEnvironmentError :: "go_error \<Rightarrow> go_error" where
  "mapStageEnvironmentError e = mapProjectEnvironmentError e stageEnvironmentUnavailableMessage"

definition mapKubeconfigAvailabilityError :: "go_error \<Rightarrow> go_error" where
  "mapKubeconfigAvailabilityError e = mapProjectEnvironmentError e kubeconfigUnavailableMessage"

definition mapWorkflowRunStatus :: "string \<Rightarrow> string \<Rightarrow> ReleaseStatus option" where
  "mapWorkflowRunStatus status conclusion =
     (if status = ''in_progress'' then Some RBuilding
      else if status = ''completed'' \<and> conclusion = ''success'' then Some RSuccess
      else if status = ''completed'' then Some RFailed
      else if status = ''queued'' \<or> status = ''requested'' \<or> status = ''waiting'' then Some RPending
      else None)"

section \<open>Lemmas: slugs\<close>

lemma slug_loop_chars: "c \<in> set (slug_loop s d) \<Longrightarrow> is_slug_char c \<or> c = CHR ''-''"
  by (induction s d rule: slug_loop.induct) (auto split: if_splits)

fun no_double_dash :: "string \<Rightarrow> bool" where
  "no_double_dash (a # b # s) = (\<not> (a = CHR ''-'' \<and> b = CHR ''-'') \<and> no_double_dash (b # s))"
| "no_double_dash s = True"

lemma dash_not_slug_char [simp]: "\<not> is_slug_char (CHR ''-'')"
  by (simp add: is_slug_char_def)

lemma no_double_dash_Cons:
  "no_double_dash (a # s) \<longleftrightarrow> (a = CHR ''-'' \<longrightarrow> s = [] \<or> hd s \<noteq> CHR ''-'') \<and> no_double_dash s"
  by (cases s) auto

lemma slug_loop_dashes:
  "no_double_dash (slug_loop s d) \<and> (d \<longrightarrow> slug_loop s d = [] \<or> hd (slug_loop s d) \<noteq> CHR ''-'')"
  by (induction s d rule: slug_loop.induct) (auto simp: no_double_dash_Cons)

lemma no_double_dash_suffix: "suffix t s \<Longrightarrow> no_double_dash s \<Longrightarrow> no_double_dash t"
  by (induction s) (auto simp: suffix_Cons no_double_dash_Cons)

lemma no_double_dash_append: "no_double_dash (s @ t) \<Longrightarrow> no_double_dash s"
  by (induction s rule: no_double_dash.induct) (auto simp: no_double_dash_Cons hd_append split: if_splits)

lemma dropWhile_suffix: "suffix (dropWhile P s) s"
  by (induction s) (auto simp: suffix_Cons)

lemma TrimChar_split: "\<exists>a b. s = a @ TrimChar c s @ b"
proof -
  let ?m = "dropWhile (\<lambda>x. x = c) s"
  have "\<exists>a. s = a @ ?m" using dropWhile_suffix by (auto simp: suffix_def)
  moreover have "\<exists>b. ?m = TrimChar c s @ b"
    using dropWhile_suffix [of "\<lambda>x. x = c" "rev ?m"]
    by (auto simp: TrimChar_def suffix_def) (metis rev_append rev_rev_ident)
  ultimately show ?thesis by (metis append.assoc)
qed

lemma TrimChar_edges:
  "TrimChar c s = [] \<or> hd (TrimChar c s) \<noteq> c \<and> last (TrimChar c s) \<noteq> c"
proof -
  let ?m = "dropWhile (\<lambda>x. x = c) s"
  have "last (TrimChar c s) \<noteq> c" if "TrimChar c s \<noteq> []"
    using hd_dropWhile [of "\<lambda>x. x = c" "rev ?m"] that
    by (simp add: TrimChar_def last_rev)
  moreover have "hd (TrimChar c s) \<noteq> c" if ne: "TrimChar c s \<noteq> []"
  proof -
    obtain b where b: "?m = TrimChar c s @ b"
      using dropWhile_suffix [of "\<lambda>x. x = c" "rev ?m"]
      by (auto simp: TrimChar_def suffix_def) (metis rev_append rev_rev_ident)
    then have "hd ?m = hd (TrimChar c s)" "?m \<noteq> []" using ne by auto
    then show ?thesis using hd_dropWhile [of "\<lambda>x. x = c" s] by auto
  qed
  ultimately show ?thesis by blast
qed

lemma TrimChar_same:
  "s = [] \<or> hd s \<noteq> c \<and> last s \<noteq> c \<Longrightarrow> TrimChar c s = s"
proof (cases "s = []")
  case False
  assume *: "s = [] \<or> hd s \<noteq> c \<and> last s \<noteq> c"
  then have "dropWhile (\<lambda>x. x = c) s = s" "dropWhile (\<lambda>x. x = c) (rev s) = rev s"
    using False by (simp_all add: dropWhile_eq_self_iff hd_rev)
  then show ?thesis by (simp add: TrimChar_def)
qed (simp add: TrimChar_def)

text \<open>The shape of a slug.\<close>

definition slug_wf :: "string \<Rightarrow> bool" where
  "slug_wf s \<longleftrightarrow> list_all (\<lambda>c. is_slug_char c \<or> c = CHR ''-'') s \<and> no_double_dash s
     \<and> (s = [] \<or> hd s \<noteq> CHR ''-'' \<and> last s \<noteq> CHR ''-'')"

lemma slugify_wf: "slug_wf (slugifyStageName v)"
proof -
  let ?r = "slug_loop (TrimSpace (ToLower v)) False"
  obtain a b where ab: "?r = a @ TrimChar (CHR ''-'') ?r @ b" using TrimChar_split by blast
  have "no_double_dash (TrimChar (CHR ''-'') ?r)"
    using slug_loop_dashes [of "TrimSpace (ToLower v)" False] ab
    by (metis no_double_dash_append no_double_dash_suffix suffixI)
  moreover have "c \<in> set (TrimChar (CHR ''-'') ?r) \<Longrightarrow> is_slug_char c \<or> c = CHR ''-''" for c
    using slug_loop_chars [of c "TrimSpace (ToLower v)" False] ab
    by (metis UnCI set_append)
  ultimately show ?thesis
    using TrimChar_edges [of "CHR ''-''" ?r]
    by (auto simp: slug_wf_def slugifyStageName_def Let_def list_all_iff)
qed

lemma slug_loop_fixed:
  "list_all (\<lambda>c. is_slug_char c \<or> c = CHR ''-'') s \<Longrightarrow> no_double_dash s \<Longrightarrow>
   (d \<longrightarrow> s = [] \<or> hd s \<noteq> CHR ''-'') \<Longrightarrow> slug_loop s d = s"
  by (induction s arbitrary: d) (auto simp: no_double_dash_Cons)

lemma slug_char_graph: "is_slug_char c \<or> c = CHR ''-'' \<Longrightarrow> ascii_graph c"
  by (auto simp: is_slug_char_def ascii_graph_def)

lemma lower_slug_char [simp]: "is_slug_char c \<or> c = CHR ''-'' \<Longrightarrow> lower_char c = c"
  by (auto simp: is_slug_char_def lower_char_def)

lemma slugify_fixed:
  assumes "slug_wf s"
  shows "slugifyStageName s = s"
proof -
  have chars: "\<forall>c \<in> set s. is_slug_char c \<or> c = CHR ''-''"
    using assms by (simp add: slug_wf_def list_all_iff)
  then have "ToLower s = s" "TrimSpace s = s"
    by (simp_all add: ToLower_ascii TrimSpace_graph slug_char_graph map_idI)
  moreover have "slug_loop s False = s" "TrimChar (CHR ''-'') s = s"
    using assms by (auto simp: slug_wf_def intro: slug_loop_fixed TrimChar_same)
  ultimately show ?thesis by (simp add: slugifyStageName_def)
qed

lemma workflow_round_trip:
  assumes "CHR ''/'' \<notin> set slug"
  shows "stageSlugFromWorkflowPath (stageWorkflowPath slug) = (if slug = [] then ''production'' else slug)"
proof (cases "slug = [] \<or> slug = ''production''")
  case True
  have "after_last_slash (''.github/workflows'' @ CHR ''/'' # ''deploy-service.yml'') = ''deploy-service.yml''"
    by (rule after_last_slash_append) simp
  with True show ?thesis
    by (auto simp: stageWorkflowPath_def stageSlugFromWorkflowPath_def)
next
  case False
  have "after_last_slash (''.github/workflows'' @ CHR ''/'' # (''deploy-service-'' @ slug @ ''.yml''))
      = ''deploy-service-'' @ slug @ ''.yml''"
    by (rule after_last_slash_append) (use assms in simp)
  moreover have "TrimSuffix (slug @ ''.yml'') ''.yml'' = slug" by (rule TrimSuffix_append)
  ultimately show ?thesis
    using False
    by (simp add: stageWorkflowPath_def stageSlugFromWorkflowPath_def TrimPrefix_def suffix_def)
qed

section \<open>Distinct addresses\<close>

text \<open>The stage that an address names: the production stage has two spellings.\<close>

definition canonical_slug :: "string \<Rightarrow> string" where
  "canonical_slug slug = (if slug = '''' then ''production'' else slug)"

lemma with_port_inj: "with_port w a = with_port w b \<Longrightarrow> a = b"
  by (auto simp: with_port_def split: if_splits)

lemma split_at_dot:
  assumes "CHR ''.'' \<notin> set a" "CHR ''.'' \<notin> set b" "a @ CHR ''.'' # x = b @ CHR ''.'' # y"
  shows "a = b \<and> x = y"
  using assms
proof (induction a arbitrary: b)
  case Nil
  then show ?case by (cases b) auto
next
  case (Cons c a)
  then show ?case by (cases b) auto
qed

lemma stage_url_inj:
  assumes "stagePublicURL w p a = stagePublicURL w q b"
    and "effectiveBaseDomain w p = base" "effectiveBaseDomain w q = base" "base \<noteq> []"
    and "CHR ''.'' \<notin> set (p_ID p)" "CHR ''.'' \<notin> set (p_ID q)"
  shows "p_ID p = p_ID q \<and> canonical_slug a = canonical_slug b"
proof -
  define rest where "rest = (\<lambda>slug. if slug = '''' \<or> slug = ''production'' then base else slug @ ''.'' @ base)"
  have url: "stagePublicURL w r slug = with_port w (p_ID r @ CHR ''.'' # rest slug)"
    if "effectiveBaseDomain w r = base" for r slug
    using that assms(4) by (simp add: stagePublicURL_def rest_def)
  from assms(1) have "with_port w (p_ID p @ CHR ''.'' # rest a) = with_port w (p_ID q @ CHR ''.'' # rest b)"
    by (simp only: url [OF assms(2)] url [OF assms(3)])
  then have "p_ID p = p_ID q \<and> rest a = rest b"
    using assms(5,6) by (intro split_at_dot) (auto dest: with_port_inj)
  then show ?thesis by (auto simp: rest_def canonical_slug_def split: if_splits)
qed

section \<open>Bounds of the reserve\<close>

lemma replica_range: "1 \<le> normalizedReplicaCount n \<and> normalizedReplicaCount n \<le> 10"
  by (simp add: normalizedReplicaCount_def)

lemma replica_idem [simp]: "normalizedReplicaCount (normalizedReplicaCount n) = normalizedReplicaCount n"
  by (simp add: normalizedReplicaCount_def)

lemma replica_mono: "m \<le> n \<Longrightarrow> normalizedReplicaCount m \<le> normalizedReplicaCount n"
  by (simp add: normalizedReplicaCount_def)

lemma profile_cases:
  "normalizedResourceProfile v \<in> {''starter'', ''balanced'', ''performance''}"
  by (simp add: normalizedResourceProfile_def Let_def)

definition replica_factor :: "int \<Rightarrow> f64" where
  "replica_factor n = fadd (fl (85/100)) (fmul (fl (15/100)) (fmax (Fin 1) (fint n)))"

lemma fl_1 [simp]: "fl 1 = Fin 1"
  by code_simp

lemma fmax_1_fint: "1 \<le> n \<Longrightarrow> fle (Fin 1) (fmax (Fin 1) (fint n)) \<and> fmax (Fin 1) (fint n) = fint n"
  using fl_mono [of 1 "of_int n"] by (cases "fl (of_int n)") (auto simp: fmax_def fint_def)

lemma replica_factor_mono:
  assumes "1 \<le> m" "m \<le> n"
  shows "fle (replica_factor m) (replica_factor n)"
proof -
  have c: "flt (Fin 0) (fl (15/100))" "fle (fl (15/100)) (fl (15/100))" by code_simp+
  have d: "fle (Fin 0) (fl (85/100))" "fle (fl (85/100)) (fl (85/100))" by code_simp+
  have "fle (fint m) (fint n)" using assms by (simp add: fint_def fl_mono)
  moreover have "fle (Fin 1) (fint m)"
    using fmax_1_fint [OF assms(1)] by metis
  then have "flt (Fin 0) (fint m)" by (cases "fint m") auto
  ultimately have *: "fle (fmul (fl (15/100)) (fint m)) (fmul (fl (15/100)) (fint n))"
    using c by (intro fmul_mono_pos)
  have "fle (Fin 0) (fmul (fl (15/100)) (fint m))"
    using c \<open>flt (Fin 0) (fint m)\<close> by (rule fmul_pos_nn)
  with * d show ?thesis
    using assms by (simp add: replica_factor_def fmax_1_fint fadd_mono_nn)
qed

lemma scaled_reserve_eq:
  "scaled_reserve st d n v =
   fmul (fmul (base_reserve st d) (profile_multiplier (normalizedResourceProfile v)))
        (replica_factor (normalizedReplicaCount n))"
  by (simp add: scaled_reserve_def replica_factor_def)

lemma base_reserve_range:
  "fle (fl (45/100)) (base_reserve st d) \<and> fle (base_reserve st d) (fadd (fl (85/100)) (fl (75/100)))"
proof -
  have a: "fle (fl (45/100)) (fl (45/100))" "fle (fl (45/100)) (fl (85/100))"
    by (simp_all add: fl_mono)
  have b: "fle (fl (85/100)) (fadd (fl (85/100)) (fl (75/100)))" by code_simp
  then have "fle (fadd (fl (85/100)) (fl (75/100))) (fadd (fl (85/100)) (fl (75/100)))"
    by (cases "fadd (fl (85/100)) (fl (75/100))"; cases "fl (85/100)"; simp)
  then show ?thesis
    unfolding base_reserve_def using a b by (auto simp only: split: if_splits intro: fle_trans)
qed

lemma profile_multiplier_range:
  "fle (fl (9/10)) (profile_multiplier (normalizedResourceProfile v))
   \<and> fle (profile_multiplier (normalizedResourceProfile v)) (fl (145/100))"
proof -
  have "fle (fl (9/10)) (fl (9/10))" "fle (fl (9/10)) (fl (115/100))" "fle (fl (9/10)) (fl (145/100))"
    "fle (fl (115/100)) (fl (145/100))" "fle (fl (145/100)) (fl (145/100))"
    by (simp_all add: fl_mono)
  with profile_cases [of v] show ?thesis by (auto simp: profile_multiplier_def)
qed

text \<open>The extreme values, one rounding at a time.\<close>

lemma factor_1: "fle (Fin (999/1000)) (replica_factor 1)"
  by code_simp

lemma factor_pos: "1 \<le> n \<Longrightarrow> flt (Fin 0) (replica_factor n)"
proof -
  assume "1 \<le> n"
  have "flt (Fin 0) (Fin (999/1000))" by simp
  with factor_1 have "flt (Fin 0) (replica_factor 1)" by (blast intro: flt_fle_trans)
  with replica_factor_mono [OF order_refl \<open>1 \<le> n\<close>] show ?thesis by (blast intro: flt_fle_trans)
qed

lemma factor_10: "fle (replica_factor 10) (Fin (236/100))"
proof -
  have ten: "fmax (Fin 1) (fint 10) = Fin 10" by code_simp
  have "flt (Fin 0) (fl (15/100))" "fle (fl (15/100)) (Fin (1501/10000))" by code_simp+
  then have "fle (fmul (fl (15/100)) (Fin 10)) (fmul (Fin (1501/10000)) (Fin 10))"
    by (rule fmul_mono_pos) simp_all
  moreover have "fle (fmul (Fin (1501/10000)) (Fin 10)) (Fin (1502/1000))" by code_simp
  ultimately have p: "fle (fmul (fl (15/100)) (Fin 10)) (Fin (1502/1000))" by (blast intro: fle_trans)
  have c: "flt (Fin 0) (fl (15/100))" by code_simp
  have q: "fle (Fin 0) (fmul (fl (15/100)) (Fin 10))"
    by (rule fmul_pos_nn [OF c fle_refl_lt [OF c]]) simp
  have "fle (Fin 0) (fl (85/100))" "fle (fl (85/100)) (Fin (8501/10000))" by code_simp+
  then have "fle (replica_factor 10) (fadd (Fin (8501/10000)) (Fin (1502/1000)))"
    unfolding replica_factor_def ten using p q by - (rule fadd_mono_nn)
  moreover have "fle (fadd (Fin (8501/10000)) (Fin (1502/1000))) (Fin (236/100))" by code_simp
  ultimately show ?thesis by (blast intro: fle_trans)
qed

lemma product_low: "fle (Fin (403/1000)) (fmul (fl (45/100)) (fl (9/10)))"
  by code_simp

lemma constants_pos: "flt (Fin 0) (fl (45/100))" "flt (Fin 0) (fl (9/10))"
    "flt (Fin 0) (fmul (fl (45/100)) (fl (9/10)))"
proof -
  have "flt (Fin 0) (Fin (403/1000))" by simp
  with product_low show "flt (Fin 0) (fmul (fl (45/100)) (fl (9/10)))" by (blast intro: flt_fle_trans)
qed code_simp+

lemma product_high:
  "fle (fmul (fadd (fl (85/100)) (fl (75/100))) (fl (145/100))) (Fin (233/100))"
proof -
  have "flt (Fin 0) (fadd (fl (85/100)) (fl (75/100)))" "fle (fadd (fl (85/100)) (fl (75/100))) (Fin (1601/1000))"
    "flt (Fin 0) (fl (145/100))" "fle (fl (145/100)) (Fin (1451/1000))"
    by code_simp+
  then have "fle (fmul (fadd (fl (85/100)) (fl (75/100))) (fl (145/100))) (fmul (Fin (1601/1000)) (Fin (1451/1000)))"
    by (rule fmul_mono_pos)
  moreover have "fle (fmul (Fin (1601/1000)) (Fin (1451/1000))) (Fin (233/100))" by code_simp
  ultimately show ?thesis by (blast intro: fle_trans)
qed

lemma scaled_reserve_range:
  "fle (Fin (2/5)) (scaled_reserve st d n v) \<and> fle (scaled_reserve st d n v) (Fin (11/2))"
proof -
  let ?m = "profile_multiplier (normalizedResourceProfile v)" and ?n = "normalizedReplicaCount n"
  let ?b = "fmul (base_reserve st d) ?m"
  have n: "1 \<le> ?n" "?n \<le> 10" using replica_range by auto
  have m: "flt (Fin 0) (base_reserve st d)" "flt (Fin 0) ?m"
    using constants_pos base_reserve_range profile_multiplier_range by (blast intro: flt_fle_trans)+
  have "fle (fmul (fl (45/100)) (fl (9/10))) ?b"
    using base_reserve_range profile_multiplier_range constants_pos by (intro fmul_mono_pos; blast)
  with product_low have low: "fle (Fin (403/1000)) ?b" by (blast intro: fle_trans)
  have "fle ?b (fmul (fadd (fl (85/100)) (fl (75/100))) (fl (145/100)))"
    using base_reserve_range profile_multiplier_range m by (intro fmul_mono_pos; blast)
  with product_high have high: "fle ?b (Fin (233/100))" by (blast intro: fle_trans)
  have pos: "flt (Fin 0) (Fin (403/1000))" "flt (Fin 0) (Fin (999/1000))" by simp_all
  with low have bpos: "flt (Fin 0) ?b" by (blast intro: flt_fle_trans)
  have "fle (Fin (999/1000)) (replica_factor ?n)"
    using factor_1 replica_factor_mono [OF order_refl n(1)] by (blast intro: fle_trans)
  with low pos have "fle (fmul (Fin (403/1000)) (Fin (999/1000))) (scaled_reserve st d n v)"
    unfolding scaled_reserve_eq by - (rule fmul_mono_pos)
  moreover have "fle (replica_factor ?n) (Fin (236/100))"
    using factor_10 replica_factor_mono [OF n] by (blast intro: fle_trans)
  then have "fle (scaled_reserve st d n v) (fmul (Fin (233/100)) (Fin (236/100)))"
    unfolding scaled_reserve_eq using high bpos factor_pos [OF n(1)] by - (rule fmul_mono_pos)
  moreover have "fle (Fin (2/5)) (fmul (Fin (403/1000)) (Fin (999/1000)))"
    "fle (fmul (Fin (233/100)) (Fin (236/100))) (Fin (11/2))"
    by code_simp+
  ultimately show ?thesis by (blast intro: fle_trans)
qed

lemma scaled_reserve_replicas:
  assumes "m \<le> n"
  shows "fle (scaled_reserve st d m v) (scaled_reserve st d n v)"
proof -
  let ?b = "fmul (base_reserve st d) (profile_multiplier (normalizedResourceProfile v))"
  have "fle (fmul (fl (45/100)) (fl (9/10))) ?b"
    using base_reserve_range profile_multiplier_range constants_pos by (intro fmul_mono_pos; blast)
  with constants_pos have b: "flt (Fin 0) ?b" by (blast intro: flt_fle_trans)
  have n: "1 \<le> normalizedReplicaCount m" "normalizedReplicaCount m \<le> normalizedReplicaCount n"
    using replica_range replica_mono [OF assms] by auto
  show ?thesis
    unfolding scaled_reserve_eq
    by (rule fmul_mono_pos [OF b fle_refl_lt [OF b] factor_pos [OF n(1)] replica_factor_mono [OF n]])
qed

section \<open>Properties\<close>

lemma slug_no_slash: "slug_wf s \<Longrightarrow> CHR ''/'' \<notin> set s"
  by (auto simp: slug_wf_def list_all_iff is_slug_char_def)

text \<open>Every stage slug is made of lower-case letters, digits and single dashes that are neither
  first nor last, and making a slug of a slug changes nothing: slugs are a normal form.\<close>

theorem slugify_normal_form:
  "slug_wf (slugifyStageName v) \<and> slugifyStageName (slugifyStageName v) = slugifyStageName v"
  by (simp add: slugify_wf slugify_fixed)

text \<open>The workflow file of a stage names its stage: reading the slug back from the path that
  \<open>stageWorkflowPath\<close> builds gives the slug, or production for the empty one.\<close>

theorem workflow_path_round_trip:
  "stageSlugFromWorkflowPath (stageWorkflowPath (slugifyStageName v)) =
     (if slugifyStageName v = '''' then ''production'' else slugifyStageName v)"
  using slugify_wf by (simp add: workflow_round_trip slug_no_slash)

text \<open>Two stages under one base domain share a public address only when they are the same stage
  of the same project (project identifiers have no dots).\<close>

theorem stage_addresses_distinct:
  assumes "effectiveBaseDomain w p = effectiveBaseDomain w q" and "effectiveBaseDomain w p \<noteq> ''''"
    and "CHR ''.'' \<notin> set (p_ID p)" and "CHR ''.'' \<notin> set (p_ID q)"
    and "stagePublicURL w p a = stagePublicURL w q b"
  shows "p_ID p = p_ID q \<and> canonical_slug a = canonical_slug b"
  using stage_url_inj [OF assms(5) refl assms(1) [symmetric] assms(2-4)] .

definition sample_project :: Project where
  "sample_project = \<lparr>p_ID = ''p1'', p_Name = ''shop'', p_OwnerID = ''u1'', p_Status = PActive,
     p_PublicURL = '''', p_GrafanaURL = '''', p_RepositoryOwner = ''acme'', p_RepositoryName = ''shop'',
     p_BaseBranch = ''main'', p_ServiceName = ''web'', p_DockerfilePath = '''', p_ServiceType = '''',
     p_ServicePort = 80, p_ContainerPort = 8080, p_ReplicaCount = 1, p_ResourceProfile = ''balanced'',
     p_DedicatedLoadBalancer = False, p_AppsBaseDomain = ''apps.io'', p_KubeconfigEncrypted = '''',
     p_GitHubTokenEncrypted = '''', p_SuspendedAt = None, p_DeletionDueAt = None, p_CreatedAt = 0,
     p_UpdatedAt = 0\<rparr>"

lemma sample_base: "effectiveBaseDomain w sample_project = ''apps.io''"
proof -
  have "TrimSpace ''apps.io'' = ''apps.io''" by (rule TrimSpace_graph) (simp add: ascii_graph_def)
  then show ?thesis by (simp add: effectiveBaseDomain_def sample_project_def)
qed

theorem stage_addresses_distinct_witness:
  "stagePublicURL calm_world sample_project '''' = stagePublicURL calm_world sample_project ''production''
   \<and> p_ID sample_project = p_ID sample_project \<and> canonical_slug '''' = canonical_slug ''production''"
proof -
  have "CHR ''.'' \<notin> set (p_ID sample_project)" by (simp add: sample_project_def)
  moreover have "stagePublicURL calm_world sample_project '''' = stagePublicURL calm_world sample_project ''production''"
    by (simp add: stagePublicURL_def Let_def)
  moreover have "effectiveBaseDomain calm_world sample_project \<noteq> ''''" by (simp add: sample_base)
  ultimately show ?thesis
    using stage_addresses_distinct [of calm_world sample_project sample_project "''''" "''production''"] by blast
qed

lemma usage_rate: "\<exists>r > 0. fl (8/100) = Fin r"
proof -
  have "flt (Fin 0) (fl (8/100))" "fle (fl (8/100)) (Fin 1)" by code_simp+
  then show ?thesis by (cases "fl (8/100)") auto
qed

lemma estimate_parts:
  assumes "fnn spent" and "spent \<noteq> FNaN"
  shows "fle (Fin 0) (fmin (Fin 3) (fmul spent (fl (8/100)))) \<and> fle (fmin (Fin 3) (fmul spent (fl (8/100)))) (Fin 3)"
proof -
  obtain r where r: "r > 0" "fl (8/100) = Fin r" using usage_rate by blast
  have "fmul spent (Fin r) \<noteq> FNaN"
    using assms(2) r(1) by (cases spent) (auto simp: fl_def)
  moreover have "fnn (fmul spent (Fin r))"
    using assms(1) r(1) fnn_fmul [of spent "Fin r"] by simp
  ultimately have "fle (Fin 0) (fmul spent (Fin r))" by (rule fnn_fle [rotated])
  then show ?thesis unfolding r(2) by (cases "fmul spent (Fin r)") (auto simp: fmin_def)
qed

lemma estimate_bounds:
  assumes "fnn spent" and "spent \<noteq> FNaN" and "m \<le> n"
  shows "fle (Fin (2/5)) (estimateRequiredDeployReserve st d spent n profile)
    \<and> fle (estimateRequiredDeployReserve st d spent n profile) (Fin (17/2))
    \<and> fle (estimateRequiredDeployReserve st d spent m profile)
        (estimateRequiredDeployReserve st d spent n profile)"
proof -
  note use = estimate_parts [OF assms(1,2)]
  let ?u = "fmin (Fin 3) (fmul spent (fl (8/100)))"
  have r: "fle (Fin (2/5)) (scaled_reserve st d k profile)" "fle (scaled_reserve st d k profile) (Fin (11/2))" for k
    using scaled_reserve_range by auto
  have z: "fle (Fin 0) (scaled_reserve st d k profile)" for k
    using r(1) [of k] by (cases "scaled_reserve st d k profile") auto
  have "fle (scaled_reserve st d n profile) (fadd (scaled_reserve st d n profile) ?u)"
  proof (cases "scaled_reserve st d n profile")
    case (Fin q)
    moreover have "frep (scaled_reserve st d n profile)" by (simp add: scaled_reserve_eq frep_fmul)
    ultimately show ?thesis using use by (simp add: fadd_ge)
  qed (use r(2) [of n] z [of n] in auto)
  moreover have "fle (fadd (scaled_reserve st d n profile) ?u) (fadd (Fin (11/2)) (Fin 3))"
    using z r use by (intro fadd_mono_nn) auto
  moreover have "fle (fadd (Fin (11/2)) (Fin 3)) (Fin (17/2))" by code_simp
  moreover have "fle (fadd (scaled_reserve st d m profile) ?u) (fadd (scaled_reserve st d n profile) ?u)"
    using z use scaled_reserve_replicas [OF assms(3)]
    by (intro fadd_mono_nn) (auto intro: fle_same)
  ultimately show ?thesis
    unfolding estimateRequiredDeployReserve_def using r(1) [of n] by (blast intro: fle_trans)
qed

text \<open>The reserve of a deploy is between 0.40 and 8.50 RUB for every setting a client can send
  and every month's spend that is a number and not negative, and it never falls when the number of
  replicas grows.\<close>

theorem deploy_reserve_bounds:
  assumes "fnn spent" and "spent \<noteq> FNaN" and "m \<le> n"
  shows "fle (Fin (2/5)) (estimateRequiredDeployReserve st d spent n profile)
    \<and> fle (estimateRequiredDeployReserve st d spent n profile) (Fin (17/2))
    \<and> fle (estimateRequiredDeployReserve st d spent m profile)
        (estimateRequiredDeployReserve st d spent n profile)"
  using assms by (rule estimate_bounds)

theorem deploy_reserve_bounds_witness:
  "fle (estimateRequiredDeployReserve ''loadbalancer'' True (Fin 10) 1 ''starter'')
     (estimateRequiredDeployReserve ''loadbalancer'' True (Fin 10) 3 ''starter'')"
  using deploy_reserve_bounds [of "Fin 10" 1 3] by simp

end
