(* ===== verification/Billing.thy ===== *)
theory Billing
  imports Accounts Monetization ProjectHelpers
begin

text \<open>
  The reading half of \<open>internal/service/billing_guard.go\<close>: the billing snapshot of a user, the
  grace deadlines, the reservation of a deploy budget with its release function, and the
  summary. The sections under \<open>billingGuardMu\<close> are single steps on \<open>pendingCharges\<close> and
  \<open>graceStartedAt\<close>. The in-memory transaction list cannot fail, so \<open>calculateUserRefunds\<close>
  has no error here.
\<close>

section \<open>Snapshot and state\<close>

record billingSnapshot =
  sp_UserID :: string
  sp_Email :: string
  sp_BalanceRUB :: f64
  sp_SpentThisMonth :: f64
  sp_RefundRUB :: f64
  sp_ExemptFromGuard :: bool

record billingState =
  st_Snapshot :: billingSnapshot
  st_Projects :: "Project list"
  st_PendingRUB :: f64
  st_AvailableRUB :: f64
  st_GracePeriodEndsAt :: "gotime option"
  st_GracePeriodRemainingSeconds :: int

definition listBillingProjects :: "World \<Rightarrow> string \<Rightarrow> Sys \<Rightarrow> Project list \<times> Sys" where
  "listBillingProjects w uid s =
     (let (ord, s) = map_order w s
      in (filter (\<lambda>p. \<not> (p_OwnerID p \<noteq> uid \<or> p_Status p = PDeleted))
            (ProjectStore_List ord (y_projects s)), s))"

fun spent_loop :: "World \<Rightarrow> Project list \<Rightarrow> f64 \<Rightarrow> Sys \<Rightarrow> (go_error + f64) \<times> Sys" where
  "spent_loop w [] spent s = (Inr spent, s)"
| "spent_loop w (p # ps) spent s =
     (if p_Status p = PDeleted then spent_loop w ps spent s
      else (let (r, s) = Engine_GetProjectCost w (p_ID p) s
            in case r of
                 Inl e \<Rightarrow> (Inl (ErrWrap (''calculate monthly spend for project '' @ p_ID p @ '': '') e ''''), s)
               | Inr cost \<Rightarrow> spent_loop w ps (fadd spent (cb_Total cost)) s))"

definition calculateUserSpentThisMonth :: "World \<Rightarrow> Project list \<Rightarrow> Sys \<Rightarrow> (go_error + f64) \<times> Sys" where
  "calculateUserSpentThisMonth w ps s = spent_loop w ps (Fin 0) s"

definition add_refund :: "BillingTransaction \<Rightarrow> f64 \<Rightarrow> f64" where
  "add_refund tx r =
     (if tx_Type tx = TRefund \<and> flt (Fin 0) (tx_AmountRUB tx) then fadd r (tx_AmountRUB tx) else r)"

definition calculateUserRefunds :: "string \<Rightarrow> Sys \<Rightarrow> f64" where
  "calculateUserRefunds uid s = fold add_refund (TxStore_ListByUser (y_txs s) uid) (Fin 0)"

definition exempt_email :: "string \<Rightarrow> bool" where
  "exempt_email email = EqualFold (TrimSpace email) ''asadullinam@yandex.ru''"

definition loadBillingSnapshot ::
  "World \<Rightarrow> string \<Rightarrow> Project list \<Rightarrow> Sys \<Rightarrow> (go_error + billingSnapshot) \<times> Sys" where
  "loadBillingSnapshot w uid ps s =
     (case UserStore_GetByID (y_users s) uid of
        None \<Rightarrow> (Inl ErrUserNotFound, s)
      | Some u \<Rightarrow>
         (let (r, s) = calculateUserSpentThisMonth w ps s
          in case r of
               Inl e \<Rightarrow> (Inl e, s)
             | Inr spent \<Rightarrow>
                (Inr \<lparr>sp_UserID = u_ID u, sp_Email = u_Email u, sp_BalanceRUB = u_BalanceRUB u,
                      sp_SpentThisMonth = spent, sp_RefundRUB = calculateUserRefunds uid s,
                      sp_ExemptFromGuard = exempt_email (u_Email u)\<rparr>, s)))"

section \<open>Grace period and pending charges\<close>

definition peekGraceDeadlineLocked :: "Sys \<Rightarrow> string \<Rightarrow> gotime option" where
  "peekGraceDeadlineLocked s uid =
     map_option (\<lambda>startedAt. startedAt + billingGracePeriod s) (map_of (graceStartedAt s) uid)"

definition ensureGraceDeadlineLocked :: "string \<Rightarrow> gotime \<Rightarrow> Sys \<Rightarrow> (gotime \<times> bool) \<times> Sys" where
  "ensureGraceDeadlineLocked uid t s =
     (case peekGraceDeadlineLocked s uid of
        Some deadline \<Rightarrow> ((deadline, False), s)
      | None \<Rightarrow> ((t + billingGracePeriod s, True),
                  s\<lparr>graceStartedAt := AList.update uid t (graceStartedAt s)\<rparr>))"

definition pending_of :: "Sys \<Rightarrow> string \<Rightarrow> f64" where
  "pending_of s uid = (case map_of (pendingCharges s) uid of None \<Rightarrow> Fin 0 | Some v \<Rightarrow> v)"

definition available_of :: "billingSnapshot \<Rightarrow> f64 \<Rightarrow> f64" where
  "available_of sn pending =
     fsub (fadd (fsub (sp_BalanceRUB sn) (sp_SpentThisMonth sn)) (sp_RefundRUB sn)) pending"

definition loadBillingState ::
  "World \<Rightarrow> string \<Rightarrow> gotime \<Rightarrow> Sys \<Rightarrow> (go_error + billingState) \<times> Sys" where
  "loadBillingState w uid t s =
     (let (ps, s) = listBillingProjects w uid s; (r, s) = loadBillingSnapshot w uid ps s
      in case r of
           Inl e \<Rightarrow> (Inl e, s)
         | Inr sn \<Rightarrow>
            (let pending = pending_of s uid; grace = peekGraceDeadlineLocked s uid
             in (Inr \<lparr>st_Snapshot = sn, st_Projects = ps, st_PendingRUB = pending,
                   st_AvailableRUB = available_of sn pending, st_GracePeriodEndsAt = grace,
                   st_GracePeriodRemainingSeconds =
                     (case grace of None \<Rightarrow> 0
                      | Some d \<Rightarrow> if d - t > 0 then whole_seconds (d - t) else 0)\<rparr>, s)))"

definition GetBillingSummary :: "World \<Rightarrow> string \<Rightarrow> Sys \<Rightarrow> (go_error + BillingSummary) \<times> Sys" where
  "GetBillingSummary w uid s =
     (let (t, s) = now w s; (r, s) = loadBillingState w uid t s
      in case r of
           Inl e \<Rightarrow> (Inl e, s)
         | Inr st \<Rightarrow>
            (Inr \<lparr>bs_UserID = sp_UserID (st_Snapshot st), bs_Email = sp_Email (st_Snapshot st),
               bs_BalanceRUB = sp_BalanceRUB (st_Snapshot st),
               bs_SpentThisMonth = sp_SpentThisMonth (st_Snapshot st),
               bs_RefundRUB = sp_RefundRUB (st_Snapshot st), bs_PendingChargesRUB = st_PendingRUB st,
               bs_AvailableRUB = st_AvailableRUB st,
               bs_ExemptFromGuard = sp_ExemptFromGuard (st_Snapshot st),
               bs_GracePeriodEndsAt = st_GracePeriodEndsAt st,
               bs_GracePeriodRemainingSeconds = st_GracePeriodRemainingSeconds st\<rparr>, s))"

definition SetBillingGuardGracePeriod :: "duration \<Rightarrow> Sys \<Rightarrow> Sys" where
  "SetBillingGuardGracePeriod period s = (if period < 0 then s else s\<lparr>billingGracePeriod := period\<rparr>)"

definition SetBillingGuardRetentionPeriod :: "duration \<Rightarrow> Sys \<Rightarrow> Sys" where
  "SetBillingGuardRetentionPeriod period s =
     (if period < 0 then s else s\<lparr>billingRetentionPeriod := period\<rparr>)"

section \<open>Reservation of a deploy budget\<close>

definition buildInsufficientBalanceError ::
  "billingSnapshot \<Rightarrow> f64 \<Rightarrow> f64 \<Rightarrow> f64 \<Rightarrow> gotime option \<Rightarrow> gotime \<Rightarrow> go_error" where
  "buildInsufficientBalanceError sn pending available requiredReserve graceDeadline t =
     (let suffix = (case graceDeadline of None \<Rightarrow> ''''
        | Some d \<Rightarrow> ('', auto-suspend in '' @ format_rounded_seconds (if d - t < 0 then 0 else d - t)
                     @ '' (until '' @ format_rfc3339 d @ '')''))
      in ErrWrap '''' ErrInsufficientBalance
           ('': balance '' @ format_2f (sp_BalanceRUB sn)
            @ '' RUB, spent this month '' @ format_2f (sp_SpentThisMonth sn)
            @ '' RUB, refund '' @ format_2f (sp_RefundRUB sn)
            @ '' RUB, pending '' @ format_2f pending
            @ '' RUB, available '' @ format_2f available
            @ '' RUB, required reserve '' @ format_2f requiredReserve @ '' RUB'' @ suffix))"

text \<open>
  The closure that \<open>reserveDeployBudget\<close> returns: the no-op of an exempt user, or the captured
  owner and reserve with the variable \<open>released\<close>.
\<close>

datatype BudgetRelease = NothingReserved | Reserved string f64 bool

text \<open>The constant \<open>1e-9\<close>, rounded to a \<open>float64\<close>.\<close>

definition pending_epsilon :: f64 where
  "pending_epsilon = fl (1 / 1000000000)"

definition releaseBudget :: "BudgetRelease \<Rightarrow> Sys \<Rightarrow> BudgetRelease \<times> Sys" where
  "releaseBudget rel s =
     (case rel of
        NothingReserved \<Rightarrow> (NothingReserved, s)
      | Reserved uid reserve released \<Rightarrow>
         if released then (rel, s)
         else (let current = fsub (pending_of s uid) reserve
               in (Reserved uid reserve True,
                   if fle current pending_epsilon
                   then s\<lparr>pendingCharges := AList.delete uid (pendingCharges s)\<rparr>
                   else s\<lparr>pendingCharges := AList.update uid current (pendingCharges s)\<rparr>)))"

definition deploy_service_type :: "Project \<Rightarrow> string \<Rightarrow> string" where
  "deploy_service_type p requested =
     (let serviceType = normalizedServiceType requested
      in if serviceType = '''' then normalizedServiceType (p_ServiceType p) else serviceType)"

definition required_reserve :: "Project \<Rightarrow> string \<Rightarrow> bool \<Rightarrow> f64 \<Rightarrow> f64" where
  "required_reserve p requested requestedDedicated spent =
     estimateRequiredDeployReserve (deploy_service_type p requested)
       (p_DedicatedLoadBalancer p \<or> requestedDedicated) spent (p_ReplicaCount p) (p_ResourceProfile p)"

definition reserveDeployBudget ::
  "World \<Rightarrow> Project \<Rightarrow> string \<Rightarrow> bool \<Rightarrow> Sys \<Rightarrow> (go_error + BudgetRelease) \<times> Sys" where
  "reserveDeployBudget w p requestedServiceType requestedDedicated s =
     (let (ps, s) = listBillingProjects w (p_OwnerID p) s;
          (r, s) = loadBillingSnapshot w (p_OwnerID p) ps s
      in case r of
           Inl e \<Rightarrow> (Inl e, s)
         | Inr sn \<Rightarrow>
            if sp_ExemptFromGuard sn then (Inr NothingReserved, s)
            else
              (let reserve = required_reserve p requestedServiceType requestedDedicated (sp_SpentThisMonth sn);
                   (t, s) = now w s;
                   pending = pending_of s (p_OwnerID p);
                   available = available_of sn pending
               in if flt available reserve
                  then (let (grace, s) =
                          (if fle available (Fin 0)
                           then (let ((d, _), s) = ensureGraceDeadlineLocked (p_OwnerID p) t s in (Some d, s))
                           else (peekGraceDeadlineLocked s (p_OwnerID p), s))
                        in (Inl (buildInsufficientBalanceError sn pending available reserve grace t), s))
                  else (Inr (Reserved (p_OwnerID p) reserve False),
                        s\<lparr>pendingCharges := AList.update (p_OwnerID p) (fadd pending reserve) (pendingCharges s)\<rparr>)))"

section \<open>Lemmas\<close>

lemma listBillingProjects_state [simp]:
  "snd (listBillingProjects w uid s) = s\<lparr>tick := Suc (tick s)\<rparr>"
  by (simp add: listBillingProjects_def go_step)

lemma listBillingProjects_mem:
  "p \<in> set (fst (listBillingProjects w uid s)) \<Longrightarrow>
   p_OwnerID p = uid \<and> p_Status p \<noteq> PDeleted \<and> p \<in> snd ` set (y_projects s)"
  by (auto simp: listBillingProjects_def go_step ProjectStore_List_def)

lemma spent_loop_total: "\<exists>v n. spent_loop w ps x s = (Inr v, s\<lparr>tick := n\<rparr>)"
proof (induction ps arbitrary: x s)
  case Nil
  have "spent_loop w [] x s = (Inr x, s\<lparr>tick := tick s\<rparr>)" by simp
  then show ?case by blast
next
  case (Cons p ps)
  have "\<exists>v n. spent_loop w ps y (s\<lparr>tick := m\<rparr>) = (Inr v, s\<lparr>tick := n\<rparr>)" for y m
    using Cons.IH [of y "s\<lparr>tick := m\<rparr>"] by simp
  from this this [of _ "tick s"] show ?case
    by (simp add: Engine_GetProjectCost_def go_step split: MonetizationEngine.split)
qed

text \<open>The spend of the month that the billing code computes in a state.\<close>

definition user_spent :: "World \<Rightarrow> string \<Rightarrow> Sys \<Rightarrow> f64" where
  "user_spent w uid s =
     (let (ps, s1) = listBillingProjects w uid s
      in case fst (calculateUserSpentThisMonth w ps s1) of Inl e \<Rightarrow> Fin 0 | Inr v \<Rightarrow> v)"

definition snapshot_of :: "World \<Rightarrow> User \<Rightarrow> string \<Rightarrow> Sys \<Rightarrow> billingSnapshot" where
  "snapshot_of w u uid s = \<lparr>sp_UserID = u_ID u, sp_Email = u_Email u, sp_BalanceRUB = u_BalanceRUB u,
     sp_SpentThisMonth = user_spent w uid s, sp_RefundRUB = calculateUserRefunds uid s,
     sp_ExemptFromGuard = exempt_email (u_Email u)\<rparr>"

lemma snapshot_known:
  assumes "UserStore_GetByID (y_users s) uid = Some u"
  shows "\<exists>n. loadBillingSnapshot w uid (fst (listBillingProjects w uid s)) (s\<lparr>tick := Suc (tick s)\<rparr>) =
    (Inr (snapshot_of w u uid s), s\<lparr>tick := n\<rparr>)"
proof -
  obtain ps where ps: "listBillingProjects w uid s = (ps, s\<lparr>tick := Suc (tick s)\<rparr>)"
    by (metis listBillingProjects_state prod.collapse)
  obtain v n where v: "spent_loop w ps (Fin 0) (s\<lparr>tick := Suc (tick s)\<rparr>) = (Inr v, s\<lparr>tick := n\<rparr>)"
    using spent_loop_total [of w ps "Fin 0" "s\<lparr>tick := Suc (tick s)\<rparr>"] by auto
  show ?thesis
    by (rule exI [of _ n]) (simp add: loadBillingSnapshot_def snapshot_of_def user_spent_def ps v
        calculateUserRefunds_def calculateUserSpentThisMonth_def assms)
qed

lemma snapshot_unknown:
  "UserStore_GetByID (y_users s) uid = None \<Longrightarrow>
   loadBillingSnapshot w uid ps s = (Inl ErrUserNotFound, s)"
  by (simp add: loadBillingSnapshot_def)

text \<open>What the user can still spend, as both guards compute it.\<close>

definition available_funds :: "World \<Rightarrow> User \<Rightarrow> string \<Rightarrow> Sys \<Rightarrow> f64" where
  "available_funds w u uid s = available_of (snapshot_of w u uid s) (pending_of s uid)"

lemma pending_of_tick [simp]: "pending_of (s\<lparr>tick := n\<rparr>) uid = pending_of s uid"
  by (simp add: pending_of_def)

lemma peek_tick [simp]: "peekGraceDeadlineLocked (s\<lparr>tick := n\<rparr>) uid = peekGraceDeadlineLocked s uid"
  by (simp add: peekGraceDeadlineLocked_def)

lemma list_pair: "listBillingProjects w uid s = (fst (listBillingProjects w uid s), s\<lparr>tick := Suc (tick s)\<rparr>)"
  by (metis listBillingProjects_state prod.collapse)

lemma loadBillingState_known:
  assumes "UserStore_GetByID (y_users s) uid = Some u"
  shows "\<exists>n st. loadBillingState w uid t s = (Inr st, s\<lparr>tick := n\<rparr>)
    \<and> st_Snapshot st = snapshot_of w u uid s \<and> st_AvailableRUB st = available_funds w u uid s
    \<and> st_PendingRUB st = pending_of s uid
    \<and> st_GracePeriodEndsAt st = peekGraceDeadlineLocked s uid
    \<and> st_Projects st = fst (listBillingProjects w uid s)"
proof -
  obtain n where n: "loadBillingSnapshot w uid (fst (listBillingProjects w uid s))
      (s\<lparr>tick := Suc (tick s)\<rparr>) = (Inr (snapshot_of w u uid s), s\<lparr>tick := n\<rparr>)"
    using snapshot_known [OF assms] by blast
  show ?thesis
    by (subst loadBillingState_def, subst list_pair, rule exI [of _ n])
      (simp add: n available_funds_def Let_def)
qed

lemma loadBillingState_unknown:
  assumes "UserStore_GetByID (y_users s) uid = None"
  shows "loadBillingState w uid t s = (Inl ErrUserNotFound, s\<lparr>tick := Suc (tick s)\<rparr>)"
  using assms by (subst loadBillingState_def) (subst list_pair, simp add: snapshot_unknown)

lemma reserve_unknown:
  assumes "UserStore_GetByID (y_users s) (p_OwnerID p) = None"
  shows "reserveDeployBudget w p st d s = (Inl ErrUserNotFound, s\<lparr>tick := Suc (tick s)\<rparr>)"
  using assms by (subst reserveDeployBudget_def) (subst list_pair, simp add: snapshot_unknown)

lemma reserve_exempt:
  assumes "UserStore_GetByID (y_users s) (p_OwnerID p) = Some u" and "exempt_email (u_Email u)"
  shows "\<exists>n. reserveDeployBudget w p st d s = (Inr NothingReserved, s\<lparr>tick := n\<rparr>)"
  using snapshot_known [OF assms(1), of w] assms(2)
  by (subst reserveDeployBudget_def) (subst list_pair, auto simp: snapshot_of_def)

text \<open>The reserve that a deploy of the project asks for in a state.\<close>

definition reserve_for :: "World \<Rightarrow> Project \<Rightarrow> string \<Rightarrow> bool \<Rightarrow> Sys \<Rightarrow> f64" where
  "reserve_for w p st d s = required_reserve p st d (user_spent w (p_OwnerID p) s)"

lemma sp_spent [simp]: "sp_SpentThisMonth (snapshot_of w u uid s) = user_spent w uid s"
  by (simp add: snapshot_of_def)

lemma reserve_accepts:
  assumes "UserStore_GetByID (y_users s) (p_OwnerID p) = Some u" and "\<not> exempt_email (u_Email u)"
    and "\<not> flt (available_funds w u (p_OwnerID p) s) (reserve_for w p st d s)"
  shows "\<exists>n. reserveDeployBudget w p st d s =
    (Inr (Reserved (p_OwnerID p) (reserve_for w p st d s) False),
     s\<lparr>tick := n, pendingCharges := AList.update (p_OwnerID p)
         (fadd (pending_of s (p_OwnerID p)) (reserve_for w p st d s)) (pendingCharges s)\<rparr>)"
proof -
  obtain n where n: "loadBillingSnapshot w (p_OwnerID p) (fst (listBillingProjects w (p_OwnerID p) s))
      (s\<lparr>tick := Suc (tick s)\<rparr>) = (Inr (snapshot_of w u (p_OwnerID p) s), s\<lparr>tick := n\<rparr>)"
    using snapshot_known [OF assms(1)] by blast
  have "\<not> sp_ExemptFromGuard (snapshot_of w u (p_OwnerID p) s)"
    using assms(2) by (simp add: snapshot_of_def)
  with assms(3) show ?thesis
    by (subst reserveDeployBudget_def, subst list_pair, intro exI [of _ "Suc n"])
      (simp add: n now_def available_funds_def reserve_for_def Let_def)
qed

lemma reserve_rejects:
  assumes "UserStore_GetByID (y_users s) (p_OwnerID p) = Some u" and "\<not> exempt_email (u_Email u)"
    and "flt (available_funds w u (p_OwnerID p) s) (reserve_for w p st d s)"
  shows "\<exists>e n g. reserveDeployBudget w p st d s = (Inl e, s\<lparr>tick := n, graceStartedAt := g\<rparr>)
    \<and> errors_Is e ErrInsufficientBalance
    \<and> (\<forall>uid. uid \<noteq> p_OwnerID p \<longrightarrow> map_of g uid = map_of (graceStartedAt s) uid)
    \<and> (\<forall>started. map_of (graceStartedAt s) (p_OwnerID p) = Some started \<longrightarrow>
         map_of g (p_OwnerID p) = Some started)
    \<and> (map_of g (p_OwnerID p) = None \<longrightarrow> \<not> fle (available_funds w u (p_OwnerID p) s) (Fin 0))"
proof -
  obtain n where n: "loadBillingSnapshot w (p_OwnerID p) (fst (listBillingProjects w (p_OwnerID p) s))
      (s\<lparr>tick := Suc (tick s)\<rparr>) = (Inr (snapshot_of w u (p_OwnerID p) s), s\<lparr>tick := n\<rparr>)"
    using snapshot_known [OF assms(1)] by blast
  let ?g = "if fle (available_funds w u (p_OwnerID p) s) (Fin 0)
      \<and> map_of (graceStartedAt s) (p_OwnerID p) = None
    then AList.update (p_OwnerID p) (clock w n) (graceStartedAt s) else graceStartedAt s"
  have "\<not> sp_ExemptFromGuard (snapshot_of w u (p_OwnerID p) s)"
    using assms(2) by (simp add: snapshot_of_def)
  then have "\<exists>e. reserveDeployBudget w p st d s = (Inl e, s\<lparr>tick := Suc n, graceStartedAt := ?g\<rparr>)
      \<and> errors_Is e ErrInsufficientBalance"
    using assms(3)
    by (subst reserveDeployBudget_def) (subst list_pair,
        auto simp: n now_def available_funds_def reserve_for_def ensureGraceDeadlineLocked_def
          peekGraceDeadlineLocked_def buildInsufficientBalanceError_def Let_def split: option.splits)
  then obtain e where e: "reserveDeployBudget w p st d s = (Inl e, s\<lparr>tick := Suc n, graceStartedAt := ?g\<rparr>)"
      "errors_Is e ErrInsufficientBalance"
    by blast
  show ?thesis
    by (rule exI [of _ e], rule exI [of _ "Suc n"], rule exI [of _ ?g]) (use e in auto)
qed

lemma reserve_frame:
  "\<exists>n g c. snd (reserveDeployBudget w p st d s) = s\<lparr>tick := n, graceStartedAt := g, pendingCharges := c\<rparr>"
proof (cases "UserStore_GetByID (y_users s) (p_OwnerID p)")
  case None
  then show ?thesis by (auto simp: reserve_unknown intro!: exI [of _ "graceStartedAt s"] exI [of _ "pendingCharges s"])
next
  case (Some u)
  consider "exempt_email (u_Email u)"
    | "\<not> exempt_email (u_Email u)" "\<not> flt (available_funds w u (p_OwnerID p) s) (reserve_for w p st d s)"
    | "\<not> exempt_email (u_Email u)" "flt (available_funds w u (p_OwnerID p) s) (reserve_for w p st d s)"
    by blast
  then show ?thesis
  proof cases
    case 1
    from reserve_exempt [OF Some this, of w st d] obtain n where "snd (reserveDeployBudget w p st d s) = s\<lparr>tick := n\<rparr>" by auto
    then show ?thesis by (intro exI [of _ n] exI [of _ "graceStartedAt s"] exI [of _ "pendingCharges s"]) simp
  next
    case 2
    from reserve_accepts [OF Some this] obtain n c where "snd (reserveDeployBudget w p st d s) = s\<lparr>tick := n, pendingCharges := c\<rparr>" by auto
    then show ?thesis by (intro exI [of _ n] exI [of _ "graceStartedAt s"] exI [of _ c]) simp
  next
    case 3
    from reserve_rejects [OF Some this] obtain n g where "snd (reserveDeployBudget w p st d s) = s\<lparr>tick := n, graceStartedAt := g\<rparr>" by auto
    then show ?thesis by (intro exI [of _ n] exI [of _ g] exI [of _ "pendingCharges s"]) simp
  qed
qed

lemma reserve_fields [simp]:
  "y_projects (snd (reserveDeployBudget w p st d s)) = y_projects s"
  "y_stages (snd (reserveDeployBudget w p st d s)) = y_stages s"
  "y_releases (snd (reserveDeployBudget w p st d s)) = y_releases s"
  "y_users (snd (reserveDeployBudget w p st d s)) = y_users s"
  "y_txs (snd (reserveDeployBudget w p st d s)) = y_txs s"
  "y_usage (snd (reserveDeployBudget w p st d s)) = y_usage s"
  "y_payments (snd (reserveDeployBudget w p st d s)) = y_payments s"
  "trace (snd (reserveDeployBudget w p st d s)) = trace s"
  "goroutines (snd (reserveDeployBudget w p st d s)) = goroutines s"
  using reserve_frame [of w p st d s] by auto

text \<open>A budget whose release has run is not released again.\<close>

lemma releaseBudget_once: "releaseBudget (fst (releaseBudget rel s)) s' = (fst (releaseBudget rel s), s')"
  by (auto simp: releaseBudget_def Let_def split: BudgetRelease.splits)

lemma releaseBudget_frame:
  "\<exists>c. snd (releaseBudget rel s) = s\<lparr>pendingCharges := c\<rparr>"
  by (auto simp: releaseBudget_def Let_def split: BudgetRelease.splits intro: exI [of _ "pendingCharges s"])

lemma releaseBudget_fields [simp]:
  "y_projects (snd (releaseBudget rel s)) = y_projects s"
  "y_stages (snd (releaseBudget rel s)) = y_stages s"
  "y_releases (snd (releaseBudget rel s)) = y_releases s"
  "y_users (snd (releaseBudget rel s)) = y_users s"
  "y_txs (snd (releaseBudget rel s)) = y_txs s"
  "y_payments (snd (releaseBudget rel s)) = y_payments s"
  "graceStartedAt (snd (releaseBudget rel s)) = graceStartedAt s"
  "tick (snd (releaseBudget rel s)) = tick s" "trace (snd (releaseBudget rel s)) = trace s"
  using releaseBudget_frame [of rel s] by auto

lemma releaseBudget_pending:
  "pendingCharges s = pendingCharges t \<Longrightarrow>
   pendingCharges (snd (releaseBudget rel s)) = pendingCharges (snd (releaseBudget rel t))"
  by (auto simp: releaseBudget_def pending_of_def Let_def split: BudgetRelease.split)

section \<open>Properties\<close>


definition rich_sys :: Sys where
  "rich_sys = empty_sys\<lparr>y_users := us_write NewUserStore ''u1'' (sample_user\<lparr>u_BalanceRUB := Fin 100\<rparr>)\<rparr>"

lemma rich_user:
  "UserStore_GetByID (y_users rich_sys) (p_OwnerID sample_project) = Some (sample_user\<lparr>u_BalanceRUB := Fin 100\<rparr>)"
  by (simp add: rich_sys_def sample_project_def UserStore_GetByID_def)

lemma not_exempt_sample: "\<not> exempt_email (u_Email sample_user)"
  by code_simp

lemma rich_funds: "available_funds w (sample_user\<lparr>u_BalanceRUB := Fin 100\<rparr>) (p_OwnerID sample_project) rich_sys = Fin 100"
proof -
  have hundred: "fl 100 = Fin 100" by code_simp
  moreover have "user_spent w uid rich_sys = Fin 0" for uid
    by (simp add: user_spent_def listBillingProjects_def go_step rich_sys_def empty_sys_def
        ProjectStore_List_def calculateUserSpentThisMonth_def)
  ultimately show ?thesis
    by (simp add: hundred fsub_def available_funds_def available_of_def snapshot_of_def calculateUserRefunds_def
        rich_sys_def empty_sys_def TxStore_ListByUser_def pending_of_def)
qed

lemma rich_reservation:
  "\<exists>rel s'. reserveDeployBudget calm_world sample_project '''' False rich_sys = (Inr rel, s')"
proof -
  have z: "user_spent calm_world (p_OwnerID sample_project) rich_sys = Fin 0"
    by (simp add: user_spent_def listBillingProjects_def go_step rich_sys_def empty_sys_def
        ProjectStore_List_def calculateUserSpentThisMonth_def)
  have "fle (reserve_for calm_world sample_project '''' False rich_sys) (Fin (17/2))"
    using estimate_bounds [of "Fin 0" 1 1]
    unfolding reserve_for_def required_reserve_def z by (simp add: sample_project_def)
  then have "\<not> flt (Fin 100) (reserve_for calm_world sample_project '''' False rich_sys)"
    by (cases "reserve_for calm_world sample_project '''' False rich_sys") auto
  then show ?thesis
    using reserve_accepts [OF rich_user, of calm_world "''''" False] not_exempt_sample
    by (auto simp: rich_funds)
qed


lemma reserve_frep: "frep (reserve_for w p st d s)"
  by (simp add: reserve_for_def required_reserve_def estimateRequiredDeployReserve_def frep_fadd)

text \<open>Reserving and then releasing leaves no trace: an owner without pending charges has none
  afterwards, other owners' charges are untouched, and a second release does nothing.\<close>

theorem reservation_round_trip:
  assumes "reserveDeployBudget w p st d s = (Inr rel, s1)"
    and "map_of (pendingCharges s) (p_OwnerID p) = None"
    and "reserve_for w p st d s = Fin r"
    and "releaseBudget rel s1 = (rel2, s2)"
  shows "map_of (pendingCharges s2) = map_of (pendingCharges s) \<and> releaseBudget rel2 s2 = (rel2, s2)"
proof -
  obtain u where u: "UserStore_GetByID (y_users s) (p_OwnerID p) = Some u"
    using assms(1) reserve_unknown [of s p w st d] by (cases "UserStore_GetByID (y_users s) (p_OwnerID p)") auto
  have once: "releaseBudget rel2 s2 = (rel2, s2)"
    using releaseBudget_once [of rel s1 s2] assms(4) by simp
  have pend: "pending_of s (p_OwnerID p) = Fin 0" by (simp add: pending_of_def assms(2))
  show ?thesis
  proof (cases "exempt_email (u_Email u)")
    case True
    with reserve_exempt [OF u True, of w st d] assms(1,4) once show ?thesis by (auto simp: releaseBudget_def)
  next
    case False
    have "\<not> flt (available_funds w u (p_OwnerID p) s) (reserve_for w p st d s)"
      using reserve_rejects [OF u False, of w st d] assms(1) by auto
    note acc = reserve_accepts [OF u False this]
    have "fadd (Fin 0) (Fin r) = Fin r"
      using reserve_frep [of w p st d s] fadd_0_left [of "Fin r"] assms(3) by metis
    with acc assms(1,3) pend obtain n where s1: "rel = Reserved (p_OwnerID p) (Fin r) False"
        "s1 = s\<lparr>tick := n, pendingCharges := AList.update (p_OwnerID p) (Fin r) (pendingCharges s)\<rparr>"
      by auto
    have "fle (Fin 0) pending_epsilon" by code_simp
    then have "fle (fsub (pending_of s1 (p_OwnerID p)) (Fin r)) pending_epsilon"
      by (simp add: s1 pending_of_def fsub_self)
    with assms(4) have "s2 = s1\<lparr>pendingCharges := AList.delete (p_OwnerID p) (pendingCharges s1)\<rparr>"
      by (simp add: s1(1) releaseBudget_def)
    with assms(2) once show ?thesis by (auto simp: s1 fun_eq_iff)
  qed
qed

lemma finite_reserve: "\<exists>r. reserve_for calm_world sample_project '''' False rich_sys = Fin r"
proof -
  have z: "user_spent calm_world (p_OwnerID sample_project) rich_sys = Fin 0"
    by (simp add: user_spent_def listBillingProjects_def go_step rich_sys_def empty_sys_def
        ProjectStore_List_def calculateUserSpentThisMonth_def)
  have "fle (Fin (2/5)) (reserve_for calm_world sample_project '''' False rich_sys)
      \<and> fle (reserve_for calm_world sample_project '''' False rich_sys) (Fin (17/2))"
    using estimate_bounds [of "Fin 0" 1 1]
    unfolding reserve_for_def required_reserve_def z by (simp add: sample_project_def)
  then show ?thesis by (cases "reserve_for calm_world sample_project '''' False rich_sys") auto
qed

theorem reservation_round_trip_witness:
  "\<exists>rel s1. reserveDeployBudget calm_world sample_project '''' False rich_sys = (Inr rel, s1)
     \<and> map_of (pendingCharges (snd (releaseBudget rel s1))) = map_of (pendingCharges rich_sys)"
proof -
  obtain rel s1 where r: "reserveDeployBudget calm_world sample_project '''' False rich_sys = (Inr rel, s1)"
    using rich_reservation by blast
  obtain q where q: "reserve_for calm_world sample_project '''' False rich_sys = Fin q"
    using finite_reserve by blast
  have "map_of (pendingCharges rich_sys) (p_OwnerID sample_project) = None"
    by (simp add: rich_sys_def empty_sys_def)
  from reservation_round_trip [OF r this q surjective_pairing] r show ?thesis by auto
qed

text \<open>A balance that is not a number admits every deploy: the comparison with the reserve is false,
  so the guard of the reservation lets it pass, although the same state counts as out of funds for
  the billing guard.\<close>

theorem nan_balance_admits_deploys:
  assumes "UserStore_GetByID (y_users s) (p_OwnerID p) = Some u" and "u_BalanceRUB u = FNaN"
    and "\<not> exempt_email (u_Email u)"
  shows "(\<exists>rel s'. reserveDeployBudget w p st d s = (Inr rel, s'))
    \<and> \<not> flt (Fin 0) (available_funds w u (p_OwnerID p) s)"
proof -
  have "available_funds w u (p_OwnerID p) s = FNaN"
    by (simp add: available_funds_def available_of_def snapshot_of_def assms(2) fsub_def)
  with reserve_accepts [OF assms(1,3), of w st d] show ?thesis by auto
qed

theorem nan_balance_admits_deploys_witness:
  "\<exists>rel s'. reserveDeployBudget calm_world sample_project '''' False
     (empty_sys\<lparr>y_users := us_write NewUserStore ''u1'' (sample_user\<lparr>u_BalanceRUB := FNaN\<rparr>)\<rparr>) = (Inr rel, s')"
  using nan_balance_admits_deploys [of "empty_sys\<lparr>y_users := us_write NewUserStore ''u1'' (sample_user\<lparr>u_BalanceRUB := FNaN\<rparr>)\<rparr>"
      sample_project "sample_user\<lparr>u_BalanceRUB := FNaN\<rparr>" calm_world "''''" False] not_exempt_sample
  by (simp add: UserStore_GetByID_def sample_project_def)

definition exempt_spelling :: string where
  "exempt_spelling = ''Asadullinam@Yandex.RU''"

lemma exempt_spelling: "exempt_email exempt_spelling"
  by code_simp

text \<open>The exemption from billing follows the spelling of an unverified email: an account under
  another spelling of the exempt address can be registered beside the real one and is exempt too,
  so its deploys are never refused and never reserve anything.\<close>

theorem exemption_by_spelling:
  assumes "UserStore_GetByEmail st ''asadullinam@yandex.ru'' = Some owner"
    and "UserStore_GetByEmail st exempt_spelling = None" and "u_Email v = exempt_spelling"
  shows "\<exists>st'. UserStore_Create st v = Inr st'
    \<and> UserStore_GetByEmail st' ''asadullinam@yandex.ru'' = Some owner
    \<and> UserStore_GetByID st' (u_ID v) = Some v
    \<and> (\<forall>p s sty d. y_users s = st' \<and> p_OwnerID p = u_ID v \<longrightarrow>
         (\<exists>n. reserveDeployBudget w p sty d s = (Inr NothingReserved, s\<lparr>tick := n\<rparr>)))"
proof -
  have c: "UserStore_Create st v = Inr (us_write st (u_ID v) v)"
    using assms(2,3) by (simp add: UserStore_Create_def UserStore_GetByEmail_def)
  have "''asadullinam@yandex.ru'' \<noteq> exempt_spelling" by (simp add: exempt_spelling_def)
  with assms have "UserStore_GetByEmail (us_write st (u_ID v) v) ''asadullinam@yandex.ru'' = Some owner"
    by (simp add: UserStore_GetByEmail_def)
  moreover have "UserStore_GetByID (us_write st (u_ID v) v) (u_ID v) = Some v"
    by (simp add: UserStore_GetByID_def)
  moreover have "\<exists>n. reserveDeployBudget w p sty d s = (Inr NothingReserved, s\<lparr>tick := n\<rparr>)"
    if "y_users s = us_write st (u_ID v) v" "p_OwnerID p = u_ID v" for p s sty d
    by (rule reserve_exempt [of _ _ v]) (simp_all add: that UserStore_GetByID_def assms(3) exempt_spelling)
  ultimately show ?thesis using c by blast
qed

theorem exemption_by_spelling_witness:
  "\<exists>st'. UserStore_Create (us_write NewUserStore ''u0'' (sample_user\<lparr>u_ID := ''u0'', u_Email := ''asadullinam@yandex.ru''\<rparr>))
     (sample_user\<lparr>u_Email := exempt_spelling\<rparr>) = Inr st'"
  using exemption_by_spelling [of "us_write NewUserStore ''u0'' (sample_user\<lparr>u_ID := ''u0'', u_Email := ''asadullinam@yandex.ru''\<rparr>)"
      "sample_user\<lparr>u_ID := ''u0'', u_Email := ''asadullinam@yandex.ru''\<rparr>" "sample_user\<lparr>u_Email := exempt_spelling\<rparr>"
      calm_world]
  by (auto simp: UserStore_GetByEmail_def NewUserStore_def exempt_spelling_def)

text \<open>The summary a user sees is what the reservation checks: the available funds it shows are the
  balance less the month's spend, plus refunds, less the pending charges, computed on the same state.\<close>

theorem summary_matches_reservation:
  assumes "GetBillingSummary w uid s = (Inr b, s')" and "UserStore_GetByID (y_users s) uid = Some u"
  shows "bs_AvailableRUB b = available_funds w u uid (s\<lparr>tick := Suc (tick s)\<rparr>)
    \<and> bs_BalanceRUB b = u_BalanceRUB u \<and> bs_PendingChargesRUB b = pending_of s uid
    \<and> bs_ExemptFromGuard b = exempt_email (u_Email u)
    \<and> bs_GracePeriodEndsAt b = peekGraceDeadlineLocked s uid \<and> stores_of s' = stores_of s"
proof -
  have "UserStore_GetByID (y_users (s\<lparr>tick := Suc (tick s)\<rparr>)) uid = Some u" using assms(2) by simp
  from loadBillingState_known [OF this, of w "clock w (tick s)"] assms(1) show ?thesis
    by (auto simp: GetBillingSummary_def now_def snapshot_of_def)
qed

theorem summary_matches_reservation_witness:
  "bs_BalanceRUB (case fst (GetBillingSummary calm_world ''u1'' rich_sys) of Inr b \<Rightarrow> b) = Fin 100"
proof -
  have u: "UserStore_GetByID (y_users rich_sys) ''u1'' = Some (sample_user\<lparr>u_BalanceRUB := Fin 100\<rparr>)"
    using rich_user by (simp add: sample_project_def)
  then have "\<exists>b s'. GetBillingSummary calm_world ''u1'' rich_sys = (Inr b, s')"
    using loadBillingState_known [of "rich_sys\<lparr>tick := Suc (tick rich_sys)\<rparr>" "''u1''" _ calm_world "clock calm_world (tick rich_sys)"]
    by (auto simp: GetBillingSummary_def now_def)
  with summary_matches_reservation [OF _ u, of calm_world] show ?thesis by force
qed

end
