(* ===== verification/Stages.thy ===== *)
theory Stages
  imports Notifications ProjectHelpers
begin

text \<open>
  The stage operations of \<open>internal/service/project_service.go\<close>: creation (with its cluster call
  and its compensating write), listing with the lazy production stage, deletion, runtime status,
  logs and the cached URLs. The stage store of the code's in-memory version cannot fail, so its
  error branches are absent.
\<close>

section \<open>Access\<close>

text \<open>The guard that starts most handlers: the project exists and belongs to the caller.\<close>

definition owned_project :: "string \<Rightarrow> string \<Rightarrow> Sys \<Rightarrow> go_error + Project" where
  "owned_project pid uid s =
     (case ProjectStore_GetByID (y_projects s) pid of
        None \<Rightarrow> Inl ErrProjectNotFound
      | Some p \<Rightarrow> if p_OwnerID p \<noteq> uid then Inl ErrForbidden else Inr p)"

definition owned_stage :: "string \<Rightarrow> string \<Rightarrow> string \<Rightarrow> Sys \<Rightarrow> go_error + Project \<times> Stage" where
  "owned_stage pid sid uid s =
     (case owned_project pid uid s of
        Inl e \<Rightarrow> Inl e
      | Inr p \<Rightarrow>
         (case StageStore_GetByID (y_stages s) sid of
            None \<Rightarrow> Inl ErrStageNotFound
          | Some st \<Rightarrow> if s_ProjectID st \<noteq> pid then Inl ErrStageNotFound else Inr (p, st)))"

definition invalidateProjectCaches :: "string \<Rightarrow> Sys \<Rightarrow> Sys" where
  "invalidateProjectCaches pid s = s\<lparr>urlsCache := AList.delete pid (urlsCache s)\<rparr>"

definition put_stage :: "Stage \<Rightarrow> Sys \<Rightarrow> Sys" where
  "put_stage st s = s\<lparr>y_stages := StageStore_Update (y_stages s) st\<rparr>"

section \<open>Creation\<close>

definition new_stage :: "string \<Rightarrow> string \<Rightarrow> string \<Rightarrow> string \<Rightarrow> gotime \<Rightarrow> Stage" where
  "new_stage sid pid name slug t = \<lparr>s_ID = sid, s_ProjectID = pid, s_Name = name, s_Slug = slug,
     s_Status = SCreating, s_PublicURL = '''', s_CreatedAt = t, s_UpdatedAt = t\<rparr>"

definition createStage ::
  "World \<Rightarrow> string \<Rightarrow> string \<Rightarrow> string \<Rightarrow> Sys \<Rightarrow> (go_error + Stage) \<times> Sys" where
  "createStage w pid name slug s =
     (let project = ProjectStore_GetByID (y_projects s) pid;
          owner = (case project of None \<Rightarrow> '''' | Some p \<Rightarrow> p_OwnerID p);
          project_name = (case project of None \<Rightarrow> '''' | Some p \<Rightarrow> p_Name p);
          (t, s) = now w s;
          (sid, s) = fresh_id w s;
          stage = new_stage sid pid name slug t;
          s = s\<lparr>y_stages := StageStore_Create (y_stages s) stage\<rparr>;
          (err, s) = call (ans_err w) (CreateStageEnvironment pid slug) s
      in case err of
           Some e \<Rightarrow>
             (let (t, s) = now w s;
                  s = put_stage (stage\<lparr>s_Status := SFailed, s_UpdatedAt := t\<rparr>) s;
                  s = (if owner \<noteq> '''' then notifyUser w owner (''stage-failed:'' @ pid @ '':'' @ slug)
                         (MsgStageFailed name project_name) (30 * Minute) s else s)
              in (Inl (mapStageEnvironmentError e), s))
         | None \<Rightarrow>
             (let (t, s) = now w s;
                  stage = stage\<lparr>s_Status := SActive, s_UpdatedAt := t\<rparr>;
                  s = invalidateProjectCaches pid (put_stage stage s);
                  s = (if owner \<noteq> '''' then notifyUser w owner (''stage-created:'' @ pid @ '':'' @ slug)
                         (MsgStageCreated name project_name) (30 * Minute) s else s)
              in (Inr stage, s)))"

definition getOrCreateProductionStage :: "World \<Rightarrow> string \<Rightarrow> Sys \<Rightarrow> (go_error + Stage) \<times> Sys" where
  "getOrCreateProductionStage w pid s =
     (let (ord, s) = map_order w s
      in case StageStore_GetBySlug ord (y_stages s) pid ''production'' of
           Some stage \<Rightarrow> (Inr stage, s)
         | None \<Rightarrow> createStage w pid ''Production'' ''production'' s)"

definition CreateStage ::
  "World \<Rightarrow> string \<Rightarrow> string \<Rightarrow> CreateStageRequest \<Rightarrow> Sys \<Rightarrow> (go_error + Stage) \<times> Sys" where
  "CreateStage w pid uid req s =
     (case owned_project pid uid s of
        Inl e \<Rightarrow> (Inl e, s)
      | Inr p \<Rightarrow>
         (let name = TrimSpace (csr_Name req); slug = slugifyStageName name
          in if name = '''' then (Inl (ErrText ''stage name is required''), s)
             else if slug = '''' then (Inl (ErrText ''stage name must contain letters or numbers''), s)
             else (let (ord, s) = map_order w s
                   in case StageStore_GetBySlug ord (y_stages s) pid slug of
                        Some _ \<Rightarrow>
                          (Inl (ErrText (''stage with slug '' @ quoted slug @ '' already exists'')), s)
                      | None \<Rightarrow>
                          (let (r, s) = call (ans_text w) (FetchProjectKubeconfig pid) s
                           in case r of
                                Inl e \<Rightarrow> (Inl (mapStageEnvironmentError e), s)
                              | Inr _ \<Rightarrow> createStage w pid name slug s))))"

section \<open>Reading and deletion\<close>

definition ListStages :: "World \<Rightarrow> string \<Rightarrow> string \<Rightarrow> Sys \<Rightarrow> (go_error + Stage list) \<times> Sys" where
  "ListStages w pid uid s =
     (case owned_project pid uid s of
        Inl e \<Rightarrow> (Inl e, s)
      | Inr p \<Rightarrow>
         (let (ord, s) = map_order w s; stages = StageStore_ListByProject ord (y_stages s) pid
          in if stages = [] \<and> p_Status p = PActive
             then (let (r, s) = getOrCreateProductionStage w pid s
                   in case r of Inl e \<Rightarrow> (Inr stages, s) | Inr stage \<Rightarrow> (Inr [stage], s))
             else (Inr stages, s)))"

definition GetStage :: "string \<Rightarrow> string \<Rightarrow> string \<Rightarrow> Sys \<Rightarrow> (go_error + Stage) \<times> Sys" where
  "GetStage pid sid uid s =
     (case owned_stage pid sid uid s of Inl e \<Rightarrow> (Inl e, s) | Inr (p, st) \<Rightarrow> (Inr st, s))"

definition DeleteStage :: "World \<Rightarrow> string \<Rightarrow> string \<Rightarrow> string \<Rightarrow> Sys \<Rightarrow> go_error option \<times> Sys" where
  "DeleteStage w pid sid uid s =
     (case owned_stage pid sid uid s of
        Inl e \<Rightarrow> (Some e, s)
      | Inr (p, stage) \<Rightarrow>
         if s_Slug stage = ''production'' then (Some (ErrText ''cannot delete the production stage''), s)
         else (let (t, s) = now w s;
                   stage = stage\<lparr>s_Status := SDeleting, s_UpdatedAt := t\<rparr>;
                   s = put_stage stage s;
                   (err, s) = call (ans_err w) (DeleteStageEnvironment pid (s_Slug stage)) s
               in case err of
                    Some e \<Rightarrow> (Some e, s)
                  | None \<Rightarrow>
                     (let (t, s) = now w s;
                          s = put_stage (stage\<lparr>s_Status := SDeleted, s_UpdatedAt := t\<rparr>) s
                      in (None, invalidateProjectCaches pid s))))"

text \<open>A write whose error the code drops.\<close>

definition update_project_quietly :: "Project \<Rightarrow> Sys \<Rightarrow> Sys" where
  "update_project_quietly p s =
     (case ProjectStore_Update (y_projects s) p of
        Inl e \<Rightarrow> s | Inr st \<Rightarrow> s\<lparr>y_projects := st\<rparr>)"

text \<open>The public address that a load balancer got from the cluster is stored when none is.\<close>

definition learn_public_url :: "World \<Rightarrow> Project \<Rightarrow> ProjectRuntimeStatus \<Rightarrow> Sys \<Rightarrow> Sys" where
  "learn_public_url w p status s =
     (if TrimSpace (p_PublicURL p) = '''' \<and> normalizedServiceType (p_ServiceType p) = ''loadbalancer''
         \<and> TrimSpace (rs_PublicURL status) \<noteq> ''''
      then (let (t, s) = now w s
            in update_project_quietly
                 (p\<lparr>p_PublicURL := TrimSpace (rs_PublicURL status), p_UpdatedAt := t\<rparr>) s)
      else s)"

definition GetStageRuntimeStatus ::
  "World \<Rightarrow> string \<Rightarrow> string \<Rightarrow> string \<Rightarrow> Sys \<Rightarrow> (go_error + ProjectRuntimeStatus) \<times> Sys" where
  "GetStageRuntimeStatus w pid sid uid s =
     (case owned_stage pid sid uid s of
        Inl e \<Rightarrow> (Inl e, s)
      | Inr (p, stage) \<Rightarrow>
         (let (r, s) = call (ans_status w) (FetchStageRuntimeStatus pid (s_Slug stage)) s
          in case r of
               Inl e \<Rightarrow> (Inl e, s)
             | Inr status \<Rightarrow>
                (let learnsURL = (TrimSpace (rs_PublicURL status) \<noteq> '''' \<and> TrimSpace (s_PublicURL stage) = '''');
                     st1 = (if learnsURL then stage\<lparr>s_PublicURL := TrimSpace (rs_PublicURL status)\<rparr> else stage);
                     revives = (rs_ReadyReplicas status > 0 \<and> s_Status st1 \<noteq> SActive);
                     st2 = (if revives then st1\<lparr>s_Status := SActive\<rparr> else st1);
                     s = (if learnsURL \<or> revives
                          then (let (t, s) = now w s in put_stage (st2\<lparr>s_UpdatedAt := t\<rparr>) s) else s)
                 in (Inr status, learn_public_url w p status s))))"

section \<open>Logs and URLs\<close>

definition log_limit :: "int \<Rightarrow> int" where
  "log_limit n = (let n = (if n \<le> 0 then 200 else n) in if n > 1000 then 1000 else n)"

definition log_since :: "string \<Rightarrow> string" where
  "log_since since = (if TrimSpace since = '''' then ''15m'' else since)"

definition ListProjectLogs ::
  "World \<Rightarrow> string \<Rightarrow> string \<Rightarrow> ProjectLogsRequest \<Rightarrow> Sys \<Rightarrow> (go_error + ProjectLogsResponse) \<times> Sys" where
  "ListProjectLogs w pid uid req s =
     (case owned_project pid uid s of
        Inl e \<Rightarrow> (Inl e, s)
      | Inr p \<Rightarrow>
         if \<not> hasLogReader w then (Inl ErrLogsUnavailable, s)
         else (let req = req\<lparr>pl_Limit := log_limit (pl_Limit req), pl_Since := log_since (pl_Since req)\<rparr>
               in if pl_StageID req = '''' then call (ans_logs w) (ReadProjectLogs pid req) s
                  else (case StageStore_GetByID (y_stages s) (pl_StageID req) of
                          None \<Rightarrow> (Inl ErrStageNotFound, s)
                        | Some st \<Rightarrow>
                           if s_ProjectID st \<noteq> pid then (Inl ErrStageNotFound, s)
                           else call (ans_logs w) (ReadProjectLogs pid
                                  (req\<lparr>pl_StageSlug := s_Slug st, pl_StageID := s_ID st\<rparr>)) s)))"

fun urls_loop :: "World \<Rightarrow> string \<Rightarrow> Stage list \<Rightarrow> Sys \<Rightarrow> StageURLs list \<times> Sys" where
  "urls_loop w pid [] s = ([], s)"
| "urls_loop w pid (st # sts) s =
     (if s_Status st = SDeleted \<or> s_Status st = SDeleting then urls_loop w pid sts s
      else (let (r, s) = call (ans_status w) (FetchStageRuntimeStatus pid (s_Slug st)) s;
                services = (case r of Inl e \<Rightarrow> [] | Inr status \<Rightarrow> rs_ServiceURLs status);
                (rest, s) = urls_loop w pid sts s
            in (\<lparr>sl_StageID = s_ID st, sl_StageName = s_Name st, sl_Slug = s_Slug st,
                 sl_Services = services\<rparr> # rest, s)))"

definition urlsCacheTTL :: duration where
  "urlsCacheTTL = 2 * Minute"

definition GetProjectURLs :: "World \<Rightarrow> string \<Rightarrow> string \<Rightarrow> Sys \<Rightarrow> (go_error + StageURLs list) \<times> Sys" where
  "GetProjectURLs w pid uid s =
     (case owned_project pid uid s of
        Inl e \<Rightarrow> (Inl e, s)
      | Inr p \<Rightarrow>
         (let (hit, s) = (case map_of (urlsCache s) pid of
                            None \<Rightarrow> (None, s)
                          | Some (v, expiresAt) \<Rightarrow>
                              (let (t, s) = now w s in (if t < expiresAt then Some v else None, s)))
          in case hit of
               Some v \<Rightarrow> (Inr v, s)
             | None \<Rightarrow>
                (let (ord, s) = map_order w s;
                     (result, s) = urls_loop w pid (StageStore_ListByProject ord (y_stages s) pid) s;
                     (t, s) = now w s
                 in (Inr result, s\<lparr>urlsCache := AList.update pid (result, t + urlsCacheTTL) (urlsCache s)\<rparr>))))"

section \<open>Lemmas\<close>

lemma owned_project_cases:
  "owned_project pid uid s =
     (case map_of (y_projects s) pid of None \<Rightarrow> Inl ErrProjectNotFound
      | Some p \<Rightarrow> if p_OwnerID p = uid then Inr p else Inl ErrForbidden)"
  by (simp add: owned_project_def ProjectStore_GetByID_def split: option.split)

lemma put_stage_get [simp]:
  "map_of (y_stages (put_stage st s)) k = (if k = s_ID st then Some st else map_of (y_stages s) k)"
  by (simp add: put_stage_def StageStore_Update_def)

lemma put_stage_frame [simp]:
  "y_projects (put_stage st s) = y_projects s" "y_releases (put_stage st s) = y_releases s"
  "y_users (put_stage st s) = y_users s" "tick (put_stage st s) = tick s" "trace (put_stage st s) = trace s"
  "urlsCache (put_stage st s) = urlsCache s"
  by (simp_all add: put_stage_def)

lemma invalidate_frame [simp]:
  "y_projects (invalidateProjectCaches pid s) = y_projects s"
  "y_stages (invalidateProjectCaches pid s) = y_stages s"
  "y_releases (invalidateProjectCaches pid s) = y_releases s"
  "y_users (invalidateProjectCaches pid s) = y_users s"
  "tick (invalidateProjectCaches pid s) = tick s" "trace (invalidateProjectCaches pid s) = trace s"
  by (simp_all add: invalidateProjectCaches_def)

text \<open>The stage that \<open>createStage\<close> stores: active when the cluster made it, failed otherwise.\<close>

lemma createStage_effect:
  assumes "createStage w pid name slug s = (r, s')"
  shows "\<exists>st t. y_stages s' = StageStore_Update (StageStore_Create (y_stages s)
             (new_stage (newID w (Suc (tick s))) pid name slug (clock w (tick s)))) st
    \<and> s_ID st = newID w (Suc (tick s)) \<and> s_ProjectID st = pid \<and> s_Name st = name \<and> s_Slug st = slug
    \<and> s_CreatedAt st = clock w (tick s) \<and> s_PublicURL st = '''' \<and> s_UpdatedAt st = t
    \<and> (case ans_err w (Suc (Suc (tick s))) (CreateStageEnvironment pid slug) of
         None \<Rightarrow> r = Inr st \<and> s_Status st = SActive
       | Some e \<Rightarrow> r = Inl (mapStageEnvironmentError e) \<and> s_Status st = SFailed)
    \<and> y_projects s' = y_projects s \<and> y_users s' = y_users s \<and> y_releases s' = y_releases s
    \<and> y_txs s' = y_txs s \<and> y_usage s' = y_usage s \<and> y_payments s' = y_payments s
    \<and> goroutines s' = goroutines s"
  using assms
  by (cases "ans_err w (Suc (Suc (tick s))) (CreateStageEnvironment pid slug)")
    (auto simp: createStage_def now_def fresh_id_def call_def Let_def put_stage_def new_stage_def
      invalidateProjectCaches_def split: option.splits if_splits)

lemma createStage_frame [simp]:
  "y_projects (snd (createStage w pid name slug s)) = y_projects s"
  "y_users (snd (createStage w pid name slug s)) = y_users s"
  "y_releases (snd (createStage w pid name slug s)) = y_releases s"
  "y_txs (snd (createStage w pid name slug s)) = y_txs s"
  "y_usage (snd (createStage w pid name slug s)) = y_usage s"
  "y_payments (snd (createStage w pid name slug s)) = y_payments s"
  "goroutines (snd (createStage w pid name slug s)) = goroutines s"
  using createStage_effect [OF surjective_pairing, of w pid name slug s] by blast+

lemma createStage_get:
  assumes "createStage w pid name slug s = (r, s')"
    and "k \<noteq> newID w (Suc (tick s))"
  shows "map_of (y_stages s') k = map_of (y_stages s) k"
  using createStage_effect [OF assms(1)] assms(2)
  by (auto simp: StageStore_Update_def StageStore_Create_def new_stage_def)

section \<open>Properties\<close>

text \<open>Every stage operation, the project's logs and its addresses are refused to anyone but the
  owner of the project, with the same error and without any effect.\<close>

theorem strangers_are_refused:
  assumes "ProjectStore_GetByID (y_projects s) pid = Some p" and "p_OwnerID p \<noteq> uid"
  shows "CreateStage w pid uid req s = (Inl ErrForbidden, s)
    \<and> ListStages w pid uid s = (Inl ErrForbidden, s)
    \<and> GetStage pid sid uid s = (Inl ErrForbidden, s)
    \<and> DeleteStage w pid sid uid s = (Some ErrForbidden, s)
    \<and> GetStageRuntimeStatus w pid sid uid s = (Inl ErrForbidden, s)
    \<and> ListProjectLogs w pid uid lreq s = (Inl ErrForbidden, s)
    \<and> GetProjectURLs w pid uid s = (Inl ErrForbidden, s)"
proof -
  have "owned_project pid uid s = Inl ErrForbidden" "owned_stage pid sid uid s = Inl ErrForbidden"
    using assms by (simp_all add: owned_project_def owned_stage_def)
  then show ?thesis
    by (simp add: CreateStage_def ListStages_def GetStage_def DeleteStage_def GetStageRuntimeStatus_def
        ListProjectLogs_def GetProjectURLs_def)
qed

theorem strangers_are_refused_witness:
  "GetProjectURLs calm_world ''p1'' ''mallory'' (empty_sys\<lparr>y_projects := [(''p1'', sample_project)]\<rparr>) =
     (Inl ErrForbidden, empty_sys\<lparr>y_projects := [(''p1'', sample_project)]\<rparr>)"
  using strangers_are_refused [of "empty_sys\<lparr>y_projects := [(''p1'', sample_project)]\<rparr>" "''p1''" sample_project "''mallory''"]
  by (simp add: ProjectStore_GetByID_def sample_project_def)

text \<open>The production stage of a project cannot be deleted by the stage operation: the owner gets
  an error and nothing changes.\<close>

theorem production_stage_undeletable:
  assumes "owned_stage pid sid uid s = Inr (p, st)" and "s_Slug st = ''production''"
  shows "DeleteStage w pid sid uid s = (Some (ErrText ''cannot delete the production stage''), s)"
  using assms by (simp add: DeleteStage_def)

definition production_stage :: Stage where
  "production_stage = \<lparr>s_ID = ''s1'', s_ProjectID = ''p1'', s_Name = ''Production'', s_Slug = ''production'',
     s_Status = SActive, s_PublicURL = '''', s_CreatedAt = 0, s_UpdatedAt = 0\<rparr>"

definition staged_sys :: Sys where
  "staged_sys = empty_sys\<lparr>y_projects := [(''p1'', sample_project)], y_stages := [(''s1'', production_stage)]\<rparr>"

lemma staged_owned: "owned_stage ''p1'' ''s1'' ''u1'' staged_sys = Inr (sample_project, production_stage)"
  by (simp add: owned_stage_def owned_project_def ProjectStore_GetByID_def StageStore_GetByID_def staged_sys_def)
    (simp add: sample_project_def production_stage_def)

theorem production_stage_undeletable_witness:
  "fst (DeleteStage calm_world ''p1'' ''s1'' ''u1'' staged_sys) \<noteq> None"
  using production_stage_undeletable [OF staged_owned] by (simp add: production_stage_def)

text \<open>Deleting any other stage asks the cluster for exactly that stage and marks it: deleted when the
  cluster succeeds, with the cached addresses dropped, and left in deletion when it fails; no other
  stage changes.\<close>

theorem stage_deletion:
  assumes "owned_stage pid sid uid s = Inr (p, st)" and "s_Slug st \<noteq> ''production''"
    and "s_ID st = sid" and "DeleteStage w pid sid uid s = (r, s')"
  shows "trace s' = trace s @ [DeleteStageEnvironment pid (s_Slug st)]
    \<and> (\<exists>st'. map_of (y_stages s') = (map_of (y_stages s))(sid \<mapsto> st')
         \<and> s_Slug st' = s_Slug st \<and> s_ProjectID st' = s_ProjectID st
         \<and> (if r = None then s_Status st' = SDeleted \<and> map_of (urlsCache s') pid = None
            else s_Status st' = SDeleting \<and> urlsCache s' = urlsCache s))"
  using assms
  by (auto simp: DeleteStage_def now_def call_def Let_def put_stage_def StageStore_Update_def
      invalidateProjectCaches_def fun_eq_iff split: option.splits)

definition qa_stage :: Stage where
  "qa_stage = production_stage\<lparr>s_ID := ''s2'', s_Slug := ''qa''\<rparr>"

definition qa_sys :: Sys where
  "qa_sys = staged_sys\<lparr>y_stages := [(''s1'', production_stage), (''s2'', qa_stage)]\<rparr>"

lemma qa_owned: "owned_stage ''p1'' ''s2'' ''u1'' qa_sys = Inr (sample_project, qa_stage)"
  by (simp add: owned_stage_def owned_project_def ProjectStore_GetByID_def StageStore_GetByID_def qa_sys_def
      staged_sys_def) (simp add: sample_project_def qa_stage_def production_stage_def)

theorem stage_deletion_witness:
  "trace (snd (DeleteStage calm_world ''p1'' ''s2'' ''u1'' qa_sys)) = [DeleteStageEnvironment ''p1'' ''qa'']"
  using stage_deletion [OF qa_owned _ _ surjective_pairing, of calm_world]
  by (simp add: qa_stage_def) (simp add: qa_sys_def staged_sys_def empty_sys_def)

text \<open>A stage is created only under a free, well-formed slug: when \<open>CreateStage\<close> succeeds, the caller
  owns the project, no stage of the project had the new stage's slug, the slug is the normal form of
  the name, and the stored stage is active.\<close>

theorem created_stage_is_new:
  assumes "CreateStage w pid uid req s = (Inr st, s')"
  shows "(\<exists>p. ProjectStore_GetByID (y_projects s) pid = Some p \<and> p_OwnerID p = uid)
    \<and> s_Slug st = slugifyStageName (TrimSpace (csr_Name req)) \<and> s_Slug st \<noteq> '''' \<and> slug_wf (s_Slug st)
    \<and> (\<forall>k old. map_of (y_stages s) k = Some old \<longrightarrow> \<not> (s_ProjectID old = pid \<and> s_Slug old = s_Slug st))
    \<and> StageStore_GetByID (y_stages s') (s_ID st) = Some st \<and> s_Status st = SActive \<and> s_ProjectID st = pid"
proof -
  obtain p where p: "owned_project pid uid s = Inr p"
    using assms by (cases "owned_project pid uid s") (auto simp: CreateStage_def)
  let ?slug = "slugifyStageName (TrimSpace (csr_Name req))"
  have ok: "TrimSpace (csr_Name req) \<noteq> ''''" "?slug \<noteq> ''''"
    "StageStore_GetBySlug (rank w (tick s)) (y_stages s) pid ?slug = None"
    using assms p by (auto simp: CreateStage_def Let_def map_order_def split: if_splits option.splits)
  then obtain s1 where s1: "createStage w pid (TrimSpace (csr_Name req)) ?slug s1 = (Inr st, s')"
      "y_stages s1 = y_stages s"
    using assms p by (auto simp: CreateStage_def Let_def map_order_def call_def split: sum.splits)
  from createStage_effect [OF s1(1)] have "s_Slug st = ?slug \<and> s_ProjectID st = pid \<and> s_Status st = SActive
      \<and> map_of (y_stages s') (s_ID st) = Some st"
    by (auto simp: StageStore_Update_def split: option.splits)
  moreover have "\<not> (s_ProjectID old = pid \<and> s_Slug old = ?slug)" if "map_of (y_stages s) k = Some old" for k old
    using GetBySlug_None [OF ok(3) that] .
  moreover have "\<exists>p. ProjectStore_GetByID (y_projects s) pid = Some p \<and> p_OwnerID p = uid"
    using p by (auto simp: owned_project_def split: option.splits if_splits)
  ultimately show ?thesis using ok(2) slugify_wf by (simp add: StageStore_GetByID_def)
qed

lemma sample_create:
  "\<exists>st s'. CreateStage calm_world ''p1'' ''u1'' \<lparr>csr_Name = ''QA''\<rparr> staged_sys = (Inr st, s')"
proof -
  have own: "owned_project ''p1'' ''u1'' staged_sys = Inr sample_project"
    by (simp add: owned_project_def ProjectStore_GetByID_def staged_sys_def) (simp add: sample_project_def)
  have "TrimSpace ''QA'' = ''QA''" by (rule TrimSpace_graph) (simp add: ascii_graph_def)
  moreover have "slugifyStageName ''QA'' = ''qa''" by code_simp
  moreover have "StageStore_GetBySlug ord (y_stages staged_sys) ''p1'' ''qa'' = None" for ord
    by (simp add: StageStore_GetBySlug_def staged_sys_def) (simp add: production_stage_def)
  moreover have "\<exists>st s'. createStage calm_world pid name slug s = (Inr st, s')" for pid name slug s
  proof -
    obtain r s' where "createStage calm_world pid name slug s = (r, s')" by fastforce
    with createStage_effect [OF this] show ?thesis by (auto simp: calm_world_def)
  qed
  ultimately show ?thesis
    by (simp add: CreateStage_def own map_order_def call_def) (simp add: calm_world_def)
qed

theorem created_stage_is_new_witness:
  "\<exists>st::Stage. s_Slug st = slugifyStageName (TrimSpace ''QA'') \<and> slug_wf (s_Slug st)"
proof -
  obtain st s' where c: "CreateStage calm_world ''p1'' ''u1'' \<lparr>csr_Name = ''QA''\<rparr> staged_sys = (Inr st, s')"
    using sample_create by blast
  from created_stage_is_new [OF c] show ?thesis by auto
qed

end
