(* ===== verification/Projects.thy ===== *)
theory Projects
  imports Billing Stages Secrets
begin

text \<open>
  The life of a project in \<open>internal/service/project_service.go\<close>: creation and its background
  provisioning with retries, suspension, resumption, deletion, settings, kubeconfig, tokens and
  runtime status. \<open>go s.provisionProject(project)\<close> puts the project into \<open>goroutines\<close>; a run
  of the goroutine is \<open>provisionProject\<close> on a project taken from there, at any later moment.
\<close>

section \<open>Writes\<close>

definition update_project :: "Project \<Rightarrow> Sys \<Rightarrow> go_error option \<times> Sys" where
  "update_project p s =
     (case ProjectStore_Update (y_projects s) p of
        Inl e \<Rightarrow> (Some e, s) | Inr st \<Rightarrow> (None, s\<lparr>y_projects := st\<rparr>))"

section \<open>Creation and provisioning\<close>

definition new_project :: "World \<Rightarrow> CreateProjectRequest \<Rightarrow> string \<Rightarrow> gotime \<Rightarrow> Project" where
  "new_project w req pid t =
     (let p = \<lparr>p_ID = pid, p_Name = cpr_Name req, p_OwnerID = cpr_OwnerID req, p_Status = PCreating,
        p_PublicURL = '''', p_GrafanaURL = '''', p_RepositoryOwner = '''', p_RepositoryName = '''',
        p_BaseBranch = '''', p_ServiceName = '''', p_DockerfilePath = '''', p_ServiceType = '''',
        p_ServicePort = 0, p_ContainerPort = 0, p_ReplicaCount = 1, p_ResourceProfile = ''balanced'',
        p_DedicatedLoadBalancer = False, p_AppsBaseDomain = '''', p_KubeconfigEncrypted = '''',
        p_GitHubTokenEncrypted = '''', p_SuspendedAt = None, p_DeletionDueAt = None,
        p_CreatedAt = t, p_UpdatedAt = t\<rparr>
      in p\<lparr>p_GrafanaURL := projectGrafanaURL w p\<rparr>)"

definition CreateProject :: "World \<Rightarrow> CreateProjectRequest \<Rightarrow> Sys \<Rightarrow> (go_error + Project) \<times> Sys" where
  "CreateProject w req s =
     (if TrimSpace (cpr_Name req) = '''' then (Inl (ErrText ''project name is required''), s)
      else if TrimSpace (cpr_OwnerID req) = '''' then (Inl (ErrText ''owner identifier is required''), s)
      else (let (t, s) = now w s; (pid, s) = fresh_id w s; p = new_project w req pid t
            in case ProjectStore_Create (y_projects s) p of
                 Inl e \<Rightarrow> (Inl e, s)
               | Inr st \<Rightarrow> (Inr p, s\<lparr>y_projects := st, goroutines := goroutines s @ [p]\<rparr>)))"

definition projectProvisionRetryDelays :: "duration list" where
  "projectProvisionRetryDelays = [5 * Second, 10 * Second, 20 * Second]"

text \<open>
  The attempts that follow the first one, a delay before each. \<open>sleepWithContext\<close> is the call
  \<open>Sleep\<close>: its error is the context's, when the context ends during the delay. All the delays
  are positive, so its early return for a delay of zero is not taken.
\<close>

fun provision_attempts ::
  "World \<Rightarrow> string \<Rightarrow> duration list \<Rightarrow> Sys \<Rightarrow> (go_error + string) \<times> Sys" where
  "provision_attempts w pid delays s =
     (let (r, s) = call (ans_text w) (CreateProjectEnvironment pid) s
      in case r of
           Inr domain \<Rightarrow> (Inr domain, s)
         | Inl e \<Rightarrow>
            (case delays of
               [] \<Rightarrow> (Inl e, s)
             | d # ds \<Rightarrow>
                if \<not> isRetryableProjectProvisionError e then (Inl e, s)
                else (let (x, s) = call (ans_err w) (Sleep d) s
                      in case x of Some c \<Rightarrow> (Inl c, s) | None \<Rightarrow> provision_attempts w pid ds s)))"

declare provision_attempts.simps [simp del]

definition createProjectEnvironmentWithRetry :: "World \<Rightarrow> string \<Rightarrow> Sys \<Rightarrow> (go_error + string) \<times> Sys" where
  "createProjectEnvironmentWithRetry w pid s = provision_attempts w pid projectProvisionRetryDelays s"

definition mark_failed :: "World \<Rightarrow> Project \<Rightarrow> string \<Rightarrow> Sys \<Rightarrow> Sys" where
  "mark_failed w p reason s =
     (let (t, s) = now w s;
          (_, s) = update_project (p\<lparr>p_Status := PFailed, p_UpdatedAt := t\<rparr>) s
      in notifyUser w (p_OwnerID p) (''project-failed:'' @ p_ID p)
           (MsgProjectFailed (p_Name p) reason) (30 * Minute) s)"

text \<open>The last part of the goroutine: the project is read again, activated, given a stage.\<close>

definition activate_project :: "World \<Rightarrow> Project \<Rightarrow> Sys \<Rightarrow> Sys" where
  "activate_project w project s =
     (let pid = p_ID project;
          base = (case ProjectStore_GetByID (y_projects s) pid of
                    Some current \<Rightarrow> current | None \<Rightarrow> project);
          (t, s) = now w s;
          project = base\<lparr>p_Status := PActive, p_UpdatedAt := t\<rparr>;
          (err, s) = update_project project s
      in case err of
           Some e \<Rightarrow> s
         | None \<Rightarrow>
            (let (_, s) = createStage w pid ''Production'' ''production'' s
             in notifyUser w (p_OwnerID project) (''project-active:'' @ p_ID project)
                  (MsgProjectActive (p_Name project)) (30 * Minute) s))"

definition provisionProject :: "World \<Rightarrow> Project \<Rightarrow> Sys \<Rightarrow> Sys" where
  "provisionProject w project s =
     (let (r, s) = createProjectEnvironmentWithRetry w (p_ID project) s
      in case r of
           Inl e \<Rightarrow> mark_failed w project ''provisioner failed'' s
         | Inr domain \<Rightarrow>
            (let (project, s) =
               (if domain \<noteq> ''''
                then let p = project\<lparr>p_AppsBaseDomain := domain\<rparr> in (p, snd (update_project p s))
                else (project, s));
                 (err, s) = call (ans_err w) (SetupProjectAutomation (p_ID project)) s
             in case err of
                  Some e \<Rightarrow> mark_failed w project ''automation failed'' s
                | None \<Rightarrow> activate_project w project s))"

text \<open>One scheduled goroutine runs to its end.\<close>

definition run_goroutine :: "World \<Rightarrow> nat \<Rightarrow> Sys \<Rightarrow> Sys" where
  "run_goroutine w i s =
     (if i < length (goroutines s)
      then provisionProject w (goroutines s ! i)
             (s\<lparr>goroutines := take i (goroutines s) @ drop (Suc i) (goroutines s)\<rparr>)
      else s)"

section \<open>Reading\<close>

definition GetProject :: "World \<Rightarrow> string \<Rightarrow> Sys \<Rightarrow> (go_error + Project) \<times> Sys" where
  "GetProject w pid s =
     (case ProjectStore_GetByID (y_projects s) pid of
        None \<Rightarrow> (Inl ErrProjectNotFound, s) | Some p \<Rightarrow> (Inr (hydrateProjectLinks w p), s))"

definition ListProjects :: "World \<Rightarrow> Sys \<Rightarrow> Project list \<times> Sys" where
  "ListProjects w s =
     (let (ord, s) = map_order w s
      in (map (hydrateProjectLinks w) (ProjectStore_List ord (y_projects s)), s))"

definition GetProjectCost :: "World \<Rightarrow> string \<Rightarrow> Sys \<Rightarrow> (go_error + CostBreakdown) \<times> Sys" where
  "GetProjectCost w pid s =
     (case ProjectStore_GetByID (y_projects s) pid of
        None \<Rightarrow> (Inl ErrProjectNotFound, s) | Some _ \<Rightarrow> Engine_GetProjectCost w pid s)"

definition ListBillingTransactions :: "string \<Rightarrow> Sys \<Rightarrow> (go_error + BillingTransaction list) \<times> Sys" where
  "ListBillingTransactions uid s = (Inr (TxStore_ListByUser (y_txs s) uid), s)"

definition ListProjectBillingTransactions ::
  "string \<Rightarrow> string \<Rightarrow> Sys \<Rightarrow> (go_error + BillingTransaction list) \<times> Sys" where
  "ListProjectBillingTransactions pid uid s =
     (case owned_project pid uid s of
        Inl e \<Rightarrow> (Inl e, s) | Inr _ \<Rightarrow> (Inr (TxStore_ListByProject (y_txs s) pid), s))"

definition GetProjectRuntimeStatus :: "World \<Rightarrow> string \<Rightarrow> Sys \<Rightarrow> (go_error + ProjectRuntimeStatus) \<times> Sys" where
  "GetProjectRuntimeStatus w pid s =
     (case ProjectStore_GetByID (y_projects s) pid of
        None \<Rightarrow> (Inl ErrProjectNotFound, s)
      | Some p \<Rightarrow>
         (let (r, s) = call (ans_status w) (FetchProjectRuntimeStatus pid) s
          in case r of
               Inl e \<Rightarrow> (Inl e, s)
             | Inr st \<Rightarrow>
                (let status = (if rs_ProjectID st = '''' then st\<lparr>rs_ProjectID := pid\<rparr> else st)
                 in (Inr status, learn_public_url w p status s))))"

section \<open>Suspension, resumption, deletion\<close>

definition SuspendProject :: "World \<Rightarrow> string \<Rightarrow> Sys \<Rightarrow> go_error option \<times> Sys" where
  "SuspendProject w pid s =
     (case ProjectStore_GetByID (y_projects s) pid of
        None \<Rightarrow> (Some ErrProjectNotFound, s)
      | Some p \<Rightarrow>
         if p_Status p \<noteq> PActive
         then (Some (ErrText (''can only suspend an active project, current status: ''
                 @ project_status_text (p_Status p))), s)
         else (let (t, s) = now w s;
                   (err, s) = update_project (p\<lparr>p_Status := PSuspended, p_UpdatedAt := t\<rparr>) s
               in case err of
                    Some e \<Rightarrow> (Some e, s)
                  | None \<Rightarrow>
                     (let (err, s) = call (ans_err w) (SuspendProjectEnvironment pid) s
                      in case err of
                           Some e \<Rightarrow> (Some e, s)
                         | None \<Rightarrow> (None, notifyUser w (p_OwnerID p) (''project-suspended:'' @ p_ID p)
                                      (MsgProjectSuspended (p_Name p)) (15 * Minute) s))))"

definition ResumeProject :: "World \<Rightarrow> string \<Rightarrow> Sys \<Rightarrow> go_error option \<times> Sys" where
  "ResumeProject w pid s =
     (case ProjectStore_GetByID (y_projects s) pid of
        None \<Rightarrow> (Some ErrProjectNotFound, s)
      | Some p \<Rightarrow>
         if p_Status p \<noteq> PSuspended
         then (Some (ErrText (''can only resume a suspended project, current status: ''
                 @ project_status_text (p_Status p))), s)
         else (let (err, s) = call (ans_err w) (ResumeProjectEnvironment pid) s
               in case err of
                    Some e \<Rightarrow> (Some e, s)
                  | None \<Rightarrow>
                     (let (t, s) = now w s;
                          (err, s) = update_project (p\<lparr>p_Status := PActive, p_UpdatedAt := t\<rparr>) s
                      in case err of
                           Some e \<Rightarrow> (Some e, s)
                         | None \<Rightarrow> (None, notifyUser w (p_OwnerID p) (''project-resumed:'' @ p_ID p)
                                      (MsgProjectResumed (p_Name p)) (15 * Minute) s))))"

definition DeleteProject :: "World \<Rightarrow> string \<Rightarrow> Sys \<Rightarrow> go_error option \<times> Sys" where
  "DeleteProject w pid s =
     (case ProjectStore_GetByID (y_projects s) pid of
        None \<Rightarrow> (Some ErrProjectNotFound, s)
      | Some p \<Rightarrow>
         (let (t, s) = now w s;
              p = p\<lparr>p_Status := PDeleting, p_UpdatedAt := t\<rparr>;
              (err, s) = update_project p s
          in case err of
               Some e \<Rightarrow> (Some e, s)
             | None \<Rightarrow>
                (let (err, s) = call (ans_err w) (DeleteProjectEnvironment (p_ID p)) s
                 in case err of
                      Some e \<Rightarrow> (Some e, s)
                    | None \<Rightarrow>
                       (let (t, s) = now w s;
                            (err, s) = update_project (p\<lparr>p_Status := PDeleted, p_UpdatedAt := t\<rparr>) s
                        in case err of
                             Some e \<Rightarrow> (Some e, s)
                           | None \<Rightarrow> (None, notifyUser w (p_OwnerID p) (''project-deleted:'' @ p_ID p)
                                        (MsgProjectDeleted (p_Name p)) (30 * Minute)
                                        (invalidateProjectCaches pid s))))))"

section \<open>Settings, kubeconfig and tokens\<close>

definition chosen_replicas :: "int \<Rightarrow> int \<Rightarrow> int" where
  "chosen_replicas requested current =
     (if requested > 0 then normalizedReplicaCount requested else normalizedReplicaCount current)"

definition chosen_profile :: "string \<Rightarrow> string \<Rightarrow> string" where
  "chosen_profile requested current =
     (if TrimSpace requested \<noteq> '''' then normalizedResourceProfile requested
      else normalizedResourceProfile current)"

definition UpdateProjectDeploymentSettings ::
  "World \<Rightarrow> string \<Rightarrow> UpdateDeploymentSettingsRequest \<Rightarrow> Sys \<Rightarrow> (go_error + Project) \<times> Sys" where
  "UpdateProjectDeploymentSettings w pid req s =
     (case ProjectStore_GetByID (y_projects s) pid of
        None \<Rightarrow> (Inl ErrProjectNotFound, s)
      | Some p \<Rightarrow>
         (let (t, s) = now w s;
              p' = p\<lparr>p_RepositoryOwner := TrimSpace (ud_RepositoryOwner req),
                     p_RepositoryName := TrimSpace (ud_RepositoryName req),
                     p_BaseBranch := TrimSpace (ud_BaseBranch req),
                     p_ServiceName := TrimSpace (ud_ServiceName req),
                     p_DockerfilePath := TrimSpace (ud_DockerfilePath req),
                     p_ServiceType := TrimSpace (ud_ServiceType req),
                     p_ServicePort := ud_ServicePort req, p_ContainerPort := ud_ContainerPort req,
                     p_DedicatedLoadBalancer := ud_DedicatedLoadBalancer req,
                     p_ReplicaCount := chosen_replicas (ud_ReplicaCount req) (p_ReplicaCount p),
                     p_ResourceProfile := chosen_profile (ud_ResourceProfile req) (p_ResourceProfile p),
                     p_UpdatedAt := t\<rparr>;
              (err, s) = update_project p' s
          in case err of Some e \<Rightarrow> (Inl e, s) | None \<Rightarrow> (Inr p', s)))"

text \<open>The kubeconfig is fetched, encrypted and stored; each failure has its own wrapping.\<close>

definition fetch_kubeconfig :: "World \<Rightarrow> string \<Rightarrow> Sys \<Rightarrow> (go_error + string) \<times> Sys" where
  "fetch_kubeconfig w pid s =
     (let (r, s) = call (ans_text w) (FetchProjectKubeconfig pid) s
      in case r of
           Inl e \<Rightarrow> (Inl (mapKubeconfigAvailabilityError (ErrWrap ''fetch kubeconfig: '' e '''')), s)
         | Inr kubeconfig \<Rightarrow>
            (let (c, s) = call (ans_text w) (Encrypt kubeconfig) s
             in case c of
                  Inl e \<Rightarrow> (Inl (ErrWrap ''encrypt kubeconfig: '' e ''''), s)
                | Inr encrypted \<Rightarrow>
                   (case ProjectStore_UpdateKubeconfig (y_projects s) pid encrypted of
                      Inl e \<Rightarrow> (Inl (ErrWrap ''store kubeconfig: '' e ''''), s)
                    | Inr st \<Rightarrow> (Inr kubeconfig, s\<lparr>y_projects := st\<rparr>))))"

definition GetProjectKubeconfig :: "World \<Rightarrow> string \<Rightarrow> Sys \<Rightarrow> (go_error + string) \<times> Sys" where
  "GetProjectKubeconfig w pid s =
     (case ProjectStore_GetByID (y_projects s) pid of
        None \<Rightarrow> (Inl ErrProjectNotFound, s)
      | Some p \<Rightarrow> if p_KubeconfigEncrypted p \<noteq> '''' then call (ans_text w) (Decrypt (p_KubeconfigEncrypted p)) s
                  else fetch_kubeconfig w pid s)"

definition RotateProjectKubeconfig :: "World \<Rightarrow> string \<Rightarrow> Sys \<Rightarrow> (go_error + string) \<times> Sys" where
  "RotateProjectKubeconfig w pid s =
     (case ProjectStore_GetByID (y_projects s) pid of
        None \<Rightarrow> (Inl ErrProjectNotFound, s) | Some _ \<Rightarrow> fetch_kubeconfig w pid s)"

text \<open>\<open>ServiceGitHubTokenStatus\<close> has the one field \<open>Configured\<close>.\<close>

definition GetServiceGitHubTokenStatus :: "string \<Rightarrow> Sys \<Rightarrow> (go_error + bool) \<times> Sys" where
  "GetServiceGitHubTokenStatus uid s =
     (case UserStore_GetByID (y_users s) uid of
        None \<Rightarrow> (Inl ErrUserNotFound, s) | Some u \<Rightarrow> (Inr (TrimSpace (u_GitHubTokenEncrypted u) \<noteq> ''''), s))"

definition UpsertServiceGitHubToken :: "World \<Rightarrow> string \<Rightarrow> string \<Rightarrow> Sys \<Rightarrow> (go_error + bool) \<times> Sys" where
  "UpsertServiceGitHubToken w uid token s =
     (if TrimSpace token = '''' then (Inl (ErrText ''github token is required''), s)
      else case UserStore_GetByID (y_users s) uid of
        None \<Rightarrow> (Inl ErrUserNotFound, s)
      | Some _ \<Rightarrow>
         (let (c, s) = call (ans_text w) (Encrypt (TrimSpace token)) s
          in case c of
               Inl e \<Rightarrow> (Inl (ErrWrap ''encrypt github token: '' e ''''), s)
             | Inr encrypted \<Rightarrow>
                (case UserStore_UpdateGitHubToken (y_users s) uid encrypted of
                   Inl e \<Rightarrow> (Inl e, s) | Inr us \<Rightarrow> (Inr True, s\<lparr>y_users := us\<rparr>))))"

definition DeleteServiceGitHubToken :: "string \<Rightarrow> Sys \<Rightarrow> go_error option \<times> Sys" where
  "DeleteServiceGitHubToken uid s =
     (case UserStore_UpdateGitHubToken (y_users s) uid '''' of
        Inl e \<Rightarrow> (Some e, s) | Inr us \<Rightarrow> (None, s\<lparr>y_users := us\<rparr>))"

definition GetProjectGitHubToken :: "string \<Rightarrow> string \<Rightarrow> Sys \<Rightarrow> (go_error + bool) \<times> Sys" where
  "GetProjectGitHubToken pid uid s =
     (case owned_project pid uid s of
        Inl e \<Rightarrow> (Inl e, s) | Inr p \<Rightarrow> (Inr (TrimSpace (p_GitHubTokenEncrypted p) \<noteq> ''''), s))"

definition UpsertProjectGitHubToken :: "World \<Rightarrow> string \<Rightarrow> string \<Rightarrow> string \<Rightarrow> Sys \<Rightarrow> (go_error + bool) \<times> Sys" where
  "UpsertProjectGitHubToken w pid uid token s =
     (if TrimSpace token = '''' then (Inl (ErrText ''github token is required''), s)
      else case owned_project pid uid s of
        Inl e \<Rightarrow> (Inl e, s)
      | Inr p \<Rightarrow>
         (let (c, s) = call (ans_text w) (Encrypt (TrimSpace token)) s
          in case c of
               Inl e \<Rightarrow> (Inl (ErrWrap ''encrypt github token: '' e ''''), s)
             | Inr encrypted \<Rightarrow>
                (case ProjectStore_UpdateGitHubToken (y_projects s) pid encrypted of
                   Inl e \<Rightarrow> (Inl e, s) | Inr st \<Rightarrow> (Inr True, s\<lparr>y_projects := st\<rparr>))))"

definition DeleteProjectGitHubToken :: "string \<Rightarrow> string \<Rightarrow> Sys \<Rightarrow> go_error option \<times> Sys" where
  "DeleteProjectGitHubToken pid uid s =
     (case owned_project pid uid s of
        Inl e \<Rightarrow> (Some e, s)
      | Inr p \<Rightarrow>
         (case ProjectStore_UpdateGitHubToken (y_projects s) pid '''' of
            Inl e \<Rightarrow> (Some e, s) | Inr st \<Rightarrow> (None, s\<lparr>y_projects := st\<rparr>)))"

text \<open>The project's token, else its owner's; an owner without a token has the empty one.\<close>

definition serviceGitHubToken :: "World \<Rightarrow> string \<Rightarrow> Sys \<Rightarrow> (go_error + string) \<times> Sys" where
  "serviceGitHubToken w uid s =
     (case UserStore_GetByID (y_users s) uid of
        None \<Rightarrow> (Inl ErrUserNotFound, s)
      | Some u \<Rightarrow>
         (let encrypted = TrimSpace (u_GitHubTokenEncrypted u)
          in if encrypted = '''' then (Inr '''', s)
             else (let (r, s) = call (ans_text w) (Decrypt encrypted) s
                   in case r of
                        Inl e \<Rightarrow> (Inl (ErrWrap ''decrypt github token: '' e ''''), s)
                      | Inr token \<Rightarrow> (Inr (TrimSpace token), s))))"

definition resolveGitHubToken :: "World \<Rightarrow> Project \<Rightarrow> Sys \<Rightarrow> (go_error + string) \<times> Sys" where
  "resolveGitHubToken w p s =
     (let encrypted = TrimSpace (p_GitHubTokenEncrypted p)
      in if encrypted \<noteq> ''''
         then (let (r, s) = call (ans_text w) (Decrypt encrypted) s
               in case r of
                    Inl e \<Rightarrow> (Inl (ErrWrap ''decrypt project github token: '' e ''''), s)
                  | Inr token \<Rightarrow> (Inr (TrimSpace token), s))
         else serviceGitHubToken w (p_OwnerID p) s)"

section \<open>Lemmas\<close>

lemma update_project_known:
  "map_of (y_projects s) (p_ID p) = Some old \<Longrightarrow>
   update_project p s = (None, s\<lparr>y_projects := AList.update (p_ID p) (merge_project old p) (y_projects s)\<rparr>)"
  by (simp add: update_project_def ProjectStore_Update_def)

lemma update_project_unknown:
  "map_of (y_projects s) (p_ID p) = None \<Longrightarrow> update_project p s = (Some (ErrText ''project not found''), s)"
  by (simp add: update_project_def ProjectStore_Update_def)

lemma update_project_frame: "\<exists>ps. snd (update_project p s) = s\<lparr>y_projects := ps\<rparr>"
  by (cases "map_of (y_projects s) (p_ID p)") (auto simp: update_project_known update_project_unknown
      intro: exI [of _ "y_projects s"])

section \<open>The attempts of a provisioning\<close>

text \<open>The calls of a provisioning whose every attempt fails with a retryable error.\<close>

fun provision_schedule :: "string \<Rightarrow> duration list \<Rightarrow> ext_call list" where
  "provision_schedule pid [] = [CreateProjectEnvironment pid]"
| "provision_schedule pid (d # ds) = [CreateProjectEnvironment pid, Sleep d] @ provision_schedule pid ds"

lemma length_schedule [simp]: "length (provision_schedule pid ds) = 2 * length ds + 1"
  by (induction ds) auto

text \<open>How the attempts ended after \<open>n\<close> calls.\<close>

definition attempts_end :: "nat \<Rightarrow> nat \<Rightarrow> go_error + string \<Rightarrow> bool" where
  "attempts_end n limit r \<longleftrightarrow>
     (case r of Inr d \<Rightarrow> odd n | Inl e \<Rightarrow> n = limit \<or> even n \<or> \<not> isRetryableProjectProvisionError e)"

lemma attempts_calls:
  "provision_attempts w pid ds s = (r, s') \<Longrightarrow>
   \<exists>n. 1 \<le> n \<and> n \<le> 2 * length ds + 1 \<and> s' = s\<lparr>tick := tick s + n, trace := trace s @ take n (provision_schedule pid ds)\<rparr>
     \<and> attempts_end n (2 * length ds + 1) r
     \<and> (odd n \<longrightarrow> r = ans_text w (tick s + (n - 1)) (CreateProjectEnvironment pid))"
proof (induction ds arbitrary: s)
  case Nil
  then show ?case
    by (subst (asm) provision_attempts.simps)
      (auto simp: call_def attempts_end_def split: sum.splits intro!: exI [of _ 1])
next
  case (Cons d ds)
  note step = Cons.prems [unfolded provision_attempts.simps [of w pid "d # ds"]]
  show ?case
  proof (cases "ans_text w (tick s) (CreateProjectEnvironment pid)")
    case (Inr dom)
    with step show ?thesis
      by (intro exI [of _ 1]) (auto simp: call_def attempts_end_def split: sum.splits)
  next
    case (Inl e)
    show ?thesis
    proof (cases "isRetryableProjectProvisionError e")
      case False
      with step Inl show ?thesis
        by (intro exI [of _ 1]) (auto simp: call_def attempts_end_def split: sum.splits)
    next
      case True
      let ?s = "s\<lparr>tick := Suc (Suc (tick s)), trace := trace s @ [CreateProjectEnvironment pid, Sleep d]\<rparr>"
      show ?thesis
      proof (cases "ans_err w (Suc (tick s)) (Sleep d)")
        case (Some c)
        with step Inl True show ?thesis
          by (intro exI [of _ 2]) (auto simp: call_def attempts_end_def numeral_2_eq_2)
      next
        case None
        with step Inl True have "provision_attempts w pid ds ?s = (r, s')"
          by (simp add: call_def)
        from Cons.IH [OF this] obtain n where n: "1 \<le> n" "n \<le> 2 * length ds + 1"
            "s' = ?s\<lparr>tick := tick ?s + n, trace := trace ?s @ take n (provision_schedule pid ds)\<rparr>"
            "attempts_end n (2 * length ds + 1) r"
            "odd n \<longrightarrow> r = ans_text w (tick ?s + (n - 1)) (CreateProjectEnvironment pid)"
          by blast
        have "take (n + 2) (provision_schedule pid (d # ds))
            = [CreateProjectEnvironment pid, Sleep d] @ take n (provision_schedule pid ds)"
          by (simp add: numeral_2_eq_2)
        with n show ?thesis
          by (intro exI [of _ "n + 2"]) (auto simp: attempts_end_def split: sum.splits)
      qed
    qed
  qed
qed

section \<open>Properties of the life of a project\<close>

lemma notifyUser_trace: "set (trace s) \<subseteq> set (trace (notifyUser w uid key m ttl s))"
  by (auto simp: notifyUser_def SendUserAlert_def send_def call_def now_def Let_def split: option.splits)


text \<open>A failed resumption changes nothing but the trace of calls; a successful one makes a suspended
  project active and changes no other project.\<close>

theorem resumption:
  assumes "project_store_ok (y_projects s)" and "ResumeProject w pid s = (r, s')"
  shows "if r = None
    then (\<exists>p p'. map_of (y_projects s) pid = Some p \<and> p_Status p = PSuspended
        \<and> map_of (y_projects s') = (map_of (y_projects s))(pid \<mapsto> p')
        \<and> p_Status p' = PActive \<and> p_OwnerID p' = p_OwnerID p \<and> p_DeletionDueAt p' = p_DeletionDueAt p
        \<and> ResumeProjectEnvironment pid \<in> set (trace s'))
    else stores_of s' = stores_of s"
proof (cases "map_of (y_projects s) pid")
  case None
  with assms(2) show ?thesis by (auto simp: ResumeProject_def ProjectStore_GetByID_def)
next
  case (Some p)
  have pid: "p_ID p = pid" using project_store_ok_get [OF assms(1) Some] .
  show ?thesis
  proof (cases "p_Status p = PSuspended \<and> ans_err w (tick s) (ResumeProjectEnvironment pid) = None")
    case False
    with assms(2) Some show ?thesis
      by (auto simp: ResumeProject_def ProjectStore_GetByID_def call_def split: if_splits)
  next
    case True
    with assms(2) Some pid show ?thesis
      by (auto simp: ResumeProject_def ProjectStore_GetByID_def call_def now_def update_project_known
          intro!: subsetD [OF notifyUser_trace])
  qed
qed

lemma mark_failed_status:
  assumes "map_of (y_projects s) (p_ID p) = Some old"
  shows "\<exists>p'. map_of (y_projects (mark_failed w p reason s)) (p_ID p) = Some p' \<and> p_Status p' = PFailed"
  using assms by (simp add: mark_failed_def now_def update_project_known)

lemma activate_status:
  assumes "map_of (y_projects s) (p_ID p) = Some old" and "p_ID old = p_ID p"
  shows "\<exists>p'. map_of (y_projects (activate_project w p s)) (p_ID p) = Some p' \<and> p_Status p' = PActive"
  using assms
  by (simp add: activate_project_def now_def update_project_known ProjectStore_GetByID_def split_beta Let_def)

text \<open>C11 Every provisioning settles: when the goroutine of a project has run, the stored project is active
  if the cluster gave an environment and the automation was set up, and failed otherwise. This is so
  whatever the stored status was, so a project that was deleted meanwhile is active again.\<close>

theorem provisioning_settles:
  assumes "project_store_ok (y_projects s)" and "map_of (y_projects s) (p_ID project) = Some old"
    and "createProjectEnvironmentWithRetry w (p_ID project) s = (r, s1)"
  shows "\<exists>p'. map_of (y_projects (provisionProject w project s)) (p_ID project) = Some p'
    \<and> p_Status p' = (if (\<exists>domain. r = Inr domain)
          \<and> ans_err w (tick s1) (SetupProjectAutomation (p_ID project)) = None then PActive else PFailed)"
proof -
  have s1: "y_projects s1 = y_projects s"
    using attempts_calls [OF assms(3) [unfolded createProjectEnvironmentWithRetry_def]] by auto
  have id: "p_ID old = p_ID project" using project_store_ok_get [OF assms(1,2)] .
  show ?thesis
  proof (cases r)
    case (Inl e)
    with assms s1 show ?thesis by (simp add: provisionProject_def mark_failed_status)
  next
    case (Inr domain)
    let ?p = "if domain \<noteq> '''' then project\<lparr>p_AppsBaseDomain := domain\<rparr> else project"
    let ?s = "if domain \<noteq> '''' then snd (update_project ?p s1) else s1"
    let ?t = "?s\<lparr>tick := Suc (tick ?s), trace := trace ?s @ [SetupProjectAutomation (p_ID project)]\<rparr>"
    have st: "\<exists>q. map_of (y_projects ?t) (p_ID ?p) = Some q \<and> p_ID q = p_ID ?p" "tick ?s = tick s1"
        "p_ID ?p = p_ID project"
      using assms(2) s1 id by (auto simp: update_project_known)
    have "provisionProject w project s = (case ans_err w (tick s1) (SetupProjectAutomation (p_ID project)) of
        Some e \<Rightarrow> mark_failed w ?p ''automation failed'' ?t | None \<Rightarrow> activate_project w ?p ?t)"
      using assms(3) Inr st(2) by (auto simp: provisionProject_def call_def Let_def split: option.split)
    moreover have "\<exists>p'. map_of (y_projects (mark_failed w ?p reason ?t)) (p_ID ?p) = Some p' \<and> p_Status p' = PFailed" for reason
      using st(1) mark_failed_status by blast
    moreover have "\<exists>p'. map_of (y_projects (activate_project w ?p ?t)) (p_ID ?p) = Some p' \<and> p_Status p' = PActive"
      using st(1) activate_status by blast
    ultimately show ?thesis
      unfolding st(3) using Inr by (auto split: option.splits)
  qed
qed

definition down_world :: World where
  "down_world = calm_world\<lparr>ans_err := (\<lambda>n c. Some (ErrText ''down''))\<rparr>"


definition one_project :: Sys where
  "one_project = empty_sys\<lparr>y_projects := [(''p1'', sample_project)]\<rparr>"

lemma one_project:
  "map_of (y_projects one_project) (p_ID sample_project) = Some sample_project" "p_Status sample_project = PActive"
  "project_store_ok (y_projects one_project)"
  by (simp_all add: one_project_def project_store_ok_def gomap_ok_def) (simp_all add: sample_project_def)

lemma calm_attempt:
  "createProjectEnvironmentWithRetry calm_world pid s =
     (Inr ''text'', s\<lparr>tick := Suc (tick s), trace := trace s @ [CreateProjectEnvironment pid]\<rparr>)"
  unfolding createProjectEnvironmentWithRetry_def
  by (subst provision_attempts.simps) (simp add: call_def, simp add: calm_world_def)

theorem provisioning_settles_witness:
  "map_option p_Status (map_of (y_projects (provisionProject calm_world sample_project one_project)) (p_ID sample_project)) = Some PActive"
  using provisioning_settles [OF one_project(3,1) calm_attempt] by (force simp: calm_world_def)

text \<open>C38 A deletion is final only when the cluster agrees: the project is deleted when the environment was
  removed and stays in the state deleting when it was not; its cluster call is made after the new state
  is stored, no other project changes, and the stages of the project are not touched.\<close>

theorem deletion_outcome:
  assumes "project_store_ok (y_projects s)" and "map_of (y_projects s) pid = Some p"
    and "DeleteProject w pid s = (r, s')"
  shows "\<exists>p'. map_of (y_projects s') = (map_of (y_projects s))(pid \<mapsto> p') \<and> p_OwnerID p' = p_OwnerID p
    \<and> r = ans_err w (Suc (tick s)) (DeleteProjectEnvironment pid)
    \<and> p_Status p' = (if r = None then PDeleted else PDeleting)
    \<and> DeleteProjectEnvironment pid \<in> set (trace s') \<and> y_stages s' = y_stages s \<and> y_users s' = y_users s"
proof -
  have pid: "p_ID p = pid" using project_store_ok_get [OF assms(1,2)] .
  show ?thesis
  proof (cases "ans_err w (Suc (tick s)) (DeleteProjectEnvironment pid)")
    case (Some e)
    with assms pid show ?thesis
      by (auto simp: DeleteProject_def ProjectStore_GetByID_def call_def now_def update_project_known)
  next
    case None
    with assms pid show ?thesis
      by (auto simp: DeleteProject_def ProjectStore_GetByID_def call_def now_def update_project_known
          fun_eq_iff intro!: subsetD [OF notifyUser_trace])
  qed
qed

theorem deletion_outcome_witness:
  "map_option p_Status (map_of (y_projects (snd (DeleteProject down_world (p_ID sample_project) one_project))) (p_ID sample_project))
     = Some PDeleting"
  using deletion_outcome [OF one_project(3,1) surjective_pairing, of down_world] by (auto simp: down_world_def)

definition suspended_sys :: Sys where
  "suspended_sys = empty_sys\<lparr>y_projects := [(''p1'', sample_project\<lparr>p_Status := PSuspended\<rparr>)]\<rparr>"

theorem resumption_witness:
  "map_option p_Status (map_of (y_projects (snd (ResumeProject calm_world ''p1'' suspended_sys))) ''p1'') = Some PActive"
proof -
  have ok: "project_store_ok (y_projects suspended_sys)"
    by (simp add: suspended_sys_def project_store_ok_def gomap_ok_def) (simp add: sample_project_def)
  have calm: "ans_err calm_world n c = None" for n c by (simp add: calm_world_def)
  have "fst (ResumeProject calm_world ''p1'' suspended_sys) = None"
    by (simp add: ResumeProject_def suspended_sys_def ProjectStore_GetByID_def call_def now_def calm
          update_project_def ProjectStore_Update_def sample_project_def split_beta)
  with resumption [OF ok surjective_pairing, of calm_world "''p1''"] show ?thesis by auto
qed



section \<open>Secrets of a project\<close>

text \<open>A world whose cipher is the service of \<open>internal/crypto\<close> with some key, with a nonce per call.\<close>

definition crypto_world :: "World \<Rightarrow> byte list \<Rightarrow> bool" where
  "crypto_world w key \<longleftrightarrow>
     (\<forall>n x. \<exists>r. nonce_fits r \<and> ans_text w n (Encrypt x) = EncryptSecret key r x)
     \<and> (\<forall>n c. ans_text w n (Decrypt c) = DecryptSecret key c)"

lemma crypto_world_secret:
  assumes "crypto_world w key" "ans_text w n (Encrypt x) = Inr c"
  shows "ans_text w m (Decrypt c) = Inr x" "c \<noteq> ''''" "TrimSpace c = c"
proof -
  obtain r where "nonce_fits r" "EncryptSecret key r x = Inr c" "ans_text w m (Decrypt c) = DecryptSecret key c"
    using assms unfolding crypto_world_def by metis
  with aes.decrypt_encrypt aes.not_blank
  show "ans_text w m (Decrypt c) = Inr x" "c \<noteq> ''''" "TrimSpace c = c" by metis+
qed

definition aes_world :: World where
  "aes_world = calm_world\<lparr>ans_text := (\<lambda>n c. case c of
      Encrypt x \<Rightarrow> EncryptSecret (replicate 32 1) (Some (replicate 12 (word_of_nat n))) x
    | Decrypt x \<Rightarrow> DecryptSecret (replicate 32 1) x | _ \<Rightarrow> Inr ''kubeconfig'')\<rparr>"

lemma aes_world: "crypto_world aes_world (replicate 32 1)"
proof -
  have "\<exists>r. nonce_fits r \<and> ans_text aes_world n (Encrypt x) = EncryptSecret (replicate 32 1) r x" for n x
    by (rule exI [of _ "Some (replicate 12 (word_of_nat n))"]) (simp add: aes_world_def nonce_fits_def)
  then show ?thesis unfolding crypto_world_def by (simp add: aes_world_def)
qed

lemma fetch_kubeconfig_stores:
  assumes "fetch_kubeconfig w pid s = (Inr k, s1)" and "map_of (y_projects s) pid = Some p"
  shows "\<exists>c. ans_text w (Suc (tick s)) (Encrypt k) = Inr c
    \<and> map_of (y_projects s1) = (map_of (y_projects s))(pid \<mapsto> p\<lparr>p_KubeconfigEncrypted := c\<rparr>)"
  using assms
  by (auto simp: fetch_kubeconfig_def call_def ProjectStore_UpdateKubeconfig_def split: sum.splits)

text \<open>A kubeconfig is fetched from the cluster once: after a first successful read every later read
  returns the same kubeconfig from the store, with one decryption and no call to the cluster.\<close>

theorem kubeconfig_is_cached:
  assumes "crypto_world w key" and "map_of (y_projects s) pid = Some p" and "p_KubeconfigEncrypted p = ''''"
    and "GetProjectKubeconfig w pid s = (Inr k, s1)"
  shows "\<exists>c. GetProjectKubeconfig w pid s1
    = (Inr k, s1\<lparr>tick := Suc (tick s1), trace := trace s1 @ [Decrypt c]\<rparr>)"
proof -
  have "fetch_kubeconfig w pid s = (Inr k, s1)"
    using assms(2-4) by (simp add: GetProjectKubeconfig_def ProjectStore_GetByID_def)
  from fetch_kubeconfig_stores [OF this assms(2)] obtain c where c:
    "ans_text w (Suc (tick s)) (Encrypt k) = Inr c"
    "map_of (y_projects s1) = (map_of (y_projects s))(pid \<mapsto> p\<lparr>p_KubeconfigEncrypted := c\<rparr>)"
    by blast
  from c crypto_world_secret [OF assms(1) c(1)] show ?thesis
    by (auto simp: GetProjectKubeconfig_def ProjectStore_GetByID_def call_def)
qed

lemma first_read: "\<exists>s1. GetProjectKubeconfig aes_world ''p1'' one_project = (Inr ''kubeconfig'', s1)"
  by (simp add: GetProjectKubeconfig_def ProjectStore_GetByID_def one_project_def fetch_kubeconfig_def call_def
      ProjectStore_UpdateKubeconfig_def)
    (simp add: sample_project_def aes_world_def EncryptSecret_def call_def ProjectStore_UpdateKubeconfig_def
      ProjectStore_UpdateGitHubToken_def)

theorem kubeconfig_is_cached_witness:
  "\<exists>s1. fst (GetProjectKubeconfig aes_world ''p1'' s1) = Inr ''kubeconfig''"
proof -
  obtain s1 where s1: "GetProjectKubeconfig aes_world ''p1'' one_project = (Inr ''kubeconfig'', s1)"
    using first_read by blast
  have "map_of (y_projects one_project) ''p1'' = Some sample_project" "p_KubeconfigEncrypted sample_project = ''''"
    by (simp_all add: one_project_def) (simp add: sample_project_def)
  from kubeconfig_is_cached [OF aes_world this s1] show ?thesis by (metis fst_conv)
qed

text \<open>A project's GitHub token comes back as it was entered, without surrounding white space: whatever the
  later state, resolving the token of the project as it is then stored gives the entered one, not the owner's.\<close>

theorem project_token_round_trip:
  assumes "crypto_world w key" and "project_store_ok (y_projects s)"
    and "UpsertProjectGitHubToken w pid uid token s = (Inr configured, s1)"
  shows "\<exists>p'. map_of (y_projects s1) pid = Some p' \<and> p_OwnerID p' = uid \<and> configured
    \<and> fst (resolveGitHubToken w p' later) = Inr (TrimSpace token)"
proof -
  obtain p where p: "map_of (y_projects s) pid = Some p" "p_OwnerID p = uid" "TrimSpace token \<noteq> ''''"
    using assms(3) by (auto simp: UpsertProjectGitHubToken_def owned_project_cases split: if_splits option.splits)
  then obtain c where c: "ans_text w (tick s) (Encrypt (TrimSpace token)) = Inr c"
      "map_of (y_projects s1) = (map_of (y_projects s))(pid \<mapsto> p\<lparr>p_GitHubTokenEncrypted := c\<rparr>)" "configured"
    using assms(3)
    by (auto simp: UpsertProjectGitHubToken_def owned_project_cases call_def ProjectStore_UpdateGitHubToken_def
        split: sum.splits)
  note sec = crypto_world_secret [OF assms(1) c(1)]
  have "fst (resolveGitHubToken w (p\<lparr>p_GitHubTokenEncrypted := c\<rparr>) later) = Inr (TrimSpace token)"
    using sec(2,3) sec(1) [of "tick later"] by (simp add: resolveGitHubToken_def call_def)
  with p(2) c(2,3) show ?thesis by auto
qed

lemma first_token: "\<exists>s1. UpsertProjectGitHubToken aes_world ''p1'' ''u1'' ''ghp_1'' one_project = (Inr True, s1)"
proof -
  have "TrimSpace ''ghp_1'' = ''ghp_1''" by (rule TrimSpace_graph) (simp add: ascii_graph_def)
  then show ?thesis
    by (simp add: UpsertProjectGitHubToken_def owned_project_cases one_project_def call_def
        ProjectStore_UpdateGitHubToken_def)
      (simp add: sample_project_def aes_world_def EncryptSecret_def call_def ProjectStore_UpdateKubeconfig_def
      ProjectStore_UpdateGitHubToken_def)
qed

theorem project_token_round_trip_witness:
  "\<exists>(s1::Sys) p'. map_of (y_projects s1) ''p1'' = Some p'
     \<and> fst (resolveGitHubToken aes_world p' one_project) = Inr (TrimSpace ''ghp_1'')"
proof -
  obtain s1 where s1: "UpsertProjectGitHubToken aes_world ''p1'' ''u1'' ''ghp_1'' one_project = (Inr True, s1)"
    using first_token by blast
  from project_token_round_trip [OF aes_world one_project(3) s1, of one_project] show ?thesis by auto
qed

end
