(* ===== verification/Guard.thy ===== *)
theory Guard
  imports Projects
begin

text \<open>
  The acting half of \<open>internal/service/billing_guard.go\<close>: the decision on a user's billing state
  (grace period, suspension, deletion after the retention period) and its execution.
\<close>

section \<open>Decision\<close>

record billingDecision =
  bd_clearGrace :: bool
  bd_clearDeletionSchedule :: bool
  bd_startGrace :: bool
  bd_graceDeadline :: "gotime option"
  bd_suspendProjects :: "Project list"
  bd_deleteProjects :: "Project list"

definition no_decision :: billingDecision where
  "no_decision = \<lparr>bd_clearGrace = False, bd_clearDeletionSchedule = False, bd_startGrace = False,
     bd_graceDeadline = None, bd_suspendProjects = [], bd_deleteProjects = []\<rparr>"

definition deletion_due :: "gotime \<Rightarrow> Project \<Rightarrow> bool" where
  "deletion_due t p \<longleftrightarrow> p_Status p = PSuspended
     \<and> (case p_DeletionDueAt p of None \<Rightarrow> False | Some d \<Rightarrow> \<not> t < d)"

definition evaluateBillingGuard :: "duration \<Rightarrow> billingState \<Rightarrow> gotime \<Rightarrow> billingDecision" where
  "evaluateBillingGuard gracePeriod st t =
     (if sp_ExemptFromGuard (st_Snapshot st)
      then no_decision\<lparr>bd_clearGrace := True, bd_clearDeletionSchedule := True\<rparr>
      else if flt (Fin 0) (st_AvailableRUB st)
      then no_decision\<lparr>bd_clearGrace := True, bd_clearDeletionSchedule := True\<rparr>
      else case st_GracePeriodEndsAt st of
        None \<Rightarrow> no_decision\<lparr>bd_startGrace := True, bd_graceDeadline := Some (t + gracePeriod)\<rparr>
      | Some deadline \<Rightarrow>
         if t < deadline then no_decision\<lparr>bd_graceDeadline := Some deadline\<rparr>
         else no_decision\<lparr>bd_graceDeadline := Some deadline,
                bd_suspendProjects := filter (\<lambda>p. p_Status p = PActive) (st_Projects st),
                bd_deleteProjects := filter (deletion_due t) (st_Projects st)\<rparr>)"

section \<open>Execution\<close>

fun clearDeletionSchedule :: "World \<Rightarrow> Project list \<Rightarrow> Sys \<Rightarrow> go_error option \<times> Sys" where
  "clearDeletionSchedule w [] s = (None, s)"
| "clearDeletionSchedule w (p # ps) s =
     (if p_Status p \<noteq> PSuspended then clearDeletionSchedule w ps s
      else if p_SuspendedAt p = None \<and> p_DeletionDueAt p = None then clearDeletionSchedule w ps s
      else (let (t, s) = now w s;
                (err, s) = update_project
                  (p\<lparr>p_SuspendedAt := None, p_DeletionDueAt := None, p_UpdatedAt := t\<rparr>) s
            in case err of
                 Some e \<Rightarrow> (Some (ErrWrap (''clear deletion schedule for project '' @ p_ID p @ '': '') e ''''), s)
               | None \<Rightarrow> clearDeletionSchedule w ps s))"

definition suspendProjectForNonPayment ::
  "World \<Rightarrow> Project \<Rightarrow> gotime \<Rightarrow> duration \<Rightarrow> Sys \<Rightarrow> go_error option \<times> Sys" where
  "suspendProjectForNonPayment w p t retentionPeriod s =
     (if p_Status p \<noteq> PActive
      then (Some (ErrText (''can only auto-suspend an active project, current status: ''
              @ project_status_text (p_Status p))), s)
      else (let (err, s) = update_project
                  (p\<lparr>p_Status := PSuspended, p_UpdatedAt := t, p_SuspendedAt := Some t,
                     p_DeletionDueAt := Some (t + retentionPeriod)\<rparr>) s
            in case err of
                 Some e \<Rightarrow> (Some e, s)
               | None \<Rightarrow> call (ans_err w) (SuspendProjectEnvironment (p_ID p)) s))"

fun suspend_all :: "World \<Rightarrow> string \<Rightarrow> gotime \<Rightarrow> Project list \<Rightarrow> Sys \<Rightarrow> go_error option \<times> Sys" where
  "suspend_all w uid t [] s = (None, s)"
| "suspend_all w uid t (p # ps) s =
     (let (err, s) = suspendProjectForNonPayment w p t (billingRetentionPeriod s) s
      in case err of
           Some e \<Rightarrow>
             (Some (ErrWrap (''auto-suspend project '' @ p_ID p @ '' for user '' @ uid @ '': '') e ''''), s)
         | None \<Rightarrow> suspend_all w uid t ps
             (notifyUser w uid (''billing-suspended:'' @ p_ID p) (MsgBillingSuspended (p_Name p)) (2 * Hour) s))"

fun delete_all :: "World \<Rightarrow> string \<Rightarrow> Project list \<Rightarrow> Sys \<Rightarrow> go_error option \<times> Sys" where
  "delete_all w uid [] s = (None, s)"
| "delete_all w uid (p # ps) s =
     (let (err, s) = DeleteProject w (p_ID p) s
      in case err of
           Some e \<Rightarrow>
             (Some (ErrWrap (''auto-delete project '' @ p_ID p @ '' for user '' @ uid
                 @ '' after retention period: '') e ''''), s)
         | None \<Rightarrow> delete_all w uid ps
             (notifyUser w uid (''billing-deleted:'' @ p_ID p) (MsgBillingDeleted (p_Name p)) (24 * Hour) s))"

definition applyBillingDecision ::
  "World \<Rightarrow> billingState \<Rightarrow> billingDecision \<Rightarrow> gotime \<Rightarrow> Sys \<Rightarrow> go_error option \<times> Sys" where
  "applyBillingDecision w st d t s =
     (let uid = sp_UserID (st_Snapshot st);
          s = (if bd_clearGrace d then s\<lparr>graceStartedAt := AList.delete uid (graceStartedAt s)\<rparr> else s);
          (err, s) = (if bd_clearDeletionSchedule d then clearDeletionSchedule w (st_Projects st) s
                      else (None, s))
      in case err of
           Some e \<Rightarrow> (Some e, s)
         | None \<Rightarrow>
            if bd_startGrace d
            then (let ((deadline, startedNow), s) = ensureGraceDeadlineLocked uid t s
                  in (None, if startedNow
                            then notifyUser w uid (''billing-grace:'' @ uid)
                                   (MsgBillingGrace (st_AvailableRUB st) deadline) (6 * Hour) s
                            else s))
            else (let (err, s) = suspend_all w uid t (bd_suspendProjects d) s
                  in case err of
                       Some e \<Rightarrow> (Some e, s)
                     | None \<Rightarrow> delete_all w uid (bd_deleteProjects d) s))"

definition EnforceBillingGuard :: "World \<Rightarrow> string \<Rightarrow> Sys \<Rightarrow> go_error option \<times> Sys" where
  "EnforceBillingGuard w uid s =
     (let (t, s) = now w s; (r, s) = loadBillingState w uid t s
      in case r of
           Inl e \<Rightarrow> (Some e, s)
         | Inr st \<Rightarrow> applyBillingDecision w st (evaluateBillingGuard (billingGracePeriod s) st t) t s)"

fun enforce_loop :: "World \<Rightarrow> Project list \<Rightarrow> string list \<Rightarrow> Sys \<Rightarrow> go_error option \<times> Sys" where
  "enforce_loop w [] seen s = (None, s)"
| "enforce_loop w (p # ps) seen s =
     (if p_OwnerID p = '''' \<or> p_Status p = PDeleted then enforce_loop w ps seen s
      else if p_OwnerID p \<in> set seen then enforce_loop w ps seen s
      else (let (err, s) = EnforceBillingGuard w (p_OwnerID p) s
            in case err of
                 Some e \<Rightarrow> (Some e, s)
               | None \<Rightarrow> enforce_loop w ps (p_OwnerID p # seen) s))"

definition EnforceAllBillingGuards :: "World \<Rightarrow> Sys \<Rightarrow> go_error option \<times> Sys" where
  "EnforceAllBillingGuards w s =
     (let (ord, s) = map_order w s in enforce_loop w (ProjectStore_List ord (y_projects s)) [] s)"

section \<open>Lemmas\<close>

text \<open>The billing list holds stored projects, each once.\<close>

definition stored_once :: "Sys \<Rightarrow> Project list \<Rightarrow> bool" where
  "stored_once s ps \<longleftrightarrow> distinct (map p_ID ps) \<and> (\<forall>p \<in> set ps. map_of (y_projects s) (p_ID p) = Some p)"

lemma stored_once_list:
  assumes "project_store_ok (y_projects s)"
  shows "stored_once s (fst (listBillingProjects w uid s))"
proof -
  have sub: "map_of (y_projects s) (p_ID p) = Some p" if "p \<in> snd ` set (y_projects s)" for p
    using that assms by (auto simp: project_store_ok_def gomap_ok_def)
  have eq: "map p_ID (map snd L) = map fst L" if "set L \<subseteq> set (y_projects s)" for L
    using that assms by (force simp: project_store_ok_def)
  have "distinct (map fst (sort_key f (y_projects s)))" for f :: "string \<times> Project \<Rightarrow> nat"
    using assms by (auto simp: project_store_ok_def gomap_ok_def distinct_map inj_on_def)
  then have "distinct (map p_ID (ProjectStore_List ord (y_projects s)))" for ord
    unfolding ProjectStore_List_def range_map_def by (subst eq) auto
  then have "distinct (map p_ID (fst (listBillingProjects w uid s)))"
    by (auto simp: listBillingProjects_def go_step distinct_map intro: inj_on_subset)
  with sub listBillingProjects_mem show ?thesis by (auto simp: stored_once_def)
qed

lemma billing_list_complete:
  assumes "map_of (y_projects s) k = Some p" "p_OwnerID p = uid" "p_Status p \<noteq> PDeleted"
  shows "p \<in> set (fst (listBillingProjects w uid s))"
  using assms range_map_get [OF assms(1)]
  by (auto simp: listBillingProjects_def go_step ProjectStore_List_def)

text \<open>What clearing the schedules does to a stored project, and what it leaves alone.\<close>

definition cleared :: "Project list \<Rightarrow> Project \<Rightarrow> Project \<Rightarrow> bool" where
  "cleared ps q q' \<longleftrightarrow> p_Status q' = p_Status q \<and> (q \<notin> set ps \<longrightarrow> q' = q)
     \<and> (q \<in> set ps \<and> p_Status q = PSuspended \<longrightarrow> p_SuspendedAt q' = None \<and> p_DeletionDueAt q' = None)"

lemma clearDeletionSchedule_effect:
  assumes "stored_once s ps" and "project_store_ok (y_projects s)"
  shows "\<exists>s'. clearDeletionSchedule w ps s = (None, s')
    \<and> (\<forall>k. rel_option (cleared ps) (map_of (y_projects s) k) (map_of (y_projects s') k))
    \<and> s' = s\<lparr>tick := tick s', y_projects := y_projects s'\<rparr>"
  using assms
proof (induction ps arbitrary: s)
  case Nil
  then show ?case by (auto simp: option.rel_refl cleared_def)
next
  case (Cons p ps)
  have p: "map_of (y_projects s) (p_ID p) = Some p" and d: "p_ID p \<notin> p_ID ` set ps"
    and rest: "stored_once s ps"
    using Cons.prems by (auto simp: stored_once_def)
  show ?case
  proof (cases "p_Status p \<noteq> PSuspended \<or> p_SuspendedAt p = None \<and> p_DeletionDueAt p = None")
    case True
    obtain s' where s': "clearDeletionSchedule w ps s = (None, s')"
        "\<And>k. rel_option (cleared ps) (map_of (y_projects s) k) (map_of (y_projects s') k)"
        "s' = s\<lparr>tick := tick s', y_projects := y_projects s'\<rparr>"
      using Cons.IH [OF rest Cons.prems(2)] by blast
    have notin: "p \<notin> set ps" using d by auto
    have "rel_option (cleared (p # ps)) (map_of (y_projects s) k) (map_of (y_projects s') k)" for k
    proof (cases "map_of (y_projects s) k")
      case None
      with s'(2) [of k] show ?thesis by simp
    next
      case (Some q)
      with s'(2) [of k] obtain q' where q': "map_of (y_projects s') k = Some q'" "cleared ps q q'"
        by (auto simp: option_rel_Some1)
      with True notin Some show ?thesis by (auto simp: cleared_def)
    qed
    moreover have "clearDeletionSchedule w (p # ps) s = (None, s')" using True s'(1) by auto
    ultimately show ?thesis using s'(3) by blast
  next
    case False
    let ?p = "p\<lparr>p_SuspendedAt := None, p_DeletionDueAt := None, p_UpdatedAt := clock w (tick s)\<rparr>"
    let ?s = "s\<lparr>tick := Suc (tick s), y_projects := AList.update (p_ID p) (merge_project p ?p) (y_projects s)\<rparr>"
    have "stored_once ?s ps" using rest d by (auto simp: stored_once_def) (metis imageI)
    moreover have "project_store_ok (y_projects ?s)"
      using Cons.prems(2) by (simp add: project_store_ok_write)
    ultimately obtain s' where s': "clearDeletionSchedule w ps ?s = (None, s')"
        "\<And>k. rel_option (cleared ps) (map_of (y_projects ?s) k) (map_of (y_projects s') k)"
        "s' = ?s\<lparr>tick := tick s', y_projects := y_projects s'\<rparr>"
      using Cons.IH by blast
    have "clearDeletionSchedule w (p # ps) s = (None, s')"
      using False p s'(1) by (auto simp: now_def update_project_known)
    moreover have "rel_option (cleared (p # ps)) (map_of (y_projects s) k) (map_of (y_projects s') k)" for k
    proof (cases "k = p_ID p")
      case True
      have "merge_project p ?p \<notin> set ps"
        using d imageI [of "merge_project p ?p" "set ps" p_ID] by auto
      with s'(2) [of k] True p show ?thesis
        by (auto simp: option_rel_Some1 cleared_def)
    next
      case False
      show ?thesis
      proof (cases "map_of (y_projects s) k")
        case None
        with s'(2) [of k] False show ?thesis by simp
      next
        case (Some q)
        with s'(2) [of k] False obtain q' where q': "map_of (y_projects s') k = Some q'" "cleared ps q q'"
          by (auto simp: option_rel_Some1)
        moreover have "q \<noteq> p" using Some False project_store_ok_get [OF Cons.prems(2)] by auto
        ultimately show ?thesis using Some by (auto simp: cleared_def)
      qed
    qed
    moreover have "s' = s\<lparr>tick := tick s', y_projects := y_projects s'\<rparr>"
      by (subst s'(3)) simp
    ultimately show ?thesis by blast
  qed
qed

text \<open>The three outcomes of an enforcement for a known user.\<close>

definition out_of_funds :: "World \<Rightarrow> User \<Rightarrow> string \<Rightarrow> Sys \<Rightarrow> bool" where
  "out_of_funds w u uid s \<longleftrightarrow> \<not> exempt_email (u_Email u)
     \<and> \<not> flt (Fin 0) (available_funds w u uid (s\<lparr>tick := Suc (tick s)\<rparr>))"

lemma enforce_state:
  assumes "UserStore_GetByID (y_users s) uid = Some u"
  obtains n st where
    "EnforceBillingGuard w uid s = applyBillingDecision w st
       (evaluateBillingGuard (billingGracePeriod s) st (clock w (tick s))) (clock w (tick s)) (s\<lparr>tick := n\<rparr>)"
    "sp_ExemptFromGuard (st_Snapshot st) = exempt_email (u_Email u)" "sp_UserID (st_Snapshot st) = u_ID u"
    "st_AvailableRUB st = available_funds w u uid (s\<lparr>tick := Suc (tick s)\<rparr>)"
    "st_GracePeriodEndsAt st = peekGraceDeadlineLocked s uid"
    "st_Projects st = fst (listBillingProjects w uid (s\<lparr>tick := Suc (tick s)\<rparr>))"
proof -
  have u: "UserStore_GetByID (y_users (s\<lparr>tick := Suc (tick s)\<rparr>)) uid = Some u" using assms by simp
  obtain n st where st: "loadBillingState w uid (clock w (tick s)) (s\<lparr>tick := Suc (tick s)\<rparr>) = (Inr st, s\<lparr>tick := n\<rparr>)"
      "st_Snapshot st = snapshot_of w u uid (s\<lparr>tick := Suc (tick s)\<rparr>)"
      "st_AvailableRUB st = available_funds w u uid (s\<lparr>tick := Suc (tick s)\<rparr>)"
      "st_GracePeriodEndsAt st = peekGraceDeadlineLocked s uid"
      "st_Projects st = fst (listBillingProjects w uid (s\<lparr>tick := Suc (tick s)\<rparr>))"
    using loadBillingState_known [OF u, of w "clock w (tick s)"] by auto
  show ?thesis
    by (rule that [of st n]) (use st in \<open>simp_all add: EnforceBillingGuard_def now_def snapshot_of_def\<close>)
qed

lemma enforce_funded:
  assumes "UserStore_GetByID (y_users s) uid = Some u" "u_ID u = uid" and "\<not> out_of_funds w u uid s"
    and "project_store_ok (y_projects s)"
  shows "\<exists>s' ps. EnforceBillingGuard w uid s = (None, s')
    \<and> map_of (graceStartedAt s') = (map_of (graceStartedAt s))(uid := None)
    \<and> ps = fst (listBillingProjects w uid (s\<lparr>tick := Suc (tick s)\<rparr>))
    \<and> (\<forall>k. rel_option (cleared ps) (map_of (y_projects s) k) (map_of (y_projects s') k))"
proof -
  obtain n st where st: "EnforceBillingGuard w uid s = applyBillingDecision w st
       (evaluateBillingGuard (billingGracePeriod s) st (clock w (tick s))) (clock w (tick s)) (s\<lparr>tick := n\<rparr>)"
    "sp_ExemptFromGuard (st_Snapshot st) = exempt_email (u_Email u)" "sp_UserID (st_Snapshot st) = u_ID u"
    "st_AvailableRUB st = available_funds w u uid (s\<lparr>tick := Suc (tick s)\<rparr>)"
    "st_Projects st = fst (listBillingProjects w uid (s\<lparr>tick := Suc (tick s)\<rparr>))"
    using enforce_state [OF assms(1)] by metis
  let ?s = "s\<lparr>tick := n, graceStartedAt := AList.delete uid (graceStartedAt s)\<rparr>"
  have "project_store_ok (y_projects (s\<lparr>tick := Suc (tick s)\<rparr>))" using assms(4) by simp
  then have "stored_once (s\<lparr>tick := Suc (tick s)\<rparr>) (st_Projects st)"
    unfolding st(5) by (rule stored_once_list)
  then have "stored_once ?s (st_Projects st)" by (simp add: stored_once_def)
  from clearDeletionSchedule_effect [OF this, of w] assms(4) obtain s' where s':
    "clearDeletionSchedule w (st_Projects st) ?s = (None, s')"
    "\<forall>k. rel_option (cleared (st_Projects st)) (map_of (y_projects s) k) (map_of (y_projects s') k)"
    "s' = ?s\<lparr>tick := tick s', y_projects := y_projects s'\<rparr>"
    by auto
  have "graceStartedAt s' = AList.delete uid (graceStartedAt s)"
    by (subst s'(3)) simp
  moreover have "EnforceBillingGuard w uid s = (None, s')"
    using assms(2,3) s'(1) st
    by (auto simp: applyBillingDecision_def evaluateBillingGuard_def out_of_funds_def no_decision_def Let_def)
  ultimately show ?thesis using s'(2) st(5) by auto
qed

lemma enforce_waiting:
  assumes "UserStore_GetByID (y_users s) uid = Some u" "u_ID u = uid" and "out_of_funds w u uid s"
    and "case peekGraceDeadlineLocked s uid of None \<Rightarrow> True | Some d \<Rightarrow> clock w (tick s) < d"
  shows "\<exists>s'. EnforceBillingGuard w uid s = (None, s') \<and> y_projects s' = y_projects s
    \<and> map_of (graceStartedAt s') = (map_of (graceStartedAt s))
        (uid \<mapsto> case map_of (graceStartedAt s) uid of None \<Rightarrow> clock w (tick s) | Some t \<Rightarrow> t)"
proof -
  obtain n st where st: "EnforceBillingGuard w uid s = applyBillingDecision w st
       (evaluateBillingGuard (billingGracePeriod s) st (clock w (tick s))) (clock w (tick s)) (s\<lparr>tick := n\<rparr>)"
    "sp_ExemptFromGuard (st_Snapshot st) = exempt_email (u_Email u)" "sp_UserID (st_Snapshot st) = u_ID u"
    "st_AvailableRUB st = available_funds w u uid (s\<lparr>tick := Suc (tick s)\<rparr>)"
    "st_GracePeriodEndsAt st = peekGraceDeadlineLocked s uid"
    using enforce_state [OF assms(1)] by metis
  show ?thesis
  proof (cases "map_of (graceStartedAt s) uid")
    case None
    then show ?thesis
      using assms(2,3) st
      by (simp add: applyBillingDecision_def evaluateBillingGuard_def out_of_funds_def no_decision_def
          peekGraceDeadlineLocked_def ensureGraceDeadlineLocked_def Let_def)
  next
    case (Some started)
    with assms(2-4) st show ?thesis
      by (auto simp: applyBillingDecision_def evaluateBillingGuard_def out_of_funds_def no_decision_def
          peekGraceDeadlineLocked_def Let_def fun_eq_iff)
  qed
qed

section \<open>Properties\<close>

text \<open>C24 The decision, exactly: a project is chosen for suspension (or deletion) if and only if its
  owner is not exempt, has no positive available funds, the grace deadline is set and has passed, and
  the project is one of the owner's that is active (or is suspended with a due deletion date).\<close>

theorem guard_decision_exact:
  "(p \<in> set (bd_suspendProjects (evaluateBillingGuard g st t)) \<longleftrightarrow>
      \<not> sp_ExemptFromGuard (st_Snapshot st) \<and> \<not> flt (Fin 0) (st_AvailableRUB st)
      \<and> (\<exists>d. st_GracePeriodEndsAt st = Some d \<and> d \<le> t) \<and> p \<in> set (st_Projects st) \<and> p_Status p = PActive)
   \<and> (p \<in> set (bd_deleteProjects (evaluateBillingGuard g st t)) \<longleftrightarrow>
      \<not> sp_ExemptFromGuard (st_Snapshot st) \<and> \<not> flt (Fin 0) (st_AvailableRUB st)
      \<and> (\<exists>d. st_GracePeriodEndsAt st = Some d \<and> d \<le> t) \<and> p \<in> set (st_Projects st)
      \<and> p_Status p = PSuspended \<and> (\<exists>due. p_DeletionDueAt p = Some due \<and> due \<le> t))"
  by (auto simp: evaluateBillingGuard_def no_decision_def deletion_due_def split: option.splits if_splits)

text \<open>C8 No surprise: as long as no grace period of the user has expired, enforcing the billing guard
  changes the status of no project, whatever the balance is; and an unfunded user's grace period
  starts at the first check and is not moved by later ones.\<close>

theorem no_suspension_within_grace:
  assumes "UserStore_GetByID (y_users s) uid = Some u" and "u_ID u = uid"
    and "project_store_ok (y_projects s)"
    and "case peekGraceDeadlineLocked s uid of None \<Rightarrow> True | Some d \<Rightarrow> clock w (tick s) < d"
    and "EnforceBillingGuard w uid s = (e, s')"
  shows "e = None
    \<and> (\<lambda>k. map_option p_Status (map_of (y_projects s') k)) = (\<lambda>k. map_option p_Status (map_of (y_projects s) k))
    \<and> map_of (graceStartedAt s') uid =
       (if out_of_funds w u uid s
        then Some (case map_of (graceStartedAt s) uid of None \<Rightarrow> clock w (tick s) | Some t \<Rightarrow> t) else None)"
proof (cases "out_of_funds w u uid s")
  case True
  then show ?thesis using enforce_waiting [OF assms(1,2) True assms(4)] assms(5) by auto
next
  case False
  obtain s1 ps where s1: "EnforceBillingGuard w uid s = (None, s1)"
      "map_of (graceStartedAt s1) = (map_of (graceStartedAt s))(uid := None)"
      "\<forall>k. rel_option (cleared ps) (map_of (y_projects s) k) (map_of (y_projects s1) k)"
    using enforce_funded [OF assms(1,2) False assms(3)] by blast
  have "map_option p_Status (map_of (y_projects s1) k) = map_option p_Status (map_of (y_projects s) k)" for k
    using spec [OF s1(3), of k] by (auto simp: cleared_def elim: option.rel_cases)
  with s1 assms(5) False show ?thesis by auto
qed

theorem no_suspension_within_grace_witness:
  "fst (EnforceBillingGuard calm_world ''u1'' rich_sys) = None"
  using no_suspension_within_grace [of rich_sys "''u1''" "sample_user\<lparr>u_BalanceRUB := Fin 100\<rparr>" calm_world,
      OF _ _ _ _ surjective_pairing] rich_user
  by (simp add: peekGraceDeadlineLocked_def rich_sys_def empty_sys_def project_store_ok_def sample_project_def)
    (simp add: sample_user_def)

text \<open>Paying up in time rescues everything: a check that finds the user funded (or exempt) ends the
  grace period and removes the deletion date of every suspended project of the user.\<close>

theorem funded_check_rescues:
  assumes "UserStore_GetByID (y_users s) uid = Some u" and "u_ID u = uid"
    and "project_store_ok (y_projects s)" and "\<not> out_of_funds w u uid s"
    and "EnforceBillingGuard w uid s = (e, s')"
    and "map_of (y_projects s) k = Some p" and "p_OwnerID p = uid" and "p_Status p = PSuspended"
  shows "e = None \<and> map_of (graceStartedAt s') uid = None
    \<and> (\<exists>p'. map_of (y_projects s') k = Some p' \<and> p_Status p' = PSuspended \<and> p_DeletionDueAt p' = None)"
proof -
  obtain s1 ps where s1: "EnforceBillingGuard w uid s = (None, s1)"
      "map_of (graceStartedAt s1) = (map_of (graceStartedAt s))(uid := None)"
      "ps = fst (listBillingProjects w uid (s\<lparr>tick := Suc (tick s)\<rparr>))"
      "\<forall>k. rel_option (cleared ps) (map_of (y_projects s) k) (map_of (y_projects s1) k)"
    using enforce_funded [OF assms(1,2,4,3)] by blast
  have "p \<in> set ps"
    unfolding s1(3) using assms(6-8) by (intro billing_list_complete [of _ k]) auto
  with spec [OF s1(4), of k] assms(6,8) s1(1,2) assms(5) show ?thesis
    by (auto simp: cleared_def option_rel_Some1)
qed

definition late_project :: Project where
  "late_project = sample_project\<lparr>p_Status := PSuspended, p_SuspendedAt := Some 0, p_DeletionDueAt := Some 1\<rparr>"

definition late_user :: User where
  "late_user = sample_user\<lparr>u_Email := exempt_spelling\<rparr>"

definition late_sys :: Sys where
  "late_sys = empty_sys\<lparr>y_users := us_write NewUserStore ''u1'' late_user, y_projects := [(''p1'', late_project)]\<rparr>"

lemma late_facts:
  "UserStore_GetByID (y_users late_sys) ''u1'' = Some late_user" "u_ID late_user = ''u1''"
  "project_store_ok (y_projects late_sys)" "\<not> out_of_funds w late_user ''u1'' late_sys"
  "map_of (y_projects late_sys) ''p1'' = Some late_project" "p_OwnerID late_project = ''u1''"
  "p_Status late_project = PSuspended"
  by (simp_all add: late_sys_def late_user_def late_project_def UserStore_GetByID_def project_store_ok_def
      out_of_funds_def exempt_spelling gomap_ok_def)
    (simp_all add: sample_user_def sample_project_def)

theorem funded_check_rescues_witness:
  "map_option p_DeletionDueAt (map_of (y_projects (snd (EnforceBillingGuard calm_world ''u1'' late_sys))) ''p1'') = Some None"
  using funded_check_rescues [OF late_facts(1-4) surjective_pairing late_facts(5-7)] by auto

text \<open>A suspension is recorded before the cluster is asked: when the cluster call fails, the store
  already says suspended, so the next check no longer picks the project and its environment keeps
  running unpaid.\<close>

theorem failed_suspension_is_forgotten:
  assumes "map_of (y_projects s) (p_ID p) = Some p" and "p_Status p = PActive"
    and "ans_err w (tick s) (SuspendProjectEnvironment (p_ID p)) = Some e"
  shows "\<exists>s' p'. suspendProjectForNonPayment w p t retention s = (Some e, s')
    \<and> map_of (y_projects s') (p_ID p) = Some p' \<and> p_Status p' = PSuspended
    \<and> p_DeletionDueAt p' = Some (t + retention)
    \<and> p' \<notin> set (bd_suspendProjects (evaluateBillingGuard g st t'))"
proof -
  let ?q = "p\<lparr>p_Status := PSuspended, p_UpdatedAt := t, p_SuspendedAt := Some t, p_DeletionDueAt := Some (t + retention)\<rparr>"
  have "map_of (y_projects s) (p_ID ?q) = Some p" using assms(1) by simp
  note upd = update_project_known [OF this]
  have "p_Status p' \<noteq> PActive \<Longrightarrow> p' \<notin> set (bd_suspendProjects (evaluateBillingGuard g st t'))" for p'
    by (auto simp: evaluateBillingGuard_def no_decision_def split: option.splits if_splits)
  then show ?thesis
    using assms(2,3) upd by (simp add: suspendProjectForNonPayment_def call_def)
qed

theorem failed_suspension_is_forgotten_witness:
  "map_option p_Status (map_of (y_projects (snd (suspendProjectForNonPayment down_world sample_project 5 7 one_project)))
     (p_ID sample_project)) = Some PSuspended"
  using failed_suspension_is_forgotten [OF one_project(1,2), of down_world "ErrText ''down''" 5 7]
  by (force simp: down_world_def)

text \<open>A suspension for non-payment of a project that is not active is refused and changes nothing;
  one that succeeds stores the suspension time and the deletion date after the retention period.\<close>

theorem suspension_for_non_payment:
  assumes "map_of (y_projects s) (p_ID p) = Some p"
    and "suspendProjectForNonPayment w p t retention s = (r, s')"
  shows "if p_Status p = PActive
    then (\<exists>p'. map_of (y_projects s') = (map_of (y_projects s))(p_ID p \<mapsto> p') \<and> p_Status p' = PSuspended
            \<and> p_SuspendedAt p' = Some t \<and> p_DeletionDueAt p' = Some (t + retention) \<and> p_OwnerID p' = p_OwnerID p)
    else s' = s \<and> r \<noteq> None"
proof (cases "p_Status p = PActive")
  case False
  with assms(2) show ?thesis by (auto simp: suspendProjectForNonPayment_def)
next
  case True
  let ?q = "p\<lparr>p_Status := PSuspended, p_UpdatedAt := t, p_SuspendedAt := Some t, p_DeletionDueAt := Some (t + retention)\<rparr>"
  have "map_of (y_projects s) (p_ID ?q) = Some p" using assms(1) by simp
  from update_project_known [OF this] True assms(2) show ?thesis
    by (auto simp: suspendProjectForNonPayment_def call_def)
qed

theorem suspension_for_non_payment_witness:
  "\<exists>p'. map_of (y_projects (snd (suspendProjectForNonPayment calm_world sample_project 5 7 one_project)))
     (p_ID sample_project) = Some p' \<and> p_DeletionDueAt p' = Some 12"
  using suspension_for_non_payment [OF one_project(1) surjective_pairing, of calm_world 5 7] one_project(2) by auto

end
