(* ===== verification/Releases.thy ===== *)
theory Releases
  imports Projects
begin

text \<open>
  Releases in \<open>internal/service/project_service.go\<close>: the GitHub webhook, the synchronisation
  with the workflow runs, rollbacks, and the status a release gives its stage. The release
  store of the code's in-memory version cannot fail, so its error branches are absent.
\<close>

section \<open>Stages of releases\<close>

definition resolveReleaseStageID :: "World \<Rightarrow> string \<Rightarrow> string \<Rightarrow> Sys \<Rightarrow> string \<times> Sys" where
  "resolveReleaseStageID w pid slug s =
     (let (ord, s) = map_order w s
      in case StageStore_GetBySlug ord (y_stages s) pid slug of
           Some stage \<Rightarrow> (s_ID stage, s)
         | None \<Rightarrow>
            if slug = ''production''
            then (let (r, s) = getOrCreateProductionStage w pid s
                  in (case r of Inl e \<Rightarrow> '''' | Inr stage \<Rightarrow> s_ID stage, s))
            else ('''', s))"

definition updateStageStatusFromRelease :: "World \<Rightarrow> Release \<Rightarrow> Sys \<Rightarrow> Sys" where
  "updateStageStatusFromRelease w r s =
     (if r_StageID r = '''' then s
      else case StageStore_GetByID (y_stages s) (r_StageID r) of
        None \<Rightarrow> s
      | Some stage \<Rightarrow>
         (case (case r_Status r of RSuccess \<Rightarrow> Some SActive | RFailed \<Rightarrow> Some SFailed | _ \<Rightarrow> None) of
            None \<Rightarrow> s
          | Some desired \<Rightarrow>
             if s_Status stage = desired then s
             else (let (t, s) = now w s
                   in put_stage (stage\<lparr>s_Status := desired, s_UpdatedAt := t\<rparr>) s)))"

text \<open>The newest release of the stage that is unresolved and has no run; the first of equals.\<close>

definition unresolved :: "ReleaseStatus \<Rightarrow> bool" where
  "unresolved st \<longleftrightarrow> st = RPending \<or> st = RBuilding \<or> st = RDeploying"

definition pick_newer :: "string \<Rightarrow> Release \<Rightarrow> Release option \<Rightarrow> Release option" where
  "pick_newer sid r best =
     (if r_WorkflowRunID r \<noteq> 0 \<or> r_StageID r \<noteq> sid \<or> \<not> unresolved (r_Status r) then best
      else case best of None \<Rightarrow> Some r | Some b \<Rightarrow> if r_CreatedAt r > r_CreatedAt b then Some r else best)"

definition findPendingReleaseWithoutWorkflow ::
  "World \<Rightarrow> string \<Rightarrow> string \<Rightarrow> Sys \<Rightarrow> Release option \<times> Sys" where
  "findPendingReleaseWithoutWorkflow w pid sid s =
     (let (ord, s) = map_order w s
      in (fold (pick_newer sid) (ReleaseStore_ListByProject ord (y_releases s) pid) None, s))"

definition put_release :: "Release \<Rightarrow> Sys \<Rightarrow> Sys" where
  "put_release r s = s\<lparr>y_releases := ReleaseStore_Update (y_releases s) r\<rparr>"

definition create_release :: "Release \<Rightarrow> Sys \<Rightarrow> Sys" where
  "create_release r s = s\<lparr>y_releases := ReleaseStore_Create (y_releases s) r\<rparr>"

section \<open>The webhook\<close>

definition webhook_project :: "string \<Rightarrow> string \<Rightarrow> Project \<Rightarrow> bool" where
  "webhook_project owner name p \<longleftrightarrow> \<not> (p_Status p = PDeleted \<or> p_Status p = PDeleting)
     \<and> EqualFold (TrimSpace (p_RepositoryOwner p)) owner
     \<and> EqualFold (TrimSpace (p_RepositoryName p)) name"

definition webhook_stage_slug :: "GitHubWorkflowRunPayload \<Rightarrow> string" where
  "webhook_stage_slug pl =
     (let a = slugifyStageName (wh_StageSlug pl);
          b = (if a = '''' then stageSlugFromWorkflowPath (wh_Path pl) else a)
      in if b = '''' then ''production'' else b)"

definition run_release :: "string \<Rightarrow> string \<Rightarrow> string \<Rightarrow> ReleaseStatus \<Rightarrow> int \<Rightarrow> string \<Rightarrow> string \<Rightarrow> gotime \<Rightarrow> Release" where
  "run_release rid pid sid st run sha msg t = \<lparr>r_ID = rid, r_ProjectID = pid, r_StageID = sid,
     r_CommitSHA = sha, r_CommitMessage = msg, r_Status = st, r_WorkflowRunID = run,
     r_ImageTag = '''', r_CreatedAt = t, r_UpdatedAt = t\<rparr>"

text \<open>
  The release that the event is about: the one bound to the run; else a pending one of the
  stage, bound in memory; else a new one. \<open>None\<close> is the early return.
\<close>

definition webhook_release ::
  "World \<Rightarrow> GitHubWorkflowRunPayload \<Rightarrow> Sys \<Rightarrow> Release option \<times> Sys" where
  "webhook_release w pl s =
     (let (ord, s) = map_order w s
      in case ReleaseStore_GetByWorkflowRunID ord (y_releases s) (wh_RunID pl) of
           Some r \<Rightarrow> (Some r, s)
         | None \<Rightarrow>
            (let owner = TrimSpace (wh_RepositoryOwnerLogin pl); name = TrimSpace (wh_RepositoryName pl)
             in if owner = '''' \<or> name = '''' then (None, s)
                else (let (ord, s) = map_order w s
                      in case find (webhook_project owner name) (ProjectStore_List ord (y_projects s)) of
                           None \<Rightarrow> (None, s)
                         | Some p \<Rightarrow>
                            (let (t, s) = now w s;
                                 (sid, s) = resolveReleaseStageID w (p_ID p) (webhook_stage_slug pl) s;
                                 (pending, s) = findPendingReleaseWithoutWorkflow w (p_ID p) sid s
                             in case pending of
                                  Some r \<Rightarrow>
                                    (let sha = TrimSpace (wh_HeadSHA pl); msg = TrimSpace (wh_HeadCommitMessage pl)
                                     in (Some (r\<lparr>r_WorkflowRunID := wh_RunID pl,
                                           r_CommitSHA := (if sha \<noteq> '''' then sha else r_CommitSHA r),
                                           r_CommitMessage := (if msg \<noteq> '''' then msg else r_CommitMessage r),
                                           r_UpdatedAt := t\<rparr>), s))
                                | None \<Rightarrow>
                                    (let (rid, s) = fresh_id w s;
                                         r = run_release rid (p_ID p) sid RPending (wh_RunID pl)
                                               (wh_HeadSHA pl) (wh_HeadCommitMessage pl) t
                                     in (Some r, create_release r s))))))"

definition webhook_status :: "GitHubWorkflowRunPayload \<Rightarrow> ReleaseStatus option" where
  "webhook_status pl =
     (if wh_Status pl = ''in_progress'' then Some RBuilding
      else if wh_Status pl = ''completed'' \<and> wh_Conclusion pl = ''success'' then Some RSuccess
      else if wh_Status pl = ''completed'' then Some RFailed
      else None)"

definition HandleGitHubWebhook :: "World \<Rightarrow> GitHubWorkflowRunPayload \<Rightarrow> Sys \<Rightarrow> go_error option \<times> Sys" where
  "HandleGitHubWebhook w pl s =
     (let (found, s) = webhook_release w pl s
      in case found of
           None \<Rightarrow> (None, s)
         | Some r \<Rightarrow>
            (case webhook_status pl of
               None \<Rightarrow> (None, s)
             | Some st \<Rightarrow>
                (let tag = TrimSpace (wh_ImageTag pl); (t, s) = now w s;
                     r = r\<lparr>r_Status := st, r_ImageTag := (if tag \<noteq> '''' then tag else r_ImageTag r),
                           r_UpdatedAt := t\<rparr>
                 in (None, updateStageStatusFromRelease w r (put_release r s)))))"

section \<open>Synchronisation with the workflow runs\<close>

text \<open>
  Per stage slug: the latest creation time and the release without a run that a new run may
  take. The code's map of these is visited in an unspecified order. A release that takes a run
  is changed through a pointer into the list that \<open>ListReleases\<close> passes and then drops, so the
  change is only seen through the store.
\<close>

record stageInfo =
  si_stageSlug :: string
  si_since :: gotime
  si_pendingNoRunID :: "Release option"

definition stage_slug_of :: "Sys \<Rightarrow> Release \<Rightarrow> string" where
  "stage_slug_of s r =
     (if r_StageID r = '''' then ''production''
      else case StageStore_GetByID (y_stages s) (r_StageID r) of
        None \<Rightarrow> ''production'' | Some st \<Rightarrow> s_Slug st)"

definition add_info :: "Release \<Rightarrow> stageInfo \<Rightarrow> stageInfo" where
  "add_info r si =
     (let si1 = (if r_CreatedAt r > si_since si then si\<lparr>si_since := r_CreatedAt r\<rparr> else si)
      in if r_WorkflowRunID r = 0 \<and> (r_Status r = RPending \<or> r_Status r = RBuilding)
            \<and> (case si_pendingNoRunID si of None \<Rightarrow> True | Some b \<Rightarrow> r_CreatedAt r > r_CreatedAt b)
         then si1\<lparr>si_pendingNoRunID := Some r\<rparr> else si1)"

definition collect_info :: "Sys \<Rightarrow> Release list \<Rightarrow> stageInfo gomap" where
  "collect_info s rs =
     fold (\<lambda>r m. let slug = stage_slug_of s r;
                     si = (case map_of m slug of None \<Rightarrow> \<lparr>si_stageSlug = slug, si_since = zero_time,
                             si_pendingNoRunID = None\<rparr> | Some si \<Rightarrow> si)
                 in AList.update slug (add_info r si) m) rs []"

text \<open>\<open>run.UpdatedAt\<close>, or the clock when it is the zero time.\<close>

definition run_updated :: "World \<Rightarrow> GitHubWorkflowRunLookupResult \<Rightarrow> Sys \<Rightarrow> gotime \<times> Sys" where
  "run_updated w run s = (if lr_UpdatedAt run \<noteq> zero_time then (lr_UpdatedAt run, s) else now w s)"

definition after_release :: "World \<Rightarrow> string \<Rightarrow> Release \<Rightarrow> Sys \<Rightarrow> Sys" where
  "after_release w pid r s =
     (let s = updateStageStatusFromRelease w r s
      in if r_Status r = RSuccess then invalidateProjectCaches pid s else s)"

definition sync_run ::
  "World \<Rightarrow> string \<Rightarrow> string \<Rightarrow> GitHubWorkflowRunLookupResult \<Rightarrow> Release option \<Rightarrow> Sys \<Rightarrow> Release option \<times> Sys" where
  "sync_run w pid slug run pendingNoRun s =
     (case mapWorkflowRunStatus (lr_Status run) (lr_Conclusion run) of
        None \<Rightarrow> (pendingNoRun, s)
      | Some st \<Rightarrow>
         (let (ord, s) = map_order w s
          in case ReleaseStore_GetByWorkflowRunID ord (y_releases s) (lr_ID run) of
               Some existing \<Rightarrow>
                 if r_Status existing = st then (pendingNoRun, s)
                 else (let (t, s) = run_updated w run s;
                           r = existing\<lparr>r_Status := st, r_UpdatedAt := t\<rparr>
                       in (pendingNoRun, after_release w pid r (put_release r s)))
             | None \<Rightarrow>
                (case pendingNoRun of
                   Some c \<Rightarrow>
                     (let (t, s) = run_updated w run s; sha = TrimSpace (lr_HeadSHA run);
                          r = c\<lparr>r_WorkflowRunID := lr_ID run,
                                r_CommitSHA := (if sha \<noteq> '''' then sha else r_CommitSHA c),
                                r_CommitMessage :=
                                  (if r_CommitMessage c = '''' \<or> HasPrefix (r_CommitMessage c) pendingReleasePrefix
                                   then lr_CommitMessage run else r_CommitMessage c),
                                r_Status := st, r_UpdatedAt := t\<rparr>
                      in (None, after_release w pid r (put_release r s)))
                 | None \<Rightarrow>
                     (let (t, s) = now w s; (sid, s) = resolveReleaseStageID w pid slug s;
                          (rid, s) = fresh_id w s;
                          r = run_release rid pid sid st (lr_ID run) (lr_HeadSHA run) (lr_CommitMessage run) t
                      in (None, after_release w pid r (create_release r s))))))"

fun sync_runs ::
  "World \<Rightarrow> string \<Rightarrow> string \<Rightarrow> GitHubWorkflowRunLookupResult list \<Rightarrow> Release option \<Rightarrow> Sys \<Rightarrow> Sys" where
  "sync_runs w pid slug [] pendingNoRun s = s"
| "sync_runs w pid slug (run # runs) pendingNoRun s =
     (let (pendingNoRun, s) = sync_run w pid slug run pendingNoRun s
      in sync_runs w pid slug runs pendingNoRun s)"

fun sync_stages :: "World \<Rightarrow> Project \<Rightarrow> string \<Rightarrow> stageInfo list \<Rightarrow> Sys \<Rightarrow> Sys" where
  "sync_stages w p token [] s = s"
| "sync_stages w p token (si # sis) s =
     (let req = \<lparr>lq_RepositoryOwner = TrimSpace (p_RepositoryOwner p),
                 lq_RepositoryName = TrimSpace (p_RepositoryName p), lq_GitHubToken = token,
                 lq_Since = si_since si, lq_WorkflowPath = stageWorkflowPath (si_stageSlug si)\<rparr>;
          (r, s) = call (ans_runs w) (FindLatestDeployWorkflowRun req) s;
          s = (case r of Inl e \<Rightarrow> s
               | Inr runs \<Rightarrow> sync_runs w (p_ID p) (si_stageSlug si) runs (si_pendingNoRunID si) s)
      in sync_stages w p token sis s)"

definition syncLatestUnresolvedRelease :: "World \<Rightarrow> Project \<Rightarrow> Release list \<Rightarrow> Sys \<Rightarrow> Sys" where
  "syncLatestUnresolvedRelease w p rs s =
     (if TrimSpace (p_RepositoryOwner p) = '''' \<or> TrimSpace (p_RepositoryName p) = '''' then s
      else (let (tok, s) = resolveGitHubToken w p s
            in case tok of
                 Inl e \<Rightarrow> s
               | Inr token \<Rightarrow>
                  (let (ord, s) = map_order w s
                   in sync_stages w p token (range_map ord (collect_info s rs)) s)))"

section \<open>Listing, reading, rolling back\<close>

definition ListReleases :: "World \<Rightarrow> string \<Rightarrow> Sys \<Rightarrow> (go_error + Release list) \<times> Sys" where
  "ListReleases w pid s =
     (case ProjectStore_GetByID (y_projects s) pid of
        None \<Rightarrow> (Inl ErrProjectNotFound, s)
      | Some p \<Rightarrow>
         (let (ord, s) = map_order w s;
              s = syncLatestUnresolvedRelease w p (ReleaseStore_ListByProject ord (y_releases s) pid) s;
              (ord, s) = map_order w s
          in (Inr (ReleaseStore_ListByProject ord (y_releases s) pid), s)))"

definition GetRelease :: "string \<Rightarrow> string \<Rightarrow> Sys \<Rightarrow> (go_error + Release) \<times> Sys" where
  "GetRelease pid rid s =
     (case ReleaseStore_GetByID (y_releases s) rid of
        None \<Rightarrow> (Inl ErrReleaseNotFound, s)
      | Some r \<Rightarrow> if r_ProjectID r \<noteq> pid then (Inl ErrReleaseNotFound, s) else (Inr r, s))"

definition rollback_target :: "string \<Rightarrow> string \<Rightarrow> Sys \<Rightarrow> go_error + Project \<times> Release" where
  "rollback_target pid rid s =
     (case ProjectStore_GetByID (y_projects s) pid of
        None \<Rightarrow> Inl ErrProjectNotFound
      | Some p \<Rightarrow>
         (case ReleaseStore_GetByID (y_releases s) rid of
            None \<Rightarrow> Inl ErrReleaseNotFound
          | Some r \<Rightarrow>
             if r_ProjectID r \<noteq> pid then Inl ErrReleaseNotFound
             else if r_Status r \<noteq> RSuccess then Inl (ErrText ''can only rollback to a successful release'')
             else if TrimSpace (r_ImageTag r) = ''''
             then Inl (ErrText ''cannot rollback: target release has no image tag recorded'')
             else Inr (p, r)))"

text \<open>The call that deploys an image to the stage of a release.\<close>

definition apply_call :: "Sys \<Rightarrow> string \<Rightarrow> Release \<Rightarrow> ext_call" where
  "apply_call s pid target =
     (if r_StageID target \<noteq> ''''
      then (case StageStore_GetByID (y_stages s) (r_StageID target) of
              Some st \<Rightarrow> ApplyImageToStage pid (s_Slug st) (r_ImageTag target)
            | None \<Rightarrow> ApplyImage pid (r_ImageTag target))
      else ApplyImage pid (r_ImageTag target))"

definition RollbackToRelease :: "World \<Rightarrow> string \<Rightarrow> string \<Rightarrow> Sys \<Rightarrow> (go_error + Release) \<times> Sys" where
  "RollbackToRelease w pid rid s =
     (case rollback_target pid rid s of
        Inl e \<Rightarrow> (Inl e, s)
      | Inr (p, target) \<Rightarrow>
         (let (budget, s) = reserveDeployBudget w p (p_ServiceType p) (p_DedicatedLoadBalancer p) s
          in case budget of
               Inl e \<Rightarrow> (Inl e, s)
             | Inr rel \<Rightarrow>
                (let (t, s) = now w s; (nid, s) = fresh_id w s;
                     r = \<lparr>r_ID = nid, r_ProjectID = pid, r_StageID = r_StageID target,
                          r_CommitSHA = r_CommitSHA target,
                          r_CommitMessage = ''rollback to '' @ r_ID target, r_Status = RPending,
                          r_WorkflowRunID = 0, r_ImageTag = r_ImageTag target, r_CreatedAt = t,
                          r_UpdatedAt = t\<rparr>;
                     s = create_release r s;
                     (err, s) = call (ans_err w) (apply_call s pid target) s;
                     (t', s) = now w s
                 in case err of
                      Some e \<Rightarrow> (Inl e, snd (releaseBudget rel
                                   (put_release (r\<lparr>r_Status := RFailed, r_UpdatedAt := t'\<rparr>) s)))
                    | None \<Rightarrow> (let r = r\<lparr>r_Status := RSuccess, r_UpdatedAt := t'\<rparr>
                               in (Inr r, snd (releaseBudget rel (put_release r s)))))))"

section \<open>Each run has one release\<close>

definition runs_unique :: "ReleaseStore \<Rightarrow> bool" where
  "runs_unique st \<longleftrightarrow> (\<forall>k k' r r'. map_of st k = Some r \<longrightarrow> map_of st k' = Some r' \<longrightarrow>
     r_WorkflowRunID r = r_WorkflowRunID r' \<longrightarrow> r_WorkflowRunID r \<noteq> 0 \<longrightarrow> k = k')"

lemma runs_unique_Nil [simp]: "runs_unique []"
  by (simp add: runs_unique_def)

text \<open>A write keeps the invariant when it keeps the run of the release, or takes a run that no release has.\<close>

lemma runs_unique_write:
  assumes "runs_unique st"
    and "r_WorkflowRunID r = 0 \<or> (\<exists>old. map_of st k = Some old \<and> r_WorkflowRunID old = r_WorkflowRunID r)
      \<or> (\<forall>k' r'. map_of st k' = Some r' \<longrightarrow> r_WorkflowRunID r' \<noteq> r_WorkflowRunID r)"
  shows "runs_unique (AList.update k r st)"
  using assms unfolding runs_unique_def by (auto split: if_splits) metis+

lemma GetByWorkflowRunID_Some:
  assumes "ReleaseStore_GetByWorkflowRunID ord st run = Some r"
  shows "r_WorkflowRunID r = run \<and> r \<in> snd ` set st"
  using assms by (auto simp: ReleaseStore_GetByWorkflowRunID_def dest!: find_Some_mem)

lemma updateStageStatus_frame [simp]:
  "y_releases (updateStageStatusFromRelease w r s) = y_releases s"
  "y_projects (updateStageStatusFromRelease w r s) = y_projects s"
  "y_users (updateStageStatusFromRelease w r s) = y_users s"
  "y_txs (updateStageStatusFromRelease w r s) = y_txs s"
  "pendingCharges (updateStageStatusFromRelease w r s) = pendingCharges s"
  by (auto simp: updateStageStatusFromRelease_def now_def put_stage_def split: option.split ReleaseStatus.split)


definition release_store_ok :: "ReleaseStore \<Rightarrow> bool" where
  "release_store_ok st \<longleftrightarrow> gomap_ok st \<and> (\<forall>(k, r) \<in> set st. r_ID r = k) \<and> runs_unique st"

lemma release_store_ok_Nil [simp]: "release_store_ok []"
  by (simp add: release_store_ok_def)

lemma release_store_ok_mem:
  "release_store_ok st \<Longrightarrow> r \<in> snd ` set st \<Longrightarrow> map_of st (r_ID r) = Some r"
  by (auto simp: release_store_ok_def gomap_ok_def)

text \<open>When a release may be written: it keeps the run it has in the store, or its run is new or none.\<close>

definition may_write :: "ReleaseStore \<Rightarrow> Release \<Rightarrow> bool" where
  "may_write st r \<longleftrightarrow> r_WorkflowRunID r = 0
      \<or> (\<exists>old. map_of st (r_ID r) = Some old \<and> r_WorkflowRunID old = r_WorkflowRunID r)
      \<or> (\<forall>k' r'. map_of st k' = Some r' \<longrightarrow> r_WorkflowRunID r' \<noteq> r_WorkflowRunID r)"

lemma release_store_ok_write:
  assumes "release_store_ok st" and "may_write st r"
  shows "release_store_ok (AList.update (r_ID r) r st)"
  using assms runs_unique_write [of st r "r_ID r"]
  by (auto simp: release_store_ok_def may_write_def dest!: set_update_subset [THEN subsetD])

lemma may_write_run:
  "r_ID r' = r_ID r \<Longrightarrow> r_WorkflowRunID r' = r_WorkflowRunID r \<Longrightarrow> may_write st r' \<longleftrightarrow> may_write st r"
  by (simp add: may_write_def)

lemma may_write_stored:
  assumes "release_store_ok st" "ReleaseStore_GetByWorkflowRunID ord st run = Some r"
  shows "may_write st r"
  using release_store_ok_mem [OF assms(1)] GetByWorkflowRunID_Some [OF assms(2)] by (auto simp: may_write_def)

lemma may_write_new:
  assumes "ReleaseStore_GetByWorkflowRunID ord st (r_WorkflowRunID r) = None"
  shows "may_write st r"
  using GetByWorkflowRunID_None [OF assms] by (auto simp: may_write_def)

lemma put_release_ok:
  "release_store_ok (y_releases s) \<Longrightarrow> may_write (y_releases s) r \<Longrightarrow> release_store_ok (y_releases (put_release r s))"
  by (simp add: put_release_def ReleaseStore_Update_def release_store_ok_write)

lemma create_release_ok:
  "release_store_ok (y_releases s) \<Longrightarrow> may_write (y_releases s) r \<Longrightarrow> release_store_ok (y_releases (create_release r s))"
  by (simp add: create_release_def ReleaseStore_Create_def release_store_ok_write)

lemma create_release_may_write: "may_write (y_releases (create_release r s)) r"
  by (simp add: create_release_def ReleaseStore_Create_def may_write_def)

lemma write_release_frame [simp]:
  "y_projects (create_release r s) = y_projects s" "y_projects (put_release r s) = y_projects s"
  "y_users (create_release r s) = y_users s" "y_users (put_release r s) = y_users s"
  "y_stages (create_release r s) = y_stages s" "y_stages (put_release r s) = y_stages s"
  "tick (create_release r s) = tick s" "tick (put_release r s) = tick s"
  "trace (create_release r s) = trace s" "trace (put_release r s) = trace s"
  "pendingCharges (create_release r s) = pendingCharges s" "pendingCharges (put_release r s) = pendingCharges s"
  by (simp_all add: create_release_def put_release_def)

lemma resolveStage_frame [simp]:
  "y_releases (snd (resolveReleaseStageID w pid slug s)) = y_releases s"
  "y_projects (snd (resolveReleaseStageID w pid slug s)) = y_projects s"
  "y_users (snd (resolveReleaseStageID w pid slug s)) = y_users s"
  "y_txs (snd (resolveReleaseStageID w pid slug s)) = y_txs s"
  by (auto simp: resolveReleaseStageID_def getOrCreateProductionStage_def go_step split_beta
      split: option.split)

lemma findPending_frame [simp]:
  "y_releases (snd (findPendingReleaseWithoutWorkflow w pid sid s)) = y_releases s"
  "y_projects (snd (findPendingReleaseWithoutWorkflow w pid sid s)) = y_projects s"
  by (simp_all add: findPendingReleaseWithoutWorkflow_def go_step)

lemma webhook_release_ok:
  assumes "release_store_ok (y_releases s)"
  shows "release_store_ok (y_releases (snd (webhook_release w pl s)))
    \<and> (\<forall>r. fst (webhook_release w pl s) = Some r \<longrightarrow> may_write (y_releases (snd (webhook_release w pl s))) r)
    \<and> y_projects (snd (webhook_release w pl s)) = y_projects s"
proof (cases "ReleaseStore_GetByWorkflowRunID (rank w (tick s)) (y_releases s) (wh_RunID pl)")
  case (Some r)
  with assms show ?thesis
    by (simp add: webhook_release_def map_order_def may_write_stored)
next
  case None
  have new: "may_write (y_releases s) r" if "r_WorkflowRunID r = wh_RunID pl" for r
    using None that by (intro may_write_new) simp
  show ?thesis
    using None assms
    by (auto simp: webhook_release_def map_order_def now_def fresh_id_def split_beta Let_def
        run_release_def intro!: new create_release_ok create_release_may_write split: option.splits if_splits)
qed

lemma after_release_frame [simp]:
  "y_releases (after_release w pid r s) = y_releases s" "y_projects (after_release w pid r s) = y_projects s"
  "y_users (after_release w pid r s) = y_users s"
  by (simp_all add: after_release_def Let_def)

text \<open>The release that a stage offers to a run keeps its identifier, so taking the run is allowed.\<close>

lemma sync_run_ok:
  assumes "release_store_ok (y_releases s)"
  shows "release_store_ok (y_releases (snd (sync_run w pid slug run pending s)))
    \<and> y_projects (snd (sync_run w pid slug run pending s)) = y_projects s"
proof (cases "ReleaseStore_GetByWorkflowRunID (rank w (tick s)) (y_releases s) (lr_ID run)")
  case (Some r)
  have "may_write (y_releases s) (r\<lparr>r_Status := st, r_UpdatedAt := t\<rparr>)" for st t
    using may_write_stored [OF assms Some] by (simp add: may_write_def)
  with Some assms show ?thesis
    by (auto simp: sync_run_def map_order_def run_updated_def now_def Let_def
        split: option.split intro!: put_release_ok)
next
  case None
  have new: "may_write (y_releases s) r" if "r_WorkflowRunID r = lr_ID run" for r
    using None that by (intro may_write_new) simp
  show ?thesis
    using None assms
    by (auto simp: sync_run_def map_order_def run_updated_def now_def fresh_id_def split_beta Let_def
        run_release_def split: option.split intro!: new put_release_ok create_release_ok)
qed

lemma sync_runs_ok:
  "release_store_ok (y_releases s) \<Longrightarrow> release_store_ok (y_releases (sync_runs w pid slug runs pending s))
     \<and> y_projects (sync_runs w pid slug runs pending s) = y_projects s"
proof (induction w pid slug runs pending s rule: sync_runs.induct)
  case (2 w pid slug run runs pending s)
  then show ?case
    using sync_run_ok [OF 2(2), of w pid slug run pending] by (auto simp: split_beta)
qed simp

lemma sync_stages_ok:
  "release_store_ok (y_releases s) \<Longrightarrow> release_store_ok (y_releases (sync_stages w p tok sis s))
     \<and> y_projects (sync_stages w p tok sis s) = y_projects s"
proof (induction w p tok sis s rule: sync_stages.induct)
  case (2 w p tok si sis s)
  let ?r = "ans_runs w (tick s) (FindLatestDeployWorkflowRun \<lparr>lq_RepositoryOwner = TrimSpace (p_RepositoryOwner p),
                 lq_RepositoryName = TrimSpace (p_RepositoryName p), lq_GitHubToken = tok,
                 lq_Since = si_since si, lq_WorkflowPath = stageWorkflowPath (si_stageSlug si)\<rparr>)"
  show ?case
  proof (cases ?r)
    case (Inl e)
    with 2 show ?thesis by (simp add: call_def)
  next
    case (Inr runs)
    let ?s = "s\<lparr>tick := Suc (tick s), trace := trace s @ [FindLatestDeployWorkflowRun \<lparr>lq_RepositoryOwner = TrimSpace (p_RepositoryOwner p),
                 lq_RepositoryName = TrimSpace (p_RepositoryName p), lq_GitHubToken = tok,
                 lq_Since = si_since si, lq_WorkflowPath = stageWorkflowPath (si_stageSlug si)\<rparr>]\<rparr>"
    have "release_store_ok (y_releases ?s)" using 2(2) by simp
    from sync_runs_ok [OF this, of w "p_ID p" "si_stageSlug si" runs "si_pendingNoRunID si"] Inr 2
    show ?thesis by (simp add: call_def)
  qed
qed simp

lemma resolveToken_frame [simp]:
  "y_releases (snd (resolveGitHubToken w p s)) = y_releases s" "y_projects (snd (resolveGitHubToken w p s)) = y_projects s"
  "y_users (snd (resolveGitHubToken w p s)) = y_users s"
  by (auto simp: resolveGitHubToken_def serviceGitHubToken_def call_def Let_def split_beta split: option.split sum.split)

lemma ListReleases_ok:
  assumes "release_store_ok (y_releases s)"
  shows "release_store_ok (y_releases (snd (ListReleases w pid s)))
    \<and> y_projects (snd (ListReleases w pid s)) = y_projects s"
proof -
  have "release_store_ok (y_releases (syncLatestUnresolvedRelease w p rs t))
      \<and> y_projects (syncLatestUnresolvedRelease w p rs t) = y_projects t"
    if "release_store_ok (y_releases t)" for p rs t
    using that sync_stages_ok [of "(snd (resolveGitHubToken w p t))\<lparr>tick := Suc (tick (snd (resolveGitHubToken w p t)))\<rparr>"]
    by (auto simp: syncLatestUnresolvedRelease_def map_order_def split_beta Let_def split: sum.split)
  from this [of "s\<lparr>tick := Suc (tick s)\<rparr>"] assms show ?thesis
    by (auto simp: ListReleases_def map_order_def split_beta Let_def split: option.split)
qed

lemma RollbackToRelease_ok:
  assumes "release_store_ok (y_releases s)"
  shows "release_store_ok (y_releases (snd (RollbackToRelease w pid rid s)))
    \<and> y_projects (snd (RollbackToRelease w pid rid s)) = y_projects s"
proof -
  have z: "may_write st r" if "r_WorkflowRunID r = 0" for st r using that by (simp add: may_write_def)
  show ?thesis
    using assms
    by (auto simp: RollbackToRelease_def now_def fresh_id_def call_def split_beta Let_def
        intro!: put_release_ok create_release_ok z split: sum.split option.split)
qed

lemma HandleGitHubWebhook_ok:
  assumes "release_store_ok (y_releases s)"
  shows "release_store_ok (y_releases (snd (HandleGitHubWebhook w pl s)))"
  using webhook_release_ok [OF assms, of w pl]
  by (auto simp: HandleGitHubWebhook_def now_def split_beta Let_def intro!: put_release_ok
      split: option.split intro: may_write_run [THEN iffD2])

section \<open>Properties\<close>

text \<open>C22 Each workflow run belongs to at most one release: this, with every release stored once under its own
  identifier, is kept by the webhook, by the synchronisation that listing performs, and by a rollback.\<close>

theorem one_release_per_run:
  assumes "release_store_ok (y_releases s)"
  shows "release_store_ok (y_releases (snd (HandleGitHubWebhook w pl s)))
    \<and> release_store_ok (y_releases (snd (ListReleases w pid s)))
    \<and> release_store_ok (y_releases (snd (RollbackToRelease w pid rid s)))"
  using HandleGitHubWebhook_ok [OF assms] ListReleases_ok [OF assms] RollbackToRelease_ok [OF assms] by blast

theorem one_release_per_run_witness:
  "\<forall>pl. release_store_ok (y_releases (snd (HandleGitHubWebhook calm_world pl empty_sys)))"
  using one_release_per_run [of empty_sys calm_world] by (simp add: empty_sys_def)

text \<open>The search keeps a newest element of the candidates seen so far.\<close>

definition is_candidate :: "string \<Rightarrow> Release \<Rightarrow> bool" where
  "is_candidate sid r \<longleftrightarrow> r_WorkflowRunID r = 0 \<and> r_StageID r = sid \<and> unresolved (r_Status r)"

definition newest_of :: "Release set \<Rightarrow> Release option \<Rightarrow> bool" where
  "newest_of C b \<longleftrightarrow> (case b of None \<Rightarrow> C = {} | Some x \<Rightarrow> x \<in> C \<and> (\<forall>y \<in> C. r_CreatedAt y \<le> r_CreatedAt x))"

lemma newest_of_pick:
  assumes "newest_of C b"
  shows "newest_of (C \<union> {x. x = r \<and> is_candidate sid x}) (pick_newer sid r b)"
  using assms by (auto simp: newest_of_def pick_newer_def is_candidate_def split: option.splits)

lemma newest_of_fold:
  "newest_of C b \<Longrightarrow> newest_of (C \<union> {x \<in> set rs. is_candidate sid x}) (fold (pick_newer sid) rs b)"
proof (induction rs arbitrary: C b)
  case (Cons r rs)
  have "C \<union> {x. x = r \<and> is_candidate sid x} \<union> {x \<in> set rs. is_candidate sid x} = C \<union> {x \<in> set (r # rs). is_candidate sid x}"
    by auto
  with Cons.IH [OF newest_of_pick [OF Cons.prems, of r sid]] show ?case by simp
qed simp

lemma newest_of_Max: "newest_of C b \<Longrightarrow> finite C \<Longrightarrow>
  set_option b \<subseteq> C \<and> map_option r_CreatedAt b = (if C = {} then None else Some (Max (r_CreatedAt ` C)))"
  by (auto simp: newest_of_def split: option.splits intro!: Max_eqI [symmetric])

definition pending_candidates :: "ReleaseStore \<Rightarrow> string \<Rightarrow> string \<Rightarrow> Release set" where
  "pending_candidates st pid sid =
     {r \<in> snd ` set st. r_ProjectID r = pid \<and> r_WorkflowRunID r = 0 \<and> r_StageID r = sid \<and> unresolved (r_Status r)}"

text \<open>The pending release that takes an event's run is the newest candidate: one of the stage's releases
  that are unresolved and have no run, with the latest creation time among them, and none only if there is
  no candidate.\<close>

theorem pending_release_is_newest:
  "set_option (fst (findPendingReleaseWithoutWorkflow w pid sid s)) \<subseteq> pending_candidates (y_releases s) pid sid
   \<and> map_option r_CreatedAt (fst (findPendingReleaseWithoutWorkflow w pid sid s)) =
      (if pending_candidates (y_releases s) pid sid = {} then None
       else Some (Max (r_CreatedAt ` pending_candidates (y_releases s) pid sid)))"
proof (rule newest_of_Max)
  have "newest_of {} None" by (simp add: newest_of_def)
  from newest_of_fold [OF this, of "ReleaseStore_ListByProject (rank w (tick s)) (y_releases s) pid" sid]
  show "newest_of (pending_candidates (y_releases s) pid sid) (fst (findPendingReleaseWithoutWorkflow w pid sid s))"
    by (simp add: findPendingReleaseWithoutWorkflow_def map_order_def ReleaseStore_ListByProject_def
        pending_candidates_def is_candidate_def conj_ac Collect_conj_eq)
qed (simp add: pending_candidates_def)

text \<open>C21 A rollback deploys exactly the recorded image of a successful release of the project. An invalid target
  changes nothing; without funds nothing is recorded; otherwise one new release is recorded with the target's
  image and stage, the image is applied once to the target's stage, the release succeeds exactly when the
  cluster accepted it, the reserved budget is released in both cases, and no other release changes.\<close>

theorem rollback_outcome:
  assumes "RollbackToRelease w pid rid s = (r, s')"
  shows "case rollback_target pid rid s of
      Inl e \<Rightarrow> r = Inl e \<and> s' = s
    | Inr (p, target) \<Rightarrow>
       (let b = reserveDeployBudget w p (p_ServiceType p) (p_DedicatedLoadBalancer p) s
        in case fst b of
             Inl e \<Rightarrow> r = Inl e \<and> y_releases s' = y_releases s \<and> trace s' = trace s
           | Inr rel \<Rightarrow>
              (\<exists>n. r_ProjectID n = pid \<and> r_StageID n = r_StageID target \<and> r_ImageTag n = r_ImageTag target
                \<and> trace s' = trace s @ [apply_call s pid target]
                \<and> map_of (y_releases s') = (map_of (y_releases s))(r_ID n \<mapsto> n)
                \<and> pendingCharges s' = pendingCharges (snd (releaseBudget rel (snd b)))
                \<and> (case ans_err w (Suc (Suc (tick (snd b)))) (apply_call s pid target) of
                     None \<Rightarrow> r = Inr n \<and> r_Status n = RSuccess | Some e \<Rightarrow> r = Inl e \<and> r_Status n = RFailed)))"
proof (cases "rollback_target pid rid s")
  case (Inl e)
  with assms show ?thesis by (simp add: RollbackToRelease_def)
next
  case (Inr pt)
  obtain p target where pt: "pt = (p, target)" by fastforce
  obtain b s1 where b: "reserveDeployBudget w p (p_ServiceType p) (p_DedicatedLoadBalancer p) s = (b, s1)" by fastforce
  have f: "y_releases s1 = y_releases s" "trace s1 = trace s" "y_stages s1 = y_stages s"
    using reserve_fields [of w p "p_ServiceType p" "p_DedicatedLoadBalancer p" s] b by simp_all
  have a: "apply_call t pid target = apply_call s pid target" if "y_stages t = y_stages s" for t
    using that by (simp add: apply_call_def)
  show ?thesis
  proof (cases b)
    case (Inl e)
    with assms Inr pt b f show ?thesis by (auto simp: RollbackToRelease_def)
  next
    case inr: (Inr rel)
    let ?c = "apply_call s pid target" and ?t = "Suc (Suc (tick s1))"
    let ?e = "ans_err w ?t ?c"
    define n where "n = \<lparr>r_ID = newID w (Suc (tick s1)), r_ProjectID = pid, r_StageID = r_StageID target,
        r_CommitSHA = r_CommitSHA target, r_CommitMessage = ''rollback to '' @ r_ID target,
        r_Status = (if ?e = None then RSuccess else RFailed), r_WorkflowRunID = 0, r_ImageTag = r_ImageTag target,
        r_CreatedAt = clock w (tick s1), r_UpdatedAt = clock w (Suc ?t)\<rparr>"
    have n: "r_ProjectID n = pid" "r_StageID n = r_StageID target" "r_ImageTag n = r_ImageTag target"
        "r_Status n = (if ?e = None then RSuccess else RFailed)"
      by (simp_all add: n_def)
    define s2 where "s2 = put_release n ((create_release (n\<lparr>r_Status := RPending, r_UpdatedAt := clock w (tick s1)\<rparr>)
        (s1\<lparr>tick := ?t\<rparr>))\<lparr>trace := trace s1 @ [?c], tick := Suc (Suc ?t)\<rparr>)"
    have ac: "apply_call (create_release r0 (s1\<lparr>tick := k\<rparr>)) pid target = ?c" for r0 k
      using f(3) by (intro a) simp
    have run: "RollbackToRelease w pid rid s
          = (case ?e of None \<Rightarrow> Inr n | Some e \<Rightarrow> Inl e, snd (releaseBudget rel s2))"
      unfolding RollbackToRelease_def Inr pt sum.case prod.case b inr
      by (cases ?e) (simp_all add: now_def fresh_id_def call_def ac n_def s2_def Let_def)
    have "map_of (y_releases s2) = (map_of (y_releases s))(r_ID n \<mapsto> n)"
      by (simp add: s2_def put_release_def create_release_def ReleaseStore_Update_def ReleaseStore_Create_def f(1))
    note s2 = run this
    have "trace s2 = trace s @ [?c]" "pendingCharges s2 = pendingCharges s1"
      by (simp_all add: s2_def f(2))
    note s2 = s2 this
    have "pendingCharges s' = pendingCharges (snd (releaseBudget rel s1))"
      using s2(1) assms releaseBudget_pending [OF s2(4), of rel] by simp
    with s2 assms n Inr pt b inr show ?thesis by (auto simp: Let_def split: option.split)
  qed
qed

definition good_release :: Release where
  "good_release = run_release ''r1'' ''p1'' '''' RSuccess 7 ''abc'' ''first'' 0\<lparr>r_ImageTag := ''img:1''\<rparr>"

definition exempt_user :: User where
  "exempt_user = sample_user\<lparr>u_Email := exempt_spelling\<rparr>"

definition rollback_sys :: Sys where
  "rollback_sys = one_project\<lparr>y_users := us_write NewUserStore ''u1'' exempt_user,
     y_releases := [(''r1'', good_release)]\<rparr>"

lemma rollback_sys:
  "rollback_target ''p1'' ''r1'' rollback_sys = Inr (sample_project, good_release)"
  "\<exists>n. reserveDeployBudget w sample_project st d rollback_sys = (Inr NothingReserved, rollback_sys\<lparr>tick := n\<rparr>)"
proof -
  have "TrimSpace ''img:1'' = ''img:1''" by (rule TrimSpace_graph) (simp add: ascii_graph_def)
  then show "rollback_target ''p1'' ''r1'' rollback_sys = Inr (sample_project, good_release)"
    by (simp add: rollback_target_def rollback_sys_def one_project_def ProjectStore_GetByID_def
        ReleaseStore_GetByID_def good_release_def run_release_def)
  have "p_OwnerID sample_project = ''u1''" by (simp add: sample_project_def)
  then show "\<exists>n. reserveDeployBudget w sample_project st d rollback_sys = (Inr NothingReserved, rollback_sys\<lparr>tick := n\<rparr>)"
    by (intro reserve_exempt [of _ _ exempt_user])
      (simp_all add: rollback_sys_def UserStore_GetByID_def exempt_user_def exempt_spelling)
qed

theorem rollback_outcome_witness:
  "\<exists>n. map_of (y_releases (snd (RollbackToRelease calm_world ''p1'' ''r1'' rollback_sys))) (r_ID n) = Some n
     \<and> r_ImageTag n = ''img:1'' \<and> r_Status n = RSuccess"
proof -
  obtain n where "reserveDeployBudget calm_world sample_project (p_ServiceType sample_project)
      (p_DedicatedLoadBalancer sample_project) rollback_sys = (Inr NothingReserved, rollback_sys\<lparr>tick := n\<rparr>)"
    using rollback_sys(2) by blast
  with rollback_outcome [of calm_world "''p1''" "''r1''" rollback_sys, OF surjective_pairing] rollback_sys(1)
  show ?thesis
    by (auto simp: Let_def calm_world_def good_release_def split: option.splits)
qed

end
