(* ===== verification/Bootstrap.thy ===== *)
theory Bootstrap
  imports Releases
begin

text \<open>
  Connecting a repository in \<open>internal/service/project_service.go\<close>: the bootstrap questions and
  the bootstrap flow, which opens the pull request, stores the settings of the request in the
  project and creates the pending release. The GitHub automation is behind its port.
\<close>

text \<open>The validation that both handlers share, after the repository has been resolved.\<close>

definition repository_error :: "string \<Rightarrow> string \<Rightarrow> string \<Rightarrow> go_error option" where
  "repository_error owner name dockerfile =
     (if owner = '''' \<or> name = '''' then Some (ErrText ''repository owner and repository name are required'')
      else if Contains name ''://'' then
        Some (ErrText (''repositoryName must be a plain name (e.g. '' @ quoted ''soa'' @ ''), not a URL''))
      else if Contains dockerfile ''://'' then
        Some (ErrText (''dockerfilePath must be a path inside the repo (e.g. '' @ quoted ''hw1/Dockerfile''
          @ ''), not a URL''))
      else None)"

definition request_token :: "World \<Rightarrow> Project \<Rightarrow> string \<Rightarrow> Sys \<Rightarrow> (go_error + string) \<times> Sys" where
  "request_token w p given s =
     (if TrimSpace given = '''' then resolveGitHubToken w p s else (Inr (TrimSpace given), s))"

definition BuildGitHubBootstrapQuestions ::
  "World \<Rightarrow> string \<Rightarrow> GitHubBootstrapQuestionsRequest \<Rightarrow> Sys
   \<Rightarrow> (go_error + GitHubBootstrapQuestionsResponse) \<times> Sys" where
  "BuildGitHubBootstrapQuestions w pid req s =
     (case ProjectStore_GetByID (y_projects s) pid of
        None \<Rightarrow> (Inl ErrProjectNotFound, s)
      | Some p \<Rightarrow>
         (let (owner, name) = resolveRepositoryForRequest (qr_RepositoryOwner req) (qr_RepositoryName req) p
          in case repository_error owner name (qr_DockerfilePath req) of
               Some e \<Rightarrow> (Inl e, s)
             | None \<Rightarrow>
                (let (tok, s) = request_token w p (qr_GitHubToken req) s
                 in case tok of
                      Inl e \<Rightarrow> (Inl e, s)
                    | Inr token \<Rightarrow>
                       (let (r, s) = call (ans_questions w) (BuildBootstrapQuestions pid
                               (req\<lparr>qr_RepositoryOwner := owner, qr_RepositoryName := name,
                                    qr_GitHubToken := token\<rparr>)) s
                        in case r of
                             Inl e \<Rightarrow> (Inl e, s)
                           | Inr resp \<Rightarrow>
                              (let (t, s) = now w s;
                                   (err, s) = update_project (p\<lparr>
                                     p_RepositoryOwner := TrimSpace owner, p_RepositoryName := TrimSpace name,
                                     p_BaseBranch := TrimSpace (qs_BaseBranch resp),
                                     p_ServiceName := TrimSpace (qs_DetectedServiceName resp),
                                     p_DockerfilePath := TrimSpace (qs_DetectedDockerfile resp),
                                     p_ServiceType := TrimSpace (qs_DetectedServiceType resp),
                                     p_ServicePort := qs_DetectedServicePort resp,
                                     p_ContainerPort := qs_DetectedContainerPort resp,
                                     p_ReplicaCount := normalizedReplicaCount (p_ReplicaCount p),
                                     p_ResourceProfile := normalizedResourceProfile (p_ResourceProfile p),
                                     p_UpdatedAt := t\<rparr>) s
                               in case err of Some e \<Rightarrow> (Inl e, s) | None \<Rightarrow> (Inr resp, s))))))"

section \<open>The bootstrap flow\<close>

text \<open>The stage a request names; an absent production stage is made, any other is refused.\<close>

definition bootstrap_stage :: "World \<Rightarrow> string \<Rightarrow> string \<Rightarrow> Sys \<Rightarrow> (go_error + string) \<times> Sys" where
  "bootstrap_stage w pid slug s =
     (let (ord, s) = map_order w s
      in case StageStore_GetBySlug ord (y_stages s) pid slug of
           Some stage \<Rightarrow> (Inr (s_ID stage), s)
         | None \<Rightarrow>
            if slug = ''production''
            then (let (r, s) = getOrCreateProductionStage w pid s
                  in case r of
                       Inl e \<Rightarrow> (Inl (ErrWrap ''ensure production stage: '' e ''''), s)
                     | Inr stage \<Rightarrow> (Inr (s_ID stage), s))
            else (Inl (ErrText (''stage with slug '' @ quoted slug @ '' not found'')), s))"

definition or_keep :: "string \<Rightarrow> string \<Rightarrow> string" where
  "or_keep requested current = (let v = TrimSpace requested in if v \<noteq> '''' then v else current)"

text \<open>What the flow stores in the project, besides its public address.\<close>

definition apply_flow_settings :: "BootstrapGitHubFlowRequest \<Rightarrow> string \<Rightarrow> string \<Rightarrow> gotime \<Rightarrow> Project \<Rightarrow> Project" where
  "apply_flow_settings req owner name t p = p\<lparr>
     p_RepositoryOwner := TrimSpace owner, p_RepositoryName := TrimSpace name,
     p_BaseBranch := or_keep (bf_BaseBranch req) (p_BaseBranch p),
     p_ServiceName := or_keep (bf_ServiceName req) (p_ServiceName p),
     p_DockerfilePath := or_keep (bf_DockerfilePath req) (p_DockerfilePath p),
     p_ServiceType := or_keep (bf_ServiceType req) (p_ServiceType p),
     p_DedicatedLoadBalancer := bf_DedicatedLoadBalancer req,
     p_ServicePort := (if bf_ServicePort req > 0 then bf_ServicePort req else p_ServicePort p),
     p_ContainerPort := (if bf_ContainerPort req > 0 then bf_ContainerPort req else p_ContainerPort p),
     p_ReplicaCount := chosen_replicas (bf_ReplicaCount req) (p_ReplicaCount p),
     p_ResourceProfile := chosen_profile (bf_ResourceProfile req) (p_ResourceProfile p),
     p_UpdatedAt := t\<rparr>"

text \<open>A deploy behind the shared load balancer gives project and stage their addresses.\<close>

definition assign_urls ::
  "World \<Rightarrow> Project \<Rightarrow> BootstrapGitHubFlowRequest \<Rightarrow> string \<Rightarrow> Sys \<Rightarrow> Project \<times> Sys" where
  "assign_urls w p req slug s =
     (if effectiveBaseDomain w p \<noteq> '''' \<and> deploy_service_type p (bf_ServiceType req) = ''loadbalancer''
         \<and> \<not> p_DedicatedLoadBalancer p \<and> \<not> bf_DedicatedLoadBalancer req
      then (let p = (if p_PublicURL p = '''' then p\<lparr>p_PublicURL := projectPublicURL w p\<rparr> else p);
                (ord, s) = map_order w s
            in case StageStore_GetBySlug ord (y_stages s) (p_ID p) slug of
                 None \<Rightarrow> (p, s)
               | Some stage \<Rightarrow>
                  if s_PublicURL stage \<noteq> '''' then (p, s)
                  else (let (t, s) = now w s
                        in (p, put_stage (stage\<lparr>s_PublicURL := stagePublicURL w p slug, s_UpdatedAt := t\<rparr>) s)))
      else (p, s))"

definition createBootstrapPendingRelease ::
  "World \<Rightarrow> string \<Rightarrow> string \<Rightarrow> BootstrapGitHubFlowResponse \<Rightarrow> Sys \<Rightarrow> Sys" where
  "createBootstrapPendingRelease w pid sid resp s =
     (if TrimSpace (br_PullRequestURL resp) = '''' then s
      else (let (t, s) = now w s; (rid, s) = fresh_id w s
            in create_release (run_release rid pid sid RPending 0 ''''
                 (pendingReleasePrefix @ '' '' @ br_PullRequestURL resp) t) s))"

text \<open>The part of the flow that runs with a reserved budget.\<close>

definition deploy_flow ::
  "World \<Rightarrow> Project \<Rightarrow> BootstrapGitHubFlowRequest \<Rightarrow> string \<Rightarrow> string \<Rightarrow> Sys
   \<Rightarrow> (go_error + BootstrapGitHubFlowResponse) \<times> Sys" where
  "deploy_flow w p req sid pid s =
     (let req = req\<lparr>bf_AppsBaseDomain := effectiveBaseDomain w p\<rparr>;
          (r, s) = call (ans_flow w) (BootstrapRepositoryFlow pid req) s
      in case r of
           Inl e \<Rightarrow> (Inl e, s)
         | Inr resp \<Rightarrow>
            (let (p, s) = assign_urls w p req (bf_StageSlug req) s;
                 (t, s) = now w s;
                 p = apply_flow_settings req (bf_RepositoryOwner req) (bf_RepositoryName req) t p;
                 (err, s) = update_project p s
             in case err of
                  Some e \<Rightarrow> (Inl e, s)
                | None \<Rightarrow> (Inr resp, createBootstrapPendingRelease w (p_ID p) sid resp s)))"

definition BootstrapGitHubFlow ::
  "World \<Rightarrow> string \<Rightarrow> BootstrapGitHubFlowRequest \<Rightarrow> Sys
   \<Rightarrow> (go_error + BootstrapGitHubFlowResponse) \<times> Sys" where
  "BootstrapGitHubFlow w pid req s =
     (case ProjectStore_GetByID (y_projects s) pid of
        None \<Rightarrow> (Inl ErrProjectNotFound, s)
      | Some p \<Rightarrow>
         if p_Status p = PSuspended then (Inl (ErrText ''project is suspended, resume it first''), s)
         else (let (owner, name) = resolveRepositoryForRequest (bf_RepositoryOwner req) (bf_RepositoryName req) p
               in case repository_error owner name (bf_DockerfilePath req) of
                    Some e \<Rightarrow> (Inl e, s)
                  | None \<Rightarrow>
                     (let (tok, s) = request_token w p (bf_GitHubToken req) s
                      in case tok of
                           Inl e \<Rightarrow> (Inl e, s)
                         | Inr token \<Rightarrow>
                            (let named = slugifyStageName (bf_StageSlug req);
                                 slug = (if named = '''' then ''production'' else named);
                                 req = req\<lparr>bf_RepositoryOwner := owner, bf_RepositoryName := name,
                                           bf_GitHubToken := token, bf_StageSlug := slug\<rparr>;
                                 (stage, s) = bootstrap_stage w pid slug s
                             in case stage of
                                  Inl e \<Rightarrow> (Inl e, s)
                                | Inr sid \<Rightarrow>
                                   (let (budget, s) = reserveDeployBudget w p (bf_ServiceType req)
                                          (bf_DedicatedLoadBalancer req) s
                                    in case budget of
                                         Inl e \<Rightarrow> (Inl e, s)
                                       | Inr rel \<Rightarrow>
                                          (let (r, s) = deploy_flow w p req sid pid s
                                           in (r, snd (releaseBudget rel s))))))))"

end
