(* ===== verification/Handlers.thy ===== *)
theory Handlers
  imports Requests Accounts Guard Releases Bootstrap
begin

text \<open>
  \<open>internal/http/handler.go\<close> and \<open>router.go\<close>: every handler of the API as a function from the request, the
  user that the middleware put into its context and the state to the response and the new state, and the
  router that selects the handler. The static pages (\<open>ui.go\<close>, \<open>swagger.go\<close>) and the request log are left
  out. A handler takes the values of its path parameters in the order of the path.
\<close>

record Handler =
  h_jwtSecret :: string
  h_notifications :: bool
  h_webhookSecret :: string
  h_telegramWebhookSecret :: string

definition SetTelegramWebhookSecret :: "string \<Rightarrow> Handler \<Rightarrow> Handler" where
  "SetTelegramWebhookSecret secret h = h\<lparr>h_telegramWebhookSecret := TrimSpace secret\<rparr>"

section \<open>Shared steps\<close>

text \<open>\<open>json.NewDecoder(r.Body).Decode(&req)\<close> with the response for a body that cannot be decoded.\<close>

definition with_body ::
  "(json \<Rightarrow> 'a option) \<Rightarrow> Request \<Rightarrow> ('a \<Rightarrow> Sys \<Rightarrow> Response \<times> Sys) \<Rightarrow> Sys \<Rightarrow> Response \<times> Sys" where
  "with_body decode rq k s =
     (case Option.bind (rq_Body rq) (\<lambda>b. Option.bind (json_first b) decode) of
        None \<Rightarrow> (respond 400 (PlError ''invalid request body''), s)
      | Some req \<Rightarrow> k req s)"

definition requireOwnedProject :: "World \<Rightarrow> string \<Rightarrow> string \<Rightarrow> Sys \<Rightarrow> (go_error + Project) \<times> Sys" where
  "requireOwnedProject w pid uid s =
     (let (r, s) = GetProject w pid s
      in case r of
           Inl e \<Rightarrow> (Inl e, s)
         | Inr p \<Rightarrow> (if p_OwnerID p \<noteq> uid then Inl ErrForbidden else Inr p, s))"

definition access_errors :: "(go_error \<times> nat) list" where
  "access_errors = [(ErrProjectNotFound, 404), (ErrForbidden, 403)]"

definition stage_access_errors :: "(go_error \<times> nat) list" where
  "stage_access_errors = [(ErrProjectNotFound, 404), (ErrStageNotFound, 404), (ErrForbidden, 403)]"

text \<open>The guard that starts the handlers of one project; the status of an unexpected error differs.\<close>

definition with_owned ::
  "nat \<Rightarrow> World \<Rightarrow> string \<Rightarrow> string \<Rightarrow> (Project \<Rightarrow> Sys \<Rightarrow> Response \<times> Sys) \<Rightarrow> Sys \<Rightarrow> Response \<times> Sys" where
  "with_owned dflt w uid pid k s =
     (let (r, s) = requireOwnedProject w pid uid s
      in case r of Inl e \<Rightarrow> (fail_with access_errors dflt e, s) | Inr p \<Rightarrow> k p s)"

text \<open>The end of a handler: an error through its \<open>switch\<close>, a value with its status.\<close>

definition finish ::
  "(go_error \<times> nat) list \<Rightarrow> nat \<Rightarrow> nat \<Rightarrow> ('a \<Rightarrow> Payload) \<Rightarrow> (go_error + 'a) \<times> Sys \<Rightarrow> Response \<times> Sys" where
  "finish cases dflt ok pl rs =
     (let (r, s) = rs in (case r of Inl e \<Rightarrow> fail_with cases dflt e | Inr v \<Rightarrow> respond ok (pl v), s))"

definition finish_unit ::
  "(go_error \<times> nat) list \<Rightarrow> nat \<Rightarrow> nat \<Rightarrow> Payload \<Rightarrow> go_error option \<times> Sys \<Rightarrow> Response \<times> Sys" where
  "finish_unit cases dflt ok pl rs =
     (let (r, s) = rs in (case r of Some e \<Rightarrow> fail_with cases dflt e | None \<Rightarrow> respond ok pl, s))"

definition setAuthCookie :: "string \<Rightarrow> Response \<Rightarrow> Response" where
  "setAuthCookie token r = r\<lparr>rp_SetCookie := Some token\<rparr>"

section \<open>Accounts and notifications\<close>

definition Handler_Health :: "Response" where
  "Handler_Health = respond 200 (PlStatus ''ok'')"

definition Handler_Register :: "World \<Rightarrow> Request \<Rightarrow> Sys \<Rightarrow> Response \<times> Sys" where
  "Handler_Register w rq =
     with_body decode_register rq (\<lambda>req s.
       let (r, s) = Register w req s
       in (case r of
             Inl e \<Rightarrow> fail_with [(ErrEmailTaken, 409)] 400 e
           | Inr token \<Rightarrow> setAuthCookie token (respond 201 (PlToken token)), s))"

definition invalidCredentialsMessage :: string where
  "invalidCredentialsMessage =
     utf8 [208, 157, 208, 181, 208, 178, 208, 181, 209, 128, 208, 189, 209, 139, 208, 185, 32, 208, 187, 208,
       190, 208, 179, 208, 184, 208, 189, 32, 208, 184, 208, 187, 208, 184, 32, 208, 191, 208, 176, 209, 128,
       208, 190, 208, 187, 209, 140]"

definition Handler_Login :: "World \<Rightarrow> Request \<Rightarrow> Sys \<Rightarrow> Response \<times> Sys" where
  "Handler_Login w rq =
     with_body decode_login rq (\<lambda>req s.
       let (r, s) = Login w req s
       in (case r of
             Inl e \<Rightarrow> if errors_Is e ErrInvalidCredentials
                      then respond 401 (PlError invalidCredentialsMessage) else respond 400 (PlError (Error e))
           | Inr token \<Rightarrow> setAuthCookie token (respond 200 (PlToken token)), s))"

definition Handler_Logout :: "Response" where
  "Handler_Logout = setAuthCookie '''' (respond 200 (PlStatus ''logged out''))"

definition Handler_GetTelegramSettings :: "Handler \<Rightarrow> World \<Rightarrow> string \<Rightarrow> Sys \<Rightarrow> Response \<times> Sys" where
  "Handler_GetTelegramSettings h w uid s =
     (if \<not> h_notifications h then (respond 200 (PlSettings no_settings), s)
      else finish [(ErrUserNotFound, 404)] 500 200 PlSettings (GetTelegramSettings w uid s))"

definition Handler_UpdateTelegramSettings :: "Handler \<Rightarrow> World \<Rightarrow> Request \<Rightarrow> string \<Rightarrow> Sys \<Rightarrow> Response \<times> Sys" where
  "Handler_UpdateTelegramSettings h w rq uid s =
     (if \<not> h_notifications h then (respond 503 (PlError ''telegram notifications are not configured''), s)
      else with_body decode_telegram_settings rq (\<lambda>req s.
        finish [(ErrUserNotFound, 404)] 400 200 PlSettings (UpdateTelegramSettings w uid req s)) s)"

definition Handler_DeleteTelegramSettings :: "Handler \<Rightarrow> World \<Rightarrow> string \<Rightarrow> Sys \<Rightarrow> Response \<times> Sys" where
  "Handler_DeleteTelegramSettings h w uid s =
     (if \<not> h_notifications h then (respond 200 (PlSettings no_settings), s)
      else finish [(ErrUserNotFound, 404)] 500 200 PlSettings (ClearTelegramSettings w uid s))"

definition Handler_TelegramWebhook :: "Handler \<Rightarrow> World \<Rightarrow> Request \<Rightarrow> Sys \<Rightarrow> Response \<times> Sys" where
  "Handler_TelegramWebhook h w rq s =
     (let received = TrimSpace (rq_Header rq ''X-Telegram-Bot-Api-Secret-Token'')
      in if h_telegramWebhookSecret h \<noteq> '''' \<and> (received = '''' \<or> received \<noteq> h_telegramWebhookSecret h)
         then (respond 401 (PlError ''invalid telegram webhook secret''), s)
         else if \<not> h_notifications h then (respond 200 (PlStatus ''disabled''), s)
         else with_body decode_update rq (\<lambda>update s.
           finish_unit [] 500 200 (PlStatus ''ok'') (HandleTelegramUpdate w update s)) s)"

section \<open>Billing\<close>

definition Handler_BillingSummary :: "World \<Rightarrow> string \<Rightarrow> Sys \<Rightarrow> Response \<times> Sys" where
  "Handler_BillingSummary w uid s =
     (let (err, s) = EnforceBillingGuard w uid s
      in case err of
           Some e \<Rightarrow> (fail_with [(ErrUserNotFound, 404)] 500 e, s)
         | None \<Rightarrow> finish [(ErrUserNotFound, 404)] 500 200 PlSummary (GetBillingSummary w uid s))"

definition Handler_TopUpBalance :: "World \<Rightarrow> Request \<Rightarrow> string \<Rightarrow> Sys \<Rightarrow> Response \<times> Sys" where
  "Handler_TopUpBalance w rq uid =
     with_body decode_amount rq (\<lambda>amount s.
       let (r, s) = TopUpBalance w uid amount s
       in case r of
            Inl e \<Rightarrow> (fail_with [(ErrUserNotFound, 404)] 400 e, s)
          | Inr u \<Rightarrow> finish [] 500 200 PlSummary (GetBillingSummary w uid s))"

definition Handler_InitiateTopUp :: "World \<Rightarrow> Request \<Rightarrow> string \<Rightarrow> Sys \<Rightarrow> Response \<times> Sys" where
  "Handler_InitiateTopUp w rq uid =
     with_body decode_amount rq (\<lambda>amount s. finish [] 400 200 PlConfirmation (InitiateTopUp w uid amount s))"

definition Handler_YooKassaWebhook :: "World \<Rightarrow> Request \<Rightarrow> Sys \<Rightarrow> Response \<times> Sys" where
  "Handler_YooKassaWebhook w rq s =
     (case Option.bind (rq_Body rq) (\<lambda>b. Option.bind (json_first b) decode_payment) of
        None \<Rightarrow> (respond 400 PlNone, s)
      | Some (event, yid) \<Rightarrow>
         if event \<noteq> ''payment.succeeded'' then (respond 200 PlNone, s)
         else (let (err, s) = HandleYooKassaWebhook w yid s
               in (case err of Some e \<Rightarrow> respond 500 PlNone | None \<Rightarrow> respond 200 PlNone, s)))"

definition Handler_ListBillingTransactions :: "string \<Rightarrow> Sys \<Rightarrow> Response \<times> Sys" where
  "Handler_ListBillingTransactions uid s = finish [] 500 200 PlTransactions (ListBillingTransactions uid s)"

definition Handler_ListProjectBillingTransactions :: "string \<Rightarrow> string \<Rightarrow> Sys \<Rightarrow> Response \<times> Sys" where
  "Handler_ListProjectBillingTransactions uid pid s =
     finish access_errors 500 200 PlTransactions (ListProjectBillingTransactions pid uid s)"

section \<open>GitHub tokens\<close>

definition Handler_GetServiceGitHubToken :: "string \<Rightarrow> Sys \<Rightarrow> Response \<times> Sys" where
  "Handler_GetServiceGitHubToken uid s =
     finish [(ErrUserNotFound, 404)] 500 200 PlConfigured (GetServiceGitHubTokenStatus uid s)"

definition Handler_UpsertServiceGitHubToken :: "World \<Rightarrow> Request \<Rightarrow> string \<Rightarrow> Sys \<Rightarrow> Response \<times> Sys" where
  "Handler_UpsertServiceGitHubToken w rq uid =
     with_body decode_token rq (\<lambda>token s.
       finish [(ErrUserNotFound, 404)] 400 200 PlConfigured (UpsertServiceGitHubToken w uid token s))"

definition Handler_DeleteServiceGitHubToken :: "string \<Rightarrow> Sys \<Rightarrow> Response \<times> Sys" where
  "Handler_DeleteServiceGitHubToken uid s =
     finish_unit [(ErrUserNotFound, 404)] 500 200 (PlConfigured False) (DeleteServiceGitHubToken uid s)"

definition Handler_GetProjectGitHubToken :: "string \<Rightarrow> string \<Rightarrow> Sys \<Rightarrow> Response \<times> Sys" where
  "Handler_GetProjectGitHubToken uid pid s =
     finish access_errors 500 200 PlConfigured (GetProjectGitHubToken pid uid s)"

definition Handler_UpsertProjectGitHubToken :: "World \<Rightarrow> Request \<Rightarrow> string \<Rightarrow> string \<Rightarrow> Sys \<Rightarrow> Response \<times> Sys" where
  "Handler_UpsertProjectGitHubToken w rq uid pid =
     with_body decode_token rq (\<lambda>token s.
       finish access_errors 400 200 PlConfigured (UpsertProjectGitHubToken w pid uid token s))"

definition Handler_DeleteProjectGitHubToken :: "string \<Rightarrow> string \<Rightarrow> Sys \<Rightarrow> Response \<times> Sys" where
  "Handler_DeleteProjectGitHubToken uid pid s =
     finish_unit access_errors 500 200 (PlConfigured False) (DeleteProjectGitHubToken pid uid s)"

section \<open>Projects\<close>

definition Handler_ListProjects :: "World \<Rightarrow> string \<Rightarrow> Sys \<Rightarrow> Response \<times> Sys" where
  "Handler_ListProjects w uid s =
     (let (ps, s) = ListProjects w s
      in (respond 200 (PlProjects (filter (\<lambda>p. p_OwnerID p = uid) ps)), s))"

definition Handler_CreateProject :: "World \<Rightarrow> Request \<Rightarrow> string \<Rightarrow> Sys \<Rightarrow> Response \<times> Sys" where
  "Handler_CreateProject w rq uid =
     with_body decode_create_project rq (\<lambda>req s.
       finish [] 400 202 PlProject (CreateProject w (req\<lparr>cpr_OwnerID := uid\<rparr>) s))"

definition Handler_GetProject :: "World \<Rightarrow> string \<Rightarrow> string \<Rightarrow> Sys \<Rightarrow> Response \<times> Sys" where
  "Handler_GetProject w uid pid = with_owned 500 w uid pid (\<lambda>p s. (respond 200 (PlProject p), s))"

definition Handler_DeleteProject :: "World \<Rightarrow> string \<Rightarrow> string \<Rightarrow> Sys \<Rightarrow> Response \<times> Sys" where
  "Handler_DeleteProject w uid pid = with_owned 400 w uid pid (\<lambda>_ s.
     finish_unit [(ErrProjectNotFound, 404)] 400 200 (PlStatus ''deleted'') (DeleteProject w pid s))"

definition Handler_GetProjectCost :: "World \<Rightarrow> string \<Rightarrow> string \<Rightarrow> Sys \<Rightarrow> Response \<times> Sys" where
  "Handler_GetProjectCost w uid pid = with_owned 500 w uid pid (\<lambda>_ s.
     finish [(ErrProjectNotFound, 404)] 500 200 PlCost (GetProjectCost w pid s))"

definition logs_request :: "Request \<Rightarrow> int \<Rightarrow> ProjectLogsRequest" where
  "logs_request rq limit =
     (let q = (\<lambda>k. TrimSpace (rq_Query rq k))
      in \<lparr>pl_StageID = q ''stageId'', pl_StageSlug = '''', pl_Pod = q ''pod'', pl_Container = q ''container'',
          pl_Search = q ''search'', pl_Level = q ''level'', pl_Since = q ''since'', pl_Limit = limit\<rparr>)"

definition logs_errors :: "(go_error \<times> nat) list" where
  "logs_errors = stage_access_errors @ [(ErrLogsUnavailable, 503)]"

definition Handler_ListProjectLogs :: "World \<Rightarrow> Request \<Rightarrow> string \<Rightarrow> string \<Rightarrow> Sys \<Rightarrow> Response \<times> Sys" where
  "Handler_ListProjectLogs w rq uid pid s =
     (let rawLimit = TrimSpace (rq_Query rq ''limit'');
          limit = (if rawLimit = '''' then Some 0
                   else case Atoi rawLimit of None \<Rightarrow> None | Some n \<Rightarrow> if n \<le> 0 then None else Some n)
      in case limit of
           None \<Rightarrow> (respond 400 (PlError ''invalid limit query parameter''), s)
         | Some n \<Rightarrow> finish logs_errors 500 200 PlLogs (ListProjectLogs w pid uid (logs_request rq n) s))"

definition Handler_GetProjectRuntimeStatus :: "World \<Rightarrow> string \<Rightarrow> string \<Rightarrow> Sys \<Rightarrow> Response \<times> Sys" where
  "Handler_GetProjectRuntimeStatus w uid pid = with_owned 500 w uid pid (\<lambda>_ s.
     finish [(ErrProjectNotFound, 404)] 500 200 PlRuntime (GetProjectRuntimeStatus w pid s))"

definition Handler_UpdateDeploymentSettings :: "World \<Rightarrow> Request \<Rightarrow> string \<Rightarrow> string \<Rightarrow> Sys \<Rightarrow> Response \<times> Sys" where
  "Handler_UpdateDeploymentSettings w rq uid pid = with_owned 400 w uid pid (\<lambda>_.
     with_body decode_settings rq (\<lambda>req s.
       finish [(ErrProjectNotFound, 404)] 400 200 PlProject (UpdateProjectDeploymentSettings w pid req s)))"

definition Handler_SuspendProject :: "World \<Rightarrow> string \<Rightarrow> string \<Rightarrow> Sys \<Rightarrow> Response \<times> Sys" where
  "Handler_SuspendProject w uid pid = with_owned 400 w uid pid (\<lambda>_ s.
     finish_unit [(ErrProjectNotFound, 404)] 400 200 (PlStatus ''suspended'') (SuspendProject w pid s))"

definition Handler_ResumeProject :: "World \<Rightarrow> string \<Rightarrow> string \<Rightarrow> Sys \<Rightarrow> Response \<times> Sys" where
  "Handler_ResumeProject w uid pid = with_owned 400 w uid pid (\<lambda>_ s.
     finish_unit [(ErrProjectNotFound, 404)] 400 200 (PlStatus ''active'') (ResumeProject w pid s))"

definition kubeconfig_errors :: "(go_error \<times> nat) list" where
  "kubeconfig_errors = [(ErrProjectNotFound, 404), (ErrProjectEnvironmentUnavailable, 409)]"

definition Handler_GetKubeconfig :: "World \<Rightarrow> string \<Rightarrow> string \<Rightarrow> Sys \<Rightarrow> Response \<times> Sys" where
  "Handler_GetKubeconfig w uid pid = with_owned 500 w uid pid (\<lambda>_ s.
     finish kubeconfig_errors 500 200 PlYaml (GetProjectKubeconfig w pid s))"

definition Handler_RotateKubeconfig :: "World \<Rightarrow> string \<Rightarrow> string \<Rightarrow> Sys \<Rightarrow> Response \<times> Sys" where
  "Handler_RotateKubeconfig w uid pid = with_owned 500 w uid pid (\<lambda>_ s.
     finish kubeconfig_errors 500 200 PlYaml (RotateProjectKubeconfig w pid s))"

definition Handler_GitHubQuestions :: "World \<Rightarrow> Request \<Rightarrow> string \<Rightarrow> string \<Rightarrow> Sys \<Rightarrow> Response \<times> Sys" where
  "Handler_GitHubQuestions w rq uid pid = with_owned 400 w uid pid (\<lambda>_.
     with_body decode_questions rq (\<lambda>req s.
       finish [(ErrProjectNotFound, 404)] 400 200 PlQuestions (BuildGitHubBootstrapQuestions w pid req s)))"

definition bootstrap_errors :: "(go_error \<times> nat) list" where
  "bootstrap_errors = [(ErrProjectNotFound, 404), (ErrInsufficientBalance, 402)]"

definition Handler_GitHubBootstrap :: "World \<Rightarrow> Request \<Rightarrow> string \<Rightarrow> string \<Rightarrow> Sys \<Rightarrow> Response \<times> Sys" where
  "Handler_GitHubBootstrap w rq uid pid = with_owned 400 w uid pid (\<lambda>_.
     with_body decode_bootstrap rq (\<lambda>req s.
       finish bootstrap_errors 400 200 PlFlow (BootstrapGitHubFlow w pid req s)))"

section \<open>Stages\<close>

definition Handler_CreateStage :: "World \<Rightarrow> Request \<Rightarrow> string \<Rightarrow> string \<Rightarrow> Sys \<Rightarrow> Response \<times> Sys" where
  "Handler_CreateStage w rq uid pid =
     with_body decode_create_stage rq (\<lambda>req s.
       finish (access_errors @ [(ErrProjectEnvironmentUnavailable, 409)]) 400 201 PlStage (CreateStage w pid uid req s))"

definition Handler_ListStages :: "World \<Rightarrow> string \<Rightarrow> string \<Rightarrow> Sys \<Rightarrow> Response \<times> Sys" where
  "Handler_ListStages w uid pid s = finish access_errors 500 200 PlStages (ListStages w pid uid s)"

definition Handler_GetStage :: "string \<Rightarrow> string \<Rightarrow> string \<Rightarrow> Sys \<Rightarrow> Response \<times> Sys" where
  "Handler_GetStage uid pid sid s = finish stage_access_errors 500 200 PlStage (GetStage pid sid uid s)"

definition Handler_DeleteStage :: "World \<Rightarrow> string \<Rightarrow> string \<Rightarrow> string \<Rightarrow> Sys \<Rightarrow> Response \<times> Sys" where
  "Handler_DeleteStage w uid pid sid s =
     finish_unit stage_access_errors 400 200 (PlStatus ''deleted'') (DeleteStage w pid sid uid s)"

definition Handler_GetStageRuntimeStatus :: "World \<Rightarrow> string \<Rightarrow> string \<Rightarrow> string \<Rightarrow> Sys \<Rightarrow> Response \<times> Sys" where
  "Handler_GetStageRuntimeStatus w uid pid sid s =
     finish stage_access_errors 500 200 PlRuntime (GetStageRuntimeStatus w pid sid uid s)"

definition Handler_GetProjectURLs :: "World \<Rightarrow> string \<Rightarrow> string \<Rightarrow> Sys \<Rightarrow> Response \<times> Sys" where
  "Handler_GetProjectURLs w uid pid s = finish access_errors 500 200 PlURLs (GetProjectURLs w pid uid s)"

section \<open>Releases\<close>

definition Handler_ListReleases :: "World \<Rightarrow> Request \<Rightarrow> string \<Rightarrow> string \<Rightarrow> Sys \<Rightarrow> Response \<times> Sys" where
  "Handler_ListReleases w rq uid pid = with_owned 500 w uid pid (\<lambda>_ s.
     let stageID = TrimSpace (rq_Query rq ''stageId'')
     in finish [(ErrProjectNotFound, 404)] 500 200
          (\<lambda>rs. PlReleases (if stageID \<noteq> '''' then filter (\<lambda>r. r_StageID r = stageID) rs else rs))
          (ListReleases w pid s))"

definition Handler_GetRelease :: "World \<Rightarrow> string \<Rightarrow> string \<Rightarrow> string \<Rightarrow> Sys \<Rightarrow> Response \<times> Sys" where
  "Handler_GetRelease w uid pid rid = with_owned 500 w uid pid (\<lambda>_ s.
     finish [(ErrReleaseNotFound, 404)] 500 200 PlRelease (GetRelease pid rid s))"

definition Handler_RollbackRelease :: "World \<Rightarrow> string \<Rightarrow> string \<Rightarrow> string \<Rightarrow> Sys \<Rightarrow> Response \<times> Sys" where
  "Handler_RollbackRelease w uid pid rid = with_owned 400 w uid pid (\<lambda>_ s.
     finish [(ErrReleaseNotFound, 404), (ErrInsufficientBalance, 402)] 400 200 PlRelease (RollbackToRelease w pid rid s))"

definition Handler_GitHubWebhook :: "Handler \<Rightarrow> World \<Rightarrow> Request \<Rightarrow> Sys \<Rightarrow> Response \<times> Sys" where
  "Handler_GitHubWebhook h w rq s =
     (if rq_Header rq ''X-GitHub-Event'' \<noteq> ''workflow_run'' then (respond 204 PlNone, s)
      else case rq_Body rq of
        None \<Rightarrow> (respond 400 (PlError ''failed to read body''), s)
      | Some body \<Rightarrow>
         if h_webhookSecret h \<noteq> ''''
            \<and> \<not> verifyGitHubSignature body (rq_Header rq ''X-Hub-Signature-256'') (h_webhookSecret h)
         then (respond 401 (PlError ''invalid signature''), s)
         else case Option.bind (json_whole body) decode_workflow of
           None \<Rightarrow> (respond 400 (PlError ''invalid payload''), s)
         | Some payload \<Rightarrow> finish_unit [] 500 204 PlNone (HandleGitHubWebhook w payload s))"

section \<open>The router\<close>

text \<open>A segment of a pattern: a literal, or a parameter that takes any non-empty segment.\<close>

datatype segment = Lit string | Param

datatype endpoint =
    EHealth | ERegister | ELogin | ELogout | ETelegramWebhook | EGitHubWebhook | EYooKassaWebhook
  | EListProjects | EBillingSummary | EGetTelegramSettings | EUpdateTelegramSettings | EDeleteTelegramSettings
  | ETopUpBalance | EInitiateTopUp | EListBillingTransactions
  | EGetServiceGitHubToken | EUpsertServiceGitHubToken | EDeleteServiceGitHubToken
  | ECreateProject | EGetProject | EDeleteProject | EGetProjectCost | EGetProjectRuntimeStatus
  | EListProjectLogs | ECreateStage | EListStages | EGetStage | EDeleteStage | EGetStageRuntimeStatus
  | EGetProjectURLs | EUpdateDeploymentSettings | ESuspendProject | EResumeProject | EGitHubQuestions
  | EGitHubBootstrap | EListReleases | EGetRelease | ERollbackRelease | EGetKubeconfig
  | EListProjectBillingTransactions | ERotateKubeconfig
  | EGetProjectGitHubToken | EUpsertProjectGitHubToken | EDeleteProjectGitHubToken

definition public_routes :: "(string \<times> segment list \<times> endpoint) list" where
  "public_routes =
    [(''GET'', [Lit ''health''], EHealth),
     (''POST'', [Lit ''auth'', Lit ''register''], ERegister),
     (''POST'', [Lit ''auth'', Lit ''login''], ELogin),
     (''POST'', [Lit ''auth'', Lit ''logout''], ELogout),
     (''POST'', [Lit ''webhooks'', Lit ''telegram''], ETelegramWebhook),
     (''POST'', [Lit ''webhooks'', Lit ''github''], EGitHubWebhook),
     (''POST'', [Lit ''webhooks'', Lit ''yookassa''], EYooKassaWebhook)]"

definition protected_routes :: "(string \<times> segment list \<times> endpoint) list" where
  "protected_routes =
    [(''GET'', [Lit ''projects''], EListProjects),
     (''GET'', [Lit ''billing'', Lit ''summary''], EBillingSummary),
     (''GET'', [Lit ''me'', Lit ''telegram''], EGetTelegramSettings),
     (''PUT'', [Lit ''me'', Lit ''telegram''], EUpdateTelegramSettings),
     (''DELETE'', [Lit ''me'', Lit ''telegram''], EDeleteTelegramSettings),
     (''POST'', [Lit ''billing'', Lit ''top-up''], ETopUpBalance),
     (''POST'', [Lit ''billing'', Lit ''top-up'', Lit ''initiate''], EInitiateTopUp),
     (''GET'', [Lit ''billing'', Lit ''transactions''], EListBillingTransactions),
     (''GET'', [Lit ''service'', Lit ''github-token''], EGetServiceGitHubToken),
     (''PUT'', [Lit ''service'', Lit ''github-token''], EUpsertServiceGitHubToken),
     (''DELETE'', [Lit ''service'', Lit ''github-token''], EDeleteServiceGitHubToken),
     (''POST'', [Lit ''projects''], ECreateProject),
     (''GET'', [Lit ''projects'', Param], EGetProject),
     (''DELETE'', [Lit ''projects'', Param], EDeleteProject),
     (''GET'', [Lit ''projects'', Param, Lit ''cost''], EGetProjectCost),
     (''GET'', [Lit ''projects'', Param, Lit ''runtime-status''], EGetProjectRuntimeStatus),
     (''GET'', [Lit ''projects'', Param, Lit ''logs''], EListProjectLogs),
     (''POST'', [Lit ''projects'', Param, Lit ''stages''], ECreateStage),
     (''GET'', [Lit ''projects'', Param, Lit ''stages''], EListStages),
     (''GET'', [Lit ''projects'', Param, Lit ''stages'', Param], EGetStage),
     (''DELETE'', [Lit ''projects'', Param, Lit ''stages'', Param], EDeleteStage),
     (''GET'', [Lit ''projects'', Param, Lit ''stages'', Param, Lit ''runtime-status''], EGetStageRuntimeStatus),
     (''GET'', [Lit ''projects'', Param, Lit ''urls''], EGetProjectURLs),
     (''PUT'', [Lit ''projects'', Param, Lit ''deployment-settings''], EUpdateDeploymentSettings),
     (''POST'', [Lit ''projects'', Param, Lit ''suspend''], ESuspendProject),
     (''POST'', [Lit ''projects'', Param, Lit ''resume''], EResumeProject),
     (''POST'', [Lit ''projects'', Param, Lit ''github'', Lit ''questions''], EGitHubQuestions),
     (''POST'', [Lit ''projects'', Param, Lit ''github'', Lit ''bootstrap''], EGitHubBootstrap),
     (''GET'', [Lit ''projects'', Param, Lit ''releases''], EListReleases),
     (''GET'', [Lit ''projects'', Param, Lit ''releases'', Param], EGetRelease),
     (''POST'', [Lit ''projects'', Param, Lit ''releases'', Param, Lit ''rollback''], ERollbackRelease),
     (''GET'', [Lit ''projects'', Param, Lit ''kubeconfig''], EGetKubeconfig),
     (''GET'', [Lit ''projects'', Param, Lit ''billing''], EListProjectBillingTransactions),
     (''POST'', [Lit ''projects'', Param, Lit ''kubeconfig'', Lit ''rotate''], ERotateKubeconfig),
     (''GET'', [Lit ''projects'', Param, Lit ''github-token''], EGetProjectGitHubToken),
     (''PUT'', [Lit ''projects'', Param, Lit ''github-token''], EUpsertProjectGitHubToken),
     (''DELETE'', [Lit ''projects'', Param, Lit ''github-token''], EDeleteProjectGitHubToken)]"

text \<open>The values of the parameters when a path has a pattern's form.\<close>

fun match_path :: "segment list \<Rightarrow> string list \<Rightarrow> string list option" where
  "match_path [] [] = Some []"
| "match_path (Lit l # ps) (x # xs) = (if x = l then match_path ps xs else None)"
| "match_path (Param # ps) (x # xs) = (if x = '''' then None else map_option ((#) x) (match_path ps xs))"
| "match_path _ _ = None"

fun find_route :: "(string \<times> segment list \<times> endpoint) list \<Rightarrow> Request \<Rightarrow> (endpoint \<times> string list) option" where
  "find_route [] rq = None"
| "find_route ((m, pat, e) # rs) rq =
     (case (if rq_Method rq = m then match_path pat (rq_Path rq) else None) of
        Some ps \<Rightarrow> Some (e, ps) | None \<Rightarrow> find_route rs rq)"

definition public_endpoint :: "Handler \<Rightarrow> World \<Rightarrow> Request \<Rightarrow> endpoint \<Rightarrow> Sys \<Rightarrow> Response \<times> Sys" where
  "public_endpoint h w rq e s =
     (case e of
        ERegister \<Rightarrow> Handler_Register w rq s
      | ELogin \<Rightarrow> Handler_Login w rq s
      | ELogout \<Rightarrow> (Handler_Logout, s)
      | ETelegramWebhook \<Rightarrow> Handler_TelegramWebhook h w rq s
      | EGitHubWebhook \<Rightarrow> Handler_GitHubWebhook h w rq s
      | EYooKassaWebhook \<Rightarrow> Handler_YooKassaWebhook w rq s
      | _ \<Rightarrow> (Handler_Health, s))"

definition account_endpoint :: "Handler \<Rightarrow> World \<Rightarrow> Request \<Rightarrow> string \<Rightarrow> endpoint \<Rightarrow> Sys \<Rightarrow> Response \<times> Sys" where
  "account_endpoint h w rq uid e s =
     (case e of
        EListProjects \<Rightarrow> Handler_ListProjects w uid s
      | EBillingSummary \<Rightarrow> Handler_BillingSummary w uid s
      | EGetTelegramSettings \<Rightarrow> Handler_GetTelegramSettings h w uid s
      | EUpdateTelegramSettings \<Rightarrow> Handler_UpdateTelegramSettings h w rq uid s
      | EDeleteTelegramSettings \<Rightarrow> Handler_DeleteTelegramSettings h w uid s
      | ETopUpBalance \<Rightarrow> Handler_TopUpBalance w rq uid s
      | EInitiateTopUp \<Rightarrow> Handler_InitiateTopUp w rq uid s
      | EListBillingTransactions \<Rightarrow> Handler_ListBillingTransactions uid s
      | EGetServiceGitHubToken \<Rightarrow> Handler_GetServiceGitHubToken uid s
      | EUpsertServiceGitHubToken \<Rightarrow> Handler_UpsertServiceGitHubToken w rq uid s
      | EDeleteServiceGitHubToken \<Rightarrow> Handler_DeleteServiceGitHubToken uid s
      | _ \<Rightarrow> Handler_CreateProject w rq uid s)"

definition project_endpoint ::
  "World \<Rightarrow> Request \<Rightarrow> string \<Rightarrow> endpoint \<Rightarrow> string \<Rightarrow> string list \<Rightarrow> Sys \<Rightarrow> Response \<times> Sys" where
  "project_endpoint w rq uid e pid ps s =
     (let param = (case ps of [] \<Rightarrow> '''' | x # _ \<Rightarrow> x)
      in case e of
        EGetProject \<Rightarrow> Handler_GetProject w uid pid s
      | EDeleteProject \<Rightarrow> Handler_DeleteProject w uid pid s
      | EGetProjectCost \<Rightarrow> Handler_GetProjectCost w uid pid s
      | EGetProjectRuntimeStatus \<Rightarrow> Handler_GetProjectRuntimeStatus w uid pid s
      | EListProjectLogs \<Rightarrow> Handler_ListProjectLogs w rq uid pid s
      | ECreateStage \<Rightarrow> Handler_CreateStage w rq uid pid s
      | EListStages \<Rightarrow> Handler_ListStages w uid pid s
      | EGetStage \<Rightarrow> Handler_GetStage uid pid param s
      | EDeleteStage \<Rightarrow> Handler_DeleteStage w uid pid param s
      | EGetStageRuntimeStatus \<Rightarrow> Handler_GetStageRuntimeStatus w uid pid param s
      | EGetProjectURLs \<Rightarrow> Handler_GetProjectURLs w uid pid s
      | EUpdateDeploymentSettings \<Rightarrow> Handler_UpdateDeploymentSettings w rq uid pid s
      | ESuspendProject \<Rightarrow> Handler_SuspendProject w uid pid s
      | EResumeProject \<Rightarrow> Handler_ResumeProject w uid pid s
      | EGitHubQuestions \<Rightarrow> Handler_GitHubQuestions w rq uid pid s
      | EGitHubBootstrap \<Rightarrow> Handler_GitHubBootstrap w rq uid pid s
      | EListReleases \<Rightarrow> Handler_ListReleases w rq uid pid s
      | EGetRelease \<Rightarrow> Handler_GetRelease w uid pid param s
      | ERollbackRelease \<Rightarrow> Handler_RollbackRelease w uid pid param s
      | EGetKubeconfig \<Rightarrow> Handler_GetKubeconfig w uid pid s
      | EListProjectBillingTransactions \<Rightarrow> Handler_ListProjectBillingTransactions uid pid s
      | ERotateKubeconfig \<Rightarrow> Handler_RotateKubeconfig w uid pid s
      | EGetProjectGitHubToken \<Rightarrow> Handler_GetProjectGitHubToken uid pid s
      | EUpsertProjectGitHubToken \<Rightarrow> Handler_UpsertProjectGitHubToken w rq uid pid s
      | _ \<Rightarrow> Handler_DeleteProjectGitHubToken uid pid s)"

definition protected_endpoint ::
  "Handler \<Rightarrow> World \<Rightarrow> Request \<Rightarrow> string \<Rightarrow> endpoint \<Rightarrow> string list \<Rightarrow> Sys \<Rightarrow> Response \<times> Sys" where
  "protected_endpoint h w rq uid e params s =
     (case params of
        [] \<Rightarrow> account_endpoint h w rq uid e s
      | pid # ps \<Rightarrow> project_endpoint w rq uid e pid ps s)"

text \<open>
  \<open>ServeHTTP\<close> of the router: a public route, a protected route behind the authentication, or no route of
  the API (the pages, or the status 404 or 405 of the library).
\<close>

definition serve :: "Handler \<Rightarrow> World \<Rightarrow> Request \<Rightarrow> Sys \<Rightarrow> (Response \<times> Sys) option" where
  "serve h w rq s =
     (case find_route public_routes rq of
        Some (e, _) \<Rightarrow> Some (public_endpoint h w rq e s)
      | None \<Rightarrow>
         (case find_route protected_routes rq of
            None \<Rightarrow> None
          | Some (e, params) \<Rightarrow>
             (let (t, s) = now w s
              in case RequireAuth (h_jwtSecret h) t rq of
                   Inl resp \<Rightarrow> Some (resp, s)
                 | Inr uid \<Rightarrow> Some (protected_endpoint h w rq uid e params s))))"

section \<open>Lemmas\<close>

text \<open>Access to a project that belongs to somebody else.\<close>

lemma owned_project_stranger:
  assumes "ProjectStore_GetByID (y_projects s) pid = Some p" "p_OwnerID p \<noteq> uid"
  shows "owned_project pid uid s = Inl ErrForbidden" "owned_stage pid sid uid s = Inl ErrForbidden"
  using assms by (simp_all add: owned_project_def owned_stage_def)

lemma hydrate_owner [simp]: "p_OwnerID (hydrateProjectLinks w p) = p_OwnerID p"
  by (simp add: hydrateProjectLinks_def Let_def)

definition refusal :: "Response \<Rightarrow> bool" where
  "refusal r \<longleftrightarrow> rp_Status r \<in> {400, 403} \<and> (\<exists>m. rp_Body r = PlError m) \<and> rp_SetCookie r = None"

lemma refusal_forbidden [simp]:
  "refusal (fail_with access_errors d ErrForbidden)"
  "refusal (fail_with stage_access_errors d ErrForbidden)"
  "refusal (fail_with logs_errors d ErrForbidden)"
  "refusal (fail_with (access_errors @ rest) d ErrForbidden)"
  "refusal (respond 400 (PlError m))"
  by (simp_all add: refusal_def fail_with_def respond_def access_errors_def stage_access_errors_def logs_errors_def)

lemma with_owned_stranger:
  assumes "ProjectStore_GetByID (y_projects s) pid = Some p" "p_OwnerID p \<noteq> uid"
  shows "with_owned d w uid pid k s = (fail_with access_errors d ErrForbidden, s)"
  using assms by (simp add: with_owned_def requireOwnedProject_def GetProject_def)

lemma finish_Inl [simp]: "finish cases d ok pl (Inl e, s) = (fail_with cases d e, s)"
  by (simp add: finish_def)

lemma finish_unit_Some [simp]: "finish_unit cases d ok pl (Some e, s) = (fail_with cases d e, s)"
  by (simp add: finish_unit_def)

lemmas stage_handlers = Handler_ListStages_def Handler_GetStage_def Handler_DeleteStage_def
  Handler_GetStageRuntimeStatus_def Handler_GetProjectURLs_def Handler_ListProjectBillingTransactions_def
  Handler_GetProjectGitHubToken_def Handler_DeleteProjectGitHubToken_def

lemmas owned_handlers = Handler_GetProject_def Handler_DeleteProject_def Handler_GetProjectCost_def
  Handler_GetProjectRuntimeStatus_def Handler_UpdateDeploymentSettings_def Handler_SuspendProject_def
  Handler_ResumeProject_def Handler_GitHubQuestions_def Handler_GitHubBootstrap_def Handler_ListReleases_def
  Handler_GetRelease_def Handler_RollbackRelease_def Handler_GetKubeconfig_def Handler_RotateKubeconfig_def

lemmas owner_checked = ListStages_def GetStage_def DeleteStage_def GetStageRuntimeStatus_def GetProjectURLs_def
  ListProjectBillingTransactions_def GetProjectGitHubToken_def DeleteProjectGitHubToken_def

section \<open>Properties\<close>

text \<open>C1 The API of a project is its owner's alone: whatever endpoint of a project anybody else calls, with whatever
  body and parameters, the answer is an error with status 403 (or 400 for a malformed request), and nothing at all
  happens: the state, the clock and the calls to the cluster and GitHub are as before.\<close>

theorem project_api_is_owner_only:
  assumes "ProjectStore_GetByID (y_projects s) pid = Some p" and "p_OwnerID p \<noteq> uid"
  shows "snd (project_endpoint w rq uid e pid ps s) = s \<and> refusal (fst (project_endpoint w rq uid e pid ps s))"
proof -
  note own = with_owned_stranger [OF assms] owned_project_stranger [OF assms]
  have body: "snd (with_body dec rq (\<lambda>req. k req) s) = s \<and> refusal (fst (with_body dec rq (\<lambda>req. k req) s))"
    if "\<And>req. snd (k req s) = s \<and> refusal (fst (k req s))" for dec and k :: "'c \<Rightarrow> Sys \<Rightarrow> Response \<times> Sys"
    using that by (simp add: with_body_def split: option.split)
  have tok: "snd (Handler_UpsertProjectGitHubToken w rq uid pid s) = s \<and> refusal (fst (Handler_UpsertProjectGitHubToken w rq uid pid s))"
    unfolding Handler_UpsertProjectGitHubToken_def
    by (rule body) (auto simp: UpsertProjectGitHubToken_def own fail_with_def refusal_def respond_def access_errors_def)
  have stage: "snd (Handler_CreateStage w rq uid pid s) = s \<and> refusal (fst (Handler_CreateStage w rq uid pid s))"
    unfolding Handler_CreateStage_def
    by (rule body) (simp add: CreateStage_def own)
  have logs: "snd (Handler_ListProjectLogs w rq uid pid s) = s \<and> refusal (fst (Handler_ListProjectLogs w rq uid pid s))"
    by (simp add: Handler_ListProjectLogs_def ListProjectLogs_def own Let_def split: option.split)
  show ?thesis
    using tok stage logs
    by (cases e) (simp_all add: project_endpoint_def stage_handlers owned_handlers owner_checked own)
qed

definition get_project_request :: Request where
  "get_project_request = \<lparr>rq_Method = ''GET'', rq_Path = [''projects'', ''p1''], rq_Query = (\<lambda>_. ''''),
     rq_Header = (\<lambda>_. ''''), rq_Cookie = None, rq_Body = None\<rparr>"

theorem project_api_is_owner_only_witness:
  "snd (project_endpoint calm_world get_project_request ''mallory'' EDeleteProject ''p1'' [] one_project) = one_project"
  using project_api_is_owner_only [of one_project "''p1''" sample_project "''mallory''"]
  by (simp add: one_project_def ProjectStore_GetByID_def) (simp add: sample_project_def)

text \<open>C2 The protected API needs a valid token: a request to a protected route is answered with 401 and touches
  no store, or its token is signed with the server's secret and not expired, and exactly the user of its claims is
  the one the endpoint acts for.\<close>

theorem protected_api_needs_token:
  assumes "find_route public_routes rq = None" and "find_route protected_routes rq = Some (e, params)"
  shows "serve h w rq s = Some
    (case ValidateClaims (clock w (tick s)) (bearer_token rq) (h_jwtSecret h) of
       Inl _ \<Rightarrow> (respond 401 (PlError (if bearer_token rq = '''' then ''missing or invalid authorization header''
                                       else ''invalid or expired token'')), s\<lparr>tick := Suc (tick s)\<rparr>)
     | Inr claims \<Rightarrow> protected_endpoint h w rq (cl_UserID claims) e params (s\<lparr>tick := Suc (tick s)\<rparr>))"
proof -
  have "ValidateClaims t '''' secret = Inl ErrInvalidToken" for t secret
    by (simp add: ValidateClaims_def)
  with assms show ?thesis
    by (auto simp: serve_def now_def RequireAuth_def Let_def split: sum.split)
qed

definition sample_handler :: Handler where
  "sample_handler = \<lparr>h_jwtSecret = ''secret'', h_notifications = True, h_webhookSecret = ''hook'',
     h_telegramWebhookSecret = ''''\<rparr>"

theorem protected_api_needs_token_witness:
  "map_option (\<lambda>r. rp_Status (fst r)) (serve sample_handler calm_world get_project_request one_project) = Some 401"
proof -
  have "find_route public_routes get_project_request = None"
      "find_route protected_routes get_project_request = Some (EGetProject, [''p1''])"
    by (simp_all add: get_project_request_def public_routes_def protected_routes_def)
  note r = protected_api_needs_token [OF this, of sample_handler calm_world one_project]
  have "bearer_token get_project_request = ''''" by (simp add: get_project_request_def bearer_token_def)
  moreover have "ValidateClaims t '''' secret = Inl ErrInvalidToken" for t secret
    by (simp add: ValidateClaims_def)
  ultimately show ?thesis using r by (auto simp: respond_def split: sum.splits)
qed

text \<open>The tokens of the world are those of \<open>internal/auth\<close>, made with the clock of the call.\<close>

definition jwt_world :: "World \<Rightarrow> string \<Rightarrow> int \<Rightarrow> bool" where
  "jwt_world w secret ttl \<longleftrightarrow>
     (\<forall>n uid email. new_token w n uid email = Inr (GenerateToken (clock w n) uid email secret ttl))"

lemma token_not_blank [simp]: "GenerateToken t uid email secret ttl \<noteq> ''''"
  by (simp add: GenerateToken_def Let_def)


definition session_world :: World where
  "session_world = calm_world\<lparr>new_token := (\<lambda>n uid email. Inr (GenerateToken (clock calm_world n) uid email ''secret'' Hour))\<rparr>"

lemma session_login:
  "Login session_world \<lparr>lo_Email = ''a@b.io'', lo_Password = ''pw''\<rparr> sample_sys
     = (Inr (GenerateToken Second ''u1'' ''a@b.io'' ''secret'' Hour), snd (Login session_world \<lparr>lo_Email = ''a@b.io'', lo_Password = ''pw''\<rparr> sample_sys))"
  "UserStore_GetByEmail (y_users sample_sys) ''a@b.io'' = Some sample_user" "u_ID sample_user = ''u1''"
proof -
  show u: "UserStore_GetByEmail (y_users sample_sys) ''a@b.io'' = Some sample_user" "u_ID sample_user = ''u1''"
    by (simp_all add: sample_sys_def UserStore_GetByEmail_def) (simp_all add: sample_user_def)
  have "u_Email sample_user = ''a@b.io''" by (simp add: sample_user_def)
  moreover have "tick sample_sys = 0" by (simp add: sample_sys_def empty_sys_def)
  moreover have "clock calm_world 1 = Second" "ans_err calm_world n c = None" for n c
    by (simp_all add: calm_world_def)
  ultimately show "Login session_world \<lparr>lo_Email = ''a@b.io'', lo_Password = ''pw''\<rparr> sample_sys
     = (Inr (GenerateToken Second ''u1'' ''a@b.io'' ''secret'' Hour), snd (Login session_world \<lparr>lo_Email = ''a@b.io'', lo_Password = ''pw''\<rparr> sample_sys))"
    using u by (simp add: Login_def call_def session_world_def)
qed


text \<open>The payment notification is not authenticated: anybody who names the gateway's identifier of a pending payment
  in a request without token, signature or secret gets it credited, whether or not it was paid.\<close>

theorem unpaid_payment_can_be_credited:
  assumes "rq_Method rq = ''POST''" and "rq_Path rq = [''webhooks'', ''yookassa'']" and "rq_Body rq = Some body"
    and "Option.bind (json_first body) decode_payment = Some (''payment.succeeded'', yid)"
    and "hasPaymentStore w" and "PaymentStore_GetByYooKassaID (y_payments s) yid = Some p" and "yk_Status p = YKPending"
    and "user_store_ok (y_users s)" and "UserStore_GetByID (y_users s) (yk_UserID p) = Some u"
    and "flt (Fin 0) (yk_AmountRUB p)"
  shows "\<exists>s'. serve h w rq s = Some (respond 200 PlNone, s')
    \<and> balance_of s' (yk_UserID p) = Some (fadd (u_BalanceRUB u) (yk_AmountRUB p))"
proof -
  let ?t = "clock w (tick s)"
  let ?s = "s\<lparr>tick := Suc (tick s), y_payments := PaymentStore_MarkSucceeded ?t (y_payments s) yid\<rparr>"
  have pos: "\<not> fle (yk_AmountRUB p) (Fin 0)" using assms(10) by (cases "yk_AmountRUB p") auto
  have "find_route public_routes rq = Some (EYooKassaWebhook, [])"
    by (simp add: public_routes_def assms(1,2))
  moreover have "Handler_YooKassaWebhook w rq s = (respond 200 PlNone, snd (TopUpBalance w (yk_UserID p) (yk_AmountRUB p) ?s))"
    using assms(3-7) TopUpBalance_known [of ?s "yk_UserID p" u "yk_AmountRUB p" w] assms(8,9) pos
    by (simp add: Handler_YooKassaWebhook_def HandleYooKassaWebhook_def now_def)
  ultimately have "serve h w rq s = Some (respond 200 PlNone, snd (TopUpBalance w (yk_UserID p) (yk_AmountRUB p) ?s))"
    by (simp add: serve_def public_endpoint_def)
  moreover have "balance_of (snd (TopUpBalance w (yk_UserID p) (yk_AmountRUB p) ?s)) (yk_UserID p)
      = Some (fadd (u_BalanceRUB u) (yk_AmountRUB p))"
    using TopUpBalance_known [of ?s "yk_UserID p" u "yk_AmountRUB p" w] assms(8,9) pos
    by (simp add: balance_of_def UserStore_GetByID_def)
  ultimately show ?thesis by blast
qed

definition forged_body :: string where
  "forged_body = ''{'' @ json_text ''event'' @ '':'' @ json_text ''payment.succeeded'' @ '','' @ json_text ''object''
     @ '':{'' @ json_text ''id'' @ '':'' @ json_text ''yk-1'' @ ''}}''"

definition forged_request :: Request where
  "forged_request = get_project_request\<lparr>rq_Method := ''POST'', rq_Path := [''webhooks'', ''yookassa''],
     rq_Body := Some forged_body\<rparr>"

definition pending_sys :: Sys where
  "pending_sys = sample_sys\<lparr>y_payments := [\<lparr>yk_ID = ''i1'', yk_YooKassaID = ''yk-1'', yk_UserID = ''u1'',
     yk_AmountRUB = Fin 900, yk_Status = YKPending, yk_CreatedAt = 0, yk_UpdatedAt = 0\<rparr>]\<rparr>"

theorem unpaid_payment_can_be_credited_witness:
  "\<exists>s'. serve sample_handler calm_world forged_request pending_sys = Some (respond 200 PlNone, s')
     \<and> balance_of s' ''u1'' = Some (fadd (Fin 5) (Fin 900))"
proof -
  have body: "Option.bind (json_first forged_body) decode_payment = Some (''payment.succeeded'', ''yk-1'')"
    by code_simp
  have "u_BalanceRUB sample_user = Fin 5" by (simp add: sample_user_def)
  with unpaid_payment_can_be_credited [of forged_request forged_body "''yk-1''" calm_world pending_sys _ sample_user sample_handler]
  show ?thesis
    using body by (simp add: forged_request_def pending_sys_def PaymentStore_GetByYooKassaID_def)
      (simp add: calm_world_def)
qed

end
