(* ===== verification/GoDuration.thy ===== *)
theory GoDuration
  imports GoTime
begin

text \<open>
  \<open>time.ParseDuration\<close>: a signed sequence of decimal numbers with units. The arithmetic is on
  64-bit unsigned values, with the limits the library checks.
\<close>

text \<open>The units; the micro sign and the Greek mu are two bytes in UTF-8.\<close>

definition duration_unit :: "string \<Rightarrow> int option" where
  "duration_unit u =
     (if u = ''ns'' then Some 1
      else if u = ''us'' \<or> u = [CHR 0xC2, CHR 0xB5, CHR ''s''] \<or> u = [CHR 0xCE, CHR 0xBC, CHR ''s'']
      then Some 1000
      else if u = ''ms'' then Some 1000000
      else if u = ''s'' then Some Second
      else if u = ''m'' then Some Minute
      else if u = ''h'' then Some Hour
      else None)"

text \<open>\<open>leadingFraction\<close>: digits past 63 bits are read and ignored.\<close>

fun leading_fraction :: "string \<Rightarrow> int \<Rightarrow> nat \<Rightarrow> bool \<Rightarrow> int \<times> nat" where
  "leading_fraction [] x k over = (x, k)"
| "leading_fraction (c # cs) x k over =
     (if over \<or> x > (2 ^ 63 - 1) div 10 then leading_fraction cs x k True
      else let y = x * 10 + int (of_char c - 48)
           in if y > 2 ^ 63 then leading_fraction cs x k True else leading_fraction cs y (Suc k) False)"

definition fraction_value :: "int \<Rightarrow> nat \<Rightarrow> int \<Rightarrow> int" where
  "fraction_value f k unit =
     (case fmul (fint f) (fdiv (fint unit) (fint (10 ^ k))) of Fin r \<Rightarrow> \<lfloor>r\<rfloor> | _ \<Rightarrow> 0)"

text \<open>One number with its unit: its value and the rest of the text.\<close>

definition parse_component :: "string \<Rightarrow> (int \<times> string) option" where
  "parse_component s =
     (let ip = takeWhile is_digit s; r1 = dropWhile is_digit s;
          dot = (r1 \<noteq> [] \<and> hd r1 = CHR ''.'');
          fp = (if dot then takeWhile is_digit (tl r1) else []);
          r2 = (if dot then dropWhile is_digit (tl r1) else r1);
          u = takeWhile (\<lambda>c. \<not> (c = CHR ''.'' \<or> is_digit c)) r2;
          rest = dropWhile (\<lambda>c. \<not> (c = CHR ''.'' \<or> is_digit c)) r2;
          v = int (digits_value ip)
      in if ip = [] \<and> fp = [] \<or> v > 2 ^ 63 then None
         else case duration_unit u of
           None \<Rightarrow> None
         | Some unit \<Rightarrow>
             if v > 2 ^ 63 div unit then None
             else let (f, k) = leading_fraction fp 0 0 False;
                      v' = v * unit + (if f > 0 then fraction_value f k unit else 0)
                  in if f > 0 \<and> v' > 2 ^ 63 then None else Some (v', rest))"

lemma parse_component_shorter:
  assumes "parse_component s = Some (v, rest)"
  shows "length rest < length s"
proof -
  define ip r1 where "ip = takeWhile is_digit s" and "r1 = dropWhile is_digit s"
  define dot where "dot = (r1 \<noteq> [] \<and> hd r1 = CHR ''.'')"
  define fp r2 where "fp = (if dot then takeWhile is_digit (tl r1) else [])"
    and "r2 = (if dot then dropWhile is_digit (tl r1) else r1)"
  from assms have rest: "rest = dropWhile (\<lambda>c. \<not> (c = CHR ''.'' \<or> is_digit c)) r2"
    and some: "\<not> (ip = [] \<and> fp = [])"
    by (auto simp: parse_component_def Let_def ip_def r1_def dot_def fp_def r2_def
        split: option.splits prod.splits if_splits)
  have s: "length s = length ip + length r1"
    by (simp add: ip_def r1_def flip: length_append)
  have r1: "length fp + length r2 \<le> length r1" and "dot \<Longrightarrow> length fp + length r2 < length r1"
    by (auto simp: fp_def r2_def dot_def simp flip: length_append)
  then have "length r2 < length s" if "ip = []"
    using s some that by (cases dot) (auto simp: fp_def)
  moreover have "length r2 < length s" if "ip \<noteq> []"
    using s r1 that by (cases ip) auto
  ultimately have "length r2 < length s" by blast
  then show ?thesis
    using length_dropWhile_le [of "\<lambda>c. \<not> (c = CHR ''.'' \<or> is_digit c)" r2] by (simp add: rest)
qed

function parse_components :: "string \<Rightarrow> int \<Rightarrow> int option" where
  "parse_components s d =
     (if s = [] then Some d
      else case parse_component s of
        None \<Rightarrow> None
      | Some (v, rest) \<Rightarrow>
          let d' = (d + v) mod 2 ^ 64
          in if d' > 2 ^ 63 then None else parse_components rest d')"
  by auto
termination
  by (relation "measure (\<lambda>(s, d). length s)") (auto dest: parse_component_shorter)

declare parse_components.simps [simp del]

definition ParseDuration :: "string \<Rightarrow> duration option" where
  "ParseDuration text =
     (let signed = (text \<noteq> [] \<and> (hd text = CHR ''-'' \<or> hd text = CHR ''+''));
          neg = (text \<noteq> [] \<and> hd text = CHR ''-'');
          s = (if signed then tl text else text)
      in if s = ''0'' then Some 0
         else if s = '''' then None
         else case parse_components s 0 of
           None \<Rightarrow> None
         | Some d \<Rightarrow> if neg then Some (- d) else if d > 2 ^ 63 - 1 then None else Some d)"

end
