(* ===== verification/Metering.thy ===== *)
theory Metering
  imports Guard GoDuration
begin

text \<open>
  The workers of \<open>internal/app/app.go\<close>: the metering pass that records a period's usage, charges
  the owner and warns of pressure on the limits, and one tick of the billing guard with its
  system alert. The in-memory usage and transaction journals cannot fail.
\<close>

definition projectResourceLimits :: "string \<Rightarrow> int \<Rightarrow> f64 \<times> f64" where
  "projectResourceLimits profile replicas =
     (let count = (if replicas \<le> 0 then 1 else replicas); v = ToLower (TrimSpace profile)
      in if v = ''starter'' then (fmul (fl (3/10)) (fint count), fmul (fl (1/4)) (fint count))
         else if v = ''performance'' then (fmul (Fin 1) (fint count), fmul (Fin 1) (fint count))
         else (fmul (fl (1/2)) (fint count), fmul (fl (1/2)) (fint count)))"

definition dedicatedLoadBalancerHoursForUsage :: "Project \<Rightarrow> f64 \<Rightarrow> f64" where
  "dedicatedLoadBalancerHoursForUsage p periodHours =
     (if \<not> p_DedicatedLoadBalancer p \<or> \<not> EqualFold (TrimSpace (p_ServiceType p)) ''LoadBalancer''
      then Fin 0 else periodHours)"

text \<open>One of the two pressure checks: the alerts at 95 and at 80 percent of a limit.\<close>

definition pressure_alert ::
  "World \<Rightarrow> Project \<Rightarrow> f64 \<Rightarrow> f64 \<Rightarrow> string \<Rightarrow> Message \<Rightarrow> string \<Rightarrow> Message \<Rightarrow> Sys \<Rightarrow> Sys" where
  "pressure_alert w p used limit criticalKey critical warningKey warning s =
     (if \<not> flt (Fin 0) limit then s
      else (let ratio = fdiv used limit
            in if fle (fl (95/100)) ratio
               then snd (SendUserAlert w (p_OwnerID p) (criticalKey @ p_ID p) critical (2 * Hour) s)
               else if fle (fl (80/100)) ratio
               then snd (SendUserAlert w (p_OwnerID p) (warningKey @ p_ID p) warning (6 * Hour) s)
               else s))"

definition notifyResourcePressure :: "World \<Rightarrow> Project \<Rightarrow> ResourceSnapshot \<Rightarrow> Sys \<Rightarrow> Sys" where
  "notifyResourcePressure w p sn s =
     (if \<not> hasNotifications w then s
      else (let (cpuLimit, memoryLimit) = projectResourceLimits (p_ResourceProfile p) (p_ReplicaCount p);
                s = pressure_alert w p (sn_CPUCores sn) cpuLimit
                      ''cpu-critical:'' (MsgCpuCritical (p_Name p) (sn_CPUCores sn) cpuLimit)
                      ''cpu-warning:'' (MsgCpuWarning (p_Name p) (sn_CPUCores sn) cpuLimit) s
            in pressure_alert w p (sn_MemoryGB sn) memoryLimit
                 ''memory-critical:'' (MsgMemoryCritical (p_Name p) (sn_MemoryGB sn) memoryLimit)
                 ''memory-warning:'' (MsgMemoryWarning (p_Name p) (sn_MemoryGB sn) memoryLimit) s))"

definition usage_record :: "Project \<Rightarrow> ResourceSnapshot \<Rightarrow> string \<Rightarrow> gotime \<Rightarrow> gotime \<Rightarrow> ResourceUsage" where
  "usage_record p sn uid periodStart periodEnd =
     (let periodHours = Hours (periodEnd - periodStart)
      in \<lparr>ru_ID = uid, ru_ProjectID = p_ID p, ru_PeriodStart = periodStart, ru_PeriodEnd = periodEnd,
          ru_CPUCores = sn_CPUCores sn, ru_MemoryGB = sn_MemoryGB sn, ru_StorageGB = sn_StorageGB sn,
          ru_EgressGB = sn_EgressGBDelta sn, ru_ReplicaCount = sn_ReplicaCount sn,
          ru_PodUptimeHours = sn_PodUptimeHours sn,
          ru_CPUCoreHours = fmul (sn_CPUCores sn) periodHours,
          ru_MemoryGBHours = fmul (sn_MemoryGB sn) periodHours,
          ru_DedicatedLoadBalancerHours = dedicatedLoadBalancerHoursForUsage p periodHours,
          ru_RecordedAt = periodEnd\<rparr>)"

definition charge_entry :: "string \<Rightarrow> string \<Rightarrow> string \<Rightarrow> f64 \<Rightarrow> gotime \<Rightarrow> BillingTransaction" where
  "charge_entry tid uid pid cost t = \<lparr>tx_ID = tid, tx_UserID = uid, tx_ProjectID = pid,
     tx_Type = TCharge, tx_AmountRUB = fneg cost,
     tx_Description = ''resource usage charge for project '' @ pid, tx_CreatedAt = t\<rparr>"

text \<open>The charge of a recorded usage; the pressure check runs only after a charge.\<close>

definition charge_usage ::
  "World \<Rightarrow> Project \<Rightarrow> ResourceSnapshot \<Rightarrow> ResourceUsage \<Rightarrow> gotime \<Rightarrow> Sys \<Rightarrow> Sys" where
  "charge_usage w p sn usage periodEnd s =
     (let cost = Engine_ComputeUsageCost (monetization w) usage
      in if fle cost (Fin 0) then s
         else case UserStore_GetByID (y_users s) (p_OwnerID p) of
           None \<Rightarrow> s
         | Some u \<Rightarrow>
            (case UserStore_UpdateBalance (y_users s) (u_ID u) (fsub (u_BalanceRUB u) cost) of
               Inl e \<Rightarrow> s
             | Inr us \<Rightarrow>
                (let (tid, s) = fresh_id w (s\<lparr>y_users := us\<rparr>);
                     s = s\<lparr>y_txs := TxStore_Record (y_txs s)
                             (charge_entry tid (u_ID u) (p_ID p) cost periodEnd)\<rparr>
                 in notifyResourcePressure w p sn s)))"

definition collect_project :: "World \<Rightarrow> gotime \<Rightarrow> gotime \<Rightarrow> Project \<Rightarrow> Sys \<Rightarrow> Sys" where
  "collect_project w periodStart periodEnd p s =
     (if p_Status p \<noteq> PActive then s
      else (let (r, s) = call (ans_usage w) (CollectUsage (p_ID p)) s
            in case r of
                 Inl e \<Rightarrow> s
               | Inr sn \<Rightarrow>
                  (let (uid, s) = fresh_id w s;
                       usage = usage_record p sn uid periodStart periodEnd;
                       s = s\<lparr>y_usage := UsageStore_Record (y_usage s) usage\<rparr>
                   in charge_usage w p sn usage periodEnd s)))"

definition collectAndStoreUsage :: "World \<Rightarrow> gotime \<Rightarrow> gotime \<Rightarrow> Sys \<Rightarrow> Sys" where
  "collectAndStoreUsage w periodStart periodEnd s =
     (let (ord, s) = map_order w s
      in fold (collect_project w periodStart periodEnd) (ProjectStore_List ord (y_projects s)) s)"

text \<open>One tick of \<open>runBillingGuard\<close>: a failed pass is reported to the admins.\<close>

definition guard_tick :: "World \<Rightarrow> Sys \<Rightarrow> Sys" where
  "guard_tick w s =
     (let (err, s) = EnforceAllBillingGuards w s
      in case err of
           None \<Rightarrow> s
         | Some e \<Rightarrow> if hasNotifications w
             then snd (SendSystemAlert w ''system:billing-guard-failed''
                    (utf8 [91, 119, 97, 114, 110, 105, 110, 103, 93, 32, 208, 161, 208, 184, 209, 129, 209,
                       130, 208, 181, 208, 188, 208, 189, 209, 139, 208, 185, 32]
                     @ ''billing guard ''
                     @ utf8 [208, 183, 208, 176, 208, 178, 208, 181, 209, 128, 209, 136, 208, 184, 208, 187,
                       209, 129, 209, 143, 32, 209, 129, 32, 208, 190, 209, 136, 208, 184, 208, 177, 208,
                       186, 208, 190, 208, 185, 10] @ Error e) (10 * Minute) s)
             else s)"

text \<open>Configuration read from the environment.\<close>

definition systemTelegramAdminUsernames :: "string \<Rightarrow> string list" where
  "systemTelegramAdminUsernames env =
     (let raw = TrimSpace env
      in if raw = '''' then []
         else filter (\<lambda>v. v \<noteq> '''') (map TrimSpace (Split raw (CHR '',''))))"

text \<open>The durations of the workers; a value that does not parse leaves the default.\<close>

definition positive_or :: "duration \<Rightarrow> string \<Rightarrow> duration" where
  "positive_or dflt env =
     (let raw = TrimSpace env
      in if raw = '''' then dflt
         else case ParseDuration raw of None \<Rightarrow> dflt | Some d \<Rightarrow> if d > 0 then d else dflt)"

definition nonneg_or :: "duration \<Rightarrow> string \<Rightarrow> duration" where
  "nonneg_or dflt env =
     (let raw = TrimSpace env
      in if raw = '''' then dflt
         else case ParseDuration raw of None \<Rightarrow> dflt | Some d \<Rightarrow> if d \<ge> 0 then d else dflt)"

definition metricsCollectorInterval :: "string \<Rightarrow> duration" where
  "metricsCollectorInterval env = positive_or (5 * Minute) env"

definition billingGuardInterval :: "string \<Rightarrow> duration" where
  "billingGuardInterval env = positive_or (1 * Minute) env"

definition billingGuardGracePeriod :: "string \<Rightarrow> duration" where
  "billingGuardGracePeriod env = nonneg_or (24 * Hour) env"

definition billingGuardRetentionPeriod :: "string \<Rightarrow> duration" where
  "billingGuardRetentionPeriod env = nonneg_or (7 * 24 * Hour) env"

text \<open>The balance a new account starts with.\<close>

definition defaultBalance_from :: "string \<Rightarrow> f64" where
  "defaultBalance_from env =
     (let s = TrimSpace env
      in if s = '''' then Fin 0 else case ParseFloat s of None \<Rightarrow> Fin 0 | Some v \<Rightarrow> v)"

section \<open>What a pass leaves alone\<close>

lemma pressure_alert_core [simp]: "core_of (pressure_alert w p used limit ck c wk wm s) = core_of s"
  by (simp add: pressure_alert_def Let_def)

lemma notifyResourcePressure_core [simp]: "core_of (notifyResourcePressure w p sn s) = core_of s"
  by (simp add: notifyResourcePressure_def split_beta Let_def)

lemmas pressure_fields [simp] = core_of_eqD [OF notifyResourcePressure_core]

lemma charge_usage_usage [simp]:
  "y_usage (charge_usage w p sn u t s) = y_usage s" "y_projects (charge_usage w p sn u t s) = y_projects s"
  "y_stages (charge_usage w p sn u t s) = y_stages s" "y_releases (charge_usage w p sn u t s) = y_releases s"
  "pendingCharges (charge_usage w p sn u t s) = pendingCharges s"
  "graceStartedAt (charge_usage w p sn u t s) = graceStartedAt s" "goroutines (charge_usage w p sn u t s) = goroutines s"
  by (auto simp: charge_usage_def fresh_id_def Let_def split: option.split sum.split)

text \<open>What a pass over some projects records.\<close>

definition meters :: "Project list \<Rightarrow> Sys \<Rightarrow> Sys \<Rightarrow> bool" where
  "meters ps s s' \<longleftrightarrow> (\<exists>new. y_usage s' = y_usage s @ new
     \<and> subseq (map ru_ProjectID new) (map p_ID (filter (\<lambda>p. p_Status p = PActive) ps)))
     \<and> y_projects s' = y_projects s \<and> y_stages s' = y_stages s \<and> y_releases s' = y_releases s"

lemma collect_project_meters: "meters [p] s (collect_project w a b p s)"
  by (auto simp: meters_def collect_project_def call_def fresh_id_def UsageStore_Record_def usage_record_def Let_def
      split: sum.split)

lemma meters_step: "meters [p] s s1 \<Longrightarrow> meters ps s1 s2 \<Longrightarrow> meters (p # ps) s s2"
proof -
  assume "meters [p] s s1" "meters ps s1 s2"
  then obtain m n where mn: "y_usage s1 = y_usage s @ m" "y_usage s2 = y_usage s1 @ n"
      "subseq (map ru_ProjectID m) (map p_ID (filter (\<lambda>p. p_Status p = PActive) [p]))"
      "subseq (map ru_ProjectID n) (map p_ID (filter (\<lambda>p. p_Status p = PActive) ps))"
      "y_projects s2 = y_projects s" "y_stages s2 = y_stages s" "y_releases s2 = y_releases s"
    by (auto simp: meters_def)
  have "subseq (map ru_ProjectID m @ map ru_ProjectID n)
      (map p_ID (filter (\<lambda>p. p_Status p = PActive) [p]) @ map p_ID (filter (\<lambda>p. p_Status p = PActive) ps))"
    using mn(3,4) by (rule list_emb_append_mono)
  then have "subseq (map ru_ProjectID (m @ n)) (map p_ID (filter (\<lambda>p. p_Status p = PActive) (p # ps)))"
    by (simp split: if_splits)
  with mn show ?thesis unfolding meters_def by (intro conjI exI [of _ "m @ n"]) simp_all
qed

lemma fold_meters: "meters ps s (fold (collect_project w a b) ps s)"
proof (induction ps arbitrary: s)
  case Nil
  show ?case by (simp add: meters_def)
next
  case (Cons p ps)
  from meters_step [OF collect_project_meters Cons.IH] show ?case by simp
qed

section \<open>Properties\<close>


text \<open>Only running projects are metered: a pass appends usage records, at most one for each project, all for
  projects that were active when it started, and changes no project, stage or release.\<close>

theorem pass_meters_active_projects:
  "\<exists>new. y_usage (collectAndStoreUsage w a b s) = y_usage s @ new
    \<and> subseq (map ru_ProjectID new) (map p_ID (filter (\<lambda>p. p_Status p = PActive)
        (ProjectStore_List (rank w (tick s)) (y_projects s))))
    \<and> y_projects (collectAndStoreUsage w a b s) = y_projects s
    \<and> y_stages (collectAndStoreUsage w a b s) = y_stages s
    \<and> y_releases (collectAndStoreUsage w a b s) = y_releases s"
  using fold_meters [of "ProjectStore_List (rank w (tick s)) (y_projects s)" "s\<lparr>tick := Suc (tick s)\<rparr>" w a b]
  by (simp add: collectAndStoreUsage_def map_order_def meters_def)

text \<open>Usage is paid twice: the pass takes the cost from the balance, and the available funds then subtract the
  month's spend, which counts the same usage. Here 1 RUB of usage lowers 100 RUB of available funds to 98.\<close>

definition hour_of_cpu :: ResourceSnapshot where
  "hour_of_cpu = \<lparr>sn_CPUCores = Fin 1, sn_MemoryGB = Fin 0, sn_StorageGB = Fin 0, sn_EgressGBDelta = Fin 0,
     sn_ReplicaCount = 1, sn_PodUptimeHours = Fin 1\<rparr>"

definition metered_world :: World where
  "metered_world = calm_world\<lparr>ans_usage := (\<lambda>n c. Inr hour_of_cpu), clock := (\<lambda>n. 2 * Hour)\<rparr>"

definition metered_sys :: Sys where
  "metered_sys = rich_sys\<lparr>y_projects := [(''p1'', sample_project)]\<rparr>"

lemma usage_is_paid_twice:
  "available_funds metered_world (sample_user\<lparr>u_BalanceRUB := Fin 99\<rparr>) ''u1''
     (collectAndStoreUsage metered_world Hour (2 * Hour) metered_sys) = Fin 98"
  by code_simp

lemma metered_user: "user_store_ok (y_users metered_sys)"
    "UserStore_GetByID (y_users metered_sys) ''u1'' = Some (sample_user\<lparr>u_BalanceRUB := Fin 100\<rparr>)"
proof -
  let ?v = "sample_user\<lparr>u_BalanceRUB := Fin 100\<rparr>"
  have id: "u_ID ?v = ''u1''" by (simp add: sample_user_def)
  have "user_store_ok (us_write NewUserStore (u_ID ?v) ?v)"
    by (rule user_store_ok_create [OF user_store_ok_New]) (simp_all add: NewUserStore_def)
  then show "user_store_ok (y_users metered_sys)" unfolding id by (simp add: metered_sys_def rich_sys_def)
  show "UserStore_GetByID (y_users metered_sys) ''u1'' = Some ?v"
    using rich_user by (simp add: metered_sys_def sample_project_def)
qed

lemma hour_cost:
  "Engine_ComputeUsageCost (monetization metered_world) (usage_record sample_project hour_of_cpu ''r1'' 0 Hour) = Fin 1"
  by code_simp


end
