(* ===== verification/Server.thy ===== *)
theory Server
  imports Handlers Metering
begin

text \<open>
  The running server as a transition system: one step is a request, a scheduled background goroutine, a
  pass of the metering worker or a tick of the billing guard, each run to its end. Every operation of the
  services is shown to be a \<open>good\<close> run: it keeps the invariant of the state and only lets it evolve, so
  that the properties of all reachable states follow by rule induction. What happens between two operations
  that interleave is not a step of this system; \<open>Accounts\<close> has the case of two top-ups.
\<close>

section \<open>The invariant and the evolution of the state\<close>

text \<open>Identifiers are drawn from random bytes: the world never gives one twice.\<close>

definition ids_unique :: "World \<Rightarrow> bool" where
  "ids_unique w \<longleftrightarrow> inj (newID w)"

definition owned_by :: "Sys \<Rightarrow> string \<Rightarrow> string \<Rightarrow> bool" where
  "owned_by s pid uid \<longleftrightarrow> map_option p_OwnerID (ProjectStore_GetByID (y_projects s) pid) = Some uid"

definition has_email :: "Sys \<Rightarrow> string \<Rightarrow> string \<Rightarrow> bool" where
  "has_email s uid email \<longleftrightarrow> map_option u_Email (UserStore_GetByID (y_users s) uid) = Some email"

definition handled :: "Sys \<Rightarrow> string \<Rightarrow> bool" where
  "handled s yid \<longleftrightarrow> map_option yk_Status (PaymentStore_GetByYooKassaID (y_payments s) yid) = Some YKSucceeded"

text \<open>The stored project of an identifier has the owner that a value in memory names.\<close>

definition fits :: "Sys \<Rightarrow> Project \<Rightarrow> bool" where
  "fits s p \<longleftrightarrow> owned_by s (p_ID p) (p_OwnerID p)"

definition sys_ok :: "World \<Rightarrow> Sys \<Rightarrow> bool" where
  "sys_ok w s \<longleftrightarrow> ids_unique w \<and> project_store_ok (y_projects s) \<and> stage_store_ok (y_stages s)
     \<and> release_store_ok (y_releases s) \<and> user_store_ok (y_users s)
     \<and> (\<forall>uid email. has_email s uid email \<longrightarrow> (\<exists>n < tick s. uid = newID w n))
     \<and> (\<forall>p \<in> set (goroutines s). fits s p)"

text \<open>
  What never changes or only grows: the clock and the calls made, the two journals, the projects with
  their owners, the accounts with their email addresses, and the payments that were handled.
\<close>

definition evolves :: "Sys \<Rightarrow> Sys \<Rightarrow> bool" where
  "evolves s t \<longleftrightarrow> tick s \<le> tick t \<and> prefix (trace s) (trace t)
     \<and> prefix (y_txs s) (y_txs t) \<and> prefix (y_usage s) (y_usage t)
     \<and> (\<forall>pid uid. owned_by s pid uid \<longrightarrow> owned_by t pid uid)
     \<and> (\<forall>uid email. has_email s uid email \<longrightarrow> has_email t uid email)
     \<and> (\<forall>yid. handled s yid \<longrightarrow> handled t yid)"

definition good :: "World \<Rightarrow> Sys \<Rightarrow> Sys \<Rightarrow> bool" where
  "good w s t \<longleftrightarrow> sys_ok w t \<and> evolves s t"

lemma evolves_refl [simp]: "evolves s s"
  by (simp add: evolves_def)

lemma evolves_trans: "evolves s t \<Longrightarrow> evolves t u \<Longrightarrow> evolves s u"
  unfolding evolves_def by (meson order.trans prefix_order.trans)

lemma good_refl: "sys_ok w s \<Longrightarrow> good w s s"
  by (simp add: good_def)

lemma good_ok: "good w s0 s \<Longrightarrow> sys_ok w s"
  by (simp add: good_def)

lemma good_trans: "good w s0 s \<Longrightarrow> good w s t \<Longrightarrow> good w s0 t"
  by (auto simp: good_def intro: evolves_trans)

text \<open>An operation is checked from the state it starts in.\<close>

lemma good_start: "good w s0 s \<Longrightarrow> (sys_ok w s \<Longrightarrow> good w s s \<Longrightarrow> good w s t) \<Longrightarrow> good w s0 t"
  using good_trans good_ok good_refl by blast

lemma fits_later: "fits s p \<Longrightarrow> p_ID q = p_ID p \<Longrightarrow> p_OwnerID q = p_OwnerID p \<Longrightarrow> good w s t \<Longrightarrow> fits t q"
  by (simp add: fits_def good_def evolves_def)

lemma fits_stored:
  assumes "sys_ok w s" and "ProjectStore_GetByID (y_projects s) pid = Some p"
    and "p_ID q = p_ID p" and "p_OwnerID q = p_OwnerID p" and "good w s t"
  shows "fits t q"
proof -
  have "p_ID p = pid"
    using assms(1,2) by (auto simp: sys_ok_def ProjectStore_GetByID_def project_store_ok_get)
  with assms(2) have "fits s p" by (simp add: fits_def owned_by_def)
  then show ?thesis by (rule fits_later) (rule assms)+
qed

lemma fits_owned:
  "sys_ok w s \<Longrightarrow> owned_project pid uid s = Inr p \<Longrightarrow> p_ID q = p_ID p \<Longrightarrow> p_OwnerID q = p_OwnerID p \<Longrightarrow> good w s t \<Longrightarrow> fits t q"
  by (auto simp: owned_project_def intro: fits_stored split: option.splits if_splits)

lemma fits_owned_stage:
  "sys_ok w s \<Longrightarrow> owned_stage pid sid uid s = Inr y \<Longrightarrow> y = (p, st) \<Longrightarrow> p_ID q = p_ID p \<Longrightarrow> p_OwnerID q = p_OwnerID p
     \<Longrightarrow> good w s t \<Longrightarrow> fits t q"
  by (auto simp: owned_stage_def intro: fits_owned split: option.splits if_splits sum.splits)

lemma fits_listed:
  assumes "sys_ok w s" and "p \<in> set (ProjectStore_List ord (y_projects s))"
  shows "fits s p"
proof -
  have "map_of (y_projects s) (p_ID p) = Some p"
    using assms by (auto simp: sys_ok_def project_store_ok_def gomap_ok_def ProjectStore_List_def)
  then show ?thesis by (simp add: fits_def owned_by_def ProjectStore_GetByID_def)
qed

section \<open>Rules that follow the code of an operation\<close>

named_theorems written \<open>what a write of a store gives\<close>
named_theorems run_rule \<open>rules that take a run of the code apart, and the operations already checked\<close>

lemma good_bind:
  assumes "good w s0 (snd m)" and "\<And>r t. good w s0 t \<Longrightarrow> m = (r, t) \<Longrightarrow> good w s0 (snd (f r t))"
  shows "good w s0 (snd (let (r, t) = m in f r t))"
  using assms(2) [OF assms(1)] by (simp add: split_beta)

lemma good_bind_state:
  assumes "good w s0 (snd m)" and "\<And>r t. good w s0 t \<Longrightarrow> m = (r, t) \<Longrightarrow> good w s0 (f r t)"
  shows "good w s0 (let (r, t) = m in f r t)"
  using assms(2) [OF assms(1)] by (simp add: split_beta)

lemma good_bind_inner:
  assumes "good w s0 (snd m)" and "\<And>r t. good w s0 t \<Longrightarrow> m = (r, t) \<Longrightarrow> good w s0 (snd (snd (f r t)))"
  shows "good w s0 (snd (snd (let (r, t) = m in f r t)))"
  using assms(2) [OF assms(1)] by (simp add: split_beta)

lemma good_bind_triple:
  assumes "good w s0 (snd (snd m))"
    and "\<And>a b t. good w s0 t \<Longrightarrow> m = (a, b, t) \<Longrightarrow> good w s0 (snd (f a b t))"
  shows "good w s0 (snd (let (a, b, t) = m in f a b t))"
  using assms(2) [OF assms(1)] by (simp add: split_beta)

lemma good_let: "good w s0 (snd (f v)) \<Longrightarrow> good w s0 (snd (Let v f))" "good w s0 (g v) \<Longrightarrow> good w s0 (Let v g)"
  "good w s0 (snd (snd (h v))) \<Longrightarrow> good w s0 (snd (snd (Let v h)))"
  by simp_all

lemma good_pair: "good w s0 s \<Longrightarrow> good w s0 (snd (r, s))" "good w s0 s \<Longrightarrow> good w s0 (snd (snd (a, b, s)))"
  by simp_all

lemma good_prod:
  "(\<And>a b. x = (a, b) \<Longrightarrow> good w s0 (snd (f a b))) \<Longrightarrow> good w s0 (snd (case_prod f x))"
  "(\<And>a b. x = (a, b) \<Longrightarrow> good w s0 (g a b)) \<Longrightarrow> good w s0 (case_prod g x)"
  "(\<And>a b. x = (a, b) \<Longrightarrow> good w s0 (snd (h a b t))) \<Longrightarrow> good w s0 (snd (case_prod h x t))"
  by (cases x; simp)+

lemma good_if:
  "(c \<Longrightarrow> good w s0 (snd a)) \<Longrightarrow> (\<not> c \<Longrightarrow> good w s0 (snd b)) \<Longrightarrow> good w s0 (snd (if c then a else b))"
  "(c \<Longrightarrow> good w s0 (snd (snd a'))) \<Longrightarrow> (\<not> c \<Longrightarrow> good w s0 (snd (snd b'))) \<Longrightarrow> good w s0 (snd (snd (if c then a' else b')))"
  "(c \<Longrightarrow> good w s0 s) \<Longrightarrow> (\<not> c \<Longrightarrow> good w s0 t) \<Longrightarrow> good w s0 (if c then s else t)"
  by simp_all

lemma good_option:
  "(x = None \<Longrightarrow> good w s0 (snd a)) \<Longrightarrow> (\<And>y. x = Some y \<Longrightarrow> good w s0 (snd (f y)))
     \<Longrightarrow> good w s0 (snd (case x of None \<Rightarrow> a | Some y \<Rightarrow> f y))"
  "(x = None \<Longrightarrow> good w s0 s) \<Longrightarrow> (\<And>y. x = Some y \<Longrightarrow> good w s0 (g y))
     \<Longrightarrow> good w s0 (case x of None \<Rightarrow> s | Some y \<Rightarrow> g y)"
  by (cases x; simp)+

lemma good_sum:
  "(\<And>e. x = Inl e \<Longrightarrow> good w s0 (snd (a e))) \<Longrightarrow> (\<And>y. x = Inr y \<Longrightarrow> good w s0 (snd (f y)))
     \<Longrightarrow> good w s0 (snd (case x of Inl e \<Rightarrow> a e | Inr y \<Rightarrow> f y))"
  "(\<And>e. x = Inl e \<Longrightarrow> good w s0 (b e)) \<Longrightarrow> (\<And>y. x = Inr y \<Longrightarrow> good w s0 (g y))
     \<Longrightarrow> good w s0 (case x of Inl e \<Rightarrow> b e | Inr y \<Rightarrow> g y)"
  by (cases x; simp)+

lemmas code_shape = good_bind good_bind_state good_bind_inner good_bind_triple good_let good_pair good_prod good_if good_option good_sum

text \<open>A change of the state outside the stores.\<close>

lemma good_frame:
  assumes "good w s0 s" and "y_projects t = y_projects s" "y_stages t = y_stages s" "y_releases t = y_releases s"
    "y_users t = y_users s" "y_txs t = y_txs s" "y_usage t = y_usage s" "y_payments t = y_payments s"
    "goroutines t = goroutines s" "tick s \<le> tick t" "prefix (trace s) (trace t)"
  shows "good w s0 t"
proof (rule good_trans [OF assms(1)])
  have later: "\<exists>n < tick t. uid = newID w n" if "\<exists>n < tick s. uid = newID w n" for uid
    using that assms(10) order_less_le_trans by blast
  from good_ok [OF assms(1)] have "sys_ok w t"
    using assms(2-9) later by (simp add: sys_ok_def fits_def owned_by_def has_email_def)
  with assms show "good w s t"
    by (simp add: good_def evolves_def owned_by_def has_email_def handled_def)
qed

lemma good_primitive [run_rule]:
  assumes "good w s0 s"
  shows "good w s0 (snd (now v s))" "good w s0 (snd (fresh_id v s))" "good w s0 (snd (fresh_code v s))"
    "good w s0 (snd (map_order v s))" "good w s0 (snd (call ans c s))"
    "good w s0 (s\<lparr>tick := Suc (tick s)\<rparr>)" "good w s0 (s\<lparr>deliveredUntil := d\<rparr>)"
    "good w s0 (s\<lparr>pendingCharges := ch\<rparr>)" "good w s0 (s\<lparr>graceStartedAt := g\<rparr>)" "good w s0 (s\<lparr>urlsCache := u\<rparr>)"
  by (rule good_frame [OF assms]; simp add: go_step)+

section \<open>Writes to the stores\<close>

text \<open>A projects store after a write: nothing lost, no owner changed.\<close>

definition projects_kept :: "ProjectStore \<Rightarrow> ProjectStore \<Rightarrow> bool" where
  "projects_kept st st' \<longleftrightarrow> (project_store_ok st \<longrightarrow> project_store_ok st')
     \<and> (\<forall>k. map_option p_OwnerID (ProjectStore_GetByID st k) \<noteq> None \<longrightarrow>
          map_option p_OwnerID (ProjectStore_GetByID st' k) = map_option p_OwnerID (ProjectStore_GetByID st k))"

lemma good_projects:
  assumes "good w s0 s" and "projects_kept (y_projects s) st"
  shows "good w s0 (s\<lparr>y_projects := st\<rparr>)"
proof (rule good_trans [OF assms(1)])
  have keep: "owned_by (s\<lparr>y_projects := st\<rparr>) k uid" if "owned_by s k uid" for k uid
    using that assms(2) by (auto simp: projects_kept_def owned_by_def)
  then have "fits (s\<lparr>y_projects := st\<rparr>) p" if "fits s p" for p
    using that by (simp add: fits_def)
  with keep good_ok [OF assms(1)] assms(2) show "good w s (s\<lparr>y_projects := st\<rparr>)"
    by (auto simp: good_def sys_ok_def evolves_def projects_kept_def has_email_def handled_def)
qed


lemma kept_write:
  assumes "\<And>old. map_of st k = Some old \<Longrightarrow> p_OwnerID p = p_OwnerID old" and "p_ID p = k"
  shows "projects_kept st (AList.update k p st)"
  using assms by (auto simp: projects_kept_def ProjectStore_GetByID_def project_store_ok_write)

lemma good_update_project [run_rule]:
  assumes "good w s0 s" and "fits s p"
  shows "good w s0 (snd (update_project p s))" "good w s0 (update_project_quietly p s)"
proof -
  have "projects_kept (y_projects s) st" if "ProjectStore_Update (y_projects s) p = Inr st" for st
    using that assms(2)
    by (auto simp: ProjectStore_Update_def fits_def owned_by_def ProjectStore_GetByID_def
        intro!: kept_write split: option.splits)
  with assms(1) show "good w s0 (snd (update_project p s))" "good w s0 (update_project_quietly p s)"
    by (auto simp: update_project_def update_project_quietly_def intro!: good_projects split: sum.splits)
qed

lemma good_secret_writes [written]:
  "ProjectStore_UpdateKubeconfig (y_projects s) k v = Inr st \<Longrightarrow> good w s0 s \<Longrightarrow> good w s0 (s\<lparr>y_projects := st\<rparr>)"
  "ProjectStore_UpdateGitHubToken (y_projects s) k v = Inr st \<Longrightarrow> good w s0 s \<Longrightarrow> good w s0 (s\<lparr>y_projects := st\<rparr>)"
proof -
  have key: "p_ID p = k" if "good w s0 s" "map_of (y_projects s) k = Some p" for p
    using good_ok [OF that(1)] that(2) by (auto simp: sys_ok_def project_store_ok_get)
  show "ProjectStore_UpdateKubeconfig (y_projects s) k v = Inr st \<Longrightarrow> good w s0 s \<Longrightarrow> good w s0 (s\<lparr>y_projects := st\<rparr>)"
    and "ProjectStore_UpdateGitHubToken (y_projects s) k v = Inr st \<Longrightarrow> good w s0 s \<Longrightarrow> good w s0 (s\<lparr>y_projects := st\<rparr>)"
    by (auto simp: ProjectStore_UpdateKubeconfig_def ProjectStore_UpdateGitHubToken_def key
        intro!: good_projects kept_write split: option.splits)
qed

lemma good_stages [run_rule]:
  assumes "good w s0 s"
  shows "good w s0 (put_stage st s)" "good w s0 (s\<lparr>y_stages := StageStore_Create (y_stages s) st\<rparr>)"
  using assms
  by (auto simp: good_def sys_ok_def evolves_def put_stage_def stage_store_ok_write fits_def owned_by_def
      has_email_def handled_def)

lemma good_releases [run_rule]:
  assumes "good w s0 s" and "may_write (y_releases s) r"
  shows "good w s0 (put_release r s)" "good w s0 (create_release r s)"
  using assms put_release_ok [of s r] create_release_ok [of s r]
  by (auto simp: good_def sys_ok_def evolves_def put_release_def create_release_def fits_def owned_by_def
      has_email_def handled_def)

text \<open>A users store after a write: nobody lost, no email address changed, nobody new.\<close>

definition users_kept :: "UserStore \<Rightarrow> UserStore \<Rightarrow> bool" where
  "users_kept st st' \<longleftrightarrow> (user_store_ok st \<longrightarrow> user_store_ok st'
     \<and> (\<forall>k. map_option u_Email (UserStore_GetByID st' k) = map_option u_Email (UserStore_GetByID st k)))"

lemma users_kept_write:
  "map_of (us_byID st) uid = Some u \<Longrightarrow> u_ID v = u_ID u \<Longrightarrow> u_Email v = u_Email u \<Longrightarrow> users_kept st (us_write st uid v)"
  by (auto simp: users_kept_def UserStore_GetByID_def intro: user_store_ok_rewrite)

lemma users_kept_ops [written]:
  "UserStore_UpdateBalance st uid b = Inr st' \<Longrightarrow> users_kept st st'"
  "UserStore_UpdateGitHubToken st uid enc = Inr st' \<Longrightarrow> users_kept st st'"
  "UserStore_UpdateTelegramSettings st uid n c e x = Inr st' \<Longrightarrow> users_kept st st'"
  "UserStore_LinkTelegramChat st uid chat t = Inr st' \<Longrightarrow> users_kept st st'"
  "UserStore_DisableTelegramNotifications st uid = Inr st' \<Longrightarrow> users_kept st st'"
  "UserStore_ClearTelegramSettings st uid = Inr st' \<Longrightarrow> users_kept st st'"
  by (auto simp: user_store_defs telegram_cleared_def Let_def split: option.splits if_splits intro!: users_kept_write)

lemma good_users [run_rule]:
  assumes "good w s0 s" and "users_kept (y_users s) us"
  shows "good w s0 (s\<lparr>y_users := us\<rparr>)"
proof (rule good_trans [OF assms(1)])
  from good_ok [OF assms(1)] assms(2) show "good w s (s\<lparr>y_users := us\<rparr>)"
    by (simp add: good_def sys_ok_def evolves_def users_kept_def fits_def owned_by_def has_email_def handled_def)
qed

lemma good_journals [run_rule]:
  assumes "good w s0 s"
  shows "good w s0 (s\<lparr>y_txs := TxStore_Record (y_txs s) tx\<rparr>)"
    "good w s0 (s\<lparr>y_usage := UsageStore_Record (y_usage s) u\<rparr>)"
  using assms
  by (auto simp: good_def sys_ok_def evolves_def TxStore_Record_def UsageStore_Record_def fits_def owned_by_def
      has_email_def handled_def)

lemma handled_create:
  "handled s yid \<Longrightarrow> handled (s\<lparr>y_payments := PaymentStore_Create (y_payments s) p\<rparr>) yid"
proof -
  have "find P (xs @ ys) = (case find P xs of None \<Rightarrow> find P ys | Some x \<Rightarrow> Some x)" for P and xs ys :: "YooKassaPayment list"
    by (induction xs) auto
  then show "handled s yid \<Longrightarrow> ?thesis"
    by (auto simp: handled_def PaymentStore_GetByYooKassaID_def PaymentStore_Create_def split: option.splits)
qed

lemma handled_mark:
  "handled s yid \<Longrightarrow> handled (s\<lparr>y_payments := PaymentStore_MarkSucceeded t (y_payments s) yid'\<rparr>) yid"
  by (cases "yid = yid'") (auto simp: handled_def MarkSucceeded_get MarkSucceeded_other)

lemma good_payments [run_rule]:
  assumes "good w s0 s"
  shows "good w s0 (s\<lparr>y_payments := PaymentStore_Create (y_payments s) p\<rparr>)"
    "good w s0 (s\<lparr>y_payments := PaymentStore_MarkSucceeded t (y_payments s) yid\<rparr>)"
  using assms handled_create handled_mark
  by (auto simp: good_def sys_ok_def evolves_def fits_def owned_by_def has_email_def)

section \<open>Notifications\<close>

lemma good_send [run_rule]:
  "good w s0 s \<Longrightarrow> good w s0 (snd (send v c m s))"
  unfolding send_def
  by (rule code_shape run_rule | assumption | erule written)+

lemma good_settings [run_rule]:
  "good w s0 s \<Longrightarrow> good w s0 (snd (reply v c m s))"
  "good w s0 s \<Longrightarrow> good w s0 (snd (SendUserAlert v uid k m ttl s))"
  "good w s0 s \<Longrightarrow> good w s0 (snd (GetTelegramSettings v uid s))"
  "good w s0 s \<Longrightarrow> good w s0 (snd (ClearTelegramSettings v uid s))"
  "good w s0 s \<Longrightarrow> good w s0 (snd (UpdateTelegramSettings v uid req s))"
  unfolding reply_def SendUserAlert_def GetTelegramSettings_def ClearTelegramSettings_def UpdateTelegramSettings_def
  by (rule code_shape run_rule | assumption | erule written)+

lemma good_commands [run_rule]:
  "good w s0 s \<Longrightarrow> good w s0 (notifyUser v uid k m ttl s)"
  "good w s0 s \<Longrightarrow> good w s0 (snd (handleStart v chat sender txt s))"
  "good w s0 s \<Longrightarrow> good w s0 (snd (handleStop v chat s))"
  unfolding notifyUser_def handleStart_def handleStop_def
  by (rule code_shape run_rule | assumption | erule written)+

lemma good_HandleTelegramUpdate [run_rule]:
  "good w s0 s \<Longrightarrow> good w s0 (snd (HandleTelegramUpdate v u s))"
  unfolding HandleTelegramUpdate_def
  by (rule code_shape run_rule | assumption | erule written)+

lemma good_admin_alerts [run_rule]: "good w s0 s \<Longrightarrow> good w s0 (snd (admin_alerts v as k m ttl e s))"
proof (induction as arbitrary: e s)
  case (Cons a as)
  note rest = Cons.IH
  from Cons.prems show ?case
    by (simp only: admin_alerts.simps) (rule code_shape run_rule rest | assumption)+
qed simp

lemma good_SendSystemAlert [run_rule]:
  "good w s0 s \<Longrightarrow> good w s0 (snd (SendSystemAlert v k txt ttl s))"
  unfolding SendSystemAlert_def
  by (rule code_shape run_rule | assumption | erule written)+

section \<open>Accounts and billing\<close>

lemma good_account_reads [run_rule]:
  "good w s0 s \<Longrightarrow> good w s0 (snd (GetUser uid s))"
  "good w s0 s \<Longrightarrow> good w s0 (snd (topup_write v u uid amount s))"
  "good w s0 s \<Longrightarrow> good w s0 (snd (Login v req s))"
  "good w s0 s \<Longrightarrow> good w s0 (snd (InitiateTopUp v uid amount s))"
  unfolding GetUser_def topup_write_def Login_def InitiateTopUp_def
  by (rule code_shape run_rule | assumption | erule written)+

lemma good_TopUpBalance [run_rule]:
  "good w s0 s \<Longrightarrow> good w s0 (snd (TopUpBalance v uid amount s))"
  unfolding TopUpBalance_def
  by (rule code_shape run_rule | assumption | erule written)+

lemma good_HandleYooKassaWebhook [run_rule]:
  "good w s0 s \<Longrightarrow> good w s0 (snd (HandleYooKassaWebhook v yid s))"
  unfolding HandleYooKassaWebhook_def
  by (rule code_shape run_rule | assumption | erule written)+

lemma good_new_user:
  assumes "good w s0 s" and "u_ID u = newID w n" "n < tick s" "\<forall>uid email m. has_email s uid email \<longrightarrow> uid = newID w m \<longrightarrow> m < n"
    and "UserStore_Create (y_users s) u = Inr us"
  shows "good w s0 (s\<lparr>y_users := us\<rparr>)"
proof (rule good_trans [OF assms(1)])
  have ok: "sys_ok w s" by (rule good_ok [OF assms(1)])
  then have none: "map_of (us_byID (y_users s)) (u_ID u) = None"
  proof (cases "map_of (us_byID (y_users s)) (u_ID u)")
    case (Some old)
    then have "has_email s (u_ID u) (u_Email old)" by (simp add: has_email_def UserStore_GetByID_def)
    with assms(2,4) show ?thesis by blast
  qed simp
  have us: "us_byID us = AList.update (u_ID u) u (us_byID (y_users s))" "user_store_ok us"
    using assms(5) ok none
    by (auto simp: UserStore_Create_def sys_ok_def us_write_def intro: user_store_ok_create [unfolded us_write_def]
        split: option.splits if_splits)
  have keep: "has_email (s\<lparr>y_users := us\<rparr>) k e \<longleftrightarrow> (if k = u_ID u then e = u_Email u else has_email s k e)" for k e
    by (auto simp: has_email_def UserStore_GetByID_def us)
  have old: "has_email s k e \<Longrightarrow> k \<noteq> u_ID u" for k e
    using none by (auto simp: has_email_def UserStore_GetByID_def)
  show "good w s (s\<lparr>y_users := us\<rparr>)"
    using ok us(2) assms(2,3) old
    by (auto simp: good_def sys_ok_def evolves_def keep fits_def owned_by_def handled_def)
qed

lemma good_Register [run_rule]:
  assumes "good w s0 s"
  shows "good w s0 (snd (Register w req s))"
proof (rule good_start [OF assms])
  assume start: "sys_ok w s" "good w s s"
  have created: "good w s (t\<lparr>y_users := us, tick := Suc (tick t)\<rparr>)"
    if us: "UserStore_Create (y_users t) u = Inr us" and t: "good w s t"
      and n: "\<exists>n. u_ID u = newID w n \<and> y_users t = y_users s \<and> tick s \<le> n \<and> n < tick t" for t u us
  proof -
    from n obtain n where n: "u_ID u = newID w n" "y_users t = y_users s" "tick s \<le> n" "n < tick t" by blast
    have "m < n" if "has_email t uid email" "uid = newID w m" for uid email m
    proof -
      have "has_email s uid email" using that n(2) by (simp add: has_email_def)
      then obtain k where "k < tick s" "uid = newID w k" using start(1) by (auto simp: sys_ok_def)
      with that start(1) n(3) show ?thesis by (auto simp: sys_ok_def ids_unique_def dest: injD)
    qed
    then have "good w s (t\<lparr>y_users := us\<rparr>)" by (intro good_new_user [OF t n(1,4) _ us]) blast
    from good_primitive(6) [OF this] show ?thesis by simp
  qed
  show "good w s (snd (Register w req s))"
    using start unfolding Register_def
    by - (rule code_shape run_rule | assumption
      | erule created, assumption, (auto simp: fresh_id_def now_def fresh_code_def call_def split: if_splits) [1])+
qed

lemma good_billing_reads [run_rule]:
  "good w s0 s \<Longrightarrow> good w s0 (snd (listBillingProjects v uid s))"
  "good w s0 s \<Longrightarrow> good w s0 (snd (ensureGraceDeadlineLocked uid tt s))"
  unfolding listBillingProjects_def ensureGraceDeadlineLocked_def
  by (rule code_shape run_rule | assumption | erule written)+

lemma good_engine [run_rule]: "good w s0 s \<Longrightarrow> good w s0 (snd (Engine_GetProjectCost v pid s))"
  unfolding Engine_GetProjectCost_def
  by (cases "monetization v"; simp only: MonetizationEngine.case) (rule code_shape run_rule | assumption | simp)+

lemma good_spent [run_rule]: "good w s0 s \<Longrightarrow> good w s0 (snd (calculateUserSpentThisMonth v ps s))"
proof -
  have "good w s0 s \<Longrightarrow> good w s0 (snd (spent_loop v ps spent s))" for spent
  proof (induction ps arbitrary: spent s)
    case (Cons p ps)
    note rest = Cons.IH
    from Cons.prems show ?case
      by (simp only: spent_loop.simps) (rule code_shape run_rule rest | assumption)+
  qed simp
  then show "good w s0 s \<Longrightarrow> good w s0 (snd (calculateUserSpentThisMonth v ps s))"
    by (simp add: calculateUserSpentThisMonth_def)
qed

lemma good_loadBillingSnapshot [run_rule]:
  "good w s0 s \<Longrightarrow> good w s0 (snd (loadBillingSnapshot v uid ps s))"
  unfolding loadBillingSnapshot_def
  by (rule code_shape run_rule | assumption | erule written)+

lemma good_budget [run_rule]:
  "good w s0 s \<Longrightarrow> good w s0 (snd (loadBillingState v uid tt s))"
  "good w s0 s \<Longrightarrow> good w s0 (snd (reserveDeployBudget v p st d s))"
  unfolding loadBillingState_def reserveDeployBudget_def
  by (rule code_shape run_rule | assumption | erule written)+

lemma good_GetBillingSummary [run_rule]:
  "good w s0 s \<Longrightarrow> good w s0 (snd (GetBillingSummary v uid s))"
  unfolding GetBillingSummary_def
  by (rule code_shape run_rule | assumption | erule written)+

lemma good_releaseBudget [run_rule]: "good w s0 s \<Longrightarrow> good w s0 (snd (releaseBudget rel s))"
  unfolding releaseBudget_def by (cases rel; simp only: BudgetRelease.case) (rule code_shape run_rule | assumption)+

section \<open>Stages\<close>

lemma good_stage_reads [run_rule]:
  "good w s0 s \<Longrightarrow> good w s0 (invalidateProjectCaches pid s)"
  "good w s0 s \<Longrightarrow> good w s0 (snd (GetStage pid sid uid s))"
  "good w s0 s \<Longrightarrow> good w s0 (snd (ListProjectLogs v pid uid req s))"
  unfolding invalidateProjectCaches_def GetStage_def ListProjectLogs_def
  by (rule code_shape run_rule | assumption | erule written)+

lemma good_createStage [run_rule]:
  "good w s0 s \<Longrightarrow> good w s0 (snd (createStage v pid name slug s))"
  unfolding createStage_def
  by (rule code_shape run_rule | assumption | erule written)+

lemma good_stage_writes [run_rule]:
  "good w s0 s \<Longrightarrow> good w s0 (snd (getOrCreateProductionStage v pid s))"
  "good w s0 s \<Longrightarrow> good w s0 (snd (CreateStage v pid uid req s))"
  "good w s0 s \<Longrightarrow> good w s0 (snd (DeleteStage v pid sid uid s))"
  unfolding getOrCreateProductionStage_def CreateStage_def DeleteStage_def
  by (rule code_shape run_rule | assumption | erule written)+

lemma good_ListStages [run_rule]:
  "good w s0 s \<Longrightarrow> good w s0 (snd (ListStages v pid uid s))"
  unfolding ListStages_def
  by (rule code_shape run_rule | assumption | erule written)+

lemma good_learn_public_url [run_rule]:
  "good w s0 s \<Longrightarrow> fits s p \<Longrightarrow> good w s0 (learn_public_url v p st s)"
  unfolding learn_public_url_def
  by (rule good_start, assumption,
    ((rule code_shape run_rule | assumption
      | rule fits_stored fits_owned, assumption, assumption, (simp; fail), (simp; fail)
      | rule fits_owned_stage, assumption, assumption, assumption, (simp; fail), (simp; fail)
      | rule fits_later, assumption, (simp; fail), (simp; fail))+) [1])

lemma good_stage_status [run_rule]:
  "good w s0 s \<Longrightarrow> good w s0 (snd (GetStageRuntimeStatus v pid sid uid s))"
  unfolding GetStageRuntimeStatus_def
  by (rule good_start, assumption,
    ((rule code_shape run_rule | assumption
      | rule fits_stored fits_owned, assumption, assumption, (simp; fail), (simp; fail)
      | rule fits_owned_stage, assumption, assumption, assumption, (simp; fail), (simp; fail)
      | rule fits_later, assumption, (simp; fail), (simp; fail))+) [1])

lemma good_urls_loop [run_rule]: "good w s0 s \<Longrightarrow> good w s0 (snd (urls_loop v pid sts s))"
proof (induction sts arbitrary: s)
  case (Cons st sts)
  note rest = Cons.IH
  from Cons.prems show ?case
    by (simp only: urls_loop.simps) (rule code_shape run_rule rest | assumption)+
qed simp

lemma good_GetProjectURLs [run_rule]:
  "good w s0 s \<Longrightarrow> good w s0 (snd (GetProjectURLs v pid uid s))"
  unfolding GetProjectURLs_def
  by (rule code_shape run_rule | assumption | erule written)+

section \<open>Projects\<close>

lemma good_provision_attempts [run_rule]: "good w s0 s \<Longrightarrow> good w s0 (snd (provision_attempts v pid ds s))"
proof (induction ds arbitrary: s)
  case Nil
  then show ?case
    by (subst provision_attempts.simps) (rule code_shape run_rule | assumption | simp only: list.case)+
next
  case (Cons d ds)
  note rest = Cons.IH
  from Cons.prems show ?case
    by (subst provision_attempts.simps) (rule code_shape run_rule rest | assumption | simp only: list.case)+
qed

lemma good_createProjectEnvironmentWithRetry [run_rule]:
  "good w s0 s \<Longrightarrow> good w s0 (snd (createProjectEnvironmentWithRetry v pid s))"
  unfolding createProjectEnvironmentWithRetry_def
  by (rule code_shape run_rule | assumption | erule written)+

lemma good_mark_failed [run_rule]:
  "good w s0 s \<Longrightarrow> fits s p \<Longrightarrow> good w s0 (mark_failed v p reason s)"
  unfolding mark_failed_def
  by (rule good_start, assumption,
    ((rule code_shape run_rule | assumption
      | rule fits_stored fits_owned, assumption, assumption, (simp; fail), (simp; fail)
      | rule fits_owned_stage, assumption, assumption, assumption, (simp; fail), (simp; fail)
      | rule fits_later, assumption, (simp; fail), (simp; fail))+) [1])

lemma good_activate_project [run_rule]:
  assumes "good w s0 s" and "fits s p"
  shows "good w s0 (activate_project v p s)"
proof -
  let ?base = "case ProjectStore_GetByID (y_projects s) (p_ID p) of Some current \<Rightarrow> current | None \<Rightarrow> p"
  have "fits s ?base"
    using fits_stored [OF good_ok [OF assms(1)] _ _ _ good_refl [OF good_ok [OF assms(1)]]] assms(2)
    by (auto split: option.split)
  then have base: "fits t (?base\<lparr>p_Status := PActive, p_UpdatedAt := t'\<rparr>)" if "good w s t" for t t'
    by (rule fits_later) (use that in simp_all)
  show ?thesis
    by (rule good_start [OF assms(1)], unfold activate_project_def)
      (rule code_shape run_rule base | assumption)+
qed

lemma good_provisionProject [run_rule]:
  assumes "good w s0 s" and "fits s p"
  shows "good w s0 (provisionProject v p s)"
proof (rule good_start [OF assms(1)])
  assume start: "sys_ok w s" "good w s s"
  have later: "fits t q" if "p_ID q = p_ID p" "p_OwnerID q = p_OwnerID p" "good w s t" for q t
    by (rule fits_later [OF assms(2) that])
  obtain r t where r: "createProjectEnvironmentWithRetry v (p_ID p) s = (r, t)" by force
  have t: "good w s t" using good_createProjectEnvironmentWithRetry [OF start(2), of v "p_ID p"] r by simp
  have rest: "good w s (let (err, s) = call (ans_err v) (SetupProjectAutomation (p_ID q)) u
               in case err of Some e \<Rightarrow> mark_failed v q ''automation failed'' s | None \<Rightarrow> activate_project v q s)"
    if "p_ID q = p_ID p" "p_OwnerID q = p_OwnerID p" "good w s u" for q u
    by (rule code_shape run_rule later that | assumption)+
  show "good w s (provisionProject v p s)"
  proof (cases r)
    case (Inl e)
    then show ?thesis using r good_mark_failed [OF t later [OF refl refl t]] by (simp add: provisionProject_def)
  next
    case (Inr d)
    show ?thesis
    proof (cases "d = ''''")
      case True
      with rest [OF refl refl t] r Inr show ?thesis by (simp add: provisionProject_def)
    next
      case False
      let ?q = "p\<lparr>p_AppsBaseDomain := d\<rparr>"
      have "good w s (snd (update_project ?q t))"
        by (rule good_update_project(1) [OF t later [OF _ _ t]]) simp_all
      from rest [OF _ _ this, of ?q] False r Inr show ?thesis by (simp add: provisionProject_def Let_def)
    qed
  qed
qed

lemma good_CreateProject [run_rule]:
  assumes "good w s0 s"
  shows "good w s0 (snd (CreateProject v req s))"
proof -
  have "good w s0 (t\<lparr>y_projects := st, goroutines := goroutines t @ [p]\<rparr>)"
    if t: "good w s0 t" and st: "ProjectStore_Create (y_projects t) p = Inr st" for t st p
  proof -
    from st have "map_of (y_projects t) (p_ID p) = None" "st = AList.update (p_ID p) p (y_projects t)"
      by (auto simp: ProjectStore_Create_def split: option.splits)
    then have kept: "projects_kept (y_projects t) st" and own: "map_of st (p_ID p) = Some p"
      by (auto intro!: kept_write)
    have "good w s0 (t\<lparr>y_projects := st\<rparr>)" by (rule good_projects [OF t kept])
    with own show ?thesis
      by (auto simp: good_def sys_ok_def evolves_def fits_def owned_by_def has_email_def handled_def
          ProjectStore_GetByID_def)
  qed
  note created = this
  from assms show ?thesis
    unfolding CreateProject_def by - (rule code_shape run_rule | assumption | erule created [rotated])+
qed

lemma good_run_goroutine [run_rule]:
  assumes "good w s0 s"
  shows "good w s0 (run_goroutine v i s)"
proof -
  let ?t = "s\<lparr>goroutines := take i (goroutines s) @ drop (Suc i) (goroutines s)\<rparr>"
  have "good w s0 ?t"
    using assms
    by (auto simp: good_def sys_ok_def evolves_def fits_def owned_by_def has_email_def handled_def
        dest: in_set_takeD in_set_dropD)
  moreover have "fits ?t (goroutines s ! i)" if "i < length (goroutines s)"
    using good_ok [OF assms] that by (simp add: sys_ok_def fits_def owned_by_def)
  ultimately show ?thesis
    using assms by (simp add: run_goroutine_def good_provisionProject)
qed

lemma good_project_reads [run_rule]:
  "good w s0 s \<Longrightarrow> good w s0 (snd (GetProject v pid s))"
  "good w s0 s \<Longrightarrow> good w s0 (snd (ListProjects v s))"
  "good w s0 s \<Longrightarrow> good w s0 (snd (GetProjectCost v pid s))"
  "good w s0 s \<Longrightarrow> good w s0 (snd (ListBillingTransactions uid s))"
  "good w s0 s \<Longrightarrow> good w s0 (snd (ListProjectBillingTransactions pid uid s))"
  unfolding GetProject_def ListProjects_def GetProjectCost_def ListBillingTransactions_def
    ListProjectBillingTransactions_def
  by (rule code_shape run_rule | assumption | erule written)+

lemma good_project_writes [run_rule]:
  "good w s0 s \<Longrightarrow> good w s0 (snd (GetProjectRuntimeStatus v pid s))"
  "good w s0 s \<Longrightarrow> good w s0 (snd (SuspendProject v pid s))"
  "good w s0 s \<Longrightarrow> good w s0 (snd (ResumeProject v pid s))"
  "good w s0 s \<Longrightarrow> good w s0 (snd (DeleteProject v pid s))"
  "good w s0 s \<Longrightarrow> good w s0 (snd (UpdateProjectDeploymentSettings v pid req s))"
  unfolding GetProjectRuntimeStatus_def SuspendProject_def ResumeProject_def DeleteProject_def
    UpdateProjectDeploymentSettings_def
  by (rule good_start, assumption,
    ((rule code_shape run_rule | assumption
      | rule fits_stored fits_owned, assumption, assumption, (simp; fail), (simp; fail)
      | rule fits_owned_stage, assumption, assumption, assumption, (simp; fail), (simp; fail)
      | rule fits_later, assumption, (simp; fail), (simp; fail))+) [1])+

lemma good_fetch_kubeconfig [run_rule]:
  "good w s0 s \<Longrightarrow> good w s0 (snd (fetch_kubeconfig v pid s))"
  unfolding fetch_kubeconfig_def
  by (rule code_shape run_rule | assumption | erule written)+

lemma good_secrets [run_rule]:
  "good w s0 s \<Longrightarrow> good w s0 (snd (GetProjectKubeconfig v pid s))"
  "good w s0 s \<Longrightarrow> good w s0 (snd (RotateProjectKubeconfig v pid s))"
  "good w s0 s \<Longrightarrow> good w s0 (snd (GetServiceGitHubTokenStatus uid s))"
  "good w s0 s \<Longrightarrow> good w s0 (snd (UpsertServiceGitHubToken v uid token s))"
  "good w s0 s \<Longrightarrow> good w s0 (snd (DeleteServiceGitHubToken uid s))"
  "good w s0 s \<Longrightarrow> good w s0 (snd (GetProjectGitHubToken pid uid s))"
  "good w s0 s \<Longrightarrow> good w s0 (snd (UpsertProjectGitHubToken v pid uid token s))"
  "good w s0 s \<Longrightarrow> good w s0 (snd (DeleteProjectGitHubToken pid uid s))"
  "good w s0 s \<Longrightarrow> good w s0 (snd (serviceGitHubToken v uid s))"
  unfolding GetProjectKubeconfig_def RotateProjectKubeconfig_def GetServiceGitHubTokenStatus_def
    UpsertServiceGitHubToken_def DeleteServiceGitHubToken_def GetProjectGitHubToken_def
    UpsertProjectGitHubToken_def DeleteProjectGitHubToken_def serviceGitHubToken_def
  by (rule code_shape run_rule | assumption | erule written)+

lemma good_resolveGitHubToken [run_rule]:
  "good w s0 s \<Longrightarrow> good w s0 (snd (resolveGitHubToken v p s))"
  unfolding resolveGitHubToken_def
  by (rule code_shape run_rule | assumption | erule written)+

section \<open>The billing guard\<close>

lemma good_clearDeletionSchedule [run_rule]:
  "good w s0 s \<Longrightarrow> \<forall>p \<in> set ps. fits s p \<Longrightarrow> good w s0 (snd (clearDeletionSchedule v ps s))"
proof (induction ps arbitrary: s0 s)
  case (Cons p ps)
  have fits: "fits t q" if "p_ID q = p_ID p" "p_OwnerID q = p_OwnerID p" "good w s t" for q t
    using fits_later [of s p q] Cons.prems(2) that by simp
  have others: "\<forall>p \<in> set ps. fits t p" if "good w s t" for t
    using fits_later [of s] Cons.prems(2) that by auto
  note rest = Cons.IH
  show ?case
    by (rule good_start [OF Cons.prems(1)], simp only: clearDeletionSchedule.simps)
      (rule code_shape run_rule rest | assumption | rule others fits, (simp; fail)+)+
qed simp

lemma good_suspendProjectForNonPayment [run_rule]:
  "good w s0 s \<Longrightarrow> fits s p \<Longrightarrow> good w s0 (snd (suspendProjectForNonPayment v p tt d s))"
  unfolding suspendProjectForNonPayment_def
  by (rule code_shape run_rule | assumption | rule fits_later, assumption, simp, simp, rule good_refl, erule good_ok)+

lemma good_suspend_all [run_rule]:
  "good w s0 s \<Longrightarrow> \<forall>p \<in> set ps. fits s p \<Longrightarrow> good w s0 (snd (suspend_all v uid tt ps s))"
proof (induction ps arbitrary: s0 s)
  case (Cons p ps)
  have fits: "fits s p" using Cons.prems(2) by simp
  have others: "\<forall>p \<in> set ps. fits t p" if "good w s t" for t
    using fits_later [of s] Cons.prems(2) that by auto
  note rest = Cons.IH
  show ?case
    by (rule good_start [OF Cons.prems(1)], simp only: suspend_all.simps)
      (rule code_shape run_rule rest fits others | assumption)+
qed simp

lemma good_delete_all [run_rule]: "good w s0 s \<Longrightarrow> good w s0 (snd (delete_all v uid ps s))"
proof (induction ps arbitrary: s)
  case (Cons p ps)
  note rest = Cons.IH
  from Cons.prems show ?case
    by (simp only: delete_all.simps) (rule code_shape run_rule rest | assumption)+
qed simp

text \<open>The projects of a billing state were listed from the store.\<close>

lemma state_projects_fit:
  assumes "sys_ok w s" and "loadBillingState v uid tt s = (Inr st, t)"
  shows "\<forall>p \<in> set (st_Projects st). fits s p"
  using assms fits_listed [OF assms(1)]
  by (auto simp: loadBillingState_def listBillingProjects_def map_order_def Let_def split: sum.splits prod.splits)

lemma decided_projects: 
  "set (bd_suspendProjects (evaluateBillingGuard g st tt)) \<subseteq> set (st_Projects st)"
  by (auto simp: evaluateBillingGuard_def no_decision_def split: option.splits)

lemma good_applyBillingDecision [run_rule]:
  assumes "good w s0 s" "\<forall>p \<in> set (st_Projects st). fits s p" "set (bd_suspendProjects d) \<subseteq> set (st_Projects st)"
  shows "good w s0 (snd (applyBillingDecision v st d tt s))"
proof -
  have others: "\<forall>p \<in> set ps. fits t p" if "set ps \<subseteq> set (st_Projects st)" "good w s t" for ps t
    using assms(2) that(1) by (auto intro: fits_later [OF _ refl refl that(2)])
  show ?thesis
    by (rule good_start [OF assms(1)], unfold applyBillingDecision_def)
      (rule code_shape run_rule | assumption | rule others, (rule subset_refl assms(3)))+
qed

lemma good_EnforceBillingGuard [run_rule]:
  assumes "good w s0 s"
  shows "good w s0 (snd (EnforceBillingGuard v uid s))"
proof (rule good_start [OF assms])
  assume start: "sys_ok w s" "good w s s"
  obtain tt s1 where s1: "now v s = (tt, s1)" by force
  obtain r s2 where s2: "loadBillingState v uid tt s1 = (r, s2)" by force
  have g1: "good w s s1" using good_primitive(1) [OF start(2), of v] s1 by simp
  have g2: "good w s1 s2" using good_budget(1) [OF good_refl [OF good_ok [OF g1]], of v uid tt] s2 by simp
  show "good w s (snd (EnforceBillingGuard v uid s))"
  proof (cases r)
    case (Inr st)
    have "\<forall>p \<in> set (st_Projects st). fits s1 p"
      using state_projects_fit [OF good_ok [OF g1]] s2 Inr by blast
    then have "\<forall>p \<in> set (st_Projects st). fits s2 p"
      using fits_later [OF _ refl refl g2] by blast
    from good_applyBillingDecision [OF good_trans [OF g1 g2] this decided_projects] s1 s2 Inr show ?thesis
      by (simp add: EnforceBillingGuard_def)
  qed (use good_trans [OF g1 g2] s1 s2 in \<open>simp add: EnforceBillingGuard_def\<close>)
qed

lemma good_EnforceAllBillingGuards [run_rule]:
  assumes "good w s0 s"
  shows "good w s0 (snd (EnforceAllBillingGuards v s))"
proof -
  have loop: "good w s0 t \<Longrightarrow> good w s0 (snd (enforce_loop v ps seen t))" for ps seen t
  proof (induction ps arbitrary: seen t)
    case (Cons p ps)
    note rest = Cons.IH
    from Cons.prems show ?case
      by (simp only: enforce_loop.simps) (rule code_shape run_rule rest | assumption)+
  qed simp
  from assms show ?thesis
    unfolding EnforceAllBillingGuards_def by - (rule code_shape run_rule loop | assumption)+
qed

lemma good_guard_tick [run_rule]: "good w s0 s \<Longrightarrow> good w s0 (guard_tick v s)"
  unfolding guard_tick_def by (rule code_shape run_rule | assumption)+

section \<open>Releases\<close>

lemma good_resolveReleaseStageID [run_rule]: "good w s0 s \<Longrightarrow> good w s0 (snd (resolveReleaseStageID v pid slug s))"
  unfolding resolveReleaseStageID_def by (rule code_shape run_rule | assumption)+

lemma good_updateStageStatus [run_rule]: "good w s0 s \<Longrightarrow> good w s0 (updateStageStatusFromRelease v r s)"
  unfolding updateStageStatusFromRelease_def by (rule code_shape run_rule | assumption)+

lemma good_findPending [run_rule]: "good w s0 s \<Longrightarrow> good w s0 (snd (findPendingReleaseWithoutWorkflow v pid sid s))"
  unfolding findPendingReleaseWithoutWorkflow_def by (rule code_shape run_rule | assumption)+

lemma good_run_updated [run_rule]: "good w s0 s \<Longrightarrow> good w s0 (snd (run_updated v run s))"
  unfolding run_updated_def by (rule code_shape run_rule | assumption)+

lemma good_after_release [run_rule]: "good w s0 s \<Longrightarrow> good w s0 (after_release v pid r s)"
  unfolding after_release_def by (rule code_shape run_rule | assumption)+

text \<open>The releases, while the stages and the clock move.\<close>

lemma same_releases [dest]:
  "resolveReleaseStageID v pid slug s = (x, t) \<Longrightarrow> y_releases t = y_releases s"
  "findPendingReleaseWithoutWorkflow v pid x s = (y, t) \<Longrightarrow> y_releases t = y_releases s"
  "run_updated v run s = (z, t) \<Longrightarrow> y_releases t = y_releases s"
  "now v s = (z, t) \<Longrightarrow> y_releases t = y_releases s" "fresh_id v s = (x, t) \<Longrightarrow> y_releases t = y_releases s"
  "map_order v s = (ord, t) \<Longrightarrow> y_releases t = y_releases s" "call f c s = (a, t) \<Longrightarrow> y_releases t = y_releases s"
  by (auto dest!: arg_cong [where f = "\<lambda>m. y_releases (snd m)"] simp: run_updated_def go_step split: if_splits)

lemma run_is_new:
  "ReleaseStore_GetByWorkflowRunID ord (y_releases s) run = None \<Longrightarrow> y_releases t = y_releases s
     \<Longrightarrow> r_WorkflowRunID r = run \<Longrightarrow> may_write (y_releases t) r"
  by (auto intro: may_write_new)

lemma run_is_kept:
  "good w s0 s \<Longrightarrow> ReleaseStore_GetByWorkflowRunID ord (y_releases s) run = Some old \<Longrightarrow> y_releases t = y_releases s
     \<Longrightarrow> r_ID r = r_ID old \<Longrightarrow> r_WorkflowRunID r = r_WorkflowRunID old \<Longrightarrow> may_write (y_releases t) r"
  using may_write_stored good_ok may_write_run by (metis sys_ok_def)

lemma good_webhook_release [run_rule]: "good w s0 s \<Longrightarrow> good w s0 (snd (webhook_release v pl s))"
  unfolding webhook_release_def
  by (rule code_shape run_rule | assumption
    | rule run_is_new, assumption, (auto dest!: same_releases) [1], (simp add: run_release_def; fail))+

lemma good_HandleGitHubWebhook [run_rule]:
  assumes "good w s0 s"
  shows "good w s0 (snd (HandleGitHubWebhook v pl s))"
proof -
  obtain found t where found: "webhook_release v pl s = (found, t)" by force
  have t: "good w s0 t" using good_webhook_release [OF assms, of v pl] found by simp
  show ?thesis
  proof (cases "found = None \<or> webhook_status pl = None")
    case False
    then obtain r st where r: "found = Some r" "webhook_status pl = Some st" by auto
    have "may_write (y_releases t) r"
      using webhook_release_ok [of s v pl] good_ok [OF assms] found r by (simp add: sys_ok_def)
    then have "may_write (y_releases (snd (now v t))) (r\<lparr>r_Status := st, r_ImageTag := tag, r_UpdatedAt := u\<rparr>)" for tag u
      by (simp add: may_write_def go_step)
    from good_releases(1) [OF good_primitive(1) [OF t] this] show ?thesis
      by (simp add: HandleGitHubWebhook_def found r good_updateStageStatus now_def Let_def)
  qed (use t in \<open>auto simp: HandleGitHubWebhook_def found split: option.split\<close>)
qed

lemma good_sync_run [run_rule]: "good w s0 s \<Longrightarrow> good w s0 (snd (sync_run v pid slug run pending s))"
  unfolding sync_run_def
  by (rule code_shape run_rule | assumption
    | rule run_is_new, assumption, (auto dest!: same_releases) [1], (simp add: run_release_def; fail)
    | rule run_is_kept, assumption, assumption, (auto dest!: same_releases) [1], (simp; fail), (simp; fail))+

lemma good_sync_runs [run_rule]: "good w s0 s \<Longrightarrow> good w s0 (sync_runs v pid slug runs pending s)"
proof (induction runs arbitrary: pending s)
  case (Cons run runs)
  note rest = Cons.IH
  from Cons.prems show ?case
    by (simp only: sync_runs.simps) (rule code_shape run_rule rest | assumption)+
qed simp

lemma good_sync_stages [run_rule]: "good w s0 s \<Longrightarrow> good w s0 (sync_stages v p token sis s)"
proof (induction sis arbitrary: s)
  case (Cons si sis)
  note rest = Cons.IH
  from Cons.prems show ?case
    by (simp only: sync_stages.simps) (rule code_shape run_rule rest | assumption)+
qed simp

lemma good_syncLatestUnresolvedRelease [run_rule]:
  "good w s0 s \<Longrightarrow> good w s0 (syncLatestUnresolvedRelease v p rs s)"
  unfolding syncLatestUnresolvedRelease_def
  by (rule code_shape run_rule | assumption | erule written)+

lemma good_release_reads [run_rule]:
  "good w s0 s \<Longrightarrow> good w s0 (snd (ListReleases v pid s))"
  "good w s0 s \<Longrightarrow> good w s0 (snd (GetRelease pid rid s))"
  unfolding ListReleases_def GetRelease_def
  by (rule code_shape run_rule | assumption | erule written)+

lemma no_run_may_write: "r_WorkflowRunID r = 0 \<Longrightarrow> may_write st r"
  by (simp add: may_write_def)

lemma good_RollbackToRelease [run_rule]: "good w s0 s \<Longrightarrow> good w s0 (snd (RollbackToRelease v pid rid s))"
  unfolding RollbackToRelease_def
  by (rule code_shape run_rule | assumption | rule no_run_may_write, (simp; fail))+

section \<open>Connecting a repository\<close>

lemma good_request_token [run_rule]:
  "good w s0 s \<Longrightarrow> good w s0 (snd (request_token v p given s))"
  unfolding request_token_def
  by (rule code_shape run_rule | assumption | erule written)+

lemma good_questions [run_rule]:
  "good w s0 s \<Longrightarrow> good w s0 (snd (BuildGitHubBootstrapQuestions v pid req s))"
  unfolding BuildGitHubBootstrapQuestions_def
  by (rule good_start, assumption,
    ((rule code_shape run_rule | assumption
      | rule fits_stored fits_owned, assumption, assumption, (simp; fail), (simp; fail)
      | rule fits_owned_stage, assumption, assumption, assumption, (simp; fail), (simp; fail)
      | rule fits_later, assumption, (simp; fail), (simp; fail))+) [1])

lemma good_flow_steps [run_rule]:
  "good w s0 s \<Longrightarrow> good w s0 (snd (bootstrap_stage v pid slug s))"
  "good w s0 s \<Longrightarrow> good w s0 (snd (assign_urls v p req slug s))"
  unfolding bootstrap_stage_def assign_urls_def
  by (rule code_shape run_rule | assumption | erule written)+

lemma good_createBootstrapPendingRelease [run_rule]:
  "good w s0 s \<Longrightarrow> good w s0 (createBootstrapPendingRelease v pid sid resp s)"
  unfolding createBootstrapPendingRelease_def
  by (rule code_shape run_rule | assumption | rule no_run_may_write, (simp add: run_release_def; fail))+

lemma assign_urls_same: "p_ID (fst (assign_urls v p req slug s)) = p_ID p \<and> p_OwnerID (fst (assign_urls v p req slug s)) = p_OwnerID p"
  by (auto simp: assign_urls_def split_beta Let_def split: option.splits)

lemma assign_urls_sameD: "assign_urls v p req slug s = (q, t) \<Longrightarrow> p_ID q = p_ID p \<and> p_OwnerID q = p_OwnerID p"
  using assign_urls_same [of v p req slug s] by simp

lemma good_deploy_flow [run_rule]:
  "good w s0 s \<Longrightarrow> fits s p \<Longrightarrow> good w s0 (snd (deploy_flow v p req sid pid s))"
  unfolding deploy_flow_def
  by (rule good_start, assumption,
    (rule code_shape run_rule | assumption
    | rule fits_later, assumption, (simp add: apply_flow_settings_def assign_urls_sameD; fail),
      (simp add: apply_flow_settings_def assign_urls_sameD; fail))+)

lemma good_flow [run_rule]:
  "good w s0 s \<Longrightarrow> good w s0 (snd (BootstrapGitHubFlow v pid req s))"
  unfolding BootstrapGitHubFlow_def
  by (rule good_start, assumption,
    ((rule code_shape run_rule | assumption
      | rule fits_stored fits_owned, assumption, assumption, (simp; fail), (simp; fail)
      | rule fits_owned_stage, assumption, assumption, assumption, (simp; fail), (simp; fail)
      | rule fits_later, assumption, (simp; fail), (simp; fail))+) [1])

section \<open>Metering\<close>

lemma good_pressure_alert [run_rule]:
  "good w s0 s \<Longrightarrow> good w s0 (pressure_alert v p a b k1 m1 k2 m2 s)"
  unfolding pressure_alert_def
  by (rule code_shape run_rule | assumption | erule written)+

lemma good_notifyResourcePressure [run_rule]:
  "good w s0 s \<Longrightarrow> good w s0 (notifyResourcePressure v p sn s)"
  unfolding notifyResourcePressure_def
  by (rule code_shape run_rule | assumption | erule written)+

lemma good_charge_usage [run_rule]:
  "good w s0 s \<Longrightarrow> good w s0 (charge_usage v p sn u e s)"
  unfolding charge_usage_def
  by (rule code_shape run_rule | assumption | erule written)+

lemma good_collect_project [run_rule]:
  "good w s0 s \<Longrightarrow> good w s0 (collect_project v a b p s)"
  unfolding collect_project_def
  by (rule code_shape run_rule | assumption | erule written)+

lemma good_collectAndStoreUsage [run_rule]: "good w s0 s \<Longrightarrow> good w s0 (collectAndStoreUsage v a b s)"
proof -
  have "good w s0 t \<Longrightarrow> good w s0 (fold (collect_project v a b) ps t)" for ps t
    by (induction ps arbitrary: t) (simp_all add: good_collect_project)
  note all = this
  show "good w s0 s \<Longrightarrow> ?thesis"
    unfolding collectAndStoreUsage_def by (rule code_shape run_rule all | assumption)+
qed

section \<open>The handlers\<close>

lemma good_with_body [run_rule]:
  "good w s0 s \<Longrightarrow> (\<And>req t. good w s0 t \<Longrightarrow> good w s0 (snd (k req t))) \<Longrightarrow> good w s0 (snd (with_body d rq k s))"
  by (simp add: with_body_def split: option.split)

lemma good_requireOwnedProject [run_rule]: "good w s0 s \<Longrightarrow> good w s0 (snd (requireOwnedProject v pid uid s))"
  unfolding requireOwnedProject_def by (rule code_shape run_rule | assumption)+

lemma good_with_owned [run_rule]:
  "good w s0 s \<Longrightarrow> (\<And>p t. good w s0 t \<Longrightarrow> good w s0 (snd (k p t))) \<Longrightarrow> good w s0 (snd (with_owned d v uid pid k s))"
  using good_requireOwnedProject [of w s0 s v pid uid]
  by (auto simp: with_owned_def split_beta split: sum.split)

lemma good_finish [run_rule]:
  "good w s0 (snd rs) \<Longrightarrow> good w s0 (snd (finish c d n pl rs))"
  "good w s0 (snd ru) \<Longrightarrow> good w s0 (snd (finish_unit c d n pv ru))"
  by (simp_all add: finish_def finish_unit_def split_beta)

lemma good_handlers [run_rule]:
  "good w s0 s \<Longrightarrow> good w s0 (snd (Handler_Register w rq s))"
  "good w s0 s \<Longrightarrow> good w s0 (snd (Handler_Login v rq s))"
  "good w s0 s \<Longrightarrow> good w s0 (snd (Handler_GetTelegramSettings h v uid s))"
  "good w s0 s \<Longrightarrow> good w s0 (snd (Handler_UpdateTelegramSettings h v rq uid s))"
  "good w s0 s \<Longrightarrow> good w s0 (snd (Handler_DeleteTelegramSettings h v uid s))"
  "good w s0 s \<Longrightarrow> good w s0 (snd (Handler_TelegramWebhook h v rq s))"
  "good w s0 s \<Longrightarrow> good w s0 (snd (Handler_BillingSummary v uid s))"
  "good w s0 s \<Longrightarrow> good w s0 (snd (Handler_TopUpBalance v rq uid s))"
  "good w s0 s \<Longrightarrow> good w s0 (snd (Handler_InitiateTopUp v rq uid s))"
  "good w s0 s \<Longrightarrow> good w s0 (snd (Handler_YooKassaWebhook v rq s))"
  "good w s0 s \<Longrightarrow> good w s0 (snd (Handler_ListBillingTransactions uid s))"
  "good w s0 s \<Longrightarrow> good w s0 (snd (Handler_ListProjectBillingTransactions uid pid s))"
  "good w s0 s \<Longrightarrow> good w s0 (snd (Handler_GetServiceGitHubToken uid s))"
  "good w s0 s \<Longrightarrow> good w s0 (snd (Handler_UpsertServiceGitHubToken v rq uid s))"
  "good w s0 s \<Longrightarrow> good w s0 (snd (Handler_DeleteServiceGitHubToken uid s))"
  "good w s0 s \<Longrightarrow> good w s0 (snd (Handler_GetProjectGitHubToken uid pid s))"
  "good w s0 s \<Longrightarrow> good w s0 (snd (Handler_UpsertProjectGitHubToken v rq uid pid s))"
  "good w s0 s \<Longrightarrow> good w s0 (snd (Handler_DeleteProjectGitHubToken uid pid s))"
  "good w s0 s \<Longrightarrow> good w s0 (snd (Handler_ListProjects v uid s))"
  "good w s0 s \<Longrightarrow> good w s0 (snd (Handler_CreateProject v rq uid s))"
  "good w s0 s \<Longrightarrow> good w s0 (snd (Handler_GetProject v uid pid s))"
  "good w s0 s \<Longrightarrow> good w s0 (snd (Handler_DeleteProject v uid pid s))"
  "good w s0 s \<Longrightarrow> good w s0 (snd (Handler_GetProjectCost v uid pid s))"
  "good w s0 s \<Longrightarrow> good w s0 (snd (Handler_ListProjectLogs v rq uid pid s))"
  "good w s0 s \<Longrightarrow> good w s0 (snd (Handler_GetProjectRuntimeStatus v uid pid s))"
  "good w s0 s \<Longrightarrow> good w s0 (snd (Handler_UpdateDeploymentSettings v rq uid pid s))"
  "good w s0 s \<Longrightarrow> good w s0 (snd (Handler_SuspendProject v uid pid s))"
  "good w s0 s \<Longrightarrow> good w s0 (snd (Handler_ResumeProject v uid pid s))"
  "good w s0 s \<Longrightarrow> good w s0 (snd (Handler_GetKubeconfig v uid pid s))"
  "good w s0 s \<Longrightarrow> good w s0 (snd (Handler_RotateKubeconfig v uid pid s))"
  "good w s0 s \<Longrightarrow> good w s0 (snd (Handler_GitHubQuestions v rq uid pid s))"
  "good w s0 s \<Longrightarrow> good w s0 (snd (Handler_GitHubBootstrap v rq uid pid s))"
  "good w s0 s \<Longrightarrow> good w s0 (snd (Handler_CreateStage v rq uid pid s))"
  "good w s0 s \<Longrightarrow> good w s0 (snd (Handler_ListStages v uid pid s))"
  "good w s0 s \<Longrightarrow> good w s0 (snd (Handler_GetStage uid pid sid s))"
  "good w s0 s \<Longrightarrow> good w s0 (snd (Handler_DeleteStage v uid pid sid s))"
  "good w s0 s \<Longrightarrow> good w s0 (snd (Handler_GetStageRuntimeStatus v uid pid sid s))"
  "good w s0 s \<Longrightarrow> good w s0 (snd (Handler_GetProjectURLs v uid pid s))"
  "good w s0 s \<Longrightarrow> good w s0 (snd (Handler_ListReleases v rq uid pid s))"
  "good w s0 s \<Longrightarrow> good w s0 (snd (Handler_GetRelease v uid pid rid s))"
  "good w s0 s \<Longrightarrow> good w s0 (snd (Handler_RollbackRelease v uid pid rid s))"
  "good w s0 s \<Longrightarrow> good w s0 (snd (Handler_GitHubWebhook h v rq s))"
  unfolding Handler_Register_def Handler_Login_def Handler_GetTelegramSettings_def Handler_UpdateTelegramSettings_def
    Handler_DeleteTelegramSettings_def Handler_TelegramWebhook_def Handler_BillingSummary_def
    Handler_TopUpBalance_def Handler_InitiateTopUp_def Handler_YooKassaWebhook_def
    Handler_ListBillingTransactions_def Handler_ListProjectBillingTransactions_def
    Handler_GetServiceGitHubToken_def Handler_UpsertServiceGitHubToken_def
    Handler_DeleteServiceGitHubToken_def Handler_GetProjectGitHubToken_def
    Handler_UpsertProjectGitHubToken_def Handler_DeleteProjectGitHubToken_def Handler_ListProjects_def
    Handler_CreateProject_def Handler_GetProject_def Handler_DeleteProject_def Handler_GetProjectCost_def
    Handler_ListProjectLogs_def Handler_GetProjectRuntimeStatus_def Handler_UpdateDeploymentSettings_def
    Handler_SuspendProject_def Handler_ResumeProject_def Handler_GetKubeconfig_def
    Handler_RotateKubeconfig_def Handler_GitHubQuestions_def Handler_GitHubBootstrap_def
    Handler_CreateStage_def Handler_ListStages_def Handler_GetStage_def Handler_DeleteStage_def
    Handler_GetStageRuntimeStatus_def Handler_GetProjectURLs_def Handler_ListReleases_def
    Handler_GetRelease_def Handler_RollbackRelease_def Handler_GitHubWebhook_def
  by (rule code_shape run_rule | assumption | erule written)+

lemma good_public_endpoint [run_rule]: "good w s0 s \<Longrightarrow> good w s0 (snd (public_endpoint h w rq e s))"
  by (cases e; simp only: public_endpoint_def endpoint.case) (rule code_shape run_rule | assumption)+

lemma good_account_endpoint [run_rule]: "good w s0 s \<Longrightarrow> good w s0 (snd (account_endpoint h v rq uid e s))"
  by (cases e; simp only: account_endpoint_def endpoint.case) (rule code_shape run_rule | assumption)+

lemma good_project_endpoint [run_rule]: "good w s0 s \<Longrightarrow> good w s0 (snd (project_endpoint v rq uid e pid ps s))"
  by (cases e; simp only: project_endpoint_def Let_def endpoint.case) (rule run_rule | assumption)+

lemma good_serve:
  assumes "good w s0 s" and "serve h w rq s = Some (r, t)"
  shows "good w s0 t"
proof -
  have later: "good w s0 (snd (now w s))" by (rule good_primitive(1) [OF assms(1)])
  have "good w s0 (snd (protected_endpoint h w rq uid e ps (snd (now w s))))" for uid e ps
    using later by (simp add: protected_endpoint_def good_account_endpoint good_project_endpoint split: list.split)
  with assms later good_public_endpoint [OF assms(1), of h rq] show ?thesis
    by (auto simp: serve_def split_beta split: option.splits sum.splits prod.splits) (metis snd_conv)+
qed

section \<open>Reachable states\<close>

text \<open>
  The stores are empty when \<open>app.New\<close> has built the services, and the guard has the periods of the
  environment. From then on the server answers requests, runs the goroutines that were started, meters a
  period or checks all accounts.
\<close>

definition started :: "duration \<Rightarrow> duration \<Rightarrow> Sys" where
  "started grace retention = SetBillingGuardRetentionPeriod retention (SetBillingGuardGracePeriod grace empty_sys)"

inductive server_step :: "Handler \<Rightarrow> World \<Rightarrow> Sys \<Rightarrow> Sys \<Rightarrow> bool" for h w where
  request: "serve h w rq s = Some (r, t) \<Longrightarrow> server_step h w s t"
| goroutine: "server_step h w s (run_goroutine w i s)"
| metering: "server_step h w s (collectAndStoreUsage w periodStart periodEnd s)"
| guard: "server_step h w s (guard_tick w s)"

inductive reachable :: "Handler \<Rightarrow> World \<Rightarrow> Sys \<Rightarrow> bool" for h w where
  start: "reachable h w (started grace retention)"
| step: "reachable h w s \<Longrightarrow> server_step h w s t \<Longrightarrow> reachable h w t"

inductive_cases server_stepE: "server_step h w s t"

lemma good_server_step: "sys_ok w s \<Longrightarrow> server_step h w s t \<Longrightarrow> good w s t"
  by (erule server_stepE) (auto intro: good_refl good_serve good_run_goroutine good_collectAndStoreUsage good_guard_tick)

lemma good_server_run: "(server_step h w)\<^sup>*\<^sup>* s t \<Longrightarrow> sys_ok w s \<Longrightarrow> good w s t"
  by (induction rule: rtranclp_induct) (auto intro: good_refl good_trans good_server_step dest: good_ok)

lemma started_ok: "ids_unique w \<Longrightarrow> sys_ok w (started g r)"
  by (simp add: started_def SetBillingGuardRetentionPeriod_def SetBillingGuardGracePeriod_def sys_ok_def empty_sys_def
      has_email_def UserStore_GetByID_def NewUserStore_def project_store_ok_def stage_store_ok_def gomap_ok_def
      user_store_ok_def)


lemma calm_ids: "ids_unique calm_world"
proof -
  have "inj id_of" by (rule injI) (metis id_of_def digits_value_show same_append_eq)
  then show ?thesis by (simp add: ids_unique_def calm_world_def)
qed

definition register_body :: string where
  "register_body = ''{'' @ json_text ''email'' @ '':'' @ json_text ''c@d.io'' @ '','' @ json_text ''password''
     @ '':'' @ json_text ''pw'' @ ''}''"

definition register_request :: Request where
  "register_request = forged_request\<lparr>rq_Path := [''auth'', ''register''], rq_Body := Some register_body\<rparr>"



definition paid_sys :: Sys where
  "paid_sys = one_project\<lparr>y_payments := [\<lparr>yk_ID = ''i1'', yk_YooKassaID = ''yk-1'', yk_UserID = ''u1'',
     yk_AmountRUB = Fin 900, yk_Status = YKSucceeded, yk_CreatedAt = 0, yk_UpdatedAt = 0\<rparr>]\<rparr>"


end
