(* ===== verification/Identifiers.thy ===== *)
theory Identifiers
  imports Sha1 ProjectHelpers GoCipher
begin

text \<open>
  \<open>internal/domain/uuid.go\<close>: the random identifiers of projects, stages, releases, users and records, as a
  function of the 16 bytes that \<open>crypto/rand\<close> fills in.
\<close>

section \<open>The program\<close>

text \<open>The verb \<open>%x\<close> on a byte slice: two digits for each byte, which already fill the width.\<close>

definition hex_bytes :: "byte list \<Rightarrow> string" where
  "hex_bytes bs = concat (map (\<lambda>b. [hex_digit (unat b div 16), hex_digit (unat b mod 16)]) bs)"

text \<open>The version and the variant of the identifier, written into two of the bytes.\<close>

definition stamped :: "byte list \<Rightarrow> byte list" where
  "stamped b =
     (let b = b[6 := (b ! 6 AND 0x0f) OR 0x40]
      in b[8 := (b ! 8 AND 0x3f) OR 0x80])"

definition NewID :: "byte list \<Rightarrow> string" where
  "NewID r =
     (let b = stamped r
      in hex_bytes (take 4 b) @ ''-'' @ hex_bytes (take 2 (drop 4 b)) @ ''-'' @ hex_bytes (take 2 (drop 6 b))
         @ ''-'' @ hex_bytes (take 2 (drop 8 b)) @ ''-'' @ hex_bytes (take 6 (drop 10 b)))"

section \<open>Lemmas\<close>

lemma hex_bytes_simps [simp]:
  "hex_bytes [] = []"
  "hex_bytes (b # bs) = hex_digit (unat b div 16) # hex_digit (unat b mod 16) # hex_bytes bs"
  by (simp_all add: hex_bytes_def)

lemma length_hex_bytes [simp]: "length (hex_bytes bs) = 2 * length bs"
  by (induction bs) simp_all

lemma unat_byte_less: "unat (b :: byte) < 256"
  using unsigned_less [of b] by simp

lemma byte_digits: "unat (b :: byte) div 16 < 16" "unat b mod 16 < 16"
  using unat_byte_less [of b] by auto

lemma hex_digit_inj: "i < 16 \<Longrightarrow> j < 16 \<Longrightarrow> hex_digit i = hex_digit j \<longleftrightarrow> i = j"
  unfolding hex_digit_def by (subst nth_eq_iff_index_eq) simp_all

lemma hex_bytes_inj: "hex_bytes bs = hex_bytes cs \<Longrightarrow> bs = cs"
proof (induction bs arbitrary: cs)
  case Nil
  then show ?case by (cases cs) simp_all
next
  case (Cons b bs)
  then obtain c cs' where cs: "cs = c # cs'" by (cases cs) simp_all
  with Cons.prems have "unat b div 16 = unat c div 16" "unat b mod 16 = unat c mod 16"
    by (simp_all add: hex_digit_inj byte_digits)
  then have "unat b = unat c" by (metis div_mult_mod_eq)
  then have "b = c" by (simp add: word_unat_eq_iff)
  with Cons cs show ?case by simp
qed

lemma hex_digit_slug: "i < 16 \<Longrightarrow> is_slug_char (hex_digit i)"
proof -
  have "\<forall>c \<in> set ''0123456789abcdef''. is_slug_char c" by (simp add: is_slug_char_def)
  then show "i < 16 \<Longrightarrow> ?thesis" using hex_digit_mem by blast
qed

lemma hex_bytes_slug: "c \<in> set (hex_bytes bs) \<Longrightarrow> is_slug_char c"
  by (induction bs) (auto simp: hex_digit_slug byte_digits)

lemma length_stamped [simp]: "length (stamped b) = length b"
  by (simp add: stamped_def Let_def)

lemma take_drop_parts:
  assumes "length b = 16"
  shows "take 4 b @ take 2 (drop 4 b) @ take 2 (drop 6 b) @ take 2 (drop 8 b) @ take 6 (drop 10 b) = b"
proof -
  have "drop 10 b = take 6 (drop 10 b)" "drop 8 b = take 2 (drop 8 b) @ drop 10 b" "drop 6 b = take 2 (drop 6 b) @ drop 8 b"
    "drop 4 b = take 2 (drop 4 b) @ drop 6 b" "b = take 4 b @ drop 4 b"
    using assms append_take_drop_id [of 2 "drop 8 b"] append_take_drop_id [of 2 "drop 6 b"]
      append_take_drop_id [of 2 "drop 4 b"] by simp_all
  then show ?thesis by metis
qed

text \<open>The shape that the names of a project's environment need.\<close>

definition canonical_id :: "string \<Rightarrow> bool" where
  "canonical_id s \<longleftrightarrow> s \<noteq> '''' \<and> length s \<le> 54 \<and> list_all (\<lambda>c. is_slug_char c \<or> c = CHR ''-'') s
     \<and> hd s \<noteq> CHR ''-'' \<and> last s \<noteq> CHR ''-''"

section \<open>Properties\<close>

lemma high_digit: "unat (b :: byte) div 16 = unat (drop_bit 4 b)"
  by (simp add: unat_drop_bit_eq drop_bit_eq_div [where ?'a = nat])

lemma version_digit: "hex_digit (unat ((b AND 0x0f) OR 0x40 :: byte) div 16) = CHR ''4''"
proof -
  have "drop_bit 4 ((b AND 0x0f) OR 0x40 :: byte) = 4" by (simp add: drop_bit_or drop_bit_and)
  then show ?thesis by (simp add: high_digit hex_digit_def)
qed

lemma variant_digit: "hex_digit (unat ((b AND 0x3f) OR 0x80 :: byte) div 16) \<in> set ''89ab''"
proof -
  let ?z = "take_bit 2 (drop_bit 4 b)"
  have "drop_bit 4 ((b AND 0x3f) OR 0x80 :: byte) = ?z OR 8"
    by (simp add: drop_bit_or drop_bit_and take_bit_eq_mask mask_eq_exp_minus_1)
  moreover have "unat ?z < 4" 
    using take_bit_nat_less_exp [of 2 "unat (drop_bit 4 b)"] by (simp add: unsigned_take_bit_eq)
  then have "?z = 0 \<or> ?z = 1 \<or> ?z = 2 \<or> ?z = 3"
    by (simp add: word_unat_eq_iff) linarith
  ultimately show ?thesis by (auto simp: high_digit hex_digit_def)
qed

text \<open>An identifier has 36 characters, the version digit 4 and the variant digit 8, 9, a or b at their
  places, and consists of lower-case hexadecimal digits and dashes, of which none is first or last.\<close>

theorem identifier_shape:
  assumes "length r = 16"
  shows "length (NewID r) = 36 \<and> NewID r ! 14 = CHR ''4'' \<and> NewID r ! 19 \<in> set ''89ab'' \<and> canonical_id (NewID r)"
proof -
  obtain b0 b1 b2 b3 b4 b5 b6 b7 b8 b9 b10 b11 b12 b13 b14 b15
    where r: "r = [b0, b1, b2, b3, b4, b5, b6, b7, b8, b9, b10, b11, b12, b13, b14, b15]"
    using assms by (auto simp: numeral_eq_Suc length_Suc_conv)
  have "NewID r ! 14 = hex_digit (unat ((b6 AND 0x0f) OR 0x40) div 16)"
    "NewID r ! 19 = hex_digit (unat ((b8 AND 0x3f) OR 0x80) div 16)"
    by (simp_all add: r NewID_def stamped_def)
  moreover have "length (NewID r) = 36" using assms by (simp add: NewID_def Let_def)
  moreover have "c \<in> set (NewID r) \<Longrightarrow> is_slug_char c \<or> c = CHR ''-''" for c
    using hex_bytes_slug by (auto simp: NewID_def Let_def)
  moreover have "is_slug_char (hd (NewID r))" "is_slug_char (last (NewID r))"
    by (simp_all add: r NewID_def stamped_def hex_digit_slug byte_digits)
  ultimately show ?thesis
    using version_digit variant_digit by (auto simp: canonical_id_def list_all_iff)
qed

text \<open>Two identifiers are equal only when the random bytes agree in all the bits that are not stamped: the
  probability of a collision is that of 122 random bits.\<close>

theorem identifiers_are_random:
  assumes "length r = 16" and "length r' = 16"
  shows "NewID r = NewID r' \<longleftrightarrow> stamped r = stamped r'"
proof
  assume eq: "NewID r = NewID r'"
  let ?p = "\<lambda>b. [take 4 b, take 2 (drop 4 b), take 2 (drop 6 b), take 2 (drop 8 b), take 6 (drop 10 b)]"
  have "hex_bytes (take 4 (stamped r)) = hex_bytes (take 4 (stamped r'))
     \<and> hex_bytes (take 2 (drop 4 (stamped r))) = hex_bytes (take 2 (drop 4 (stamped r')))
     \<and> hex_bytes (take 2 (drop 6 (stamped r))) = hex_bytes (take 2 (drop 6 (stamped r')))
     \<and> hex_bytes (take 2 (drop 8 (stamped r))) = hex_bytes (take 2 (drop 8 (stamped r')))
     \<and> hex_bytes (take 6 (drop 10 (stamped r))) = hex_bytes (take 6 (drop 10 (stamped r')))"
    using eq assms by (simp add: NewID_def Let_def)
  then have "take 4 (stamped r) = take 4 (stamped r')" "take 2 (drop 4 (stamped r)) = take 2 (drop 4 (stamped r'))"
    "take 2 (drop 6 (stamped r)) = take 2 (drop 6 (stamped r'))" "take 2 (drop 8 (stamped r)) = take 2 (drop 8 (stamped r'))"
    "take 6 (drop 10 (stamped r)) = take 6 (drop 10 (stamped r'))"
    by (blast dest: hex_bytes_inj)+
  with take_drop_parts [of "stamped r"] take_drop_parts [of "stamped r'"] assms show "stamped r = stamped r'" by simp
qed (simp add: NewID_def)

end
