(* ===== verification/KubeNames.thy ===== *)
theory KubeNames
  imports Identifiers GoJson
begin

text \<open>
  The pure functions of \<open>internal/integration/kubernetes/kubectl_provisioner.go\<close>: the names of a project's
  namespace and virtual cluster, host names and public addresses, the classification of the messages of
  \<open>kubectl\<close>, and indentation.
\<close>

section \<open>Names\<close>

text \<open>
  \<open>ReplaceAllString\<close> with the class \<open>[^a-z0-9-]\<close>: the expression matches runes, so a sequence of UTF-8 becomes
  one dash, and so does each byte that is part of none.
\<close>

function dash_runes :: "string \<Rightarrow> string" where
  "dash_runes [] = []"
| "dash_runes (c # cs) =
     (if is_slug_char c \<or> c = CHR ''-'' then c # dash_runes cs
      else CHR ''-'' # dash_runes (drop (utf8_len (c # cs) - 1) cs))"
  by pat_completeness auto
termination
  by (relation "measure length") auto

definition sanitized_id :: "string \<Rightarrow> string" where
  "sanitized_id projectID =
     (let sanitized = ToLower projectID;
          sanitized = map (\<lambda>c. if c = CHR ''_'' then CHR ''-'' else c) sanitized;
          sanitized = TrimChar (CHR ''-'') (dash_runes sanitized)
      in if sanitized = '''' then ''project'' else sanitized)"

definition cut_label :: "string \<Rightarrow> string" where
  "cut_label name = (if length name > 63 then TrimChar (CHR ''-'') (take 63 name) else name)"

definition namespaceFromProjectID :: "string \<Rightarrow> string" where
  "namespaceFromProjectID projectID = cut_label (''project-'' @ sanitized_id projectID)"

definition vclusterNameFromProjectID :: "string \<Rightarrow> string" where
  "vclusterNameFromProjectID projectID = cut_label (''vcluster-'' @ sanitized_id projectID)"

definition NamespaceForProject :: "string \<Rightarrow> string" where
  "NamespaceForProject projectID = namespaceFromProjectID projectID"

definition projectGrafanaHost :: "string \<Rightarrow> string \<Rightarrow> string" where
  "projectGrafanaHost projectID base = ''grafana-'' @ projectID @ ''.'' @ base"

section \<open>Addresses\<close>

definition formatPublicURL :: "string \<Rightarrow> int \<Rightarrow> string" where
  "formatPublicURL endpoint port =
     (if port = 443 then ''https://'' @ endpoint
      else if port = 0 \<or> port = 80 then ''http://'' @ endpoint
      else ''http://'' @ endpoint @ '':'' @ show_int port)"

section \<open>Messages of kubectl\<close>

definition isNamespaceNotFoundError :: "go_error \<Rightarrow> string \<Rightarrow> bool" where
  "isNamespaceNotFoundError err namespace \<longleftrightarrow>
     (let lower = ToLower (Error err); name = ToLower namespace
      in Contains lower (''namespaces '' @ quoted name @ '' not found'')
         \<or> Contains lower (''namespace '' @ quoted name @ '' not found''))"

definition isSecretNotFoundError :: "go_error \<Rightarrow> string \<Rightarrow> bool" where
  "isSecretNotFoundError err secretName \<longleftrightarrow>
     (let lower = ToLower (Error err); name = ToLower secretName
      in Contains lower (''secrets '' @ quoted name @ '' not found'')
         \<or> Contains lower (''secret '' @ quoted name @ '' not found''))"

definition isGatewayAPIUnavailableError :: "go_error \<Rightarrow> bool" where
  "isGatewayAPIUnavailableError err \<longleftrightarrow>
     (let lower = ToLower (Error err)
      in Contains lower (''the server doesn'' @ [CHR 0x27] @ ''t have a resource type'')
         \<or> Contains lower ''no matches for kind''
         \<or> Contains lower ''could not find the requested resource'')"

section \<open>Text\<close>

definition replace_newlines :: "string \<Rightarrow> string \<Rightarrow> string" where
  "replace_newlines t value = concat (map (\<lambda>c. if c = CHR 0x0A then t else [c]) value)"

definition indentYAMLBlock :: "string \<Rightarrow> string \<Rightarrow> string" where
  "indentYAMLBlock value pre =
     (if value = '''' then pre else pre @ replace_newlines (CHR 0x0A # pre) value)"

section \<open>Lemmas\<close>

text \<open>A label of the domain name system, as Kubernetes wants the name of a namespace.\<close>

definition dns_label :: "string \<Rightarrow> bool" where
  "dns_label s \<longleftrightarrow> s \<noteq> '''' \<and> length s \<le> 63 \<and> list_all (\<lambda>c. is_slug_char c \<or> c = CHR ''-'') s
     \<and> is_slug_char (hd s) \<and> is_slug_char (last s)"

lemma dash_runes_chars: "c \<in> set (dash_runes s) \<Longrightarrow> is_slug_char c \<or> c = CHR ''-''"
  by (induction s rule: dash_runes.induct) (auto split: if_splits)

lemma dash_runes_fixed: "list_all (\<lambda>c. is_slug_char c \<or> c = CHR ''-'') s \<Longrightarrow> dash_runes s = s"
  by (induction s) auto

lemma TrimChar_set: "set (TrimChar c s) \<subseteq> set s"
proof -
  obtain a b where "s = a @ TrimChar c s @ b" using TrimChar_split by blast
  then show ?thesis by (metis Un_upper1 Un_upper2 order_trans set_append)
qed

lemma sanitized_id:
  "sanitized_id pid \<noteq> '''' \<and> list_all (\<lambda>c. is_slug_char c \<or> c = CHR ''-'') (sanitized_id pid)
     \<and> is_slug_char (last (sanitized_id pid))"
proof -
  let ?d = "dash_runes (map (\<lambda>c. if c = CHR ''_'' then CHR ''-'' else c) (ToLower pid))"
  have chars: "c \<in> set (TrimChar (CHR ''-'') ?d) \<Longrightarrow> is_slug_char c \<or> c = CHR ''-''" for c
    using TrimChar_set dash_runes_chars by blast
  have "is_slug_char (last (TrimChar (CHR ''-'') ?d))" if "TrimChar (CHR ''-'') ?d \<noteq> ''''"
    using chars [of "last (TrimChar (CHR ''-'') ?d)"] TrimChar_edges [of "CHR ''-''" ?d] that by auto
  then show ?thesis
    using chars by (auto simp: sanitized_id_def Let_def list_all_iff is_slug_char_def)
qed

lemma TrimChar_front:
  assumes "s \<noteq> []" and "hd s \<noteq> c"
  shows "TrimChar c s \<noteq> [] \<and> prefix (TrimChar c s) s"
proof -
  let ?P = "\<lambda>x. x = c"
  have "dropWhile ?P s = s" using assms by (cases s) auto
  then have trim: "TrimChar c s = rev (dropWhile ?P (rev s))" by (simp add: TrimChar_def)
  have "s = rev (dropWhile ?P (rev s)) @ rev (takeWhile ?P (rev s))"
    by (metis rev_append rev_rev_ident takeWhile_dropWhile_id)
  then have "prefix (TrimChar c s) s" unfolding trim by (metis prefixI)
  moreover have "dropWhile ?P (rev s) \<noteq> []" using assms hd_in_set [of s] by (auto simp: dropWhile_eq_Nil_conv)
  ultimately show ?thesis by (simp add: trim)
qed

lemma cut_label:
  assumes "list_all (\<lambda>c. is_slug_char c \<or> c = CHR ''-'') s" and "is_slug_char (hd s)" and "is_slug_char (last s)" and "s \<noteq> ''''"
  shows "dns_label (cut_label s)"
proof (cases "length s > 63")
  case True
  let ?t = "take 63 s" and ?u = "TrimChar (CHR ''-'') (take 63 s)"
  have "?t \<noteq> []" "hd ?t = hd s" using assms(4) by simp_all
  moreover have "hd s \<noteq> CHR ''-''" using assms(2) dash_not_slug_char by metis
  ultimately have u: "?u \<noteq> []" "prefix ?u ?t" using TrimChar_front [of ?t "CHR ''-''"] by auto
  obtain zs where "?t = ?u @ zs" using u(2) by (auto simp: prefix_def)
  then have "hd ?u = hd s" using u(1) \<open>hd ?t = hd s\<close> by (metis hd_append2)
  moreover have "set ?u \<subseteq> set s" using set_mono_prefix [OF u(2)] set_take_subset by fast
  moreover have "length ?u \<le> 63" using prefix_length_le [OF u(2)] by simp
  moreover have "last ?u \<noteq> CHR ''-''" using TrimChar_edges [of "CHR ''-''" ?t] u(1) by simp
  moreover have chars: "\<forall>c \<in> set ?u. is_slug_char c \<or> c = CHR ''-''"
    using calculation(2) assms(1) by (auto simp: list_all_iff)
  moreover have "is_slug_char (last ?u)" using chars calculation(4) last_in_set [OF u(1)] by blast
  ultimately show ?thesis
    using assms(2) True u(1) by (simp add: dns_label_def cut_label_def list_all_iff)
next
  case False
  with assms show ?thesis by (simp add: dns_label_def cut_label_def)
qed

lemma sanitized_canonical: "canonical_id pid \<Longrightarrow> sanitized_id pid = pid"
proof -
  assume id: "canonical_id pid"
  then have chars: "\<forall>c \<in> set pid. is_slug_char c \<or> c = CHR ''-''"
    by (simp add: canonical_id_def list_all_iff)
  then have "ToLower pid = pid" by (simp add: ToLower_ascii slug_char_graph map_idI)
  moreover have "map (\<lambda>c. if c = CHR ''_'' then CHR ''-'' else c) pid = pid"
  proof (rule map_idI)
    have "\<not> (is_slug_char (CHR ''_'') \<or> CHR ''_'' = CHR ''-'')" by (simp add: is_slug_char_def)
    then show "(if c = CHR ''_'' then CHR ''-'' else c) = c" if "c \<in> set pid" for c
      using chars that by auto
  qed
  moreover have "TrimChar (CHR ''-'') (dash_runes pid) = pid"
    using id by (simp add: canonical_id_def dash_runes_fixed TrimChar_same)
  ultimately show ?thesis using id by (simp add: sanitized_id_def canonical_id_def)
qed

section \<open>Properties\<close>

text \<open>Whatever a project is called, the names of its namespace and of its virtual cluster are labels of the
  domain name system: at most 63 lower-case letters, digits and dashes with no dash at the ends.\<close>

theorem environment_names_are_labels:
  "dns_label (namespaceFromProjectID pid) \<and> dns_label (vclusterNameFromProjectID pid)"
proof -
  have "dns_label (cut_label (''project-'' @ sanitized_id pid))" "dns_label (cut_label (''vcluster-'' @ sanitized_id pid))"
    using sanitized_id [of pid] by (intro cut_label; simp add: is_slug_char_def)+
  then show ?thesis by (simp add: namespaceFromProjectID_def vclusterNameFromProjectID_def)
qed

text \<open>C5 Projects do not share an environment: for the identifiers that the program generates the names are the
  identifier after a fixed prefix, so different projects have different namespaces and virtual clusters.\<close>

theorem environments_are_separate:
  assumes "length r = 16" and "length r' = 16" and "NewID r \<noteq> NewID r'"
  shows "namespaceFromProjectID (NewID r) \<noteq> namespaceFromProjectID (NewID r')
    \<and> vclusterNameFromProjectID (NewID r) \<noteq> vclusterNameFromProjectID (NewID r')"
proof -
  have "namespaceFromProjectID (NewID x) = ''project-'' @ NewID x"
    "vclusterNameFromProjectID (NewID x) = ''vcluster-'' @ NewID x" if "length x = 16" for x
    using identifier_shape [OF that]
    by (simp_all add: namespaceFromProjectID_def vclusterNameFromProjectID_def sanitized_canonical cut_label_def)
  with assms show ?thesis by simp
qed

theorem environments_are_separate_witness:
  "namespaceFromProjectID (NewID (replicate 16 0)) \<noteq> namespaceFromProjectID (NewID (replicate 15 0 @ [1]))"
proof -
  have "NewID (replicate 16 0) \<noteq> NewID (replicate 15 0 @ [1])"
    by code_simp
  then show ?thesis
    using environments_are_separate [of "replicate 16 0" "replicate 15 0 @ [1]"] by simp
qed

text \<open>The names of two projects can be the same when their identifiers are chosen freely.\<close>

lemma names_of_other_identifiers_collide:
  "namespaceFromProjectID ''shop_1'' = namespaceFromProjectID ''Shop-1''"
  by code_simp

end
