(* ===== verification/Manifests.thy ===== *)
theory Manifests
  imports KubeNames Secrets
begin

text \<open>
  The texts that \<open>internal/integration/kubernetes/kubectl_provisioner.go\<close> hands to \<open>kubectl apply\<close>: the
  manifests as lists of lines with the names filled in, and the Grafana dashboard of a project as the JSON
  text of \<open>json.MarshalIndent\<close>.
\<close>

section \<open>Manifests\<close>

definition unlines :: "string list \<Rightarrow> string" where
  "unlines ls = concat (map (\<lambda>l. l @ [CHR 0x0A]) ls)"

definition namespaceManifest :: \<open>string \<Rightarrow> string\<close> where
  \<open>namespaceManifest namespace = unlines [
    ''apiVersion: v1'', ''kind: Namespace'', ''metadata:'', ''  name: '' @ namespace]\<close>

definition networkPolicyManifest :: \<open>string \<Rightarrow> string\<close> where
  \<open>networkPolicyManifest namespace = unlines [
    ''apiVersion: networking.k8s.io/v1'', ''kind: NetworkPolicy'', ''metadata:'', ''  name: default-deny-all'',
    ''  namespace: '' @ namespace, ''spec:'', ''  podSelector: {}'', ''  policyTypes:'', ''    - Ingress'',
    ''    - Egress'']\<close>

definition vclusterAllowPolicy :: \<open>string \<Rightarrow> string\<close> where
  \<open>vclusterAllowPolicy namespace = unlines [
    ''apiVersion: networking.k8s.io/v1'', ''kind: NetworkPolicy'', ''metadata:'',
    ''  name: allow-vcluster-control-plane'', ''  namespace: '' @ namespace, ''spec:'', ''  podSelector:'',
    ''    matchLabels:'', ''      app: vcluster'', ''  ingress:'', ''    - {}'', ''  egress:'', ''    - {}'',
    ''  policyTypes:'', ''    - Ingress'', ''    - Egress'']\<close>

definition resourceQuotaManifest :: \<open>string \<Rightarrow> string\<close> where
  \<open>resourceQuotaManifest namespace = unlines [
    ''apiVersion: v1'', ''kind: ResourceQuota'', ''metadata:'', ''  name: project-quota'',
    ''  namespace: '' @ namespace, ''spec:'', ''  hard:'', ''    requests.cpu:    "4"'',
    ''    requests.memory: "8Gi"'', ''    limits.cpu:      "16"'', ''    limits.memory:   "32Gi"'',
    ''    pods:            "50"'', ''---'', ''apiVersion: v1'', ''kind: LimitRange'', ''metadata:'',
    ''  name: project-default-limits'', ''  namespace: '' @ namespace, ''spec:'', ''  limits:'',
    ''    - type: Container'', ''      default:'', ''        cpu: "1"'', ''        memory: "512Mi"'',
    ''      defaultRequest:'', ''        cpu: "100m"'', ''        memory: "128Mi"'']\<close>

definition gatewayAllowPolicy :: \<open>string \<Rightarrow> string \<Rightarrow> string\<close> where
  \<open>gatewayAllowPolicy namespace gatewayControllerNS = unlines [
    ''apiVersion: networking.k8s.io/v1'', ''kind: NetworkPolicy'', ''metadata:'',
    ''  name: allow-gateway-controller'', ''  namespace: '' @ namespace, ''spec:'', ''  podSelector: {}'',
    ''  ingress:'', ''    - from:'', ''        - namespaceSelector:'', ''            matchLabels:'',
    ''              kubernetes.io/metadata.name: '' @ gatewayControllerNS]\<close>

definition grafanaManifest :: \<open>string \<Rightarrow> string \<Rightarrow> string \<Rightarrow> string \<Rightarrow> string \<Rightarrow> string \<Rightarrow> string\<close> where
  \<open>grafanaManifest namespace prometheusURL host monitoringNamespace dashboardJSON lokiURL = unlines [
    ''apiVersion: v1'', ''kind: ConfigMap'', ''metadata:'', ''  name: project-grafana-datasource'',
    ''  namespace: '' @ namespace, ''data:'', ''  datasources.yaml: |'', ''    apiVersion: 1'', ''    datasources:'',
    ''      - name: Prometheus'', ''        type: prometheus'', ''        access: proxy'',
    ''        url: '' @ prometheusURL, ''        isDefault: true'', ''      - name: Loki'', ''        type: loki'',
    ''        access: proxy'', ''        url: '' @ lokiURL, ''---'', ''apiVersion: v1'', ''kind: ConfigMap'',
    ''metadata:'', ''  name: project-grafana-dashboard-provider'', ''  namespace: '' @ namespace, ''data:'',
    ''  dashboards.yaml: |'', ''    apiVersion: 1'', ''    providers:'', ''      - name: project'',
    ''        orgId: 1'', ''        folder: Project'', ''        type: file'', ''        disableDeletion: false'',
    ''        updateIntervalSeconds: 30'', ''        options:'',
    ''          path: /var/lib/grafana/dashboards/project'', ''---'', ''apiVersion: v1'', ''kind: ConfigMap'',
    ''metadata:'', ''  name: project-grafana-dashboard'', ''  namespace: '' @ namespace, ''data:'',
    ''  project-overview.json: |'', dashboardJSON, ''---'', ''apiVersion: apps/v1'', ''kind: Deployment'',
    ''metadata:'', ''  name: project-grafana'', ''  namespace: '' @ namespace, ''  annotations:'',
    ''    nginx.ingress.kubernetes.io/force-ssl-redirect: "true"'', ''spec:'', ''  replicas: 1'', ''  selector:'',
    ''    matchLabels:'', ''      app: project-grafana'', ''  template:'', ''    metadata:'', ''      labels:'',
    ''        app: project-grafana'', ''    spec:'', ''      containers:'', ''        - name: grafana'',
    ''          image: grafana/grafana:11.1.4'', ''          ports:'', ''            - containerPort: 3000'',
    ''          env:'', ''            - name: GF_AUTH_ANONYMOUS_ENABLED'', ''              value: "true"'',
    ''            - name: GF_AUTH_ANONYMOUS_ORG_ROLE'', ''              value: "Viewer"'',
    ''            - name: GF_AUTH_DISABLE_LOGIN_FORM'', ''              value: "true"'',
    ''            - name: GF_USERS_ALLOW_SIGN_UP'', ''              value: "false"'',
    ''            - name: GF_SECURITY_ALLOW_EMBEDDING'', ''              value: "true"'', ''          resources:'',
    ''            requests:'', ''              cpu: 25m'', ''              memory: 128Mi'', ''            limits:'',
    ''              cpu: 250m'', ''              memory: 256Mi'', ''          volumeMounts:'',
    ''            - name: datasource'', ''              mountPath: /etc/grafana/provisioning/datasources'',
    ''            - name: dashboard-provider'', ''              mountPath: /etc/grafana/provisioning/dashboards'',
    ''            - name: dashboards'', ''              mountPath: /var/lib/grafana/dashboards/project'',
    ''          readinessProbe:'', ''            httpGet:'', ''              path: /api/health'',
    ''              port: 3000'', ''            initialDelaySeconds: 10'', ''            periodSeconds: 10'',
    ''          livenessProbe:'', ''            httpGet:'', ''              path: /api/health'',
    ''              port: 3000'', ''            initialDelaySeconds: 20'', ''            periodSeconds: 20'',
    ''      volumes:'', ''        - name: datasource'', ''          configMap:'',
    ''            name: project-grafana-datasource'', ''        - name: dashboard-provider'',
    ''          configMap:'', ''            name: project-grafana-dashboard-provider'',
    ''        - name: dashboards'', ''          configMap:'', ''            name: project-grafana-dashboard'',
    ''---'', ''apiVersion: v1'', ''kind: Service'', ''metadata:'', ''  name: project-grafana'',
    ''  namespace: '' @ namespace, ''spec:'', ''  selector:'', ''    app: project-grafana'', ''  ports:'',
    ''    - name: http'', ''      port: 3000'', ''      targetPort: 3000'', ''---'',
    ''apiVersion: networking.k8s.io/v1'', ''kind: Ingress'', ''metadata:'', ''  name: project-grafana'',
    ''  namespace: '' @ namespace, ''spec:'', ''  ingressClassName: nginx'', ''  rules:'',
    ''    - host: "'' @ host @ ''"'', ''      http:'', ''        paths:'', ''          - path: /'',
    ''            pathType: Prefix'', ''            backend:'', ''              service:'',
    ''                name: project-grafana'', ''                port:'', ''                  number: 3000'',
    ''---'', ''apiVersion: networking.k8s.io/v1'', ''kind: NetworkPolicy'', ''metadata:'',
    ''  name: allow-project-grafana-egress'', ''  namespace: '' @ namespace, ''spec:'', ''  podSelector:'',
    ''    matchLabels:'', ''      app: project-grafana'', ''  policyTypes:'', ''    - Egress'', ''  egress:'',
    ''    - to:'', ''        - namespaceSelector:'', ''            matchLabels:'',
    ''              kubernetes.io/metadata.name: '' @ monitoringNamespace, ''      ports:'',
    ''        - protocol: TCP'', ''          port: 9090'', ''        - protocol: TCP'', ''          port: 3100'',
    ''    - to:'', ''        - namespaceSelector:'', ''            matchLabels:'',
    ''              kubernetes.io/metadata.name: kube-system'', ''      ports:'', ''        - protocol: UDP'',
    ''          port: 53'', ''        - protocol: TCP'', ''          port: 53'']\<close>

section \<open>The dashboard\<close>

text \<open>\<open>json.MarshalIndent\<close> with two spaces; the keys of a map are written in order.\<close>

definition indentation :: "nat \<Rightarrow> string" where
  "indentation depth = CHR 0x0A # replicate (2 * depth) CHR 0x20"

fun marshal_indent :: "nat \<Rightarrow> json \<Rightarrow> string"
  and marshal_elements :: "nat \<Rightarrow> json list \<Rightarrow> string"
  and marshal_members :: "nat \<Rightarrow> (string \<times> json) list \<Rightarrow> string" where
  "marshal_indent d JNull = ''null''"
| "marshal_indent d (JBool b) = (if b then ''true'' else ''false'')"
| "marshal_indent d (JNum n) = n"
| "marshal_indent d (JStr s) = json_text s"
| "marshal_indent d (JArr vs) = (if vs = [] then ''[]'' else ''['' @ marshal_elements (Suc d) vs @ indentation d @ '']'')"
| "marshal_indent d (JObj kvs) = (if kvs = [] then ''{}'' else ''{'' @ marshal_members (Suc d) kvs @ indentation d @ ''}'')"
| "marshal_elements d [] = ''''"
| "marshal_elements d (v # vs) =
     indentation d @ marshal_indent d v @ (if vs = [] then '''' else '','' @ marshal_elements d vs)"
| "marshal_members d [] = ''''"
| "marshal_members d ((name, v) # kvs) =
     indentation d @ json_text name @ '': '' @ marshal_indent d v @ (if kvs = [] then '''' else '','' @ marshal_members d kvs)"

definition number :: "nat \<Rightarrow> json" where
  "number n = JNum (show_nat n)"

definition target :: "string \<Rightarrow> string \<Rightarrow> json" where
  "target expr legend = JObj [(''expr'', JStr expr), (''legendFormat'', JStr legend)]"

definition table_target :: "string \<Rightarrow> string \<Rightarrow> json" where
  "table_target expr legend =
     JObj [(''expr'', JStr expr), (''format'', JStr ''table''), (''instant'', JBool True), (''legendFormat'', JStr legend)]"

definition panel :: "string \<Rightarrow> string \<Rightarrow> nat \<Rightarrow> nat \<Rightarrow> nat \<Rightarrow> nat \<Rightarrow> json list \<Rightarrow> json" where
  "panel kind title h w x y targets =
     JObj [(''gridPos'', JObj [(''h'', number h), (''w'', number w), (''x'', number x), (''y'', number y)]),
       (''targets'', JArr targets), (''title'', JStr title), (''type'', JStr kind)]"

definition dashboard_panels :: \<open>string \<Rightarrow> json list\<close> where
  \<open>dashboard_panels namespace = [
    panel ''timeseries'' ''Project CPU cores'' 8 12 0 0 [
        target (''sum(rate(container_cpu_usage_seconds_total{namespace="'' @ namespace @ ''",container!="",image!=""}[5m]))'') ''project total''],
    panel ''timeseries'' ''Project memory GB'' 8 12 12 0 [
        target (''sum(container_memory_working_set_bytes{namespace="'' @ namespace @ ''",container!="",image!=""}) / 1024 / 1024 / 1024'') ''project total''],
    panel ''timeseries'' ''CPU cores by worker node'' 8 12 0 8 [
        target (''sum by (kubernetes_io_hostname) (rate(container_cpu_usage_seconds_total{namespace="'' @ namespace @ ''",container!="",image!=""}[5m]))'') ''worker {{kubernetes_io_hostname}}''],
    panel ''timeseries'' ''Memory GB by worker node'' 8 12 12 8 [
        target (''sum by (kubernetes_io_hostname) (container_memory_working_set_bytes{namespace="'' @ namespace @ ''",container!="",image!=""}) / 1024 / 1024 / 1024'') ''worker {{kubernetes_io_hostname}}''],
    panel ''timeseries'' ''CPU limit utilization %'' 8 12 0 16 [
        target (''100 * sum(rate(container_cpu_usage_seconds_total{namespace="'' @ namespace @ ''",container!="",image!=""}[5m])) / clamp_min(sum(container_spec_cpu_quota{namespace="'' @ namespace @ ''",container!="",image!=""}) / sum(container_spec_cpu_period{namespace="'' @ namespace @ ''",container!="",image!=""}), 0.001)'') ''cpu used vs limit''],
    panel ''timeseries'' ''Memory limit utilization %'' 8 12 12 16 [
        target (''100 * sum(container_memory_working_set_bytes{namespace="'' @ namespace @ ''",container!="",image!=""}) / clamp_min(sum(container_spec_memory_limit_bytes{namespace="'' @ namespace @ ''",container!="",image!=""}), 1)'') ''memory used vs limit''],
    panel ''timeseries'' ''CPU throttling %'' 8 12 0 24 [
        target (''100 * sum(rate(container_cpu_cfs_throttled_periods_total{namespace="'' @ namespace @ ''",container!="",image!=""}[5m])) / clamp_min(sum(rate(container_cpu_cfs_periods_total{namespace="'' @ namespace @ ''",container!="",image!=""}[5m])), 0.001)'') ''throttled periods''],
    panel ''timeseries'' ''Active pods by worker node'' 8 12 12 24 [
        target (''count by (kubernetes_io_hostname) (count by (pod, kubernetes_io_hostname) (container_cpu_usage_seconds_total{namespace="'' @ namespace @ ''",container!="",image!=""}))'') ''worker {{kubernetes_io_hostname}}''],
    panel ''timeseries'' ''Project network egress bytes/s'' 8 12 0 32 [
        target (''sum(rate(container_network_transmit_bytes_total{namespace="'' @ namespace @ ''"}[5m]))'') ''project total''],
    panel ''timeseries'' ''Project network ingress bytes/s'' 8 12 12 32 [
        target (''sum(rate(container_network_receive_bytes_total{namespace="'' @ namespace @ ''"}[5m]))'') ''project total''],
    panel ''timeseries'' ''Network egress by worker node'' 8 12 0 40 [
        target (''sum by (kubernetes_io_hostname) (rate(container_network_transmit_bytes_total{namespace="'' @ namespace @ ''",pod!=""}[5m]))'') ''worker {{kubernetes_io_hostname}}''],
    panel ''timeseries'' ''Network ingress by worker node'' 8 12 12 40 [
        target (''sum by (kubernetes_io_hostname) (rate(container_network_receive_bytes_total{namespace="'' @ namespace @ ''",pod!=""}[5m]))'') ''worker {{kubernetes_io_hostname}}''],
    panel ''table'' ''Top pods in project'' 10 24 0 48 [
        table_target (''topk(10, sum by (pod) (rate(container_cpu_usage_seconds_total{namespace="'' @ namespace @ ''",container!="",image!=""}[5m])))'') ''cpu by pod'',
        table_target (''topk(10, sum by (pod) (container_memory_working_set_bytes{namespace="'' @ namespace @ ''",container!="",image!=""}) / 1024 / 1024 / 1024)'') ''memory gb by pod'',
        table_target (''max by (pod,kubernetes_io_hostname) (container_cpu_usage_seconds_total{namespace="'' @ namespace @ ''",container!="",image!=""})'') ''worker node by pod'',
        table_target (''count by (pod) (container_cpu_usage_seconds_total{namespace="'' @ namespace @ ''",container!="",image!=""})'') ''active containers by pod'']]\<close>

definition dashboard :: "string \<Rightarrow> string \<Rightarrow> json" where
  "dashboard projectID namespace =
     JObj [(''panels'', JArr (dashboard_panels namespace)), (''refresh'', JStr ''30s''), (''schemaVersion'', number 39),
       (''timezone'', JStr ''browser''), (''title'', JStr ''Project metrics''),
       (''uid'', JStr (ProjectGrafanaDashboardUID projectID)), (''version'', number 1)]"

definition buildProjectGrafanaDashboard :: "string \<Rightarrow> string \<Rightarrow> string" where
  "buildProjectGrafanaDashboard projectID namespace = marshal_indent 0 (dashboard projectID namespace)"

section \<open>The provisioner's settings\<close>

record KubectlProvisioner =
  kx_contextName :: string
  kx_gatewayControllerNamespace :: string
  kx_appsBaseDomain :: string
  kx_monitoringNamespace :: string
  kx_prometheusBaseURL :: string
  kx_lokiBaseURL :: string
  kx_ingressNginxAutoInstall :: bool
  kx_ingressNginxManifestURL :: string

definition projectGrafanaManifest ::
  "'a KubectlProvisioner_scheme \<Rightarrow> string \<Rightarrow> string \<Rightarrow> string \<Rightarrow> string" where
  "projectGrafanaManifest p projectID namespace base =
     (let monitoring = (let m = TrimSpace (kx_monitoringNamespace p) in if m = '''' then ''monitoring'' else m);
          prometheusURL = (let u = TrimSpace (kx_prometheusBaseURL p)
            in if u = '''' then ''http://prometheus.'' @ monitoring @ ''.svc.cluster.local:9090'' else u);
          lokiURL = (let u = TrimSpace (kx_lokiBaseURL p)
            in if u = '''' then ''http://loki.'' @ monitoring @ ''.svc.cluster.local:3100'' else u)
      in grafanaManifest namespace prometheusURL (projectGrafanaHost projectID base) monitoring
           (indentYAMLBlock (buildProjectGrafanaDashboard projectID namespace) ''    '') lokiURL)"

section \<open>The dashboard is read back\<close>

text \<open>Values whose text is the canonical one: strings of ASCII, and integers of 64 bits.\<close>

fun plain_json :: "json \<Rightarrow> bool" where
  "plain_json (JNum n) = (case parse_int n of Some i \<Rightarrow> n = show_int i | None \<Rightarrow> False)"
| "plain_json (JStr s) = ascii s"
| "plain_json (JArr vs) = list_all plain_json vs"
| "plain_json (JObj kvs) = list_all (\<lambda>(k, v). ascii k \<and> plain_json v) kvs"
| "plain_json _ = True"

lemma skip_ws_indentation [simp]: "skip_ws (indentation d @ t) = skip_ws t"
proof -
  have "list_all json_space (indentation d)" by (simp add: indentation_def json_space_def list_all_iff)
  then show ?thesis by (simp add: skip_ws_def dropWhile_append2 list_all_iff)
qed

lemma skip_ws_space [simp]: "skip_ws (CHR 0x20 # t) = skip_ws t"
  by (simp add: skip_ws_def json_space_def)

lemma skip_ws_twice [simp]: "skip_ws (skip_ws t) = skip_ws t"
  by (simp add: skip_ws_def)

lemma json_value_ws: "json_value n (skip_ws t) = json_value n t"
  by (cases n) simp_all

lemma json_value_indented [simp]:
  "json_value n (indentation d @ t) = json_value n t" "json_value n (CHR 0x20 # t) = json_value n t"
  by (metis json_value_ws skip_ws_indentation, metis json_value_ws skip_ws_space)

lemma json_elements_ws: "json_elements n (skip_ws t) = json_elements n t"
  by (cases n) (simp_all add: json_value_ws)

lemma ends_number_marks [simp]:
  "ends_number (CHR '','')" "ends_number (CHR 0x0A)" "\<not> json_space (CHR 0x5B)" "\<not> json_space (CHR 0x5D)"
  by (simp_all add: ends_number_def is_digit_def json_space_def)

lemma indentation_Cons: "\<exists>t. indentation d = CHR 0x0A # t"
  by (simp add: indentation_def)

text \<open>What may follow a value in the text.\<close>

definition follows :: "string \<Rightarrow> bool" where
  "follows r \<longleftrightarrow> (\<exists>c t. r = c # t \<and> ends_number c)"

lemma follows_simps [simp]: "follows (CHR '','' # t)" "follows (indentation d @ t)"
  using indentation_Cons [of d] by (auto simp: follows_def)

lemma marshal_start:
  "plain_json v \<Longrightarrow> \<exists>c u. marshal_indent d v = c # u \<and> \<not> json_space c \<and> c \<noteq> CHR 0x5D"
proof (cases v)
  case (JNum t)
  moreover assume "plain_json v"
  ultimately obtain i where i: "t = show_int i" by (auto split: option.splits)
  obtain x ds where x: "show_nat (nat \<bar>i\<bar>) = x # ds" "is_digit x" using show_nat_cases by blast
  then show ?thesis
    using JNum i by (auto simp: show_int_def is_digit_def json_space_def)
qed (auto simp: json_text_def json_space_def)

lemma marshal_read:
  "plain_json v \<Longrightarrow> length (marshal_indent d v) < n \<Longrightarrow> follows r
     \<Longrightarrow> json_value n (marshal_indent d v @ r) = Some (v, r)"
  "list_all plain_json vs \<Longrightarrow> vs \<noteq> [] \<Longrightarrow> length (marshal_elements d vs) < n
     \<Longrightarrow> json_elements n (marshal_elements d vs @ indentation e @ '']'' @ r) = Some (vs, r)"
  "list_all (\<lambda>(k, v). ascii k \<and> plain_json v) kvs \<Longrightarrow> kvs \<noteq> [] \<Longrightarrow> length (marshal_members d kvs) < n
     \<Longrightarrow> json_members n (skip_ws (marshal_members d kvs @ indentation e @ ''}'' @ r)) = Some (kvs, r)"
proof (induction d v and d vs and d kvs arbitrary: n r and n e r and n e r
    rule: marshal_indent_marshal_elements_marshal_members.induct)
  case (1 d)
  then show ?case by (cases n) (simp_all add: skip_ws_def json_space_def json_atom_def)
next
  case (2 d b)
  then show ?case by (cases n) (simp_all add: skip_ws_def json_space_def json_atom_def)
next
  case (3 d t)
  then obtain i c u where "parse_int t = Some i" "t = show_int i" "r = c # u" "ends_number c"
    by (auto simp: follows_def split: option.splits)
  with 3 json_value_int [of c "n - 1" i u] show ?case by (cases n) simp_all
next
  case (4 d s)
  then show ?case using json_value_text [of s "n - 1" r] by (cases n) simp_all
next
  case (5 d vs)
  show ?case
  proof (cases n)
    case 0
    with 5 show ?thesis by simp
  next
    case (Suc m)
    show ?thesis
    proof (cases "vs = []")
      case True
      with Suc show ?thesis by (simp add: skip_ws_id)
    next
      case False
      with 5 Suc have "json_elements m (marshal_elements (Suc d) vs @ indentation d @ '']'' @ r) = Some (vs, r)"
        by simp
      then have read: "json_elements m (skip_ws (marshal_elements (Suc d) vs @ indentation d @ '']'' @ r)) = Some (vs, r)"
        by (simp only: json_elements_ws)
      obtain v ws where vs: "vs = v # ws" using False by (cases vs) auto
      obtain c u where c: "marshal_indent (Suc d) v = c # u" "\<not> json_space c" "c \<noteq> CHR 0x5D"
        using marshal_start [of v "Suc d"] 5 vs by auto
      have "\<exists>u'. skip_ws (marshal_elements (Suc d) vs @ indentation d @ '']'' @ r) = c # u'"
        using c by (simp add: vs skip_ws_id)
      with read c(3) Suc False show ?thesis by (auto simp: skip_ws_id)
    qed
  qed
next
  case (6 d kvs)
  show ?case
  proof (cases n)
    case 0
    with 6 show ?thesis by simp
  next
    case (Suc m)
    show ?thesis
    proof (cases "kvs = []")
      case True
      with Suc show ?thesis by (simp add: skip_ws_id)
    next
      case False
      with 6 Suc have read: "json_members m (skip_ws (marshal_members (Suc d) kvs @ indentation d @ ''}'' @ r)) = Some (kvs, r)"
        by simp
      obtain k v ws where "kvs = (k, v) # ws" using False by (cases kvs) auto
      then have "\<exists>u. skip_ws (marshal_members (Suc d) kvs @ indentation d @ ''}'' @ r) = CHR 0x22 # u"
        by (simp add: json_text_def skip_ws_id)
      with read Suc False show ?thesis by (auto simp: skip_ws_id)
    qed
  qed
next
  case (7 d)
  then show ?case by simp
next
  case (8 d v vs)
  show ?case
  proof (cases n)
    case 0
    with 8 show ?thesis by simp
  next
    case (Suc m)
    let ?rest = "(if vs = [] then '''' else '','' @ marshal_elements d vs) @ indentation e @ '']'' @ r"
    have "follows ?rest" by simp
    with 8 Suc have v: "json_value m (marshal_indent d v @ ?rest) = Some (v, ?rest)" by (simp add: indentation_def)
    show ?thesis
    proof (cases "vs = []")
      case True
      with v Suc show ?thesis by (simp add: skip_ws_id)
    next
      case False
      with 8 Suc have "json_elements m (marshal_elements d vs @ indentation e @ '']'' @ r) = Some (vs, r)" by simp
      with v Suc False show ?thesis by (simp add: skip_ws_id)
    qed
  qed
next
  case (9 d)
  then show ?case by simp
next
  case (10 d name v kvs)
  show ?case
  proof (cases n)
    case 0
    with 10 show ?thesis by simp
  next
    case (Suc m)
    let ?rest = "(if kvs = [] then '''' else '','' @ marshal_members d kvs) @ indentation e @ ''}'' @ r"
    have "follows ?rest" by simp
    with 10 Suc have v: "json_value m (marshal_indent d v @ ?rest) = Some (v, ?rest)" by (simp add: indentation_def)
    have key: "skip_ws (marshal_members d ((name, v) # kvs) @ indentation e @ ''}'' @ r)
        = json_text name @ '': '' @ marshal_indent d v @ ?rest"
      by (simp add: json_text_def skip_ws_id)
    show ?thesis
    proof (cases "kvs = []")
      case True
      with v Suc 10 show ?thesis unfolding key by (simp add: json_text_def json_chars_escape skip_ws_id)
    next
      case False
      with 10 Suc have "json_members m (skip_ws (marshal_members d kvs @ indentation e @ ''}'' @ r)) = Some (kvs, r)" by simp
      with v Suc False 10 show ?thesis unfolding key by (simp add: json_text_def json_chars_escape skip_ws_id)
    qed
  qed
qed

lemma marshal_object_read:
  assumes "plain_json (JObj kvs)"
  shows "json_whole (marshal_indent d (JObj kvs)) = Some (JObj kvs)"
proof (cases "kvs = []")
  case True
  then show ?thesis by (simp add: json_whole_def skip_ws_id) (simp add: skip_ws_def)
next
  case False
  let ?t = "marshal_members (Suc d) kvs @ indentation d @ ''}''"
  have "json_members (Suc (length ?t)) (skip_ws (marshal_members (Suc d) kvs @ indentation d @ ''}'' @ [])) = Some (kvs, [])"
    using assms False by (intro marshal_read(3)) simp_all
  moreover obtain k v ws where "kvs = (k, v) # ws" using False by (cases kvs) auto
  then have "\<exists>u. skip_ws ?t = CHR 0x22 # u"
    by (simp add: json_text_def skip_ws_id)
  ultimately show ?thesis
    using False by (auto simp: json_whole_def skip_ws_id) (simp_all add: skip_ws_def)
qed

text \<open>The queries of a dashboard, wherever they stand in it.\<close>

fun queries :: "json \<Rightarrow> string list"
  and member_queries :: "(string \<times> json) list \<Rightarrow> string list"
  and element_queries :: "json list \<Rightarrow> string list" where
  "queries (JObj kvs) = member_queries kvs"
| "queries (JArr vs) = element_queries vs"
| "queries _ = []"
| "member_queries [] = []"
| "member_queries ((k, v) # kvs) =
     (case v of JStr s \<Rightarrow> if k = ''expr'' then [s] else [] | _ \<Rightarrow> queries v) @ member_queries kvs"
| "element_queries [] = []"
| "element_queries (v # vs) = queries v @ element_queries vs"

text \<open>Every selector of a query, which stands in braces, starts with the namespace.\<close>

fun restricted_to :: "string \<Rightarrow> string \<Rightarrow> bool" where
  "restricted_to namespace [] = True"
| "restricted_to namespace (c # cs) =
     ((c = CHR 0x7B \<longrightarrow> prefix (''namespace='' @ quoted namespace) cs) \<and> restricted_to namespace cs)"

lemma restricted_to_skip: "CHR 0x7B \<notin> set s \<Longrightarrow> restricted_to ns (s @ t) = restricted_to ns t"
  by (induction s) auto

lemma label_text: "dns_label s \<Longrightarrow> ascii s \<and> CHR 0x7B \<notin> set s"
  by (auto simp: dns_label_def ascii_def list_all_iff is_slug_char_def byte_of_def)

lemma plain_number [simp]: "n < 2 ^ 63 \<Longrightarrow> plain_json (number n)"
proof -
  assume "n < 2 ^ 63"
  then have "int64 (int n)" by (simp add: int64_def)
  from parse_int_show [OF this] show ?thesis by (simp add: number_def show_int_def)
qed

lemma ascii_text: "ascii [] = True" "ascii (Char b0 b1 b2 b3 b4 b5 b6 b7 # s) = (\<not> b7 \<and> ascii s)"
    "ascii (s @ t) = (ascii s \<and> ascii t)"
  by (cases b7; auto simp: ascii_def byte_of_def of_char_def)+

lemma ascii_subset: "set s \<subseteq> set t \<Longrightarrow> ascii t \<Longrightarrow> ascii s"
  by (auto simp: ascii_def list_all_iff)

lemma dashboard_uid_ascii: "ascii (ProjectGrafanaDashboardUID pid)"
proof -
  have "ascii (take 32 (sha1_hex pid))"
    using ascii_subset [OF set_sha1_hex] by (simp add: ascii_text ascii_subset [OF set_take_subset])
  then show ?thesis by (simp add: ProjectGrafanaDashboardUID_def ascii_text)
qed

lemma plain_target: "plain_json (target expr legend) = (ascii expr \<and> ascii legend)"
    "plain_json (table_target expr legend) = (ascii expr \<and> ascii legend)"
  by (simp_all add: target_def table_target_def ascii_text)

lemma plain_panel:
  assumes "h < 100" "w < 100" "x < 100" "y < 100"
  shows "plain_json (panel kind title h w x y ts) = (ascii kind \<and> ascii title \<and> list_all plain_json ts)"
  using assms by (auto simp: panel_def ascii_text)

lemma plain_panels: "ascii ns \<Longrightarrow> list_all plain_json (dashboard_panels ns)"
  unfolding dashboard_panels_def
  by (simp only: list.pred_inject plain_panel plain_target ascii_text simp_thms numeral_less_iff
      rel_simps arith_simps)

lemma plain_dashboard: "ascii ns \<Longrightarrow> plain_json (dashboard pid ns)"
  using plain_panels [of ns] dashboard_uid_ascii [of pid]
  by (simp add: dashboard_def ascii_text)

text \<open>What the queries of a target, of a panel and of the dashboard are.\<close>

lemma queries_target: "queries (target expr legend) = [expr]" "queries (table_target expr legend) = [expr]"
  by (simp_all add: target_def table_target_def)

lemma queries_panel: "queries (panel kind title h w x y ts) = element_queries ts"
  by (simp add: panel_def number_def)

lemma queries_dashboard: "queries (dashboard pid ns) = element_queries (dashboard_panels ns)"
  by (simp add: dashboard_def number_def)

lemma panels_restricted:
  assumes ns: "CHR 0x7B \<notin> set ns"
  shows "\<forall>q \<in> set (element_queries (dashboard_panels ns)). restricted_to ns q"
  unfolding dashboard_panels_def
  by (simp add: queries_panel queries_target restricted_to_skip [OF ns] quoted_def)

text \<open>C6 The dashboard of a project is readable and shows no other project: its text is the JSON it was made of,
  and every selector of every query in it is restricted to the namespace of the project.\<close>

theorem dashboard_shows_own_namespace:
  "\<exists>d. json_whole (buildProjectGrafanaDashboard pid (namespaceFromProjectID pid)) = Some d
     \<and> length (queries d) = 16 \<and> list_all (restricted_to (namespaceFromProjectID pid)) (queries d)"
proof -
  let ?ns = "namespaceFromProjectID pid"
  have ns: "ascii ?ns" "CHR 0x7B \<notin> set ?ns" using label_text environment_names_are_labels by auto
  have "json_whole (buildProjectGrafanaDashboard pid ?ns) = Some (dashboard pid ?ns)"
    using marshal_object_read plain_dashboard [OF ns(1), of pid]
    unfolding buildProjectGrafanaDashboard_def dashboard_def by blast
  moreover have "length (queries (dashboard pid ?ns)) = 16"
    by (simp add: queries_dashboard dashboard_panels_def queries_panel queries_target)
  ultimately show ?thesis using panels_restricted [OF ns(2)] by (auto simp: queries_dashboard list_all_iff)
qed

end
