(* ===== verification/KubeObjects.thy ===== *)
theory KubeObjects
  imports KubeNames
begin

text \<open>
  What \<open>internal/integration/kubernetes\<close> reads of the lists that \<open>kubectl get -o json\<close> prints: the types of
  \<open>kubectl_provisioner_types.go\<close> with their decoding, the public addresses of services and ingresses, and the
  run-time status of a namespace that \<open>GetProjectRuntimeStatus\<close> and \<open>GetStageRuntimeStatus\<close> build of them.
\<close>

section \<open>Decoding\<close>

text \<open>A nested struct, and a slice, whose elements are decoded into zero values.\<close>

definition as_record :: "((string \<times> json) list \<Rightarrow> 'a \<Rightarrow> 'a option) \<Rightarrow> json \<Rightarrow> 'a \<Rightarrow> 'a option" where
  "as_record dec v x = (case v of JObj kvs \<Rightarrow> dec kvs x | _ \<Rightarrow> None)"

definition as_list :: "(json \<Rightarrow> 'a \<Rightarrow> 'a option) \<Rightarrow> 'a \<Rightarrow> json \<Rightarrow> 'a list \<Rightarrow> 'a list option" where
  "as_list conv zero v xs =
     (case v of
        JArr vs \<Rightarrow> those (map (\<lambda>e. if e = JNull then Some zero else conv e zero) vs)
      | _ \<Rightarrow> None)"

definition as_int32 :: "json \<Rightarrow> int \<Rightarrow> int option" where
  "as_int32 v x =
     (case as_int v x of
        Some i \<Rightarrow> if - (2 ^ 31) \<le> i \<and> i < 2 ^ 31 then Some i else None | None \<Rightarrow> None)"

text \<open>Addition of \<open>int32\<close> values wraps around.\<close>

definition add32 :: "int \<Rightarrow> int \<Rightarrow> int" where
  "add32 a b = (a + b + 2 ^ 31) mod 2 ^ 32 - 2 ^ 31"

section \<open>The lists of kubectl\<close>

record kubeDeployment =
  kd_Replicas :: int
  kd_ReadyReplicas :: int
  kd_AvailableReplicas :: int

record kubePoint =
  kt_IP :: string
  kt_Hostname :: string

record kubeService =
  ks_Name :: string
  ks_Type :: string
  ks_Ports :: "int list"
  ks_Ingress :: "kubePoint list"

record kubeContainerStatus =
  kc_Ready :: bool
  kc_RestartCount :: int

record kubePod =
  kp_Name :: string
  kp_Phase :: string
  kp_Containers :: "kubeContainerStatus list"

record kubeIngress =
  ki_Name :: string
  ki_Hosts :: "string list"

definition in_record :: "string \<Rightarrow> ((string \<times> json) list \<Rightarrow> 'a \<Rightarrow> 'a option) \<Rightarrow> (string \<times> json) list \<Rightarrow> 'a \<Rightarrow> 'a option" where
  "in_record name dec kvs x = field (as_record dec) name kvs x"

definition decode_deployment :: "json \<Rightarrow> kubeDeployment \<Rightarrow> kubeDeployment option" where
  "decode_deployment = as_record (in_record ''status'' (\<lambda>kvs d.
     Option.bind (field as_int32 ''replicas'' kvs (kd_Replicas d)) (\<lambda>r.
     Option.bind (field as_int32 ''readyReplicas'' kvs (kd_ReadyReplicas d)) (\<lambda>y.
     Option.bind (field as_int32 ''availableReplicas'' kvs (kd_AvailableReplicas d)) (\<lambda>a.
     Some \<lparr>kd_Replicas = r, kd_ReadyReplicas = y, kd_AvailableReplicas = a\<rparr>)))))"

definition decode_point :: "json \<Rightarrow> kubePoint \<Rightarrow> kubePoint option" where
  "decode_point = as_record (\<lambda>kvs p.
     Option.bind (field as_string ''ip'' kvs (kt_IP p)) (\<lambda>ip.
     Option.bind (field as_string ''hostname'' kvs (kt_Hostname p)) (\<lambda>host.
     Some \<lparr>kt_IP = ip, kt_Hostname = host\<rparr>)))"

definition decode_name :: "(string \<times> json) list \<Rightarrow> string \<Rightarrow> string option" where
  "decode_name = in_record ''metadata'' (field as_string ''name'')"

definition decode_service :: "json \<Rightarrow> kubeService \<Rightarrow> kubeService option" where
  "decode_service = as_record (\<lambda>kvs s.
     Option.bind (decode_name kvs (ks_Name s)) (\<lambda>name.
     Option.bind (in_record ''spec'' (\<lambda>kvs (t, ps).
        Option.bind (field as_string ''type'' kvs t) (\<lambda>t.
        Option.bind (field (as_list (as_record (field as_int32 ''port'')) 0) ''ports'' kvs ps) (\<lambda>ps.
        Some (t, ps)))) kvs (ks_Type s, ks_Ports s)) (\<lambda>(t, ps).
     Option.bind (in_record ''status'' (in_record ''loadBalancer''
        (field (as_list decode_point \<lparr>kt_IP = '''', kt_Hostname = ''''\<rparr>) ''ingress'')) kvs (ks_Ingress s)) (\<lambda>points.
     Some \<lparr>ks_Name = name, ks_Type = t, ks_Ports = ps, ks_Ingress = points\<rparr>))))"

definition decode_container_status :: "json \<Rightarrow> kubeContainerStatus \<Rightarrow> kubeContainerStatus option" where
  "decode_container_status = as_record (\<lambda>kvs c.
     Option.bind (field as_bool ''ready'' kvs (kc_Ready c)) (\<lambda>r.
     Option.bind (field as_int32 ''restartCount'' kvs (kc_RestartCount c)) (\<lambda>n.
     Some \<lparr>kc_Ready = r, kc_RestartCount = n\<rparr>)))"

definition decode_pod :: "json \<Rightarrow> kubePod \<Rightarrow> kubePod option" where
  "decode_pod = as_record (\<lambda>kvs p.
     Option.bind (decode_name kvs (kp_Name p)) (\<lambda>name.
     Option.bind (in_record ''status'' (\<lambda>kvs (ph, cs).
        Option.bind (field as_string ''phase'' kvs ph) (\<lambda>ph.
        Option.bind (field (as_list decode_container_status \<lparr>kc_Ready = False, kc_RestartCount = 0\<rparr>)
           ''containerStatuses'' kvs cs) (\<lambda>cs.
        Some (ph, cs)))) kvs (kp_Phase p, kp_Containers p)) (\<lambda>(ph, cs).
     Some \<lparr>kp_Name = name, kp_Phase = ph, kp_Containers = cs\<rparr>)))"

text \<open>The rules of an ingress with their hosts; the raw text under \<open>http\<close> is only kept for a patch that is not modelled.\<close>

definition decode_ingress :: "json \<Rightarrow> kubeIngress \<Rightarrow> kubeIngress option" where
  "decode_ingress = as_record (\<lambda>kvs i.
     Option.bind (decode_name kvs (ki_Name i)) (\<lambda>name.
     Option.bind (in_record ''spec'' (field (as_list (as_record (field as_string ''host'')) '''') ''rules'') kvs (ki_Hosts i)) (\<lambda>hosts.
     Some \<lparr>ki_Name = name, ki_Hosts = hosts\<rparr>)))"

text \<open>\<open>json.Unmarshal\<close> into a list object; \<open>None\<close> is an error of the decoder.\<close>

definition decode_items :: "(json \<Rightarrow> 'a \<Rightarrow> 'a option) \<Rightarrow> 'a \<Rightarrow> string \<Rightarrow> 'a list option" where
  "decode_items conv zero text =
     Option.bind (json_whole text) (\<lambda>v.
     Option.bind (members_of v) (\<lambda>kvs. field (as_list conv zero) ''items'' kvs []))"

definition kubectlDeploymentList :: "string \<Rightarrow> kubeDeployment list option" where
  "kubectlDeploymentList =
     decode_items decode_deployment \<lparr>kd_Replicas = 0, kd_ReadyReplicas = 0, kd_AvailableReplicas = 0\<rparr>"

definition kubectlServiceList :: "string \<Rightarrow> kubeService list option" where
  "kubectlServiceList = decode_items decode_service \<lparr>ks_Name = '''', ks_Type = '''', ks_Ports = [], ks_Ingress = []\<rparr>"

definition kubectlPodList :: "string \<Rightarrow> kubePod list option" where
  "kubectlPodList = decode_items decode_pod \<lparr>kp_Name = '''', kp_Phase = '''', kp_Containers = []\<rparr>"

definition kubectlIngressList :: "string \<Rightarrow> kubeIngress list option" where
  "kubectlIngressList = decode_items decode_ingress \<lparr>ki_Name = '''', ki_Hosts = []\<rparr>"

section \<open>Public addresses\<close>

fun loadBalancerEndpoint :: "kubePoint list \<Rightarrow> string" where
  "loadBalancerEndpoint [] = ''''"
| "loadBalancerEndpoint (p # ps) =
     (if TrimSpace (kt_IP p) \<noteq> '''' then TrimSpace (kt_IP p)
      else if TrimSpace (kt_Hostname p) \<noteq> '''' then TrimSpace (kt_Hostname p)
      else loadBalancerEndpoint ps)"

fun servicePublicPort :: "int list \<Rightarrow> int" where
  "servicePublicPort [] = 0"
| "servicePublicPort (p # ps) = (if p > 0 then p else servicePublicPort ps)"

fun detectPublicURLFromServices :: "kubeService list \<Rightarrow> string" where
  "detectPublicURLFromServices [] = ''''"
| "detectPublicURLFromServices (s # ss) =
     (if \<not> EqualFold (ks_Type s) ''LoadBalancer'' then detectPublicURLFromServices ss
      else (let endpoint = loadBalancerEndpoint (ks_Ingress s)
            in if endpoint = '''' then detectPublicURLFromServices ss
               else formatPublicURL endpoint (servicePublicPort (ks_Ports s))))"

definition first_host :: "kubeIngress \<Rightarrow> string option" where
  "first_host i = find (\<lambda>h. h \<noteq> '''') (map TrimSpace (ki_Hosts i))"

fun detectPublicURLFromIngresses :: "kubeIngress list \<Rightarrow> string" where
  "detectPublicURLFromIngresses [] = ''''"
| "detectPublicURLFromIngresses (i # is) =
     (case first_host i of
        Some host \<Rightarrow> ''https://'' @ host | None \<Rightarrow> detectPublicURLFromIngresses is)"

definition detectAllURLsFromIngresses :: "kubeIngress list \<Rightarrow> ServiceURL list" where
  "detectAllURLsFromIngresses is =
     concat (map (\<lambda>i. case first_host i of
        Some host \<Rightarrow> [\<lparr>su_Name = ki_Name i, su_URL = ''https://'' @ host\<rparr>] | None \<Rightarrow> []) is)"

text \<open>Of the routes of the gateway interface only the host names are read.\<close>

definition decode_route :: "json \<Rightarrow> string list \<Rightarrow> string list option" where
  "decode_route = as_record (in_record ''spec'' (field (as_list as_string '''') ''hostnames''))"

definition kubectlHTTPRouteList :: "string \<Rightarrow> string list list option" where
  "kubectlHTTPRouteList = decode_items decode_route []"

fun detectPublicURLFromHTTPRoutes :: "string list list \<Rightarrow> string" where
  "detectPublicURLFromHTTPRoutes [] = ''''"
| "detectPublicURLFromHTTPRoutes (hosts # rs) =
     (case find (\<lambda>h. h \<noteq> '''') (map TrimSpace hosts) of
        Some host \<Rightarrow> ''https://'' @ host | None \<Rightarrow> detectPublicURLFromHTTPRoutes rs)"

section \<open>The status of a namespace\<close>

definition pod_status :: "kubePod \<Rightarrow> ProjectPodStatus" where
  "pod_status p =
     \<lparr>pod_Name = kp_Name p, pod_Phase = kp_Phase p, pod_Ready = (\<exists>c \<in> set (kp_Containers p). kc_Ready c),
      pod_Restarts = foldl (\<lambda>n c. add32 n (kc_RestartCount c)) 0 (kp_Containers p)\<rparr>"

definition sum_replicas :: "(kubeDeployment \<Rightarrow> int) \<Rightarrow> kubeDeployment list \<Rightarrow> int" where
  "sum_replicas f ds = foldl (\<lambda>n d. add32 n (f d)) 0 ds"

definition with_deployments :: "kubeDeployment list \<Rightarrow> ProjectRuntimeStatus \<Rightarrow> ProjectRuntimeStatus" where
  "with_deployments ds st =
     (if ds \<noteq> [] then st\<lparr>rs_DeploymentExists := True, rs_DesiredReplicas := sum_replicas kd_Replicas ds,
        rs_ReadyReplicas := sum_replicas kd_ReadyReplicas ds,
        rs_AvailableReplicas := sum_replicas kd_AvailableReplicas ds\<rparr> else st)"

definition with_services :: "kubeService list \<Rightarrow> ProjectRuntimeStatus \<Rightarrow> ProjectRuntimeStatus" where
  "with_services ss st =
     st\<lparr>rs_ServiceExists := (\<exists>s \<in> set ss. ks_Name s \<noteq> ''kubernetes''),
        rs_PublicURL := detectPublicURLFromServices ss\<rparr>"

definition with_ingresses :: "kubeIngress list \<Rightarrow> ProjectRuntimeStatus \<Rightarrow> ProjectRuntimeStatus" where
  "with_ingresses is st =
     st\<lparr>rs_HTTPRouteExists := (is \<noteq> []),
        rs_PublicURL := (if rs_PublicURL st = '''' then detectPublicURLFromIngresses is else rs_PublicURL st),
        rs_ServiceURLs := detectAllURLsFromIngresses is\<rparr>"

text \<open>The message, for a project and for a stage.\<close>

definition project_message :: "ProjectRuntimeStatus \<Rightarrow> string" where
  "project_message st =
     (if \<not> rs_DeploymentExists st then ''namespace exists, but application manifests have not been applied yet''
      else if rs_ReadyReplicas st > 0 \<and> \<not> rs_HTTPRouteExists st
      then ''application has ready replicas, but Ingress was not found''
      else if rs_ReadyReplicas st > 0 then ''application is deployed and has ready replicas''
      else ''deployment exists, but pods are still starting or unhealthy'')"

definition stage_message :: "ProjectRuntimeStatus \<Rightarrow> string" where
  "stage_message st =
     (if \<not> rs_DeploymentExists st then ''stage namespace exists, application manifests not yet applied''
      else if rs_ReadyReplicas st > 0 \<and> \<not> rs_HTTPRouteExists st
      then ''application has ready replicas, but Ingress was not found''
      else if rs_ReadyReplicas st > 0 then ''application is deployed and has ready replicas''
      else ''deployment exists, but pods are still starting'')"

end
