(* ===== verification/Kubeconfig.thy ===== *)
theory Kubeconfig
  imports GoStrings
begin

text \<open>
  The rewriting of kubeconfig texts in \<open>internal/integration/kubernetes/kubectl_provisioner.go\<close>: its three
  regular expressions as matchers at the start of a line, and \<open>ReplaceAllString\<close> as the scan that leaves
  everything outside the leftmost matches. Whitespace of an expression may span lines.
\<close>

section \<open>The regular expressions\<close>

definition newline :: char where
  "newline = CHR 0x0A"

text \<open>The class \<open>\s\<close> of Go.\<close>

definition re_space :: "char \<Rightarrow> bool" where
  "re_space c \<longleftrightarrow> c = CHR 0x09 \<or> c = CHR 0x0A \<or> c = CHR 0x0C \<or> c = CHR 0x0D \<or> c = CHR 0x20"

text \<open>
  \<open>\s*$\<close> with the flag for lines: as much whitespace as possible, up to the end of the text or the last line
  feed in it. The result is the text after the match.
\<close>

definition line_end :: "string \<Rightarrow> string option" where
  "line_end t =
     (let run = takeWhile re_space t
      in if dropWhile re_space t = [] then Some []
         else if newline \<in> set run
         then Some (drop (length run - Suc (length (takeWhile (\<lambda>c. c \<noteq> newline) (rev run)))) t)
         else None)"

text \<open>\<open>^(\s*)server:\s*\<close>: the captured indentation and the text after the match.\<close>

definition server_key :: "string \<Rightarrow> (string \<times> string) option" where
  "server_key t =
     (let r = dropWhile re_space t
      in if HasPrefix r ''server:'' then Some (takeWhile re_space t, dropWhile re_space (drop 7 r)) else None)"

definition kubeconfigLocalhostServerRe :: "string \<Rightarrow> (string \<times> string) option" where
  "kubeconfigLocalhostServerRe t =
     (case server_key t of
        None \<Rightarrow> None
      | Some (indent, r) \<Rightarrow>
         if HasPrefix r ''https://localhost:8443'' then map_option (Pair indent) (line_end (drop 22 r)) else None)"

definition host_char :: "char \<Rightarrow> bool" where
  "host_char c \<longleftrightarrow> (CHR ''a'' \<le> c \<and> c \<le> CHR ''z'') \<or> is_digit c \<or> c = CHR ''.'' \<or> c = CHR ''-''"

text \<open>The host part \<open>[a-z0-9.-]+\.svc(?:\.cluster\.local)?\<close>, which what follows it ends at its last character.\<close>

definition service_host :: "string \<Rightarrow> bool" where
  "service_host h \<longleftrightarrow> (HasSuffix h ''.svc'' \<and> length h > 4) \<or> (HasSuffix h ''.svc.cluster.local'' \<and> length h > 18)"

definition port_suffix :: "string \<Rightarrow> string option" where
  "port_suffix t =
     (case t of
        [] \<Rightarrow> Some []
      | c # r \<Rightarrow>
         if c \<noteq> CHR '':'' then Some t
         else if takeWhile is_digit r = [] then None else Some (dropWhile is_digit r))"

definition kubeconfigClusterServiceServerRe :: "string \<Rightarrow> (string \<times> string) option" where
  "kubeconfigClusterServiceServerRe t =
     (case server_key t of
        None \<Rightarrow> None
      | Some (indent, r) \<Rightarrow>
         if HasPrefix r ''https://'' \<and> service_host (takeWhile host_char (drop 8 r))
         then map_option (Pair indent)
                (Option.bind (port_suffix (dropWhile host_char (drop 8 r))) line_end)
         else None)"

definition kubeconfigCADataRe :: "string \<Rightarrow> (string \<times> string) option" where
  "kubeconfigCADataRe t =
     (let r = dropWhile re_space t; rest = dropWhile (\<lambda>c. c \<noteq> newline) (drop 27 r)
      in if HasPrefix r ''certificate-authority-data:'' \<and> rest \<noteq> [] then Some ([], tl rest) else None)"

section \<open>Searching and replacing\<close>

fun re_find :: "(string \<Rightarrow> (string \<times> string) option) \<Rightarrow> bool \<Rightarrow> string \<Rightarrow> string option" where
  "re_find re bol [] = None"
| "re_find re bol (c # cs) =
     (case (if bol then re (c # cs) else None) of
        Some (group1, rest) \<Rightarrow> Some group1
      | None \<Rightarrow> re_find re (c = newline) cs)"

text \<open>After a match the scan goes on behind it; the guard holds for every match of the expressions.\<close>

function re_replace :: "(string \<Rightarrow> (string \<times> string) option) \<Rightarrow> string \<Rightarrow> bool \<Rightarrow> string \<Rightarrow> string" where
  "re_replace re new bol [] = []"
| "re_replace re new bol (c # cs) =
     (case (if bol then re (c # cs) else None) of
        Some (group1, rest) \<Rightarrow>
          if length rest \<le> length cs
          then new @ re_replace re new (last (take (length (c # cs) - length rest) (c # cs)) = newline) rest
          else c # re_replace re new (c = newline) cs
      | None \<Rightarrow> c # re_replace re new (c = newline) cs)"
  by pat_completeness auto
termination
  by (relation "measure (\<lambda>(re, new, bol, t). length t)") auto

definition MatchString :: "(string \<Rightarrow> (string \<times> string) option) \<Rightarrow> string \<Rightarrow> bool" where
  "MatchString re t \<longleftrightarrow> re_find re True t \<noteq> None"

definition ReplaceAllString :: "(string \<Rightarrow> (string \<times> string) option) \<Rightarrow> string \<Rightarrow> string \<Rightarrow> string" where
  "ReplaceAllString re t new = re_replace re new True t"

section \<open>Kubeconfigs\<close>

definition kubeconfigUsesLocalhostServer :: "string \<Rightarrow> bool" where
  "kubeconfigUsesLocalhostServer kubeconfig \<longleftrightarrow> MatchString kubeconfigLocalhostServerRe kubeconfig"

definition kubeconfigUsesClusterServiceServer :: "string \<Rightarrow> bool" where
  "kubeconfigUsesClusterServiceServer kubeconfig \<longleftrightarrow> MatchString kubeconfigClusterServiceServerRe kubeconfig"

text \<open>The replacement has no \<open>$\<close>, which \<open>ReplaceAllString\<close> would expand: the endpoint is an address with a port.\<close>

definition server_lines :: "string \<Rightarrow> string \<Rightarrow> string" where
  "server_lines indent url =
     indent @ ''insecure-skip-tls-verify: true'' @ [newline] @ indent @ ''server: '' @ url"

definition rewriteKubeconfigLocalhostServer :: "string \<Rightarrow> string \<Rightarrow> string" where
  "rewriteKubeconfigLocalhostServer kubeconfig endpoint =
     (let endpoint = TrimSpace endpoint
      in if endpoint = '''' then kubeconfig
         else (let endpoint = (if Contains endpoint ''://'' then endpoint else ''https://'' @ endpoint)
               in case re_find kubeconfigLocalhostServerRe True kubeconfig of
                    None \<Rightarrow> kubeconfig
                  | Some indent \<Rightarrow>
                     (let updated = ReplaceAllString kubeconfigLocalhostServerRe kubeconfig (server_lines indent endpoint)
                      in ReplaceAllString kubeconfigCADataRe updated '''')))"

definition rewriteKubeconfigServerForPortForward :: "string \<Rightarrow> int \<Rightarrow> string" where
  "rewriteKubeconfigServerForPortForward kubeconfig localPort =
     (let endpoint = ''127.0.0.1:'' @ show_int localPort;
          rewritten = rewriteKubeconfigLocalhostServer kubeconfig endpoint
      in if rewritten \<noteq> kubeconfig then rewritten
         else case re_find kubeconfigClusterServiceServerRe True kubeconfig of
           None \<Rightarrow> kubeconfig
         | Some indent \<Rightarrow>
            ReplaceAllString kubeconfigCADataRe
              (ReplaceAllString kubeconfigClusterServiceServerRe kubeconfig
                 (server_lines indent (''https://'' @ endpoint))) '''')"

section \<open>Lemmas\<close>

definition ca_key :: string where
  "ca_key = ''certificate-authority-data:''"

lemma ca_key: "newline \<notin> set ca_key" "length ca_key = 27"
  by (simp_all add: ca_key_def newline_def)

abbreviation no_ca :: "string \<Rightarrow> bool" where
  "no_ca t \<equiv> kubeconfigCADataRe t = None"

lemma no_ca_iff:
  "no_ca t \<longleftrightarrow> \<not> (prefix ca_key (dropWhile re_space t) \<and> newline \<in> set (drop 27 (dropWhile re_space t)))"
  by (auto simp: kubeconfigCADataRe_def Let_def ca_key_def dropWhile_eq_Nil_conv)

lemma newline_space [simp]: "re_space newline"
  by (simp add: re_space_def newline_def)

lemma CADataRe_match:
  assumes "kubeconfigCADataRe t = Some (g, rest)"
  shows "\<exists>pre. t = pre @ newline # rest"
proof -
  let ?r = "dropWhile re_space t"
  have r: "rest = tl (dropWhile (\<lambda>c. c \<noteq> newline) (drop 27 ?r))" "dropWhile (\<lambda>c. c \<noteq> newline) (drop 27 ?r) \<noteq> []"
    using assms by (auto simp: kubeconfigCADataRe_def Let_def split: if_splits)
  then have "dropWhile (\<lambda>c. c \<noteq> newline) (drop 27 ?r) = newline # rest"
    using hd_dropWhile [of "\<lambda>c. c \<noteq> newline" "drop 27 ?r"] by (metis (mono_tags) list.collapse)
  moreover have "t = takeWhile re_space t @ take 27 ?r @ drop 27 ?r" by simp
  ultimately show ?thesis by (metis append.assoc takeWhile_dropWhile_id)
qed

text \<open>Leading whitespace does not matter for a match, and neither does anything behind the line.\<close>

lemma no_ca_space: "re_space c \<Longrightarrow> no_ca (c # t) = no_ca t"
  by (simp add: kubeconfigCADataRe_def)

definition same_line :: "string \<Rightarrow> string \<Rightarrow> bool" where
  "same_line s t \<longleftrightarrow> takeWhile (\<lambda>c. c \<noteq> newline) s = takeWhile (\<lambda>c. c \<noteq> newline) t
     \<and> (newline \<in> set s \<longleftrightarrow> newline \<in> set t)"

lemma prefix_line:
  assumes "newline \<notin> set k"
  shows "prefix k t \<and> newline \<in> set (drop (length k) t)
    \<longleftrightarrow> prefix k (takeWhile (\<lambda>c. c \<noteq> newline) t) \<and> newline \<in> set t"
proof
  assume "prefix k t \<and> newline \<in> set (drop (length k) t)"
  then obtain u where u: "t = k @ u" "newline \<in> set u" by (auto simp: prefix_def)
  have "takeWhile (\<lambda>c. c \<noteq> newline) t = k @ takeWhile (\<lambda>c. c \<noteq> newline) u"
    using assms unfolding u(1) by (intro takeWhile_append2) auto
  with u show "prefix k (takeWhile (\<lambda>c. c \<noteq> newline) t) \<and> newline \<in> set t" by simp
next
  assume r: "prefix k (takeWhile (\<lambda>c. c \<noteq> newline) t) \<and> newline \<in> set t"
  then obtain u where u: "t = k @ u" using takeWhile_is_prefix prefix_order.trans by (metis prefixE)
  with r assms show "prefix k t \<and> newline \<in> set (drop (length k) t)" by simp
qed

lemma no_ca_line: "\<not> re_space c \<Longrightarrow> same_line s t \<Longrightarrow> no_ca (c # s) = no_ca (c # t)"
  using prefix_line [OF ca_key(1), of "c # s"] prefix_line [OF ca_key(1), of "c # t"]
  by (auto simp: no_ca_iff ca_key(2) same_line_def)

lemma re_replace_line: "same_line (re_replace kubeconfigCADataRe [] False t) t"
  by (induction t) (auto simp: same_line_def)

text \<open>After the scan no line with the key is left.\<close>

lemma ca_gone:
  "re_find kubeconfigCADataRe bol (re_replace kubeconfigCADataRe [] bol t) = None
   \<and> (no_ca t \<longrightarrow> no_ca (re_replace kubeconfigCADataRe [] bol t))"
proof (induction t arbitrary: bol rule: length_induct)
  case (1 t)
  show ?case
  proof (cases t)
    case Nil
    then show ?thesis by simp
  next
    case (Cons c cs)
    let ?out = "re_replace kubeconfigCADataRe [] (c = newline) cs"
    have IH: "re_find kubeconfigCADataRe (c = newline) ?out = None" "no_ca cs \<Longrightarrow> no_ca ?out"
      using 1 Cons by simp_all
    show ?thesis
    proof (cases "bol \<and> \<not> no_ca t")
      case True
      then obtain g rest where m: "kubeconfigCADataRe t = Some (g, rest)" by auto
      then obtain pre where t: "t = pre @ newline # rest" using CADataRe_match by blast
      then have len: "length t = Suc (length pre + length rest)" by simp
      have "last (take (length t - length rest) t) = newline" by (simp add: t)
      moreover have "length rest \<le> length cs" using len Cons by simp
      ultimately have "re_replace kubeconfigCADataRe [] bol t = re_replace kubeconfigCADataRe [] True rest"
        using True m Cons by simp
      moreover have "re_find kubeconfigCADataRe True (re_replace kubeconfigCADataRe [] True rest) = None"
        using 1 t by simp
      ultimately show ?thesis using True m by simp
    next
      case False
      then have "(if bol then kubeconfigCADataRe (c # cs) else None) = None"
        unfolding Cons by (cases bol; cases "kubeconfigCADataRe (c # cs)"; simp)
      then have out: "re_replace kubeconfigCADataRe [] bol t = c # ?out"
        unfolding Cons re_replace.simps by (simp only: option.case)
      have "no_ca (c # ?out)" if "no_ca t"
      proof (cases "re_space c")
        case True
        with that IH(2) Cons show ?thesis by (simp add: no_ca_space)
      next
        case sp: False
        then have "c \<noteq> newline" by auto
        then have "same_line ?out cs" using re_replace_line by simp
        with sp that Cons show ?thesis using no_ca_line by metis
      qed
      moreover from False have "no_ca t" if bol using that by blast
      ultimately have "(if bol then kubeconfigCADataRe (c # ?out) else None) = None" by (cases bol) simp_all
      then have "re_find kubeconfigCADataRe bol (c # ?out) = None"
        unfolding re_find.simps by (simp only: option.case IH(1))
      with out \<open>no_ca t \<Longrightarrow> no_ca (c # ?out)\<close> show ?thesis by simp
    qed
  qed
qed

section \<open>Properties\<close>

text \<open>A kubeconfig that was rewritten to skip the verification of the server pins no certificate authority any
  more, which would be a contradiction; a kubeconfig that names the local server is always rewritten, any other text
  stays as it is.\<close>

theorem rewritten_kubeconfig_pins_no_ca:
  assumes "TrimSpace endpoint \<noteq> ''''"
  shows "if kubeconfigUsesLocalhostServer k
    then \<not> MatchString kubeconfigCADataRe (rewriteKubeconfigLocalhostServer k endpoint)
    else rewriteKubeconfigLocalhostServer k endpoint = k"
proof (cases "re_find kubeconfigLocalhostServerRe True k")
  case None
  with assms show ?thesis
    by (simp add: kubeconfigUsesLocalhostServer_def MatchString_def rewriteKubeconfigLocalhostServer_def)
next
  case (Some indent)
  with assms ca_gone show ?thesis
    by (simp add: kubeconfigUsesLocalhostServer_def MatchString_def rewriteKubeconfigLocalhostServer_def
        ReplaceAllString_def Let_def)
qed

definition sample_kubeconfig :: string where
  "sample_kubeconfig = concat (map (\<lambda>l. l @ [newline])
     [''clusters:'', ''- cluster:'', ''    certificate-authority-data: QUJD'',
      ''    server: https://localhost:8443'', ''  name: c''])"

theorem rewritten_kubeconfig_pins_no_ca_witness:
  "MatchString kubeconfigCADataRe sample_kubeconfig
   \<and> \<not> MatchString kubeconfigCADataRe (rewriteKubeconfigLocalhostServer sample_kubeconfig ''10.0.0.7:443'')
   \<and> rewriteKubeconfigLocalhostServer sample_kubeconfig ''10.0.0.7:443'' = concat (map (\<lambda>l. l @ [newline])
     [''clusters:'', ''- cluster:'', ''    insecure-skip-tls-verify: true'', ''    server: https://10.0.0.7:443'', ''  name: c''])"
proof -
  have trim: "TrimSpace ''10.0.0.7:443'' \<noteq> ''''" by code_simp
  have "kubeconfigUsesLocalhostServer sample_kubeconfig" "MatchString kubeconfigCADataRe sample_kubeconfig"
    "rewriteKubeconfigLocalhostServer sample_kubeconfig ''10.0.0.7:443'' = concat (map (\<lambda>l. l @ [newline])
     [''clusters:'', ''- cluster:'', ''    insecure-skip-tls-verify: true'', ''    server: https://10.0.0.7:443'', ''  name: c''])"
    by code_simp+
  with rewritten_kubeconfig_pins_no_ca [OF trim, of sample_kubeconfig] show ?thesis by simp
qed

end
