(* ===== verification/GoNet.thy ===== *)
theory GoNet
  imports GoJson
begin

text \<open>
  \<open>net.ParseIP\<close>, as far as the program uses it: whether a text is an IPv4 or IPv6 address without a zone.
\<close>

text \<open>A field of a dotted address: at most 255, without leading zeros.\<close>

definition ipv4_field :: "string \<Rightarrow> bool" where
  "ipv4_field f \<longleftrightarrow> f \<noteq> [] \<and> length f \<le> 3 \<and> list_all is_digit f \<and> digits_value f \<le> 255
     \<and> (length f = 1 \<or> hd f \<noteq> CHR ''0'')"

definition is_ipv4 :: "string \<Rightarrow> bool" where
  "is_ipv4 s \<longleftrightarrow> (let fs = Split s (CHR ''.'') in length fs = 4 \<and> list_all ipv4_field fs)"

definition is_hex :: "char \<Rightarrow> bool" where
  "is_hex c \<longleftrightarrow> hex_value c \<noteq> None"

text \<open>
  The loop over the fields of an IPv6 address with the number of bytes read and whether \<open>::\<close> was seen; a dotted
  address may end it.
\<close>

function ipv6_fields :: "string \<Rightarrow> nat \<Rightarrow> bool \<Rightarrow> bool" where
  "ipv6_fields s i ellipsis =
     (let f = takeWhile is_hex s; r = drop (length f) s
      in if i = 16 then False
         else if f = [] \<or> length f > 4 then False
         else if r \<noteq> [] \<and> hd r = CHR ''.''
         then (ellipsis \<or> i = 12) \<and> i + 4 \<le> 16 \<and> is_ipv4 s \<and> (if i + 4 < 16 then ellipsis else \<not> ellipsis)
         else (case r of
                 [] \<Rightarrow> (if i + 2 < 16 then ellipsis else \<not> ellipsis)
               | c # r1 \<Rightarrow>
                  if c \<noteq> CHR '':'' \<or> r1 = [] then False
                  else if hd r1 = CHR '':''
                  then (if ellipsis then False
                        else if tl r1 = [] then i + 2 < 16
                        else ipv6_fields (tl r1) (i + 2) True)
                  else ipv6_fields r1 (i + 2) ellipsis))"
  by pat_completeness auto
termination
  by (relation "measure (\<lambda>(s, i, e). length s)") (auto dest!: arg_cong [where f = length])

declare ipv6_fields.simps [simp del]

definition is_ipv6 :: "string \<Rightarrow> bool" where
  "is_ipv6 s \<longleftrightarrow>
     (if HasPrefix s ''::'' then drop 2 s = [] \<or> ipv6_fields (drop 2 s) 0 True else ipv6_fields s 0 False)"

text \<open>The first dot or colon decides which kind of address it is.\<close>

definition ParseIP :: "string \<Rightarrow> bool" where
  "ParseIP s \<longleftrightarrow>
     (case dropWhile (\<lambda>c. c \<noteq> CHR ''.'' \<and> c \<noteq> CHR '':'') s of
        [] \<Rightarrow> False | c # _ \<Rightarrow> if c = CHR ''.'' then is_ipv4 s else is_ipv6 s)"

end
