(* ===== verification/Calls.thy ===== *)
theory Calls
  imports Domain
begin

text \<open>
  The clients of the cluster and of the web interfaces are functions from a log of the calls made so far to a result
  and the longer log. This theory has their early return on an error, and the predicate that carries what a function
  adds to a log through all of its steps.
\<close>

section \<open>Errors\<close>

text \<open>The early return on an error, and the wrapping \<open>fmt.Errorf("...: %w", err)\<close>.\<close>

definition andthen :: "(go_error + 'a) \<times> 's \<Rightarrow> ('a \<Rightarrow> 's \<Rightarrow> (go_error + 'b) \<times> 's) \<Rightarrow> (go_error + 'b) \<times> 's" where
  "andthen m f = (let (r, s) = m in case r of Inl e \<Rightarrow> (Inl e, s) | Inr v \<Rightarrow> f v s)"

definition wrapped :: "string \<Rightarrow> (go_error + 'a) \<times> 's \<Rightarrow> (go_error + 'a) \<times> 's" where
  "wrapped what m = (let (r, s) = m in (map_sum (\<lambda>e. ErrWrap what e '''') id r, s))"

lemma andthen_Inr: "fst m = Inr v \<Longrightarrow> andthen m f = f v (snd m)"
  by (cases m) (simp add: andthen_def)

lemma andthen_InrE:
  assumes "fst (andthen m f) = Inr w"
  obtains v where "fst m = Inr v" and "fst (f v (snd m)) = Inr w" and "andthen m f = f v (snd m)"
  using assms by (cases m) (auto simp: andthen_def split: sum.splits)

lemma snd_wrapped [simp]: "snd (wrapped what m) = snd m"
  by (cases m) (simp add: wrapped_def)

lemma wrapped_InrD: "fst (wrapped what m) = Inr v \<Longrightarrow> fst m = Inr v"
  by (cases m; cases "fst m") (auto simp: wrapped_def)

section \<open>What is added to a log\<close>

definition adds :: "('c \<Rightarrow> bool) \<Rightarrow> nat \<Rightarrow> 'c list \<Rightarrow> 'r \<times> 'c list \<Rightarrow> bool" where
  "adds P N s m \<longleftrightarrow> (\<exists>new. snd m = s @ new \<and> length new \<le> N \<and> list_all P new)"

lemma adds_return: "adds P N s (r, s)"
  by (simp add: adds_def)

lemma adds_one: "P c \<Longrightarrow> adds P 1 s (r, s @ [c])"
  by (simp add: adds_def)

lemma adds_mono: "adds P N s m \<Longrightarrow> N \<le> N' \<Longrightarrow> adds P N' s m"
  unfolding adds_def by (meson le_trans)

lemma adds_weaken: "adds P N s m \<Longrightarrow> (\<And>c. P c \<Longrightarrow> Q c) \<Longrightarrow> adds Q N s m"
  unfolding adds_def by (meson list.pred_mono_strong)

lemma adds_result: "adds P N s m \<Longrightarrow> snd m = snd m' \<Longrightarrow> adds P N s m'"
  by (simp add: adds_def)

lemma adds_let:
  assumes "adds P N s m" and "\<And>v s'. adds P M s' (f v s')"
  shows "adds P (N + M) s (case m of (v, s') \<Rightarrow> f v s')"
proof -
  obtain v s' where m: "m = (v, s')" by (cases m)
  from assms(1) obtain xs where xs: "s' = s @ xs" "length xs \<le> N" "list_all P xs"
    by (auto simp: adds_def m)
  from assms(2) [of s' v] obtain ys where "snd (f v s') = s' @ ys" "length ys \<le> M" "list_all P ys"
    by (auto simp: adds_def)
  with xs show ?thesis unfolding adds_def m by (intro exI [of _ "xs @ ys"]) simp
qed

lemma adds_andthen:
  assumes "adds P N s m" and "\<And>v s'. adds P M s' (f v s')"
  shows "adds P (N + M) s (andthen m f)"
  unfolding andthen_def Let_def
proof (rule adds_let [OF assms(1)])
  show "adds P M s' (case r of Inl e \<Rightarrow> (Inl e, s') | Inr v \<Rightarrow> f v s')" for r s'
    using assms(2) by (cases r) (simp_all add: adds_return)
qed

lemma adds_andthen_some:
  assumes "\<And>n. adds (Q n) N s m" and "\<And>v s'. \<exists>n. adds (Q n) M s' (f v s')"
  shows "\<exists>n. adds (Q n) (N + M) s (andthen m f)"
proof -
  obtain r s' where m: "m = (r, s')" by (cases m)
  from assms(1) have new: "\<exists>xs. s' = s @ xs \<and> length xs \<le> N \<and> list_all (Q n) xs" for n
    by (simp add: adds_def m)
  show ?thesis
  proof (cases r)
    case (Inl e)
    from new [of undefined] obtain xs where "s' = s @ xs" "length xs \<le> N + M" "list_all (Q undefined) xs"
      by (auto intro: trans_le_add1)
    with m Inl show ?thesis by (auto simp: adds_def andthen_def)
  next
    case (Inr v)
    from assms(2) obtain n ys where "snd (f v s') = s' @ ys" "length ys \<le> M" "list_all (Q n) ys"
      unfolding adds_def by blast
    moreover from new [of n] obtain xs where "s' = s @ xs" "length xs \<le> N" "list_all (Q n) xs" by blast
    ultimately have "adds (Q n) (N + M) s (andthen m f)"
      unfolding adds_def andthen_def m Inr by (intro exI [of _ "xs @ ys"]) simp
    then show ?thesis ..
  qed
qed

lemma adds_wrapped: "adds P N s m \<Longrightarrow> adds P N s (wrapped what m)"
  by (cases m) (simp add: adds_def wrapped_def)

lemma adds_sum:
  "(\<And>e. adds P N s (f e)) \<Longrightarrow> (\<And>v. adds P N s (g v)) \<Longrightarrow> adds P N s (case r of Inl e \<Rightarrow> f e | Inr v \<Rightarrow> g v)"
  by (cases r) simp_all

lemma adds_if: "adds P N s m \<Longrightarrow> adds P N s m' \<Longrightarrow> adds P N s (if b then m else m')"
  by simp

lemmas adds_intro = adds_andthen adds_wrapped adds_let adds_return [where N = 0]

end
