(* ===== verification/Kubectl.thy ===== *)
theory Kubectl
  imports Manifests KubeObjects Kubeconfig GoNet GoBase64 Calls "HOL-Library.Sublist"
begin

text \<open>
  The operations of \<open>internal/integration/kubernetes/kubectl_provisioner.go\<close> as sequences of runs of \<open>kubectl\<close>
  and \<open>vcluster\<close>. The cluster answers each run; the state is the list of the runs so far. Logging is left out,
  and so are the hooks for tests. What the operating system does (a free port, a temporary file, the port
  forwarding until it accepts connections) is an answer of the cluster as well.
\<close>

section \<open>The cluster and the runs\<close>

datatype command =
    RunKubectl "string list" "string option" \<comment> \<open>arguments and standard input\<close>
  | RunVCluster "string list"
  | RunKubectlIn string "string list" "string option" \<comment> \<open>the same, with the kubeconfig in a file\<close>
  | PortForward "string list"
  | SleepFor duration

text \<open>
  An answer is the error of the process with what it printed to standard error, or its standard output. The texts of
  the decoders' errors are the libraries'.
\<close>

record Cluster = KubectlProvisioner +
  c_run :: "nat \<Rightarrow> command \<Rightarrow> string \<times> string + string"
  c_now :: "nat \<Rightarrow> gotime"
  c_ctx :: "nat \<Rightarrow> go_error option"
  c_port :: "nat \<Rightarrow> go_error + int"
  c_forward :: "nat \<Rightarrow> go_error option"
  c_tempfile :: "nat \<Rightarrow> go_error + string"
  c_tempwrite :: "nat \<Rightarrow> go_error option"
  c_jsonError :: "string \<Rightarrow> go_error"
  c_base64Error :: "string \<Rightarrow> go_error"

record Runs =
  steps :: nat
  commands :: "command list"

definition start_runs :: Runs where
  "start_runs = \<lparr>steps = 0, commands = []\<rparr>"

definition issue :: "command \<Rightarrow> Runs \<Rightarrow> Runs" where
  "issue cmd s = s\<lparr>steps := Suc (steps s), commands := commands s @ [cmd]\<rparr>"

definition process_result :: "string \<Rightarrow> string list \<Rightarrow> string \<times> string + string \<Rightarrow> go_error + string" where
  "process_result program args answer =
     (case answer of
        Inl (err, stderr) \<Rightarrow>
          Inl (ErrWrap (program @ '' '' @ Join args '' '' @ '' failed: '') (ErrText err) ('': '' @ TrimSpace stderr))
      | Inr stdout \<Rightarrow> Inr (TrimSpace stdout))"

definition in_context :: "Cluster \<Rightarrow> string list \<Rightarrow> string list" where
  "in_context k args = (if kx_contextName k \<noteq> '''' then [''--context'', kx_contextName k] else []) @ args"

definition runKubectl :: "Cluster \<Rightarrow> string list \<Rightarrow> string option \<Rightarrow> Runs \<Rightarrow> (go_error + string) \<times> Runs" where
  "runKubectl k args stdin s =
     (let cmd = RunKubectl (in_context k args) stdin
      in (process_result ''kubectl'' (in_context k args) (c_run k (steps s) cmd), issue cmd s))"

definition runVCluster :: "Cluster \<Rightarrow> string list \<Rightarrow> Runs \<Rightarrow> (go_error + string) \<times> Runs" where
  "runVCluster k args s =
     (let cmd = RunVCluster (in_context k args)
      in (process_result ''vcluster'' (in_context k args) (c_run k (steps s) cmd), issue cmd s))"

text \<open>Only the error of a run is of interest.\<close>

definition discard :: "(go_error + 'a) \<times> Runs \<Rightarrow> (go_error + unit) \<times> Runs" where
  "discard m = andthen m (\<lambda>_ s. (Inr (), s))"

definition kubectlApply :: "Cluster \<Rightarrow> string \<Rightarrow> Runs \<Rightarrow> (go_error + unit) \<times> Runs" where
  "kubectlApply k manifest s =
     discard (runKubectl k [''apply'', ''-f'', ''-'', ''--validate=false''] (Some manifest) s)"

section \<open>Waiting\<close>

definition pause :: "duration \<Rightarrow> Runs \<Rightarrow> Runs" where
  "pause d s = issue (SleepFor d) s"

text \<open>\<open>select\<close> on the context before each delay: a context that ended stops the loop.\<close>

definition unless_done :: "Cluster \<Rightarrow> duration \<Rightarrow> (Runs \<Rightarrow> (go_error + 'a) \<times> Runs) \<Rightarrow> Runs \<Rightarrow> (go_error + 'a) \<times> Runs" where
  "unless_done k d again s =
     (case c_ctx k (steps s) of Some e \<Rightarrow> (Inl e, s) | None \<Rightarrow> again (pause d s))"

definition readProjectKubeconfigSecret :: "Cluster \<Rightarrow> string \<Rightarrow> string \<Rightarrow> Runs \<Rightarrow> (go_error + string) \<times> Runs" where
  "readProjectKubeconfigSecret k secretName namespace s =
     runKubectl k [''get'', ''secret'', secretName, ''-n'', namespace, ''-o'', ''jsonpath={.data.config}''] None s"

definition kubeconfigSecretReadMaxAttempts :: nat where "kubeconfigSecretReadMaxAttempts = 180"
definition vclusterExternalIPMaxAttempts :: nat where "vclusterExternalIPMaxAttempts = 45"
definition ingressNginxIPMaxAttempts :: nat where "ingressNginxIPMaxAttempts = 60"

text \<open>The loop with the number of the attempts that are left after the current one.\<close>

fun wait_secret :: "Cluster \<Rightarrow> string \<Rightarrow> string \<Rightarrow> nat \<Rightarrow> Runs \<Rightarrow> (go_error + string) \<times> Runs" where
  "wait_secret k secretName namespace left s =
     (let (r, s) = readProjectKubeconfigSecret k secretName namespace s
      in case r of
           Inr out \<Rightarrow> (Inr out, s)
         | Inl e \<Rightarrow>
            if \<not> isSecretNotFoundError e secretName then (Inl e, s)
            else (case left of
                    0 \<Rightarrow> (Inl (ErrWrap (''kubeconfig secret '' @ quoted secretName @ '' in namespace '' @ quoted namespace
                            @ '' is not ready yet; retry in a few seconds: '') e ''''), s)
                  | Suc n \<Rightarrow> unless_done k Second (wait_secret k secretName namespace n) s))"

declare wait_secret.simps [simp del]

definition waitForProjectKubeconfigSecret :: "Cluster \<Rightarrow> string \<Rightarrow> string \<Rightarrow> Runs \<Rightarrow> (go_error + string) \<times> Runs" where
  "waitForProjectKubeconfigSecret k secretName namespace s =
     wait_secret k secretName namespace (kubeconfigSecretReadMaxAttempts - 1) s"

definition getVClusterExternalIP :: "Cluster \<Rightarrow> string \<Rightarrow> string \<Rightarrow> Runs \<Rightarrow> (go_error + string) \<times> Runs" where
  "getVClusterExternalIP k name namespace s =
     andthen (runKubectl k [''get'', ''svc'', name, ''-n'', namespace, ''-o'',
         ''jsonpath={.status.loadBalancer.ingress[0].ip}''] None s)
       (\<lambda>out s. (Inr (TrimSpace out), s))"

fun wait_external_ip :: "Cluster \<Rightarrow> string \<Rightarrow> string \<Rightarrow> go_error option \<Rightarrow> nat \<Rightarrow> Runs \<Rightarrow> (go_error + string) \<times> Runs" where
  "wait_external_ip k name namespace lastErr left s =
     (let (r, s) = getVClusterExternalIP k name namespace s;
          lastErr = (case r of Inl e \<Rightarrow> Some e | Inr _ \<Rightarrow> lastErr)
      in if (case r of Inr ip \<Rightarrow> ip \<noteq> '''' | Inl _ \<Rightarrow> False) then (r, s)
         else (case left of
                 0 \<Rightarrow> (Inl (case lastErr of
                         Some e \<Rightarrow> e
                       | None \<Rightarrow> ErrText (''external IP for vcluster service '' @ namespace @ ''/'' @ name
                           @ '' is still pending; check quota ylb.networkLoadBalancers.count'')), s)
               | Suc n \<Rightarrow> unless_done k Second (wait_external_ip k name namespace lastErr n) s))"

declare wait_external_ip.simps [simp del]

definition ensureVClusterExternalIP :: "Cluster \<Rightarrow> string \<Rightarrow> string \<Rightarrow> Runs \<Rightarrow> (go_error + string) \<times> Runs" where
  "ensureVClusterExternalIP k name namespace s =
     andthen (getVClusterExternalIP k name namespace s) (\<lambda>currentIP s.
       if currentIP \<noteq> '''' then (Inr currentIP, s)
       else andthen (wrapped (''patch vcluster service '' @ namespace @ ''/'' @ name @ '' to LoadBalancer: '')
              (runKubectl k [''patch'', ''svc'', name, ''-n'', namespace, ''-p'',
                 ''{'' @ quoted ''spec'' @ '':{'' @ quoted ''type'' @ '':'' @ quoted ''LoadBalancer'' @ ''}}''] None s))
              (\<lambda>_ s. wait_external_ip k name namespace None (vclusterExternalIPMaxAttempts - 1) s))"

section \<open>The kubeconfig of a project\<close>

definition reconcileProjectNamespace :: "Cluster \<Rightarrow> string \<Rightarrow> Runs \<Rightarrow> (go_error + unit) \<times> Runs" where
  "reconcileProjectNamespace k namespace s =
     wrapped (''reconcile missing namespace '' @ namespace @ '': '') (kubectlApply k (namespaceManifest namespace) s)"

text \<open>
  The first read, with one more after the namespace was made again. A failed repair ends the call at once, any
  other error is looked at further.
\<close>

definition read_reconciled :: "Cluster \<Rightarrow> string \<Rightarrow> string \<Rightarrow> Runs \<Rightarrow> (go_error + (go_error + string)) \<times> Runs" where
  "read_reconciled k secretName namespace s =
     (let (r, s) = readProjectKubeconfigSecret k secretName namespace s
      in if (case r of Inl e \<Rightarrow> isNamespaceNotFoundError e namespace | Inr _ \<Rightarrow> False)
         then andthen (reconcileProjectNamespace k namespace s)
           (\<lambda>_ s. let (r, s) = readProjectKubeconfigSecret k secretName namespace s in (Inr r, s))
         else (Inr r, s))"

definition getProjectKubeconfigRaw :: "Cluster \<Rightarrow> string \<Rightarrow> Runs \<Rightarrow> (go_error + string) \<times> Runs" where
  "getProjectKubeconfigRaw k projectID s =
     (let namespace = namespaceFromProjectID projectID;
          secretName = ''vc-'' @ vclusterNameFromProjectID projectID
      in andthen (wrapped (''get kubeconfig secret for project '' @ projectID @ '': '')
           (andthen (read_reconciled k secretName namespace s) (\<lambda>r s.
              if (case r of Inl e \<Rightarrow> isSecretNotFoundError e secretName | Inr _ \<Rightarrow> False)
              then waitForProjectKubeconfigSecret k secretName namespace s else (r, s))))
         (\<lambda>out s.
            (case StdDecode out of
               None \<Rightarrow> Inl (ErrWrap (''decode kubeconfig for project '' @ projectID @ '': '') (c_base64Error k out) '''')
             | Some d \<Rightarrow> Inr d, s)))"

definition Kubectl_GetProjectKubeconfig :: "Cluster \<Rightarrow> string \<Rightarrow> Runs \<Rightarrow> (go_error + string) \<times> Runs" where
  "Kubectl_GetProjectKubeconfig k projectID s =
     andthen (getProjectKubeconfigRaw k projectID s) (\<lambda>kubeconfig s.
       if kubeconfigUsesLocalhostServer kubeconfig
       then andthen (wrapped (''ensure external endpoint for project '' @ projectID @ '': '')
              (ensureVClusterExternalIP k (vclusterNameFromProjectID projectID) (namespaceFromProjectID projectID) s))
            (\<lambda>lbIP s. (Inr (rewriteKubeconfigLocalhostServer kubeconfig (lbIP @ '':443'')), s))
       else (Inr kubeconfig, s))"

text \<open>
  Inside the virtual cluster: the kubeconfig goes to a temporary file, and the server of one that is only reachable
  from the host cluster is replaced by the end of a port forwarding.
\<close>

definition startVClusterPortForward :: "Cluster \<Rightarrow> string \<Rightarrow> string \<Rightarrow> int \<Rightarrow> Runs \<Rightarrow> (go_error + unit) \<times> Runs" where
  "startVClusterPortForward k namespace serviceName localPort s =
     (let args = in_context k [''-n'', namespace, ''port-forward'', ''service/'' @ serviceName,
                   show_int localPort @ '':443'', ''--address'', ''127.0.0.1'']
      in (case c_forward k (steps s) of Some e \<Rightarrow> Inl e | None \<Rightarrow> Inr (), issue (PortForward args) s))"

definition forwarded :: "Cluster \<Rightarrow> string \<Rightarrow> string \<Rightarrow> Runs \<Rightarrow> (go_error + string) \<times> Runs" where
  "forwarded k projectID kubeconfig s =
     (if kubeconfigUsesLocalhostServer kubeconfig \<or> kubeconfigUsesClusterServiceServer kubeconfig
      then (case c_port k (steps s) of
              Inl e \<Rightarrow> (Inl (ErrWrap ''reserve local port for vcluster kubeconfig: '' e ''''), s)
            | Inr localPort \<Rightarrow>
                andthen (wrapped (''start port-forward for project '' @ projectID @ '': '')
                  (startVClusterPortForward k (namespaceFromProjectID projectID)
                     (vclusterNameFromProjectID projectID) localPort s))
                (\<lambda>_ s. (Inr (rewriteKubeconfigServerForPortForward kubeconfig localPort), s)))
      else (Inr kubeconfig, s))"

definition runKubectlInVCluster ::
  "Cluster \<Rightarrow> string \<Rightarrow> string list \<Rightarrow> string option \<Rightarrow> Runs \<Rightarrow> (go_error + string) \<times> Runs" where
  "runKubectlInVCluster k projectID args stdin s =
     andthen (wrapped (''get vcluster kubeconfig for project '' @ projectID @ '': '') (getProjectKubeconfigRaw k projectID s))
       (\<lambda>kubeconfig s. andthen (forwarded k projectID kubeconfig s)
       (\<lambda>kubeconfig s.
          case c_tempfile k (steps s) of
            Inl e \<Rightarrow> (Inl (ErrWrap ''create temp kubeconfig file: '' e ''''), s)
          | Inr file \<Rightarrow>
             (case c_tempwrite k (steps s) of
                Some e \<Rightarrow> (Inl (ErrWrap ''write temp kubeconfig: '' e ''''), s)
              | None \<Rightarrow>
                 let args = [''--kubeconfig'', file] @ args; cmd = RunKubectlIn kubeconfig args stdin
                 in (process_result ''kubectl (vcluster)'' args (c_run k (steps s) cmd), issue cmd s))))"

section \<open>What a call runs\<close>

text \<open>
  Every command that reaches the host cluster names the namespace of the project, or is the \<open>apply\<close> of one of its
  own manifests.
\<close>

fun names_namespace :: "string \<Rightarrow> string list \<Rightarrow> bool" where
  "names_namespace namespace [] = False"
| "names_namespace namespace (a # args) =
     (a \<in> {''-n'', ''--namespace'', ''namespace''} \<and> take 1 args = [namespace] \<or> names_namespace namespace args)"

definition manifest_of :: "Cluster \<Rightarrow> string \<Rightarrow> string \<Rightarrow> bool" where
  "manifest_of k projectID m \<longleftrightarrow>
     (let namespace = namespaceFromProjectID projectID
      in m \<in> {namespaceManifest namespace, networkPolicyManifest namespace, vclusterAllowPolicy namespace,
              resourceQuotaManifest namespace}
         \<or> (\<exists>g. m = gatewayAllowPolicy namespace g) \<or> (\<exists>base. m = projectGrafanaManifest k projectID namespace base))"

fun stays_inside :: "Cluster \<Rightarrow> string \<Rightarrow> command \<Rightarrow> bool" where
  "stays_inside k projectID (RunKubectl args None) = names_namespace (namespaceFromProjectID projectID) args"
| "stays_inside k projectID (RunKubectl args (Some m)) = manifest_of k projectID m"
| "stays_inside k projectID (RunVCluster args) = names_namespace (namespaceFromProjectID projectID) args"
| "stays_inside k projectID (PortForward args) = names_namespace (namespaceFromProjectID projectID) args"
| "stays_inside k projectID (RunKubectlIn kubeconfig args stdin) = True"
| "stays_inside k projectID (SleepFor d) = True"

text \<open>The commands that the cluster carried out, of those that ran from step \<open>n\<close> on.\<close>

definition accepted :: "Cluster \<Rightarrow> nat \<Rightarrow> command list \<Rightarrow> command list" where
  "accepted k n cs = map snd (filter (\<lambda>(i, c). \<not> isl (c_run k i c)) (enumerate n cs))"

text \<open>
  One predicate carries the facts about a call: it only adds commands, at most \<open>N\<close>, all of them inside the
  project's namespace, and a call that succeeds had the commands \<open>cs\<close> carried out in this order.
\<close>

definition runs :: "Cluster \<Rightarrow> string \<Rightarrow> nat \<Rightarrow> command list \<Rightarrow> Runs \<Rightarrow> (go_error + 'a) \<times> Runs \<Rightarrow> bool" where
  "runs k pid N cs s m \<longleftrightarrow>
     (\<exists>new. commands (snd m) = commands s @ new \<and> steps (snd m) = steps s + length new \<and> length new \<le> N
        \<and> list_all (stays_inside k pid) new \<and> (\<not> isl (fst m) \<longrightarrow> subseq cs (accepted k (steps s) new)))"

named_theorems run_intro

lemma names_namespace_append: "names_namespace ns args \<Longrightarrow> names_namespace ns (xs @ args)"
  by (induction xs) auto

lemma in_context_names: "names_namespace ns args \<Longrightarrow> names_namespace ns (in_context k args)"
  by (simp only: in_context_def names_namespace_append)

lemma accepted_append [simp]: "accepted k n (xs @ ys) = accepted k n xs @ accepted k (n + length xs) ys"
  by (simp add: accepted_def enumerate_append_eq)

lemma runs_mono: "runs k pid N cs s m \<Longrightarrow> N \<le> N' \<Longrightarrow> subseq cs' cs \<Longrightarrow> runs k pid N' cs' s m"
  unfolding runs_def by (meson le_trans subseq_order.trans)

lemma runs_return [run_intro]: "runs k pid 0 [] s (r, s)"
  by (simp add: runs_def)

lemma runs_bind:
  assumes "runs k pid N cs s m" and "\<And>r s'. m = (r, s') \<Longrightarrow> runs k pid M ds s' (f r s')"
  shows "runs k pid (N + M) [] s (let (r, s') = m in f r s')"
proof -
  obtain r s' where m: "m = (r, s')" by (cases m)
  from assms(1) obtain xs where xs: "commands s' = commands s @ xs" "steps s' = steps s + length xs"
      "length xs \<le> N" "list_all (stays_inside k pid) xs"
    by (auto simp: runs_def m)
  from assms(2) [OF m] obtain ys where ys: "commands (snd (f r s')) = commands s' @ ys"
      "steps (snd (f r s')) = steps s' + length ys" "length ys \<le> M" "list_all (stays_inside k pid) ys"
    by (auto simp: runs_def)
  with xs show ?thesis unfolding runs_def m by (intro exI [of _ "xs @ ys"]) simp
qed

lemma runs_andthen [run_intro]:
  assumes "runs k pid N cs s m" and "\<And>v s'. runs k pid M ds s' (f v s')"
  shows "runs k pid (N + M) (cs @ ds) s (andthen m f)"
proof -
  obtain r s' where m: "m = (r, s')" by (cases m)
  from assms(1) obtain xs where xs: "commands s' = commands s @ xs" "steps s' = steps s + length xs"
      "length xs \<le> N" "list_all (stays_inside k pid) xs" "\<not> isl r \<longrightarrow> subseq cs (accepted k (steps s) xs)"
    by (auto simp: runs_def m)
  show ?thesis
  proof (cases r)
    case (Inl e)
    with xs show ?thesis unfolding runs_def m andthen_def by (intro exI [of _ xs]) simp
  next
    case (Inr v)
    from assms(2) [of s' v] obtain ys where ys: "commands (snd (f v s')) = commands s' @ ys"
        "steps (snd (f v s')) = steps s' + length ys" "length ys \<le> M" "list_all (stays_inside k pid) ys"
        "\<not> isl (fst (f v s')) \<longrightarrow> subseq ds (accepted k (steps s') ys)"
      by (auto simp: runs_def)
    with xs Inr show ?thesis unfolding runs_def m andthen_def
      by (intro exI [of _ "xs @ ys"]) (simp add: list_emb_append_mono)
  qed
qed

lemma runs_wrapped [run_intro]: "runs k pid N cs s m \<Longrightarrow> runs k pid N cs s (wrapped what m)"
  unfolding runs_def wrapped_def by (cases m; cases "fst m") auto

lemma runs_discard [run_intro]: "runs k pid N cs s m \<Longrightarrow> runs k pid N cs s (discard m)"
  unfolding runs_def discard_def andthen_def by (cases m; cases "fst m") auto

lemma runs_if [run_intro]:
  "runs k pid N cs s m \<Longrightarrow> runs k pid M ds s m' \<Longrightarrow> runs k pid (max N M) [] s (if c then m else m')"
  by (auto elim: runs_mono)

lemma runs_command:
  assumes "stays_inside k pid c" and "\<not> isl r \<Longrightarrow> \<not> isl (c_run k (steps s) c)"
  shows "runs k pid 1 [c] s (r, issue c s)"
  using assms unfolding runs_def issue_def by (intro exI [of _ "[c]"]) (auto simp: accepted_def)

lemma process_result_isl [simp]: "isl (process_result program args answer) = isl answer"
  by (simp add: process_result_def split: sum.split)

lemma runs_kubectl [run_intro]:
  "stays_inside k pid (RunKubectl (in_context k args) stdin)
   \<Longrightarrow> runs k pid 1 [RunKubectl (in_context k args) stdin] s (runKubectl k args stdin s)"
  unfolding runKubectl_def Let_def by (rule runs_command) simp_all

lemma runs_vcluster [run_intro]:
  "names_namespace (namespaceFromProjectID pid) args
   \<Longrightarrow> runs k pid 1 [RunVCluster (in_context k args)] s (runVCluster k args s)"
  unfolding runVCluster_def Let_def by (rule runs_command) (simp_all add: in_context_names)

definition apply_of :: "Cluster \<Rightarrow> string \<Rightarrow> command" where
  "apply_of k m = RunKubectl (in_context k [''apply'', ''-f'', ''-'', ''--validate=false'']) (Some m)"

lemma runs_apply [run_intro]: "manifest_of k pid m \<Longrightarrow> runs k pid 1 [apply_of k m] s (kubectlApply k m s)"
  unfolding kubectlApply_def apply_of_def by (intro run_intro) simp

lemma own_manifests:
  "manifest_of k pid (namespaceManifest (namespaceFromProjectID pid))"
  "manifest_of k pid (networkPolicyManifest (namespaceFromProjectID pid))"
  "manifest_of k pid (vclusterAllowPolicy (namespaceFromProjectID pid))"
  "manifest_of k pid (resourceQuotaManifest (namespaceFromProjectID pid))"
  "manifest_of k pid (gatewayAllowPolicy (namespaceFromProjectID pid) g)"
  "manifest_of k pid (projectGrafanaManifest k pid (namespaceFromProjectID pid) base)"
  by (simp_all add: manifest_of_def Let_def) blast+

lemma runs_return_any: "runs k pid N [] s (r, s)"
  by (simp add: runs_def)

lemma runs_unless_done:
  assumes "\<And>s. runs k pid N [] s (again s)" and "N < N'"
  shows "runs k pid N' [] s (unless_done k d again s)"
proof (cases "c_ctx k (steps s)")
  case None
  obtain new where "commands (snd (again (pause d s))) = commands (pause d s) @ new"
      "steps (snd (again (pause d s))) = steps (pause d s) + length new" "length new \<le> N" "list_all (stays_inside k pid) new"
    using assms(1) by (auto simp: runs_def)
  with None assms(2) show ?thesis unfolding runs_def unless_done_def
    by (intro exI [of _ "SleepFor d # new"]) (simp add: pause_def issue_def)
next
  case (Some e)
  then show ?thesis by (simp add: unless_done_def runs_return_any)
qed

section \<open>The waits\<close>

lemma runs_read [run_intro]:
  "runs k pid 1 [] s (readProjectKubeconfigSecret k secretName (namespaceFromProjectID pid) s)"
  unfolding readProjectKubeconfigSecret_def
  by (rule runs_mono, rule runs_kubectl) (simp_all add: in_context_names)

lemma runs_wait_secret: "runs k pid (2 * left + 1) [] s (wait_secret k secretName (namespaceFromProjectID pid) left s)"
proof (induction left arbitrary: s)
  case 0
  have "runs k pid (1 + 0) [] s (wait_secret k secretName (namespaceFromProjectID pid) 0 s)"
    by (subst wait_secret.simps, rule runs_bind, rule runs_read) (auto intro: runs_return_any split: sum.split)
  then show ?case by simp
next
  case (Suc n)
  have "runs k pid (1 + (2 * n + 2)) [] s (wait_secret k secretName (namespaceFromProjectID pid) (Suc n) s)"
    by (subst wait_secret.simps, rule runs_bind, rule runs_read)
      (auto intro: runs_return_any runs_unless_done [OF Suc] split: sum.split)
  then show ?case by simp
qed

lemma runs_waitForProjectKubeconfigSecret [run_intro]:
  "runs k pid 359 [] s (waitForProjectKubeconfigSecret k secretName (namespaceFromProjectID pid) s)"
  unfolding waitForProjectKubeconfigSecret_def
  by (rule runs_mono, rule runs_wait_secret) (simp_all add: kubeconfigSecretReadMaxAttempts_def)

lemma runs_getVClusterExternalIP [run_intro]:
  "runs k pid 1 [] s (getVClusterExternalIP k name (namespaceFromProjectID pid) s)"
  unfolding getVClusterExternalIP_def
  by (rule runs_mono, (rule run_intro | (simp add: in_context_names; fail))+)

lemma runs_wait_external_ip:
  "runs k pid (2 * left + 1) [] s (wait_external_ip k name (namespaceFromProjectID pid) lastErr left s)"
proof (induction left arbitrary: s lastErr)
  case 0
  have "runs k pid (1 + 0) [] s (wait_external_ip k name (namespaceFromProjectID pid) lastErr 0 s)"
    by (subst wait_external_ip.simps, rule runs_bind, rule run_intro) (auto intro: runs_return_any simp: Let_def)
  then show ?case by simp
next
  case (Suc n)
  have "runs k pid (1 + (2 * n + 2)) [] s (wait_external_ip k name (namespaceFromProjectID pid) lastErr (Suc n) s)"
    by (subst wait_external_ip.simps, rule runs_bind, rule run_intro)
      (auto intro: runs_return_any runs_unless_done [OF Suc] simp: Let_def)
  then show ?case by simp
qed

lemma runs_ensureVClusterExternalIP [run_intro]:
  "runs k pid 91 [] s (ensureVClusterExternalIP k name (namespaceFromProjectID pid) s)"
  unfolding ensureVClusterExternalIP_def
  by (rule runs_mono, (rule run_intro runs_wait_external_ip
      | (simp add: in_context_names vclusterExternalIPMaxAttempts_def; fail))+)

section \<open>The kubeconfig\<close>

lemma runs_reconcile [run_intro]: "runs k pid 1 [] s (reconcileProjectNamespace k (namespaceFromProjectID pid) s)"
  unfolding reconcileProjectNamespace_def
  by (rule runs_mono, (rule run_intro | (simp add: manifest_of_def; fail))+)

lemma runs_read_reconciled [run_intro]: "runs k pid 3 [] s (read_reconciled k secretName (namespaceFromProjectID pid) s)"
proof -
  let ?ns = "namespaceFromProjectID pid"
  have read: "runs k pid (1 + 0) [] s (let (r, s) = readProjectKubeconfigSecret k secretName ?ns s in (Inr r, s))" for s
    by (rule runs_bind, rule runs_read, rule runs_return_any)
  have "runs k pid (1 + 2) [] s (read_reconciled k secretName ?ns s)"
    unfolding read_reconciled_def
  proof (rule runs_bind, rule runs_read)
    fix r s
    have "runs k pid 2 [] s (andthen (reconcileProjectNamespace k ?ns s)
        (\<lambda>_ s. let (r, s) = readProjectKubeconfigSecret k secretName ?ns s in (Inr r, s)))"
      by (rule runs_mono, rule runs_andthen, rule runs_reconcile, rule read) simp_all
    then show "runs k pid 2 [] s (if case r of Inl e \<Rightarrow> isNamespaceNotFoundError e ?ns | Inr _ \<Rightarrow> False
        then andthen (reconcileProjectNamespace k ?ns s)
           (\<lambda>_ s. let (r, s) = readProjectKubeconfigSecret k secretName ?ns s in (Inr r, s))
        else (Inr r, s))"
      by (simp add: runs_return_any)
  qed
  then show ?thesis by (rule runs_mono) simp_all
qed

lemma runs_getProjectKubeconfigRaw [run_intro]: "runs k pid 362 [] s (getProjectKubeconfigRaw k pid s)"
  unfolding getProjectKubeconfigRaw_def Let_def
  by (rule runs_mono, (rule run_intro)+) simp_all

lemma runs_GetProjectKubeconfig [run_intro]: "runs k pid 453 [] s (Kubectl_GetProjectKubeconfig k pid s)"
  unfolding Kubectl_GetProjectKubeconfig_def
  by (rule runs_mono, (rule run_intro)+) simp_all

lemma runs_port_forward [run_intro]:
  "runs k pid 1 [] s (startVClusterPortForward k (namespaceFromProjectID pid) serviceName port s)"
  unfolding startVClusterPortForward_def runs_def Let_def issue_def
  by (intro exI [of _ "[PortForward (in_context k [''-n'', namespaceFromProjectID pid, ''port-forward'',
       ''service/'' @ serviceName, show_int port @ '':443'', ''--address'', ''127.0.0.1''])]"]) (simp add: in_context_names)

lemma runs_forwarded [run_intro]: "runs k pid 1 [] s (forwarded k pid kubeconfig s)"
proof (cases "c_port k (steps s)")
  case (Inl e)
  then show ?thesis by (simp add: forwarded_def runs_return_any)
next
  case (Inr port)
  have "runs k pid 1 [] s (andthen (wrapped (''start port-forward for project '' @ pid @ '': '')
                  (startVClusterPortForward k (namespaceFromProjectID pid)
                     (vclusterNameFromProjectID pid) port s))
                (\<lambda>_ s. (Inr (rewriteKubeconfigServerForPortForward kubeconfig port), s)))"
    by (rule runs_mono, (rule run_intro)+) simp_all
  with Inr show ?thesis by (simp add: forwarded_def runs_return_any)
qed

lemma runs_in_command: "runs k pid (Suc 0) [] s (r, issue (RunKubectlIn kubeconfig args stdin) s)"
  unfolding runs_def issue_def by (intro exI [of _ "[RunKubectlIn kubeconfig args stdin]"]) simp

lemma runs_in_vcluster [run_intro]: "runs k pid 364 [] s (runKubectlInVCluster k pid args stdin s)"
proof -
  have last: "runs k pid 1 [] s (case c_tempfile k (steps s) of
            Inl e \<Rightarrow> (Inl (ErrWrap ''create temp kubeconfig file: '' e ''''), s)
          | Inr file \<Rightarrow>
             (case c_tempwrite k (steps s) of
                Some e \<Rightarrow> (Inl (ErrWrap ''write temp kubeconfig: '' e ''''), s)
              | None \<Rightarrow>
                 let args = [''--kubeconfig'', file] @ args; cmd = RunKubectlIn kubeconfig args stdin
                 in (process_result ''kubectl (vcluster)'' args (c_run k (steps s) cmd), issue cmd s)))" for s kubeconfig
    by (simp add: Let_def runs_return_any runs_in_command split: sum.split option.split)
  show ?thesis unfolding runKubectlInVCluster_def
    by (rule runs_mono, (rule run_intro last)+) simp_all
qed

section \<open>Properties\<close>

text \<open>What the read of the secret gives at a step.\<close>

definition secret_answer :: "Cluster \<Rightarrow> string \<Rightarrow> string \<Rightarrow> nat \<Rightarrow> go_error + string" where
  "secret_answer k secretName namespace i =
     (let args = in_context k [''get'', ''secret'', secretName, ''-n'', namespace, ''-o'', ''jsonpath={.data.config}'']
      in process_result ''kubectl'' args (c_run k i (RunKubectl args None)))"

lemma read_at: "\<exists>cmd. readProjectKubeconfigSecret k secretName namespace s
    = (secret_answer k secretName namespace (steps s), issue cmd s)"
  unfolding readProjectKubeconfigSecret_def runKubectl_def secret_answer_def Let_def by blast

lemma wait_secret_found:
  assumes "n \<le> left"
    and "\<forall>i<n. \<exists>e. secret_answer k secretName ns (steps s + 2 * i) = Inl e \<and> isSecretNotFoundError e secretName"
    and "\<forall>i<n. c_ctx k (steps s + 2 * i + 1) = None"
    and "secret_answer k secretName ns (steps s + 2 * n) = Inr out"
  shows "fst (wait_secret k secretName ns left s) = Inr out
    \<and> steps (snd (wait_secret k secretName ns left s)) = steps s + 2 * n + 1"
  using assms
proof (induction n arbitrary: left s)
  case 0
  obtain cmd where "readProjectKubeconfigSecret k secretName ns s = (Inr out, issue cmd s)"
    using read_at 0 by (metis add.right_neutral mult_0_right)
  then show ?case by (subst (1 2) wait_secret.simps) (simp add: issue_def)
next
  case (Suc n)
  from Suc.prems(2) obtain e where e: "secret_answer k secretName ns (steps s) = Inl e" "isSecretNotFoundError e secretName"
    by (metis add.right_neutral mult_0_right zero_less_Suc)
  with read_at obtain cmd where cmd: "readProjectKubeconfigSecret k secretName ns s = (Inl e, issue cmd s)" by metis
  from Suc.prems(1) obtain l where l: "left = Suc l" "n \<le> l" by (cases left) auto
  let ?s = "pause Second (issue cmd s)"
  have steps: "steps ?s = steps s + 2" by (simp add: pause_def issue_def)
  have at: "steps ?s + 2 * i = steps s + 2 * Suc i" for i by (simp add: steps)
  have "fst (wait_secret k secretName ns l ?s) = Inr out \<and> steps (snd (wait_secret k secretName ns l ?s)) = steps ?s + 2 * n + 1"
    using Suc.prems(2-4) by (intro Suc.IH l(2); simp only: at) auto
  moreover have "c_ctx k (steps s + 1) = None"
    using Suc.prems(3) by (metis add.right_neutral mult_0_right zero_less_Suc)
  then have "wait_secret k secretName ns left s = wait_secret k secretName ns l ?s"
    by (subst wait_secret.simps) (simp add: cmd e l unless_done_def issue_def)
  ultimately show ?case by (simp add: steps)
qed

text \<open>C27 A virtual cluster that is slow to start is waited for: as long as the secret is merely not there yet, the
  read is repeated each second, and the first of up to 180 reads that finds it is the result.\<close>

theorem slow_environment_is_waited_for:
  assumes "n < kubeconfigSecretReadMaxAttempts"
    and "\<forall>i<n. \<exists>e. secret_answer k secretName ns (steps s + 2 * i) = Inl e \<and> isSecretNotFoundError e secretName"
    and "\<forall>i<n. c_ctx k (steps s + 2 * i + 1) = None"
    and "secret_answer k secretName ns (steps s + 2 * n) = Inr out"
  shows "fst (waitForProjectKubeconfigSecret k secretName ns s) = Inr out
    \<and> steps (snd (waitForProjectKubeconfigSecret k secretName ns s)) = steps s + 2 * n + 1"
  unfolding waitForProjectKubeconfigSecret_def
  by (rule wait_secret_found) (use assms in simp_all)

definition slow_cluster :: Cluster where
  "slow_cluster = \<lparr>kx_contextName = '''', kx_gatewayControllerNamespace = '''', kx_appsBaseDomain = ''apps.io'',
     kx_monitoringNamespace = '''', kx_prometheusBaseURL = '''', kx_lokiBaseURL = '''',
     kx_ingressNginxAutoInstall = False, kx_ingressNginxManifestURL = '''',
     c_run = (\<lambda>n cmd. if n < 3 then Inl (''exit status 1'', ''Error: secrets '' @ quoted ''vc-a'' @ '' not found'')
                       else Inr ''QUJD''),
     c_now = int, c_ctx = (\<lambda>_. None), c_port = (\<lambda>_. Inr 40000), c_forward = (\<lambda>_. None),
     c_tempfile = (\<lambda>_. Inr ''/tmp/kubeconfig''), c_tempwrite = (\<lambda>_. None),
     c_jsonError = (\<lambda>_. ErrText ''invalid character''), c_base64Error = (\<lambda>_. ErrText ''illegal base64 data'')\<rparr>"

theorem slow_environment_is_waited_for_witness:
  "fst (waitForProjectKubeconfigSecret slow_cluster ''vc-a'' ''project-a'' start_runs) = Inr ''QUJD''"
proof -
  have "secret_answer slow_cluster ''vc-a'' ''project-a'' 0 = secret_answer slow_cluster ''vc-a'' ''project-a'' 2"
    by (simp add: secret_answer_def slow_cluster_def Let_def)
  moreover have "case secret_answer slow_cluster ''vc-a'' ''project-a'' 0 of Inl e \<Rightarrow> isSecretNotFoundError e ''vc-a'' | Inr _ \<Rightarrow> False"
    by code_simp
  ultimately have "\<forall>i<2. \<exists>e. secret_answer slow_cluster ''vc-a'' ''project-a'' (2 * i) = Inl e \<and> isSecretNotFoundError e ''vc-a''"
    by (auto simp: less_2_cases_iff split: sum.splits)
  moreover have "secret_answer slow_cluster ''vc-a'' ''project-a'' 4 = Inr ''QUJD''" by code_simp
  moreover have "c_ctx slow_cluster i = None" for i by (simp add: slow_cluster_def)
  moreover have "steps start_runs = 0" by (simp add: start_runs_def)
  ultimately show ?thesis
    using slow_environment_is_waited_for [of 2 slow_cluster "''vc-a''" "''project-a''" start_runs "''QUJD''"]
    by (simp add: kubeconfigSecretReadMaxAttempts_def)
qed

end
