(* ===== verification/Environments.thy ===== *)
theory Environments
  imports Kubectl
begin

text \<open>
  The operations of \<open>KubectlProvisioner\<close> on the environments of projects and stages: creation, suspension,
  deletion, the change of images and the run-time status, with what every call runs in the host cluster.
\<close>

section \<open>Environments\<close>

definition createVCluster :: "Cluster \<Rightarrow> string \<Rightarrow> string \<Rightarrow> Runs \<Rightarrow> (go_error + unit) \<times> Runs" where
  "createVCluster k vclusterName namespace s =
     discard (runVCluster k [''create'', vclusterName, ''--namespace'', namespace, ''--driver'', ''helm'',
       ''--connect=false'', ''--background-proxy=false'', ''--create-namespace=false'',
       ''--set'', ''controlPlane.statefulSet.resources.requests.memory=128Mi'',
       ''--set'', ''controlPlane.statefulSet.resources.requests.cpu=50m'',
       ''--set'', ''controlPlane.statefulSet.resources.limits.memory=1Gi'',
       ''--set'', ''controlPlane.statefulSet.resources.limits.cpu=500m'',
       ''--set'', ''controlPlane.service.spec.type=ClusterIP'',
       ''--set'', ''sync.toHost.ingresses.enabled=true''] s)"

definition deleteVCluster :: "Cluster \<Rightarrow> string \<Rightarrow> string \<Rightarrow> Runs \<Rightarrow> (go_error + unit) \<times> Runs" where
  "deleteVCluster k vclusterName namespace s =
     discard (runVCluster k [''delete'', vclusterName, ''--namespace'', namespace, ''--driver'', ''helm'',
       ''--ignore-not-found'', ''--wait=false'', ''--delete-namespace''] s)"

definition applyResourceQuota :: "Cluster \<Rightarrow> string \<Rightarrow> Runs \<Rightarrow> (go_error + unit) \<times> Runs" where
  "applyResourceQuota k namespace s = kubectlApply k (resourceQuotaManifest namespace) s"

definition applyProjectGrafana :: "Cluster \<Rightarrow> string \<Rightarrow> string \<Rightarrow> string \<Rightarrow> Runs \<Rightarrow> (go_error + unit) \<times> Runs" where
  "applyProjectGrafana k projectID namespace base s =
     (if TrimSpace base = '''' then (Inr (), s)
      else andthen (kubectlApply k (projectGrafanaManifest k projectID namespace base) s)
        (\<lambda>_ s. discard (runKubectl k [''-n'', namespace, ''rollout'', ''status'', ''deployment/project-grafana'',
           ''--timeout=180s''] None s)))"

definition Kubectl_EnsureProjectGrafana :: "Cluster \<Rightarrow> string \<Rightarrow> Runs \<Rightarrow> (go_error + unit) \<times> Runs" where
  "Kubectl_EnsureProjectGrafana k projectID s =
     (if TrimSpace (kx_appsBaseDomain k) = '''' then (Inr (), s)
      else applyProjectGrafana k projectID (namespaceFromProjectID projectID) (kx_appsBaseDomain k) s)"

definition defaultIngressNginxManifestURL :: string where
  "defaultIngressNginxManifestURL = ''https://raw.githubusercontent.com/kubernetes/ingress-nginx/controller-v1.11.2/deploy/static/provider/cloud/deploy.yaml''"

definition installIngressNginxInVCluster :: "Cluster \<Rightarrow> string \<Rightarrow> Runs \<Rightarrow> (go_error + unit) \<times> Runs" where
  "installIngressNginxInVCluster k projectID s =
     (let manifestURL = (if kx_ingressNginxManifestURL k = '''' then defaultIngressNginxManifestURL
                         else kx_ingressNginxManifestURL k)
      in andthen (runKubectlInVCluster k projectID [''apply'', ''-f'', manifestURL] None s)
         (\<lambda>_ s. discard (runKubectlInVCluster k projectID [''rollout'', ''status'',
            ''deployment/ingress-nginx-controller'', ''-n'', ''ingress-nginx'', ''--timeout=300s''] None s)))"

fun wait_ingress_ip :: "Cluster \<Rightarrow> string \<Rightarrow> nat \<Rightarrow> Runs \<Rightarrow> (go_error + string) \<times> Runs" where
  "wait_ingress_ip k projectID left s =
     (let (r, s) = runKubectlInVCluster k projectID [''get'', ''svc'', ''ingress-nginx-controller'', ''-n'',
            ''ingress-nginx'', ''-o'', ''jsonpath={.status.loadBalancer.ingress[0].ip}''] None s;
          ip = (case r of Inr out \<Rightarrow> TrimSpace out | Inl _ \<Rightarrow> '''')
      in if (case r of Inr _ \<Rightarrow> ParseIP ip | Inl _ \<Rightarrow> False) then (Inr ip, s)
         else (case left of
                 0 \<Rightarrow> (Inl (ErrText (''nginx ingress LoadBalancer IP for project '' @ projectID
                         @ '' is still pending after '' @ show_nat ingressNginxIPMaxAttempts @ '' attempts'')), s)
               | Suc n \<Rightarrow> unless_done k (10 * Second) (wait_ingress_ip k projectID n) s))"

declare wait_ingress_ip.simps [simp del]

definition waitForIngressNginxIP :: "Cluster \<Rightarrow> string \<Rightarrow> Runs \<Rightarrow> (go_error + string) \<times> Runs" where
  "waitForIngressNginxIP k projectID s = wait_ingress_ip k projectID (ingressNginxIPMaxAttempts - 1) s"

text \<open>The base domain of the project: the configured one, or the address of its own ingress controller.\<close>

definition project_base_domain :: "Cluster \<Rightarrow> string \<Rightarrow> Runs \<Rightarrow> (go_error + string) \<times> Runs" where
  "project_base_domain k projectID s =
     (if kx_ingressNginxAutoInstall k \<and> TrimSpace (kx_appsBaseDomain k) = ''''
      then andthen (wrapped (''failed to install nginx ingress in vcluster for project '' @ projectID @ '': '')
               (installIngressNginxInVCluster k projectID s))
             (\<lambda>_ s. andthen (wrapped (''failed to get nginx ingress IP for project '' @ projectID @ '': '')
               (waitForIngressNginxIP k projectID s))
             (\<lambda>ip s. (Inr (ip @ ''.nip.io''), s)))
      else (Inr (kx_appsBaseDomain k), s))"

definition Kubectl_CreateProjectEnvironment :: "Cluster \<Rightarrow> string \<Rightarrow> Runs \<Rightarrow> (go_error + string) \<times> Runs" where
  "Kubectl_CreateProjectEnvironment k projectID s =
     (let namespace = namespaceFromProjectID projectID;
          vclusterName = vclusterNameFromProjectID projectID;
          secretName = ''vc-'' @ vclusterName;
          gatewayControllerNS = (let g = TrimSpace (kx_gatewayControllerNamespace k)
            in if g = '''' then ''nginx-gateway'' else g)
      in andthen (wrapped (''failed to create namespace '' @ namespace @ '': '')
           (kubectlApply k (namespaceManifest namespace) s)) (\<lambda>_ s.
         andthen (wrapped (''failed to create vcluster '' @ vclusterName @ '' in namespace '' @ namespace @ '': '')
           (createVCluster k vclusterName namespace s)) (\<lambda>_ s.
         andthen (wrapped (''failed to wait for kubeconfig secret '' @ secretName @ '' in namespace '' @ namespace @ '': '')
           (waitForProjectKubeconfigSecret k secretName namespace s)) (\<lambda>_ s.
         andthen (wrapped (''failed to apply network policy in namespace '' @ namespace @ '': '')
           (kubectlApply k (networkPolicyManifest namespace) s)) (\<lambda>_ s.
         andthen (wrapped (''failed to apply vcluster allow policy in namespace '' @ namespace @ '': '')
           (kubectlApply k (vclusterAllowPolicy namespace) s)) (\<lambda>_ s.
         andthen (wrapped (''failed to apply resource quota in namespace '' @ namespace @ '': '')
           (applyResourceQuota k namespace s)) (\<lambda>_ s.
         andthen (wrapped (''failed to apply gateway allow policy in namespace '' @ namespace @ '': '')
           (kubectlApply k (gatewayAllowPolicy namespace gatewayControllerNS) s)) (\<lambda>_ s.
         andthen (project_base_domain k projectID s) (\<lambda>base s.
         andthen (wrapped (''failed to provision project grafana in namespace '' @ namespace @ '': '')
           (applyProjectGrafana k projectID namespace base s)) (\<lambda>_ s.
         (Inr base, s)))))))))))"

definition Kubectl_SuspendProjectEnvironment :: "Cluster \<Rightarrow> string \<Rightarrow> Runs \<Rightarrow> (go_error + unit) \<times> Runs" where
  "Kubectl_SuspendProjectEnvironment k projectID s =
     discard (runVCluster k [''pause'', vclusterNameFromProjectID projectID, ''--namespace'',
       namespaceFromProjectID projectID] s)"

definition Kubectl_ResumeProjectEnvironment :: "Cluster \<Rightarrow> string \<Rightarrow> Runs \<Rightarrow> (go_error + unit) \<times> Runs" where
  "Kubectl_ResumeProjectEnvironment k projectID s =
     discard (runVCluster k [''resume'', vclusterNameFromProjectID projectID, ''--namespace'',
       namespaceFromProjectID projectID] s)"

definition Kubectl_DeleteProjectEnvironment :: "Cluster \<Rightarrow> string \<Rightarrow> Runs \<Rightarrow> (go_error + unit) \<times> Runs" where
  "Kubectl_DeleteProjectEnvironment k projectID s =
     (let namespace = namespaceFromProjectID projectID; vclusterName = vclusterNameFromProjectID projectID
      in andthen (wrapped (''failed to delete vcluster '' @ vclusterName @ '' in namespace '' @ namespace @ '': '')
           (deleteVCluster k vclusterName namespace s))
         (\<lambda>_ s. wrapped (''failed to cleanup namespace '' @ namespace @ '' after vcluster deletion: '')
           (discard (runKubectl k [''delete'', ''namespace'', namespace, ''--ignore-not-found=true'',
              ''--wait=false''] None s))))"

definition Kubectl_CreateStageEnvironment :: "Cluster \<Rightarrow> string \<Rightarrow> string \<Rightarrow> Runs \<Rightarrow> (go_error + unit) \<times> Runs" where
  "Kubectl_CreateStageEnvironment k projectID stageSlug s =
     discard (runKubectlInVCluster k projectID [''apply'', ''-f'', ''-'', ''--validate=false'']
       (Some (namespaceManifest stageSlug)) s)"

definition Kubectl_DeleteStageEnvironment :: "Cluster \<Rightarrow> string \<Rightarrow> string \<Rightarrow> Runs \<Rightarrow> (go_error + unit) \<times> Runs" where
  "Kubectl_DeleteStageEnvironment k projectID stageSlug s =
     discard (runKubectlInVCluster k projectID [''delete'', ''namespace'', stageSlug, ''--ignore-not-found=true''] None s)"

section \<open>Images\<close>

text \<open>The tag is put into the text of the patch as it is.\<close>

definition image_patch :: \<open>string \<Rightarrow> string\<close> where
  \<open>image_patch imageTag =
     ''[{"op":"replace","path":"/spec/template/spec/containers/0/image","value":"'' @ imageTag @ ''"}]''\<close>

definition Kubectl_ApplyImage :: "Cluster \<Rightarrow> string \<Rightarrow> string \<Rightarrow> Runs \<Rightarrow> (go_error + unit) \<times> Runs" where
  "Kubectl_ApplyImage k projectID imageTag s =
     discard (runKubectl k [''patch'', ''deployment'', ''-n'', namespaceFromProjectID projectID,
       ''--type=json'', ''-p'', image_patch imageTag, ''--all''] None s)"

definition Kubectl_ApplyImageToStage :: "Cluster \<Rightarrow> string \<Rightarrow> string \<Rightarrow> string \<Rightarrow> Runs \<Rightarrow> (go_error + unit) \<times> Runs" where
  "Kubectl_ApplyImageToStage k projectID stageSlug imageTag s =
     discard (runKubectlInVCluster k projectID [''patch'', ''deployment'', ''-n'', stageSlug,
       ''--type=json'', ''-p'', image_patch imageTag, ''--all''] None s)"

section \<open>Run-time status\<close>

definition decoded :: "Cluster \<Rightarrow> string \<Rightarrow> (string \<Rightarrow> 'a option) \<Rightarrow> string \<Rightarrow> Runs \<Rightarrow> (go_error + 'a) \<times> Runs" where
  "decoded k what decode text s =
     (case decode text of
        None \<Rightarrow> Inl (ErrWrap (''decode '' @ what @ '': '') (c_jsonError k text) '''')
      | Some v \<Rightarrow> Inr v, s)"

text \<open>
  The part that \<open>GetProjectRuntimeStatus\<close> and \<open>GetStageRuntimeStatus\<close> have in common: the lists of a namespace
  are read one after another, in the host cluster or in the virtual one.
\<close>

definition read_status ::
  "Cluster \<Rightarrow> (string \<Rightarrow> Runs \<Rightarrow> (go_error + string) \<times> Runs) \<Rightarrow> (ProjectRuntimeStatus \<Rightarrow> string) \<Rightarrow> string
   \<Rightarrow> ProjectRuntimeStatus \<Rightarrow> Runs \<Rightarrow> (go_error + ProjectRuntimeStatus) \<times> Runs" where
  "read_status k get_list message deploymentsJSON st s =
     andthen (decoded k ''deployments'' kubectlDeploymentList deploymentsJSON s) (\<lambda>ds s.
     andthen (get_list ''service'' s) (\<lambda>servicesJSON s.
     andthen (decoded k ''services'' kubectlServiceList servicesJSON s) (\<lambda>ss s.
     andthen (get_list ''ingress'' s) (\<lambda>ingressesJSON s.
     andthen (decoded k ''ingresses'' kubectlIngressList ingressesJSON s) (\<lambda>is s.
     andthen (get_list ''pods'' s) (\<lambda>podsJSON s.
     andthen (decoded k ''pods'' kubectlPodList podsJSON s) (\<lambda>ps s.
     let st = (with_ingresses is (with_services ss (with_deployments ds st)))\<lparr>rs_Pods := map pod_status ps\<rparr>
     in (Inr (st\<lparr>rs_Message := message st\<rparr>), s))))))))"

definition empty_status :: "string \<Rightarrow> string \<Rightarrow> gotime \<Rightarrow> ProjectRuntimeStatus" where
  "empty_status projectID namespace t =
     \<lparr>rs_ProjectID = projectID, rs_Namespace = namespace, rs_NamespaceExists = False, rs_DeploymentExists = False,
      rs_ServiceExists = False, rs_HTTPRouteExists = False, rs_PublicURL = '''', rs_ServiceURLs = [],
      rs_DesiredReplicas = 0, rs_ReadyReplicas = 0, rs_AvailableReplicas = 0, rs_Pods = [],
      rs_LastCheckedAt = t, rs_Message = ''''\<rparr>"

definition says_not_found :: "go_error \<Rightarrow> bool" where
  "says_not_found e \<longleftrightarrow>
     Contains (ToLower (Error e)) ''notfound'' \<or> Contains (ToLower (Error e)) ''not found''"

definition Kubectl_GetProjectRuntimeStatus :: "Cluster \<Rightarrow> string \<Rightarrow> Runs \<Rightarrow> (go_error + ProjectRuntimeStatus) \<times> Runs" where
  "Kubectl_GetProjectRuntimeStatus k projectID s =
     (let namespace = namespaceFromProjectID projectID;
          st = empty_status projectID namespace (c_now k (steps s));
          get_list = (\<lambda>kind. runKubectl k [''get'', kind, ''-n'', namespace, ''-o'', ''json''] None);
          (r, s) = runKubectl k [''get'', ''namespace'', namespace, ''-o'', ''json''] None s
      in case r of
           Inl e \<Rightarrow>
             (if says_not_found e
              then Inr (st\<lparr>rs_Message := ''namespace not found, deployment has not reached the cluster yet''\<rparr>)
              else Inl e, s)
         | Inr _ \<Rightarrow>
             andthen (get_list ''deployment'' s) (\<lambda>deploymentsJSON s.
               read_status k get_list project_message deploymentsJSON (st\<lparr>rs_NamespaceExists := True\<rparr>) s))"

definition Kubectl_GetStageRuntimeStatus :: "Cluster \<Rightarrow> string \<Rightarrow> string \<Rightarrow> Runs \<Rightarrow> (go_error + ProjectRuntimeStatus) \<times> Runs" where
  "Kubectl_GetStageRuntimeStatus k projectID stageSlug s =
     (let st = empty_status projectID stageSlug (c_now k (steps s));
          get_list = (\<lambda>kind. runKubectlInVCluster k projectID [''get'', kind, ''-n'', stageSlug, ''-o'', ''json''] None);
          (r, s) = get_list ''deployment'' s
      in case r of
           Inl e \<Rightarrow>
             (if says_not_found e then Inr (st\<lparr>rs_Message := ''stage namespace not found''\<rparr>) else Inl e, s)
         | Inr deploymentsJSON \<Rightarrow>
             read_status k get_list stage_message deploymentsJSON (st\<lparr>rs_NamespaceExists := True\<rparr>) s)"

section \<open>The choice of the provisioner\<close>

text \<open>\<open>None\<close> is the provisioner without a cluster. The paths of the programs are not part of the state.\<close>

definition NewProvisionerFromEnvironment :: "(string \<Rightarrow> string) \<Rightarrow> Cluster \<Rightarrow> Cluster option" where
  "NewProvisionerFromEnvironment env answers =
     (let get = (\<lambda>name. TrimSpace (env name)); mode = ToLower (get ''KUBERNETES_PROVISIONER'');
          base = get ''APPS_BASE_DOMAIN''; monitoring = get ''MONITORING_NAMESPACE'';
          v = ToLower (get ''INGRESS_NGINX_AUTO_INSTALL'');
          autoInstall = (if v = ''false'' \<or> v = ''0'' then False
                         else if v = ''true'' \<or> v = ''1'' then True else base = '''')
      in if mode = '''' \<or> mode = ''kubectl''
         then Some (answers\<lparr>kx_contextName := get ''KUBECTL_CONTEXT'',
           kx_gatewayControllerNamespace := get ''GATEWAY_CONTROLLER_NAMESPACE'', kx_appsBaseDomain := base,
           kx_monitoringNamespace := (if monitoring = '''' then ''monitoring'' else monitoring),
           kx_prometheusBaseURL := get ''PROMETHEUS_BASE_URL'', kx_lokiBaseURL := '''',
           kx_ingressNginxAutoInstall := autoInstall,
           kx_ingressNginxManifestURL := get ''INGRESS_NGINX_MANIFEST_URL''\<rparr>)
         else None)"

text \<open>The status that the provisioner without a cluster reports, for the namespace of a project or of a stage.\<close>

definition mock_runtime_status :: "string \<Rightarrow> string \<Rightarrow> gotime \<Rightarrow> ProjectRuntimeStatus" where
  "mock_runtime_status projectID namespace t =
     (empty_status projectID namespace t)\<lparr>rs_NamespaceExists := True, rs_DeploymentExists := True,
        rs_ServiceExists := True, rs_HTTPRouteExists := True, rs_DesiredReplicas := 1, rs_ReadyReplicas := 1,
        rs_AvailableReplicas := 1,
        rs_Pods := [\<lparr>pod_Name = ''mock-pod-0'', pod_Phase = ''Running'', pod_Ready = True, pod_Restarts = 0\<rparr>],
        rs_Message := ''mock deployment is healthy''\<rparr>"

text \<open>The address of Loki in the dashboards is never configured: no variable sets the field.\<close>

lemma loki_address_is_default: "NewProvisionerFromEnvironment env answers = Some k \<Longrightarrow> kx_lokiBaseURL k = ''''"
  by (auto simp: NewProvisionerFromEnvironment_def Let_def split: if_splits)

section \<open>What the operations run\<close>

lemma runs_createVCluster [run_intro]: "runs k pid 1 [] s (createVCluster k name (namespaceFromProjectID pid) s)"
  unfolding createVCluster_def
  by (rule runs_mono, (rule run_intro | (simp; fail))+)

lemma runs_deleteVCluster [run_intro]: "runs k pid 1 [] s (deleteVCluster k name (namespaceFromProjectID pid) s)"
  unfolding deleteVCluster_def
  by (rule runs_mono, (rule run_intro | (simp; fail))+)

lemma runs_applyResourceQuota [run_intro]:
  "runs k pid 1 [apply_of k (resourceQuotaManifest (namespaceFromProjectID pid))] s
     (applyResourceQuota k (namespaceFromProjectID pid) s)"
  unfolding applyResourceQuota_def by (rule run_intro own_manifests)+

lemma runs_applyProjectGrafana [run_intro]:
  "runs k pid 2 [] s (applyProjectGrafana k pid (namespaceFromProjectID pid) base s)"
  unfolding applyProjectGrafana_def
  by (rule runs_mono, (rule run_intro own_manifests | (simp add: in_context_names; fail))+)

lemma runs_EnsureProjectGrafana [run_intro]: "runs k pid 2 [] s (Kubectl_EnsureProjectGrafana k pid s)"
  unfolding Kubectl_EnsureProjectGrafana_def
  by (rule runs_mono, (rule run_intro)+) simp_all

lemma runs_installIngressNginx [run_intro]: "runs k pid 728 [] s (installIngressNginxInVCluster k pid s)"
  unfolding installIngressNginxInVCluster_def Let_def
  by (rule runs_mono, (rule run_intro)+) simp_all

lemma runs_wait_ingress_ip: "runs k pid (365 * left + 364) [] s (wait_ingress_ip k pid left s)"
proof (induction left arbitrary: s)
  case 0
  have "runs k pid (364 + 0) [] s (wait_ingress_ip k pid 0 s)"
    by (subst wait_ingress_ip.simps, rule runs_bind, rule run_intro) (auto intro: runs_return_any simp: Let_def)
  then show ?case by simp
next
  case (Suc n)
  have "runs k pid (364 + (365 * n + 365)) [] s (wait_ingress_ip k pid (Suc n) s)"
    by (subst wait_ingress_ip.simps, rule runs_bind, rule run_intro)
      (auto intro: runs_return_any runs_unless_done [OF Suc] simp: Let_def)
  then show ?case by (simp add: algebra_simps)
qed

lemma runs_waitForIngressNginxIP [run_intro]: "runs k pid 21899 [] s (waitForIngressNginxIP k pid s)"
  unfolding waitForIngressNginxIP_def
  by (rule runs_mono, rule runs_wait_ingress_ip) (simp_all add: ingressNginxIPMaxAttempts_def)

lemma runs_project_base_domain [run_intro]: "runs k pid 22627 [] s (project_base_domain k pid s)"
  unfolding project_base_domain_def
  by (rule runs_mono, (rule run_intro)+) simp_all

definition fence :: "Cluster \<Rightarrow> string \<Rightarrow> command list" where
  "fence k projectID =
     (let namespace = namespaceFromProjectID projectID; g = TrimSpace (kx_gatewayControllerNamespace k)
      in map (apply_of k) [namespaceManifest namespace, networkPolicyManifest namespace, vclusterAllowPolicy namespace,
           resourceQuotaManifest namespace, gatewayAllowPolicy namespace (if g = '''' then ''nginx-gateway'' else g)])"

lemma runs_CreateProjectEnvironment: "runs k pid 22994 (fence k pid) s (Kubectl_CreateProjectEnvironment k pid s)"
  unfolding Kubectl_CreateProjectEnvironment_def Let_def
  apply (rule runs_mono, (rule run_intro own_manifests)+)
 apply simp
 apply (simp add: fence_def Let_def)
 done

lemma runs_ApplyImage [run_intro]: "runs k pid 1 [] s (Kubectl_ApplyImage k pid tag s)"
  unfolding Kubectl_ApplyImage_def
  by (rule runs_mono, (rule run_intro | (simp add: in_context_names; fail))+)

lemma runs_suspend_resume:
  "runs k pid 1 [] s (Kubectl_SuspendProjectEnvironment k pid s)" "runs k pid 1 [] s (Kubectl_ResumeProjectEnvironment k pid s)"
  unfolding Kubectl_SuspendProjectEnvironment_def Kubectl_ResumeProjectEnvironment_def
  by (rule runs_mono, (rule run_intro | (simp; fail))+)+

lemma runs_DeleteProjectEnvironment: "runs k pid 2 [] s (Kubectl_DeleteProjectEnvironment k pid s)"
  unfolding Kubectl_DeleteProjectEnvironment_def Let_def
  by (rule runs_mono, (rule run_intro | (simp add: in_context_names; fail))+)

lemma runs_stages:
  "runs k pid 364 [] s (Kubectl_CreateStageEnvironment k pid slug s)" "runs k pid 364 [] s (Kubectl_DeleteStageEnvironment k pid slug s)"
  "runs k pid 364 [] s (Kubectl_ApplyImageToStage k pid slug tag s)"
  unfolding Kubectl_CreateStageEnvironment_def Kubectl_DeleteStageEnvironment_def Kubectl_ApplyImageToStage_def
  by (rule run_intro)+

lemma runs_decoded [run_intro]: "runs k pid 0 [] s (decoded k' what d t s)"
  unfolding decoded_def by (rule runs_return)

lemma runs_read_status:
  assumes "\<And>kind s. runs k pid N [] s (get_list kind s)"
  shows "runs k pid (3 * N) [] s (read_status k get_list message text st s)"
  unfolding read_status_def Let_def
  by (rule runs_mono, (rule run_intro assms)+) simp_all

lemma runs_GetProjectRuntimeStatus: "runs k pid 5 [] s (Kubectl_GetProjectRuntimeStatus k pid s)"
proof -
  let ?get = "\<lambda>kind. runKubectl k [''get'', kind, ''-n'', namespaceFromProjectID pid, ''-o'', ''json''] None"
  have get: "runs k pid 1 [] s (?get kind s)" for kind s
    by (rule runs_mono, (rule run_intro | (simp add: in_context_names; fail))+)
  have first: "runs k pid 1 [] s (runKubectl k [''get'', ''namespace'', namespaceFromProjectID pid, ''-o'', ''json''] None s)"
    by (rule runs_mono, (rule run_intro | (simp add: in_context_names; fail))+)
  have rest: "runs k pid 4 [] s' (andthen (?get ''deployment'' s') (\<lambda>t. read_status k ?get project_message t st))" for s' st
    by (rule runs_mono, (rule runs_andthen get runs_read_status)+) simp_all
  have "runs k pid (1 + 4) [] s (Kubectl_GetProjectRuntimeStatus k pid s)"
    unfolding Kubectl_GetProjectRuntimeStatus_def Let_def [of "namespaceFromProjectID pid"] Let_def [of "empty_status _ _ _"] Let_def [of ?get]
    by (rule runs_bind [OF first]) (auto intro: runs_return_any rest split: sum.split)
  then show ?thesis by simp
qed

section \<open>The patch of an image\<close>

definition plain_char :: "char \<Rightarrow> bool" where
  "plain_char c \<longleftrightarrow> 0x20 \<le> byte_of c \<and> byte_of c < 0x80 \<and> c \<noteq> CHR 0x22 \<and> c \<noteq> CHR 0x5C"

lemma json_chars_plain: "list_all plain_char s \<Longrightarrow> json_chars (s @ CHR 0x22 # t) = Some (s, t)"
  by (induction s) (auto simp: plain_char_def)

lemma json_value_quoted: "list_all plain_char s \<Longrightarrow> json_value (Suc n) (quoted s @ t) = Some (JStr s, t)"
  by (simp add: quoted_def skip_ws_def json_space_def json_chars_plain)

lemma skip_ws_mark: "\<not> json_space c \<Longrightarrow> skip_ws (c # t) = c # t"
  by (simp add: skip_ws_def)

lemma patch_members_last:
  assumes "list_all plain_char k" and "list_all plain_char v"
  shows "json_members (Suc (Suc n)) (quoted k @ CHR '':'' # quoted v @ CHR 0x7D # t) = Some ([(k, JStr v)], t)"
  using assms json_value_quoted [OF assms(2), of n "CHR 0x7D # t"]
  by (simp add: quoted_def json_chars_plain skip_ws_mark json_space_def)

lemma patch_members_more:
  assumes "list_all plain_char k" and "list_all plain_char v"
  shows "json_members (Suc (Suc n)) (quoted k @ CHR '':'' # quoted v @ CHR '','' # quoted k' @ t)
    = map_option (apfst ((#) (k, JStr v))) (json_members (Suc n) (quoted k' @ t))"
  using assms json_value_quoted [OF assms(2), of n "CHR '','' # quoted k' @ t"]
  by (simp add: quoted_def json_chars_plain skip_ws_mark json_space_def)

definition patch_path :: string where
  "patch_path = ''/spec/template/spec/containers/0/image''"

lemma image_patch_parts:
  "image_patch tag = CHR ''['' # CHR 0x7B # quoted ''op'' @ CHR '':'' # quoted ''replace'' @ CHR '','' # quoted ''path''
     @ CHR '':'' # quoted patch_path @ CHR '','' # quoted ''value'' @ CHR '':'' # quoted tag @ CHR 0x7D # '']''"
  by (simp add: image_patch_def quoted_def patch_path_def)

lemma plain_literals:
  "list_all plain_char ''op''" "list_all plain_char ''replace''" "list_all plain_char ''path''"
  "list_all plain_char patch_path" "list_all plain_char ''value''"
  by code_simp+

text \<open>A deployment gets the image of the release and nothing else: for a tag of printable characters without
  quotes or backslashes the patch is one operation, the replacement of the first container's image by the tag.\<close>

theorem image_patch_round_trip:
  assumes "list_all plain_char tag"
  shows "json_whole (image_patch tag)
    = Some (JArr [JObj [(''op'', JStr ''replace''), (''path'', JStr patch_path), (''value'', JStr tag)]])"
proof -
  obtain m where fuel: "Suc (length (image_patch tag)) = Suc (Suc (Suc (Suc (Suc (Suc (Suc m))))))"
    by (simp add: image_patch_def)
  have "json_members (Suc (Suc (Suc (Suc m)))) (quoted ''op'' @ CHR '':'' # quoted ''replace'' @ CHR '','' # quoted ''path''
      @ CHR '':'' # quoted patch_path @ CHR '','' # quoted ''value'' @ CHR '':'' # quoted tag @ CHR 0x7D # '']'')
    = Some ([(''op'', JStr ''replace''), (''path'', JStr patch_path), (''value'', JStr tag)], '']'')"
    by (simp only: patch_members_more patch_members_last plain_literals assms option.map apfst_conv)
  moreover have "\<exists>r. quoted ''op'' @ t = CHR 0x22 # r" for t by (simp add: quoted_def)
  ultimately have "json_value (Suc (Suc (Suc (Suc (Suc (Suc (Suc m))))))) (image_patch tag)
    = Some (JArr [JObj [(''op'', JStr ''replace''), (''path'', JStr patch_path), (''value'', JStr tag)]], [])"
    unfolding image_patch_parts
    by (simp add: skip_ws_mark json_space_def quoted_def)
  then show ?thesis by (simp only: json_whole_def fuel) (simp add: skip_ws_def)
qed

theorem image_patch_round_trip_witness:
  "json_whole (image_patch ''ghcr.io/acme/app:1.4'')
    = Some (JArr [JObj [(''op'', JStr ''replace''), (''path'', JStr patch_path), (''value'', JStr ''ghcr.io/acme/app:1.4'')]])"
proof -
  have "list_all plain_char ''ghcr.io/acme/app:1.4''" by code_simp
  then show ?thesis by (rule image_patch_round_trip)
qed

text \<open>A tag with a quote is not escaped, and can add operations to the patch.\<close>

definition injecting_tag :: \<open>string\<close> where
  \<open>injecting_tag = ''a"},{"op":"remove","path":"/spec/template/spec/securityContext","value":"''\<close>

lemma tag_can_add_operations:
  "case json_whole (image_patch injecting_tag) of Some (JArr ops) \<Rightarrow> length ops = 2 | _ \<Rightarrow> False"
  by code_simp

lemma runs_GetStageRuntimeStatus: "runs k pid 1456 [] s (Kubectl_GetStageRuntimeStatus k pid slug s)"
proof -
  let ?get = "\<lambda>kind. runKubectlInVCluster k pid [''get'', kind, ''-n'', slug, ''-o'', ''json''] None"
  have rest: "runs k pid 1092 [] s' (read_status k ?get stage_message t st s')" for s' st t
    by (rule runs_mono, rule runs_read_status, rule run_intro) simp_all
  have "runs k pid (364 + 1092) [] s (Kubectl_GetStageRuntimeStatus k pid slug s)"
    unfolding Kubectl_GetStageRuntimeStatus_def Let_def [of "empty_status _ _ _"] Let_def [of ?get]
    by (rule runs_bind, rule run_intro) (auto intro: runs_return_any rest split: sum.split)
  then show ?thesis by simp
qed

lemmas operation_runs = runs_CreateProjectEnvironment runs_suspend_resume runs_DeleteProjectEnvironment
  runs_GetProjectKubeconfig runs_ApplyImage runs_EnsureProjectGrafana runs_stages
  runs_GetProjectRuntimeStatus runs_GetStageRuntimeStatus

lemma runs_bounded: "runs k pid N cs s m \<Longrightarrow> steps (snd m) \<le> steps s + N"
  by (auto simp: runs_def)

text \<open>The commands that a call adds stay inside the project.\<close>

definition stays :: "Cluster \<Rightarrow> string \<Rightarrow> Runs \<Rightarrow> (go_error + 'a) \<times> Runs \<Rightarrow> bool" where
  "stays k pid s m \<longleftrightarrow> list_all (stays_inside k pid) (drop (length (commands s)) (commands (snd m)))"

lemma runs_stays: "runs k pid N cs s m \<Longrightarrow> stays k pid s m"
  by (auto simp: runs_def stays_def)

section \<open>Properties\<close>


text \<open>A cluster that carries out everything.\<close>

definition willing_cluster :: Cluster where
  "willing_cluster = slow_cluster\<lparr>kx_appsBaseDomain := '''', c_run := (\<lambda>_ _. Inr ''QUJD'')\<rparr>"


text \<open>C3 No operation leaves its project: every command that it runs in the host cluster names the namespace of the
  project or applies one of the manifests made for it, whatever the answers of the cluster are.\<close>

theorem operations_stay_in_namespace:
  "stays k pid s (Kubectl_CreateProjectEnvironment k pid s) \<and> stays k pid s (Kubectl_SuspendProjectEnvironment k pid s)
   \<and> stays k pid s (Kubectl_ResumeProjectEnvironment k pid s) \<and> stays k pid s (Kubectl_DeleteProjectEnvironment k pid s)
   \<and> stays k pid s (Kubectl_GetProjectKubeconfig k pid s) \<and> stays k pid s (Kubectl_ApplyImage k pid tag s)
   \<and> stays k pid s (Kubectl_EnsureProjectGrafana k pid s) \<and> stays k pid s (Kubectl_CreateStageEnvironment k pid slug s)
   \<and> stays k pid s (Kubectl_DeleteStageEnvironment k pid slug s) \<and> stays k pid s (Kubectl_ApplyImageToStage k pid slug tag s)
   \<and> stays k pid s (Kubectl_GetProjectRuntimeStatus k pid s) \<and> stays k pid s (Kubectl_GetStageRuntimeStatus k pid slug s)"
  by (intro conjI; rule runs_stays; rule operation_runs)


text \<open>A project that has not reached the cluster has a status: when the namespace cannot be read because it does
  not exist, the call answers with that message instead of an error; any other error is returned; both end the call
  after this one command.\<close>

theorem missing_namespace_is_a_status:
  assumes "fst (runKubectl k [''get'', ''namespace'', namespaceFromProjectID pid, ''-o'', ''json''] None s) = Inl e"
  shows "fst (Kubectl_GetProjectRuntimeStatus k pid s) =
      (if says_not_found e
       then Inr ((empty_status pid (namespaceFromProjectID pid) (c_now k (steps s)))
              \<lparr>rs_Message := ''namespace not found, deployment has not reached the cluster yet''\<rparr>)
       else Inl e)
    \<and> steps (snd (Kubectl_GetProjectRuntimeStatus k pid s)) = Suc (steps s)"
  using assms by (simp add: Kubectl_GetProjectRuntimeStatus_def runKubectl_def issue_def Let_def)

theorem missing_namespace_is_a_status_witness:
  "case fst (Kubectl_GetProjectRuntimeStatus slow_cluster ''a'' start_runs) of
     Inr st \<Rightarrow> \<not> rs_NamespaceExists st \<and> rs_Message st = ''namespace not found, deployment has not reached the cluster yet''
   | Inl _ \<Rightarrow> False"
proof -
  let ?r = "fst (runKubectl slow_cluster [''get'', ''namespace'', namespaceFromProjectID ''a'', ''-o'', ''json''] None start_runs)"
  have "case ?r of Inl e \<Rightarrow> says_not_found e | Inr _ \<Rightarrow> False" by code_simp
  then obtain e where e: "?r = Inl e" "says_not_found e" by (auto split: sum.splits)
  from missing_namespace_is_a_status [OF e(1)] e(2) show ?thesis by (simp add: empty_status_def)
qed

end
