(* ===== verification/GoParse.thy ===== *)
theory GoParse
  imports GoTime GoStrings
begin

text \<open>
  More of Go's library: \<open>time.Parse\<close> for RFC 3339, the saturating difference of two times, and functions of
  \<open>strings\<close> that replace and trim.
\<close>

section \<open>\<open>time.Parse(time.RFC3339)\<close>\<close>

definition days_from_civil :: "int \<Rightarrow> int \<Rightarrow> int \<Rightarrow> int" where
  "days_from_civil y m d =
     (let y = (if m \<le> 2 then y - 1 else y); yoe = y mod 400; doy = (153 * ((m + 9) mod 12) + 2) div 5 + d - 1
      in y div 400 * 146097 + (365 * yoe + yoe div 4 - yoe div 100 + doy) - 719468)"

definition days_in :: "int \<Rightarrow> int \<Rightarrow> int" where
  "days_in m y =
     (if m = 2 then (if y mod 4 = 0 \<and> (y mod 100 \<noteq> 0 \<or> y mod 400 = 0) then 29 else 28)
      else if m \<in> {4, 6, 9, 11} then 30 else 31)"

definition digits_n :: "nat \<Rightarrow> string \<Rightarrow> (int \<times> string) option" where
  "digits_n n s =
     (if n \<le> length s \<and> list_all is_digit (take n s) then Some (int (digits_value (take n s)), drop n s) else None)"

text \<open>The hour may have one digit.\<close>

definition digits_12 :: "string \<Rightarrow> (int \<times> string) option" where
  "digits_12 s = (case digits_n 2 s of None \<Rightarrow> digits_n 1 s | r \<Rightarrow> r)"

definition literally :: "char \<Rightarrow> string \<Rightarrow> string option" where
  "literally c s = (if s \<noteq> [] \<and> hd s = c then Some (tl s) else None)"

text \<open>A fraction after the seconds, of which nine digits count; the layout does not ask for it.\<close>

definition fraction_ns :: "string \<Rightarrow> int \<times> string" where
  "fraction_ns s =
     (if length s \<ge> 2 \<and> (hd s = CHR ''.'' \<or> hd s = CHR '','') \<and> is_digit (s ! 1)
      then (let ds = takeWhile is_digit (tl s); k = take 9 ds
            in (int (digits_value k) * 10 ^ (9 - length k), drop (length ds) (tl s)))
      else (0, s))"

text \<open>The offset in seconds.\<close>

definition zone_offset :: "string \<Rightarrow> (int \<times> string) option" where
  "zone_offset s =
     (if s \<noteq> [] \<and> hd s = CHR ''Z'' then Some (0, tl s)
      else if length s < 6 \<or> s ! 3 \<noteq> CHR '':'' \<or> hd s \<noteq> CHR ''+'' \<and> hd s \<noteq> CHR ''-'' then None
      else (case (digits_n 2 (take 2 (drop 1 s)), digits_n 2 (take 2 (drop 4 s))) of
              (Some (hr, _), Some (mm, _)) \<Rightarrow>
                if hr > 24 \<or> mm > 60 then None
                else Some ((if hd s = CHR ''-'' then - 1 else 1) * (hr * 60 + mm) * 60, drop 6 s)
            | _ \<Rightarrow> None))"

definition ParseRFC3339 :: "string \<Rightarrow> gotime option" where
  "ParseRFC3339 s =
     Option.bind (digits_n 4 s) (\<lambda>(y, s). Option.bind (literally CHR ''-'' s) (\<lambda>s.
     Option.bind (digits_n 2 s) (\<lambda>(mo, s). Option.bind (literally CHR ''-'' s) (\<lambda>s.
     Option.bind (digits_n 2 s) (\<lambda>(d, s). Option.bind (literally CHR ''T'' s) (\<lambda>s.
     Option.bind (digits_12 s) (\<lambda>(h, s). Option.bind (literally CHR '':'' s) (\<lambda>s.
     Option.bind (digits_n 2 s) (\<lambda>(mi, s). Option.bind (literally CHR '':'' s) (\<lambda>s.
     Option.bind (digits_n 2 s) (\<lambda>(sec, s). let (ns, s) = fraction_ns s in
     Option.bind (zone_offset s) (\<lambda>(off, s).
       if s = [] \<and> 1 \<le> mo \<and> mo \<le> 12 \<and> 1 \<le> d \<and> d \<le> days_in mo y \<and> h < 24 \<and> mi < 60 \<and> sec < 60
       then Some (days_from_civil y mo d * Day + h * Hour + mi * Minute + (sec - off) * Second + ns)
       else None))))))))))))"

text \<open>\<open>Time.Sub\<close> saturates at the limits of a duration.\<close>

definition time_sub :: "gotime \<Rightarrow> gotime \<Rightarrow> duration" where
  "time_sub t u = max (- (2 ^ 63)) (min (2 ^ 63 - 1) (t - u))"

section \<open>\<open>strings\<close>\<close>

text \<open>\<open>strings.ReplaceAll\<close> of a text that is not empty, from left to right.\<close>

function ReplaceAll :: "string \<Rightarrow> string \<Rightarrow> string \<Rightarrow> string" where
  "ReplaceAll [] old new = []"
| "ReplaceAll (c # cs) old new =
     (if old \<noteq> [] \<and> prefix old (c # cs) then new @ ReplaceAll (drop (length old) (c # cs)) old new
      else c # ReplaceAll cs old new)"
  by pat_completeness auto
termination
  by (relation "measure (\<lambda>(s, _). length s)") auto

text \<open>\<open>strings.TrimRight(s, "/")\<close>.\<close>

definition trim_slashes :: "string \<Rightarrow> string" where
  "trim_slashes s = rev (dropWhile (\<lambda>c. c = CHR ''/'') (rev s))"

end
