(* ===== verification/Collector.thy ===== *)
theory Collector
  imports Kubectl GoNumbers GoParse
begin

text \<open>
  \<open>internal/integration/kubernetes/metrics_collector.go\<close>: the quantities of Kubernetes, what is read of pods,
  volumes and the metrics interface, the queries for the egress, and the measurement of a project, which runs
  \<open>kubectl\<close> and asks Prometheus.
\<close>

section \<open>Quantities\<close>

definition parse_or_zero :: "string \<Rightarrow> f64" where
  "parse_or_zero s = (case ParseFloat s of None \<Rightarrow> Fin 0 | Some v \<Rightarrow> v)"

definition parseFloatWithSuffix :: "string \<Rightarrow> string \<Rightarrow> f64" where
  "parseFloatWithSuffix value suf = parse_or_zero (TrimSuffix value suf)"

definition parseCPUQuantity :: "string \<Rightarrow> f64" where
  "parseCPUQuantity v =
     (let value = TrimSpace v
      in if value = '''' then Fin 0
         else if HasSuffix value ''n'' then fdiv (parseFloatWithSuffix value ''n'') (Fin 1000000000)
         else if HasSuffix value ''u'' then fdiv (parseFloatWithSuffix value ''u'') (Fin 1000000)
         else if HasSuffix value ''m'' then fdiv (parseFloatWithSuffix value ''m'') (Fin 1000)
         else parse_or_zero value)"

definition binaryUnits :: "rat gomap" where
  "binaryUnits = [(''Ki'', 1024), (''Mi'', 1024 ^ 2), (''Gi'', 1024 ^ 3), (''Ti'', 1024 ^ 4), (''Pi'', 1024 ^ 5),
     (''Ei'', 1024 ^ 6)]"

definition decimalUnits :: "rat gomap" where
  "decimalUnits = [(''K'', 10 ^ 3), (''M'', 10 ^ 6), (''G'', 10 ^ 9), (''T'', 10 ^ 12), (''P'', 10 ^ 15), (''E'', 10 ^ 18)]"

text \<open>The first unit that fits, in the order in which \<open>range\<close> visits the map.\<close>

definition find_unit :: "(string \<Rightarrow> nat) \<Rightarrow> rat gomap \<Rightarrow> string \<Rightarrow> (string \<times> rat) option" where
  "find_unit ord units value = find (\<lambda>(suf, _). HasSuffix value suf) (sort_key (\<lambda>kv. ord (fst kv)) units)"

definition parseByteQuantityToGB :: "(string \<Rightarrow> nat) \<Rightarrow> string \<Rightarrow> f64" where
  "parseByteQuantityToGB ord v =
     (let value = TrimSpace v; gb = Fin (1024 ^ 3);
          scaled_by = (\<lambda>(suf, mult). fdiv (fmul (parseFloatWithSuffix value suf) (Fin mult)) gb)
      in if value = '''' then Fin 0
         else case find_unit ord binaryUnits value of
           Some u \<Rightarrow> scaled_by u
         | None \<Rightarrow>
            (case find_unit ord decimalUnits value of
               Some u \<Rightarrow> scaled_by u | None \<Rightarrow> fdiv (parse_or_zero value) gb))"

section \<open>Pods and volumes\<close>

record metricsContainer =
  mc_RequestCPU :: string
  mc_RequestMemory :: string
  mc_LimitCPU :: string
  mc_LimitMemory :: string

record metricsPodItem =
  mp_Containers :: "metricsContainer list"
  mp_Phase :: string
  mp_StartTime :: string

record metricsPVC =
  mv_RequestStorage :: string
  mv_CapacityStorage :: string

definition decode_pair :: "string \<Rightarrow> string \<Rightarrow> string \<Rightarrow> (string \<times> json) list \<Rightarrow> string \<times> string \<Rightarrow> (string \<times> string) option" where
  "decode_pair name a b =
     in_record name (\<lambda>kvs (x, y). Option.bind (field as_string a kvs x) (\<lambda>x.
       Option.bind (field as_string b kvs y) (\<lambda>y. Some (x, y))))"

definition decode_container :: "json \<Rightarrow> metricsContainer \<Rightarrow> metricsContainer option" where
  "decode_container = as_record (in_record ''resources'' (\<lambda>kvs c.
     Option.bind (decode_pair ''requests'' ''cpu'' ''memory'' kvs (mc_RequestCPU c, mc_RequestMemory c)) (\<lambda>(rc, rm).
     Option.bind (decode_pair ''limits'' ''cpu'' ''memory'' kvs (mc_LimitCPU c, mc_LimitMemory c)) (\<lambda>(lc, lm).
     Some \<lparr>mc_RequestCPU = rc, mc_RequestMemory = rm, mc_LimitCPU = lc, mc_LimitMemory = lm\<rparr>))))"

definition empty_container :: metricsContainer where
  "empty_container = \<lparr>mc_RequestCPU = '''', mc_RequestMemory = '''', mc_LimitCPU = '''', mc_LimitMemory = ''''\<rparr>"

definition decode_metrics_pod :: "json \<Rightarrow> metricsPodItem \<Rightarrow> metricsPodItem option" where
  "decode_metrics_pod = as_record (\<lambda>kvs p.
     Option.bind (in_record ''spec'' (field (as_list decode_container empty_container) ''containers'') kvs (mp_Containers p)) (\<lambda>cs.
     Option.bind (decode_pair ''status'' ''phase'' ''startTime'' kvs (mp_Phase p, mp_StartTime p)) (\<lambda>(ph, st).
     Some \<lparr>mp_Containers = cs, mp_Phase = ph, mp_StartTime = st\<rparr>)))"

definition metricsPodList :: "string \<Rightarrow> metricsPodItem list option" where
  "metricsPodList = decode_items decode_metrics_pod \<lparr>mp_Containers = [], mp_Phase = '''', mp_StartTime = ''''\<rparr>"

definition decode_pvc :: "json \<Rightarrow> metricsPVC \<Rightarrow> metricsPVC option" where
  "decode_pvc = as_record (\<lambda>kvs v.
     Option.bind (in_record ''spec'' (in_record ''resources'' (in_record ''requests'' (field as_string ''storage'')))
        kvs (mv_RequestStorage v)) (\<lambda>r.
     Option.bind (in_record ''status'' (in_record ''capacity'' (field as_string ''storage'')) kvs (mv_CapacityStorage v)) (\<lambda>c.
     Some \<lparr>mv_RequestStorage = r, mv_CapacityStorage = c\<rparr>)))"

definition metricsPVCList :: "string \<Rightarrow> metricsPVC list option" where
  "metricsPVCList = decode_items decode_pvc \<lparr>mv_RequestStorage = '''', mv_CapacityStorage = ''''\<rparr>"

text \<open>The usage of the containers of a pod, as CPU and memory.\<close>

definition metricsPodUsageList :: "string \<Rightarrow> (string \<times> string) list list option" where
  "metricsPodUsageList = decode_items (as_record (field (as_list (as_record (decode_pair ''usage'' ''cpu'' ''memory''))
     ('''', '''')) ''containers'')) []"

definition isBillablePodPhase :: "string \<Rightarrow> bool" where
  "isBillablePodPhase phase \<longleftrightarrow> TrimSpace phase = ''Pending'' \<or> TrimSpace phase = ''Running''"

definition countActivePods :: "metricsPodItem list \<Rightarrow> int" where
  "countActivePods items = foldl (\<lambda>n p. if isBillablePodPhase (mp_Phase p) then add32 n 1 else n) 0 items"

definition or_else :: "string \<Rightarrow> string \<Rightarrow> string" where
  "or_else a b = (let a = TrimSpace a in if a = '''' then TrimSpace b else a)"

definition add_quantities :: "(string \<Rightarrow> nat) \<Rightarrow> f64 \<times> f64 \<Rightarrow> string \<times> string \<Rightarrow> f64 \<times> f64" where
  "add_quantities ord tot q =
     (fadd (fst tot) (parseCPUQuantity (fst q)), fadd (snd tot) (parseByteQuantityToGB ord (snd q)))"

definition requestedPodResources :: "(string \<Rightarrow> nat) \<Rightarrow> metricsPodItem list \<Rightarrow> f64 \<times> f64" where
  "requestedPodResources ord items =
     foldl (\<lambda>tot p. if \<not> isBillablePodPhase (mp_Phase p) then tot
        else foldl (\<lambda>tot c. add_quantities ord tot
               (or_else (mc_RequestCPU c) (mc_LimitCPU c), or_else (mc_RequestMemory c) (mc_LimitMemory c)))
             tot (mp_Containers p)) (Fin 0, Fin 0) items"

definition pod_hours :: "gotime \<Rightarrow> metricsPodItem \<Rightarrow> f64 option" where
  "pod_hours t p =
     (if \<not> isBillablePodPhase (mp_Phase p) \<or> mp_StartTime p = '''' then None
      else case ParseRFC3339 (mp_StartTime p) of
        None \<Rightarrow> None | Some start \<Rightarrow> if start > t then None else Some (Hours (time_sub t start)))"

definition podUptimeHours :: "metricsPodItem list \<Rightarrow> gotime \<Rightarrow> f64" where
  "podUptimeHours items t =
     foldl (\<lambda>total p. case pod_hours t p of None \<Rightarrow> total | Some h \<Rightarrow> fadd total h) (Fin 0) items"

section \<open>Queries\<close>

definition prometheusRangeWindow :: "duration \<Rightarrow> string" where
  "prometheusRangeWindow window =
     (if window \<ge> Minute \<and> window mod Minute = 0 then show_int (window div Minute) @ ''m''
      else show_int (whole_seconds window) @ ''s'')"

definition defaultPrometheusEgressQueries :: \<open>string list\<close> where
  \<open>defaultPrometheusEgressQueries = [
     ''sum(increase(container_network_transmit_bytes_total{namespace="${namespace}",pod!=""}[${window}]))'',
     ''sum(increase(container_network_egress_bytes_total{namespace="${namespace}",pod!=""}[${window}]))'',
     ''sum(increase(pod_network_egress_bytes_total{namespace="${namespace}",pod!=""}[${window}]))'',
     ''sum(increase(cilium_pod_egress_bytes_total{namespace="${namespace}"}[${window}]))'',
     ''sum(increase(calico_pod_egress_bytes_total{namespace="${namespace}"}[${window}]))'']\<close>

definition prometheusEgressQueriesFromEnvironment :: "string \<Rightarrow> string list" where
  "prometheusEgressQueriesFromEnvironment env =
     (let raw = TrimSpace env; queries = filter (\<lambda>q. q \<noteq> '''') (map TrimSpace (Split raw (CHR 0x0A)))
      in if raw = '''' \<or> queries = [] then defaultPrometheusEgressQueries else queries)"

text \<open>The value of the first result of a vector; \<open>None\<close> is the false of the second result.\<close>

fun any_value :: "json \<Rightarrow> bool" where
  "any_value (JNum n) = (ParseFloat n \<noteq> None)"
| "any_value (JArr vs) = list_all any_value vs"
| "any_value (JObj kvs) = list_all (\<lambda>(_, v). any_value v) kvs"
| "any_value _ = True"

definition as_any :: "json \<Rightarrow> json \<Rightarrow> json option" where
  "as_any v x = (if any_value v then Some v else None)"

definition vector_value :: "string \<Rightarrow> f64 option" where
  "vector_value body =
     Option.bind (json_first body) (\<lambda>v. Option.bind (members_of v) (\<lambda>kvs.
     Option.bind (field as_string ''status'' kvs '''') (\<lambda>status.
     Option.bind (in_record ''data'' (\<lambda>kvs (t, rs).
        Option.bind (field as_string ''resultType'' kvs t) (\<lambda>t.
        Option.bind (field (as_list (as_record (field (as_list as_any JNull) ''value'')) []) ''result'' kvs rs) (\<lambda>rs.
        Some (t, rs)))) kvs ('''', [])) (\<lambda>(t, rs).
     if status \<noteq> ''success'' \<or> t \<noteq> ''vector'' \<or> rs = [] \<or> length (hd rs) < 2 then None
     else ParseFloat (case hd rs ! 1 of JStr s \<Rightarrow> s | _ \<Rightarrow> '''')))))"

section \<open>The measurement of a project\<close>

datatype probe =
    KubectlProbe "string list"
  | PrometheusProbe string string string \<comment> \<open>address, query and token\<close>

text \<open>
  The answers to the runs of \<open>kubectl\<close> and to the queries: the status and the body of the response, or \<open>None\<close> when
  the request cannot be made or fails.
\<close>

record KubectlMetricsCollector =
  mk_contextName :: string
  mk_prometheusBaseURL :: string
  mk_prometheusAuthToken :: string
  mk_prometheusQueries :: "string list"
  mk_window :: duration
  mk_run :: "nat \<Rightarrow> string list \<Rightarrow> string \<times> string + string"
  mk_query :: "nat \<Rightarrow> string \<Rightarrow> (nat \<times> string) option"
  mk_now :: "nat \<Rightarrow> gotime"
  mk_order :: "string \<Rightarrow> nat"
  mk_jsonError :: "string \<Rightarrow> go_error"

type_synonym probes = "probe list"

definition NewMetricsCollectorFromEnvironment ::
  "(string \<Rightarrow> string) \<Rightarrow> duration \<Rightarrow> KubectlMetricsCollector \<Rightarrow> KubectlMetricsCollector option" where
  "NewMetricsCollectorFromEnvironment env interval answers =
     (let mode = ToLower (TrimSpace (env ''METRICS_COLLECTOR_MODE''));
          provisionerMode = ToLower (TrimSpace (env ''KUBERNETES_PROVISIONER''))
      in if mode = ''mock'' \<or> provisionerMode \<noteq> '''' \<and> provisionerMode \<noteq> ''kubectl'' then None
         else Some (answers\<lparr>mk_contextName := TrimSpace (env ''KUBECTL_CONTEXT''),
           mk_prometheusBaseURL := trim_slashes (TrimSpace (env ''PROMETHEUS_BASE_URL'')),
           mk_prometheusAuthToken := TrimSpace (env ''PROMETHEUS_AUTH_TOKEN''),
           mk_prometheusQueries := prometheusEgressQueriesFromEnvironment (env ''PROMETHEUS_EGRESS_QUERIES''),
           mk_window := interval\<rparr>))"

text \<open>The collector without a cluster.\<close>

definition mock_usage :: ResourceSnapshot where
  "mock_usage = \<lparr>sn_CPUCores = fl (1 / 10), sn_MemoryGB = fl (1 / 4), sn_StorageGB = Fin 1, sn_EgressGBDelta = fl (2 / 100),
     sn_ReplicaCount = 1, sn_PodUptimeHours = Fin 4\<rparr>"

definition collector_kubectl :: "KubectlMetricsCollector \<Rightarrow> string list \<Rightarrow> probes \<Rightarrow> (go_error + string) \<times> probes" where
  "collector_kubectl c args ps =
     (let args = (if mk_contextName c \<noteq> '''' then [''--context'', mk_contextName c] else []) @ args
      in (process_result ''kubectl'' args (mk_run c (length ps) args), ps @ [KubectlProbe args]))"

definition measured :: "KubectlMetricsCollector \<Rightarrow> string \<Rightarrow> (string \<Rightarrow> 'a option) \<Rightarrow> string \<Rightarrow> probes \<Rightarrow> (go_error + 'a) \<times> probes" where
  "measured c what decode text ps =
     (case decode text of
        None \<Rightarrow> Inl (ErrWrap (''decode '' @ what @ '' for metrics: '') (mk_jsonError c text) '''') | Some v \<Rightarrow> Inr v, ps)"

definition listPods :: "KubectlMetricsCollector \<Rightarrow> string \<Rightarrow> probes \<Rightarrow> (go_error + metricsPodItem list) \<times> probes" where
  "listPods c namespace ps =
     andthen (collector_kubectl c [''get'', ''pods'', ''-n'', namespace, ''-o'', ''json''] ps)
       (measured c ''pods'' metricsPodList)"

definition currentReplicaCount :: "KubectlMetricsCollector \<Rightarrow> string \<Rightarrow> probes \<Rightarrow> (go_error + int) \<times> probes" where
  "currentReplicaCount c namespace ps =
     andthen (collector_kubectl c [''get'', ''deployment'', ''-n'', namespace, ''-o'', ''json''] ps) (\<lambda>out ps.
     andthen (measured c ''deployments'' (decode_items (as_record (in_record ''status'' (field as_int32 ''replicas''))) 0) out ps)
       (\<lambda>rs ps. (Inr (foldl add32 0 rs), ps)))"

definition currentPVCStorage :: "KubectlMetricsCollector \<Rightarrow> string \<Rightarrow> probes \<Rightarrow> (go_error + f64) \<times> probes" where
  "currentPVCStorage c namespace ps =
     andthen (collector_kubectl c [''get'', ''pvc'', ''-n'', namespace, ''-o'', ''json''] ps) (\<lambda>out ps.
     andthen (measured c ''pvcs'' metricsPVCList out ps) (\<lambda>vs ps.
       (Inr (foldl (\<lambda>total v. fadd total (parseByteQuantityToGB (mk_order c)
          (if mv_CapacityStorage v = '''' then mv_RequestStorage v else mv_CapacityStorage v))) (Fin 0) vs), ps)))"

text \<open>The metrics interface is optional: without an answer that can be read the usage is zero.\<close>

definition currentPodUsageFromMetricsAPI :: "KubectlMetricsCollector \<Rightarrow> string \<Rightarrow> probes \<Rightarrow> (f64 \<times> f64) \<times> probes" where
  "currentPodUsageFromMetricsAPI c namespace ps =
     (let (r, ps) = collector_kubectl c [''get'', ''--raw'', ''/apis/metrics.k8s.io/v1beta1/namespaces/'' @ namespace @ ''/pods''] ps
      in (case r of
            Inl _ \<Rightarrow> (Fin 0, Fin 0)
          | Inr out \<Rightarrow>
             (case metricsPodUsageList out of
                None \<Rightarrow> (Fin 0, Fin 0)
              | Some items \<Rightarrow> foldl (add_quantities (mk_order c)) (Fin 0, Fin 0) (concat items)), ps))"

definition queryPrometheusVectorValue :: "KubectlMetricsCollector \<Rightarrow> string \<Rightarrow> probes \<Rightarrow> f64 option \<times> probes" where
  "queryPrometheusVectorValue c query ps =
     (case mk_query c (length ps) query of
        None \<Rightarrow> None
      | Some (status, body) \<Rightarrow> if status < 200 \<or> status > 299 then None else vector_value body,
      ps @ [PrometheusProbe (mk_prometheusBaseURL c @ ''/api/v1/query'') query (mk_prometheusAuthToken c)])"

definition filled_query :: "KubectlMetricsCollector \<Rightarrow> string \<Rightarrow> string \<Rightarrow> string" where
  "filled_query c namespace template =
     ReplaceAll (ReplaceAll template ''${namespace}'' namespace) ''${window}'' (prometheusRangeWindow (mk_window c))"

fun first_egress :: "KubectlMetricsCollector \<Rightarrow> string \<Rightarrow> string list \<Rightarrow> probes \<Rightarrow> f64 \<times> probes" where
  "first_egress c namespace [] ps = (Fin 0, ps)"
| "first_egress c namespace (t # ts) ps =
     (case queryPrometheusVectorValue c (filled_query c namespace t) ps of
        (None, ps) \<Rightarrow> first_egress c namespace ts ps
      | (Some v, ps) \<Rightarrow> (fdiv v (Fin (1024 * 1024 * 1024)), ps))"

definition currentEgressDelta :: "KubectlMetricsCollector \<Rightarrow> string \<Rightarrow> probes \<Rightarrow> f64 \<times> probes" where
  "currentEgressDelta c namespace ps =
     (if mk_prometheusBaseURL c = '''' then (Fin 0, ps) else first_egress c namespace (mk_prometheusQueries c) ps)"

definition CollectProjectUsage :: "KubectlMetricsCollector \<Rightarrow> string \<Rightarrow> probes \<Rightarrow> (go_error + ResourceSnapshot) \<times> probes" where
  "CollectProjectUsage c projectID ps =
     (let namespace = NamespaceForProject projectID
      in andthen (listPods c namespace ps) (\<lambda>pods ps.
         andthen (currentReplicaCount c namespace ps) (\<lambda>replicas ps.
         let replicas = (if replicas = 0 then countActivePods pods else replicas);
             (usage, ps) = currentPodUsageFromMetricsAPI c namespace ps;
             usage = (if usage = (Fin 0, Fin 0) then requestedPodResources (mk_order c) pods else usage)
         in andthen (currentPVCStorage c namespace ps) (\<lambda>storageGB ps.
            let (egress, ps) = currentEgressDelta c namespace ps
            in (Inr \<lparr>sn_CPUCores = fst usage, sn_MemoryGB = snd usage, sn_StorageGB = storageGB,
                  sn_EgressGBDelta = egress, sn_ReplicaCount = replicas,
                  sn_PodUptimeHours = podUptimeHours pods (mk_now c (length ps))\<rparr>, ps)))))"

section \<open>Lemmas\<close>

lemma find_only:
  assumes "\<And>x y. x \<in> set xs \<Longrightarrow> y \<in> set xs \<Longrightarrow> P x \<Longrightarrow> P y \<Longrightarrow> x = y" and "set xs = set ys"
  shows "find P xs = find P ys"
proof (cases "find P xs")
  case None
  with assms(2) show ?thesis by (metis find_None_iff2)
next
  case (Some x)
  then have x: "x \<in> set xs" "P x" by (metis find_Some_iff nth_mem)+
  show ?thesis
  proof (cases "find P ys")
    case None
    with x assms(2) show ?thesis by (metis find_None_iff2)
  next
    case Some': (Some y)
    then have "y \<in> set ys" "P y" by (metis find_Some_iff nth_mem)+
    with assms x Some Some' show ?thesis by metis
  qed
qed

text \<open>A text ends in one unit of a table at most: the names of a table have the same length.\<close>

lemma one_unit:
  assumes "\<forall>u \<in> set units. length (fst u) = n" and "distinct (map fst units)"
    and "x \<in> set units" "y \<in> set units" "HasSuffix v (fst x)" "HasSuffix v (fst y)"
  shows "x = y"
proof -
  have "suffix (fst x) (fst y) \<or> suffix (fst y) (fst x)" using assms(5,6) by (metis suffix_same_cases)
  moreover have "length (fst x) = length (fst y)" using assms(1,3,4) by simp
  ultimately have "fst x = fst y" by (auto simp: suffix_def)
  with assms(2-4) show ?thesis by (metis eq_key_imp_eq_value prod.collapse)
qed

lemma find_unit_order:
  assumes "\<forall>u \<in> set units. length (fst u) = n" and "distinct (map fst units)"
  shows "find_unit ord units v = find_unit ord' units v"
  unfolding find_unit_def by (rule find_only) (auto dest: one_unit [OF assms] simp: case_prod_unfold)

lemma unit_tables:
  "\<forall>u \<in> set binaryUnits. length (fst u) = 2" "distinct (map fst binaryUnits)"
  "\<forall>u \<in> set decimalUnits. length (fst u) = 1" "distinct (map fst decimalUnits)"
  by (simp_all add: binaryUnits_def decimalUnits_def)

lemma find_unit_is:
  assumes "\<forall>u \<in> set units. length (fst u) = n" and "distinct (map fst units)" and "(suf, mult) \<in> set units"
  shows "find_unit ord units (s @ suf) = Some (suf, mult)"
proof -
  have "find_unit ord units (s @ suf) \<noteq> None"
  proof
    assume "find_unit ord units (s @ suf) = None"
    then have "\<forall>u \<in> set units. \<not> HasSuffix (s @ suf) (fst u)" by (auto simp: find_unit_def find_None_iff)
    with assms(3) show False by (auto simp: suffix_def)
  qed
  then obtain u where u: "find_unit ord units (s @ suf) = Some u" by blast
  then have "u \<in> set units" "HasSuffix (s @ suf) (fst u)"
    by (auto simp: find_unit_def find_Some_iff case_prod_unfold) (metis length_sort nth_mem set_sort)
  then have "u = (suf, mult)" using one_unit [OF assms(1,2) _ assms(3)] by (simp add: suffix_def)
  with u show ?thesis by simp
qed

text \<open>Integers of up to 53 bits with any moderate power of two are exact.\<close>

lemma fl_dyadic:
  assumes "n < 2 ^ 53" and "- 1000 \<le> q" "q \<le> 900"
  shows "fl (of_nat n * 2 powi q) = Fin (of_nat n * 2 powi q)"
proof (cases "n = 0")
  case False
  let ?v = "of_nat n * 2 powi q :: rat"
  have pos: "0 < ?v" using False by simp
  have "of_nat n < (of_nat (2 ^ 53) :: rat)" using assms(1) by (simp only: of_nat_less_iff)
  then have "(of_nat n :: rat) < 2 powi 53" by simp
  then have less: "?v < 2 powi (53 + q)" by (simp add: power_int_add)
  then have "ulp_exp ?v \<le> q" using flog2_less [OF pos less] assms(2) by (simp add: ulp_exp_def)
  then have exact: "flpos ?v = ?v" using flpos_exact [OF pos, of "int n" q] by simp
  have "?v < 2 powi 1024" using less powi_mono [of "53 + q" 1024] assms(3) by linarith
  then have "\<not> fbig ?v" using fbig_ge [OF pos exact] by linarith
  with pos exact show ?thesis by (simp add: fl_pos)
qed simp

lemma ParseFloat_nat: "n < 2 ^ 53 \<Longrightarrow> ParseFloat (show_nat n) = Some (Fin (of_nat n))"
proof -
  assume n: "n < 2 ^ 53"
  obtain d ds where s: "show_nat n = d # ds" "is_digit d" using show_nat_cases by blast
  have digits: "\<forall>c \<in> set (show_nat n). is_digit c" using show_nat_digits by (simp add: list_all_iff)
  have sign: "hd (show_nat n) \<noteq> CHR ''-''" "hd (show_nat n) \<noteq> CHR ''+''" using s by (auto simp: is_digit_def)
  have lower: "map lower_char (show_nat n) = show_nat n"
    by (rule map_idI) (use digits in \<open>auto simp: lower_char_def is_digit_def byte_of_def\<close>)
  have words: "show_nat n \<noteq> ''inf''" "show_nat n \<noteq> ''infinity''" "show_nat n \<noteq> ''nan''"
    using s by (auto simp: is_digit_def)
  have "takeWhile is_digit (show_nat n) = show_nat n" "dropWhile is_digit (show_nat n) = []"
    using digits by (simp_all add: takeWhile_eq_all_conv dropWhile_eq_Nil_conv)
  note all = this
  have "parse_decimal False (show_nat n) = Some (Fin (of_nat n))"
    using fl_dyadic [OF n, of 0] by (simp add: parse_decimal_def parse_exponent_def all Let_def)
  then show ?thesis by (simp add: ParseFloat_def Let_def sign lower words)
qed

lemma digit_graph: "is_digit c \<Longrightarrow> ascii_graph c"
  by (simp add: is_digit_def ascii_graph_def)

lemma trimmed_quantity:
  assumes "\<forall>c \<in> set suf. ascii_graph c"
  shows "TrimSpace (show_nat n @ suf) = show_nat n @ suf"
proof (rule TrimSpace_graph)
  show "\<forall>c \<in> set (show_nat n @ suf). ascii_graph c"
    using assms digit_graph show_nat_digits [of n] by (auto simp: list_all_iff)
qed

lemma binary_unit_text: "(suf, mult) \<in> set binaryUnits \<Longrightarrow> \<forall>c \<in> set suf. ascii_graph c"
  by (auto simp: binaryUnits_def ascii_graph_def)

lemma binary_unit_powi:
  assumes "(suf, mult) \<in> set binaryUnits"
  shows "\<exists>k\<le>6. mult = 2 powi (10 * int k)"
proof -
  have "\<exists>k \<in> {1, 2, 3, 4, 5, 6 :: nat}. mult = 2 powi (10 * int k)"
    using assms by (auto simp: binaryUnits_def)
  then obtain k :: nat where "k \<in> {1, 2, 3, 4, 5, 6}" "mult = 2 powi (10 * int k)" by blast
  moreover from this(1) have "k \<le> 6" by auto
  ultimately show ?thesis by blast
qed

lemma pod_hours_fnn: "pod_hours t p = Some h \<Longrightarrow> fnn h"
  by (auto simp: pod_hours_def time_sub_def intro!: fnn_Hours split: if_splits option.splits)

lemma podUptimeHours_fnn: "fnn (podUptimeHours items t)"
proof -
  have "fnn v \<Longrightarrow> fnn (foldl (\<lambda>total p. case pod_hours t p of None \<Rightarrow> total | Some h \<Rightarrow> fadd total h) v items)" for v
  proof (induction items arbitrary: v)
    case (Cons p items)
    then show ?case using pod_hours_fnn [of t p] by (cases "pod_hours t p") (simp_all add: fnn_fadd)
  qed simp
  then show ?thesis by (simp add: podUptimeHours_def)
qed

section \<open>What a measurement runs\<close>

text \<open>A measurement reads: its runs of \<open>kubectl\<close> are \<open>get\<close> commands on the namespace of the project.\<close>

fun reads_only :: "KubectlMetricsCollector \<Rightarrow> string \<Rightarrow> probe \<Rightarrow> bool" where
  "reads_only c namespace (KubectlProbe args) =
     (\<exists>rest. args = (if mk_contextName c \<noteq> '''' then [''--context'', mk_contextName c] else []) @ ''get'' # rest
        \<and> (names_namespace namespace rest
           \<or> rest = [''--raw'', ''/apis/metrics.k8s.io/v1beta1/namespaces/'' @ namespace @ ''/pods'']))"
| "reads_only c namespace (PrometheusProbe url query token) =
     (mk_prometheusBaseURL c \<noteq> '''' \<and> (\<exists>t \<in> set (mk_prometheusQueries c). query = filled_query c namespace t))"

lemma probes_measured: "adds (reads_only c ns) 0 ps (measured c what d t ps)"
  by (simp add: measured_def adds_return)

lemma probes_get:
  assumes "args = ''get'' # rest" and "names_namespace ns rest
    \<or> rest = [''--raw'', ''/apis/metrics.k8s.io/v1beta1/namespaces/'' @ ns @ ''/pods'']"
  shows "adds (reads_only c ns) 1 ps (collector_kubectl c args ps)"
  using assms unfolding adds_def collector_kubectl_def Let_def
  by (intro exI [of _ "[KubectlProbe ((if mk_contextName c \<noteq> '''' then [''--context'', mk_contextName c] else []) @ args)]"]) auto

lemma probes_lists:
  "adds (reads_only c ns) 1 ps (listPods c ns ps)" "adds (reads_only c ns) 1 ps (currentReplicaCount c ns ps)"
  "adds (reads_only c ns) 1 ps (currentPVCStorage c ns ps)"
proof -
  have get: "adds (reads_only c ns) 1 ps (collector_kubectl c [''get'', kind, ''-n'', ns, ''-o'', ''json''] ps)" for kind
    by (rule probes_get, rule refl) simp
  show "adds (reads_only c ns) 1 ps (listPods c ns ps)"
    unfolding listPods_def by (rule adds_mono, rule adds_andthen [OF get probes_measured]) simp
  show "adds (reads_only c ns) 1 ps (currentReplicaCount c ns ps)"
    unfolding currentReplicaCount_def
    by (rule adds_mono, rule adds_andthen [OF get adds_andthen [OF probes_measured adds_return [where N = 0]]]) simp
  show "adds (reads_only c ns) 1 ps (currentPVCStorage c ns ps)"
    unfolding currentPVCStorage_def
    by (rule adds_mono, rule adds_andthen [OF get adds_andthen [OF probes_measured adds_return [where N = 0]]]) simp
qed

lemma probes_usage: "adds (reads_only c ns) 1 ps (currentPodUsageFromMetricsAPI c ns ps)"
  unfolding currentPodUsageFromMetricsAPI_def Let_def
  by (rule adds_mono, rule adds_let, rule probes_get, rule refl, rule disjI2, rule refl,
    rule adds_return [where N = 0]) simp

lemma probes_egress: "adds (reads_only c ns) (length (mk_prometheusQueries c)) ps (currentEgressDelta c ns ps)"
proof (cases "mk_prometheusBaseURL c = ''''")
  case False
  have "set ts \<subseteq> set (mk_prometheusQueries c) \<Longrightarrow> adds (reads_only c ns) (length ts) ps (first_egress c ns ts ps)" for ts
  proof (induction ts arbitrary: ps)
    case (Cons t ts)
    let ?ps = "ps @ [PrometheusProbe (mk_prometheusBaseURL c @ ''/api/v1/query'') (filled_query c ns t) (mk_prometheusAuthToken c)]"
    obtain r where q: "queryPrometheusVectorValue c (filled_query c ns t) ps = (r, ?ps)"
      by (simp add: queryPrometheusVectorValue_def)
    have "adds (reads_only c ns) (length ts) ?ps (first_egress c ns ts ?ps)" using Cons by simp
    then obtain new where "snd (first_egress c ns ts ?ps) = ?ps @ new" "length new \<le> length ts" "list_all (reads_only c ns) new"
      unfolding adds_def by blast
    with q Cons.prems False show ?case by (cases r) (auto simp: adds_def)
  qed (simp add: adds_return)
  with False show ?thesis by (simp add: currentEgressDelta_def)
qed (simp add: currentEgressDelta_def adds_return)

lemma probes_CollectProjectUsage:
  "adds (reads_only c (NamespaceForProject pid)) (4 + length (mk_prometheusQueries c)) ps (CollectProjectUsage c pid ps)"
  unfolding CollectProjectUsage_def Let_def
  by (rule adds_mono, (rule adds_andthen probes_lists adds_let probes_usage probes_egress
      adds_return [where N = 0])+) simp

section \<open>Properties\<close>

text \<open>C29 Binary quantities are exact: a whole number below 2 to the 53 with one of the units Ki to Ei is read as
  exactly that many GiB, whatever the order is in which the table of units is visited.\<close>

theorem binary_quantities_are_exact:
  assumes "n < 2 ^ 53" and "(suf, mult) \<in> set binaryUnits"
  shows "parseByteQuantityToGB ord (show_nat n @ suf) = Fin (of_nat n * mult / 1024 ^ 3)"
proof -
  obtain k :: nat where k: "k \<le> 6" "mult = 2 powi (10 * int k)"
    using binary_unit_powi [OF assms(2)] by blast
  have "of_nat n * mult / 1024 ^ 3 = (of_nat n * 2 powi (10 * int k - 30) :: rat)"
    by (simp add: k power_int_diff)
  then have "fdiv (Fin (of_nat n * mult)) (Fin (1024 ^ 3)) = Fin (of_nat n * mult / 1024 ^ 3)"
    using fl_dyadic [OF assms(1), of "10 * int k - 30"] k by (simp only: fdiv.simps) simp
  moreover have "fmul (Fin (of_nat n)) (Fin mult) = Fin (of_nat n * mult)"
    using fl_dyadic [OF assms(1), of "10 * int k"] k by simp
  ultimately show ?thesis
    using trimmed_quantity [OF binary_unit_text [OF assms(2)], of n] find_unit_is [OF unit_tables(1,2) assms(2)]
      ParseFloat_nat [OF assms(1)]
    by (simp add: parseByteQuantityToGB_def parseFloatWithSuffix_def parse_or_zero_def)
qed

theorem binary_quantities_are_exact_witness: "parseByteQuantityToGB (\<lambda>_. 0) (show_nat 512 @ ''Mi'') = Fin (1 / 2)"
  using binary_quantities_are_exact [of 512 "''Mi''" "1024 ^ 2" "\<lambda>_. 0"] by (simp add: binaryUnits_def)

text \<open>The table has the capital letters only; the kilo of Kubernetes, a small letter, makes a quantity unreadable.\<close>

lemma quantity_order: "parseByteQuantityToGB ord v = parseByteQuantityToGB ord' v"
proof -
  have "find_unit ord binaryUnits = find_unit ord' binaryUnits" "find_unit ord decimalUnits = find_unit ord' decimalUnits"
    using find_unit_order unit_tables by blast+
  then show ?thesis by (simp only: parseByteQuantityToGB_def)
qed

lemma small_kilo_is_lost: "parseByteQuantityToGB ord ''500k'' = Fin 0"
proof -
  have "parseByteQuantityToGB (\<lambda>_. 0) ''500k'' = Fin 0" by code_simp
  then show ?thesis using quantity_order by metis
qed


text \<open>The metrics interface and Prometheus are optional: a measurement that succeeds without an answer of theirs
  charges what the billable pods request, no egress, and the hours of the pods, which are never negative.\<close>

theorem metrics_are_optional:
  assumes "fst (CollectProjectUsage c pid ps) = Inr sn"
    and "\<forall>n args. ''--raw'' \<in> set args \<longrightarrow> isl (mk_run c n args)" and "\<forall>n q. mk_query c n q = None"
  shows "\<exists>pods t. fst (listPods c (NamespaceForProject pid) ps) = Inr pods
    \<and> (sn_CPUCores sn, sn_MemoryGB sn) = requestedPodResources (mk_order c) pods
    \<and> sn_EgressGBDelta sn = Fin 0 \<and> sn_PodUptimeHours sn = podUptimeHours pods t \<and> fnn (sn_PodUptimeHours sn)"
proof -
  let ?ns = "NamespaceForProject pid"
  have "isl (fst (collector_kubectl c [''get'', ''--raw'', p] ps))" for p ps
    using assms(2) by (simp add: collector_kubectl_def Let_def)
  then have usage: "fst (currentPodUsageFromMetricsAPI c ?ns ps) = (Fin 0, Fin 0)" for ps
    unfolding currentPodUsageFromMetricsAPI_def Let_def by (auto simp: case_prod_unfold split: sum.split) (metis isl_def sum.disc(2))
  have "fst (first_egress c ?ns ts ps) = Fin 0" for ts ps
    using assms(3) by (induction ts arbitrary: ps) (simp_all add: queryPrometheusVectorValue_def)
  then have egress: "fst (currentEgressDelta c ?ns ps) = Fin 0" for ps
    by (simp add: currentEgressDelta_def)
  from assms(1) show ?thesis
    unfolding CollectProjectUsage_def Let_def andthen_def
    by (auto simp: case_prod_unfold usage egress podUptimeHours_fnn split: sum.splits)
qed

text \<open>A cluster with one running pod, and neither metrics nor Prometheus.\<close>

definition sample_pods :: \<open>string\<close> where
  \<open>sample_pods = ''{"items":[{"spec":{"containers":[{"resources":{"requests":{"cpu":"2"}}}]},"status":{"phase":"Running"}}]}''\<close>

definition sample_collector :: KubectlMetricsCollector where
  "sample_collector = \<lparr>mk_contextName = '''', mk_prometheusBaseURL = ''http://prometheus:9090'', mk_prometheusAuthToken = '''',
     mk_prometheusQueries = [''up''], mk_window = 5 * Minute,
     mk_run = (\<lambda>n args. if ''--raw'' \<in> set args then Inl (''exit status 1'', ''no metrics'')
        else if ''pods'' \<in> set args then Inr sample_pods else Inr ''{}''),
     mk_query = (\<lambda>_ _. None), mk_now = (\<lambda>_. 1709296200 * Second), mk_order = (\<lambda>_. 0),
     mk_jsonError = (\<lambda>_. ErrText ''invalid character'')\<rparr>"

lemma sample_pods: "metricsPodList sample_pods = Some [\<lparr>mp_Containers = [empty_container\<lparr>mc_RequestCPU := ''2''\<rparr>],
    mp_Phase = ''Running'', mp_StartTime = ''''\<rparr>]"
  by code_simp

lemma sample_lists:
  "decode_items (as_record (in_record ''status'' (field as_int32 ''replicas''))) 0 ''{}'' = Some []"
  "metricsPVCList ''{}'' = Some []" "metricsPodList ''{}'' = Some []" "TrimSpace ''{}'' = ''{}''" "TrimSpace sample_pods = sample_pods"
  by code_simp+

lemma sample_run:
  "kind \<noteq> ''--raw'' \<Longrightarrow> collector_kubectl sample_collector [''get'', kind, ''-n'', ''project-a'', ''-o'', ''json''] ps
     = (Inr (if kind = ''pods'' then sample_pods else ''{}''),
        ps @ [KubectlProbe [''get'', kind, ''-n'', ''project-a'', ''-o'', ''json'']])"
  by (simp add: collector_kubectl_def sample_collector_def process_result_def sample_lists)

lemma sample_quantities:
  "parseCPUQuantity ''2'' = Fin 2" "TrimSpace ''2'' = ''2''" "isBillablePodPhase ''Running''" "fl 2 = Fin 2"
  by code_simp+

theorem metrics_are_optional_witness:
  "case fst (CollectProjectUsage sample_collector ''a'' []) of
     Inr sn \<Rightarrow> (sn_CPUCores sn, sn_MemoryGB sn) = (Fin 2, Fin 0) \<and> sn_EgressGBDelta sn = Fin 0
   | Inl _ \<Rightarrow> False"
proof -
  have ns: "NamespaceForProject ''a'' = ''project-a''" by code_simp
  have pods: "listPods sample_collector ''project-a'' ps = (Inr [\<lparr>mp_Containers = [empty_container\<lparr>mc_RequestCPU := ''2''\<rparr>],
      mp_Phase = ''Running'', mp_StartTime = ''''\<rparr>], ps @ [KubectlProbe [''get'', ''pods'', ''-n'', ''project-a'', ''-o'', ''json'']])" for ps
    by (simp add: listPods_def sample_run andthen_def measured_def sample_pods)
  have lists: "fst (currentReplicaCount sample_collector ''project-a'' ps) = Inr 0"
    "fst (currentPVCStorage sample_collector ''project-a'' ps) = Inr (Fin 0)" for ps
    by (simp_all add: currentReplicaCount_def currentPVCStorage_def sample_run andthen_def measured_def sample_lists)
  have "\<exists>sn. fst (CollectProjectUsage sample_collector ''a'' []) = Inr sn"
    by (simp add: CollectProjectUsage_def andthen_def case_prod_unfold Let_def ns pods lists)
  then obtain sn where sn: "fst (CollectProjectUsage sample_collector ''a'' []) = Inr sn" by blast
  have "\<forall>n args. ''--raw'' \<in> set args \<longrightarrow> isl (mk_run sample_collector n args)" "\<forall>n q. mk_query sample_collector n q = None"
    by (simp_all add: sample_collector_def)
  from metrics_are_optional [OF sn this]
  have "(sn_CPUCores sn, sn_MemoryGB sn) = requestedPodResources (mk_order sample_collector)
      [\<lparr>mp_Containers = [empty_container\<lparr>mc_RequestCPU := ''2''\<rparr>], mp_Phase = ''Running'', mp_StartTime = ''''\<rparr>]"
    "sn_EgressGBDelta sn = Fin 0" by (auto simp: ns pods)
  moreover have "requestedPodResources (mk_order sample_collector)
      [\<lparr>mp_Containers = [empty_container\<lparr>mc_RequestCPU := ''2''\<rparr>], mp_Phase = ''Running'', mp_StartTime = ''''\<rparr>] = (Fin 2, Fin 0)"
    by (simp add: requestedPodResources_def add_quantities_def or_else_def empty_container_def sample_quantities
        parseByteQuantityToGB_def)
  ultimately show ?thesis using sn by simp
qed

end
