(* ===== verification/GitHubFiles.thy ===== *)
theory GitHubFiles
  imports KubeNames Kubeconfig ProjectHelpers
begin

text \<open>
  The pure part of \<open>internal/integration/github/github_automation.go\<close>: names and paths, the port of a Dockerfile,
  how a service is exposed, and the files of the bootstrap (workflow, deployment, service, ingress) as lists of lines.
\<close>

section \<open>Names and paths\<close>

definition sanitizeName :: "string \<Rightarrow> string" where
  "sanitizeName value =
     (let v = ToLower (TrimSpace value); v = map (\<lambda>c. if c = CHR ''_'' then CHR ''-'' else c) v
      in TrimChar (CHR ''-'') (dash_runes v))"

text \<open>The package has copies of two functions of the service; this one cleans the slug.\<close>

definition GitHub_stageWorkflowPath :: "string \<Rightarrow> string" where
  "GitHub_stageWorkflowPath stageSlug =
     (if stageSlug = '''' \<or> stageSlug = ''production'' then ''.github/workflows/deploy-service.yml''
      else ''.github/workflows/deploy-service-'' @ sanitizeName stageSlug @ ''.yml'')"

definition isDeployWorkflowPath :: "string \<Rightarrow> bool" where
  "isDeployWorkflowPath path \<longleftrightarrow> stageSlugFromWorkflowPath (TrimSpace path) \<noteq> ''''"

section \<open>The Dockerfile\<close>

text \<open>
  \<open>(?im)^\s*EXPOSE\s+([0-9]{2,5})\<close>, anchored at the start of a line. Without regard to case the letter S also is the
  long s of Unicode.
\<close>

fun match_fold :: "string \<Rightarrow> string \<Rightarrow> string option" where
  "match_fold [] s = Some s"
| "match_fold (p # ps) [] = None"
| "match_fold (p # ps) (c # cs) =
     (if lower_char c = p then match_fold ps cs
      else if p = CHR ''s'' \<and> HasPrefix (c # cs) [CHR 0xC5, CHR 0xBF] then match_fold ps (tl cs)
      else None)"

definition exposeRe :: "string \<Rightarrow> (string \<times> string) option" where
  "exposeRe t =
     (case match_fold ''expose'' (dropWhile re_space t) of
        None \<Rightarrow> None
      | Some r \<Rightarrow>
         (let d = dropWhile re_space r; ds = take 5 (takeWhile is_digit d)
          in if d \<noteq> r \<and> length ds \<ge> 2 then Some (ds, drop (length ds) d) else None))"

definition detectPortFromDockerfile :: "string \<Rightarrow> int" where
  "detectPortFromDockerfile content =
     (case re_find exposeRe True content of None \<Rightarrow> 0 | Some ds \<Rightarrow> int (digits_value ds))"

section \<open>Exposure and resources\<close>

definition normalizeServiceType :: "string \<Rightarrow> string" where
  "normalizeServiceType serviceType =
     (let value = TrimSpace serviceType
      in if EqualFold value ''LoadBalancer'' then ''LoadBalancer''
         else if EqualFold value ''ClusterIP'' then ''ClusterIP'' else '''')"

definition resolveServiceExposure :: "string \<Rightarrow> bool \<Rightarrow> string \<Rightarrow> string \<times> bool" where
  "resolveServiceExposure serviceType dedicatedLoadBalancer baseDomain =
     (let t = normalizeServiceType serviceType
      in if t = ''ClusterIP'' then (''ClusterIP'', False)
         else if t = ''LoadBalancer''
         then (if dedicatedLoadBalancer then (''LoadBalancer'', False)
               else if TrimSpace baseDomain \<noteq> '''' then (''ClusterIP'', True) else (''LoadBalancer'', False))
         else (''ClusterIP'', False))"

record resourceProfile =
  pf_name :: string
  pf_cpuRequest :: string
  pf_memoryRequest :: string
  pf_cpuLimit :: string
  pf_memoryLimit :: string

text \<open>The normalisation of the profile and of the replicas is the same code as in the service.\<close>

definition deploymentResourceProfile :: "string \<Rightarrow> resourceProfile" where
  "deploymentResourceProfile profile =
     (let p = normalizedResourceProfile profile
      in if p = ''starter'' then \<lparr>pf_name = ''starter'', pf_cpuRequest = ''50m'', pf_memoryRequest = ''64Mi'',
           pf_cpuLimit = ''300m'', pf_memoryLimit = ''256Mi''\<rparr>
         else if p = ''performance'' then \<lparr>pf_name = ''performance'', pf_cpuRequest = ''250m'',
           pf_memoryRequest = ''256Mi'', pf_cpuLimit = ''1000m'', pf_memoryLimit = ''1024Mi''\<rparr>
         else \<lparr>pf_name = ''balanced'', pf_cpuRequest = ''100m'', pf_memoryRequest = ''128Mi'',
           pf_cpuLimit = ''500m'', pf_memoryLimit = ''512Mi''\<rparr>)"

section \<open>Files\<close>

text \<open>Text outside ASCII, by its code points.\<close>

definition utf8 :: "nat list \<Rightarrow> string" where
  "utf8 cs = concat (map utf8_rune cs)"

text \<open>A literal with a backquote for each quote and a tilde for each backslash.\<close>

definition quotes :: "string \<Rightarrow> string" where
  "quotes s = map (\<lambda>c. if c = CHR 0x60 then CHR 0x27 else if c = CHR 0x7E then CHR 0x5C else c) s"

definition lines_of :: "string list \<Rightarrow> string" where
  "lines_of ls = concat (map (\<lambda>l. l @ [newline]) ls)"

definition service_or_default :: "string \<Rightarrow> string" where
  "service_or_default serviceName = (let name = sanitizeName serviceName in if name = '''' then ''service'' else name)"

definition renderDeploymentYAML :: \<open>string \<Rightarrow> string \<Rightarrow> int \<Rightarrow> int \<Rightarrow> int \<Rightarrow> string \<Rightarrow> string\<close> where
  \<open>renderDeploymentYAML serviceName stageSlug containerPort servicePort replicaCount profileName =
     (let name = service_or_default serviceName; profile = deploymentResourceProfile profileName
      in lines_of [
    ''apiVersion: apps/v1'', ''kind: Deployment'', ''metadata:'', ''  name: '' @ name, ''  labels:'',
    ''    deploy-service.io/stage: '' @ sanitizeName stageSlug, ''  annotations:'',
    ''    nginx.ingress.kubernetes.io/force-ssl-redirect: "true"'', ''spec:'',
    ''  replicas: '' @ show_int (normalizedReplicaCount replicaCount), ''  selector:'', ''    matchLabels:'',
    ''      app: '' @ name, ''  template:'', ''    metadata:'', ''      labels:'', ''        app: '' @ name,
    ''        deploy-service.io/stage: '' @ sanitizeName stageSlug, ''    spec:'', ''      containers:'',
    ''        - name: '' @ name, ''          image: IMAGE_PLACEHOLDER'', ''          ports:'',
    ''            - containerPort: '' @ show_int containerPort, ''          resources:'',
    ''            requests:'', ''              cpu: '' @ pf_cpuRequest profile,
    ''              memory: '' @ pf_memoryRequest profile, ''            limits:'',
    ''              cpu: '' @ pf_cpuLimit profile, ''              memory: '' @ pf_memoryLimit profile,
    ''          readinessProbe:'', ''            tcpSocket:'', ''              port: '' @ show_int containerPort,
    ''            initialDelaySeconds: 10'', ''            periodSeconds: 10'', ''          livenessProbe:'',
    ''            tcpSocket:'', ''              port: '' @ show_int containerPort,
    ''            initialDelaySeconds: 20'', ''            periodSeconds: 15''])\<close>

definition renderServiceYAML :: \<open>string \<Rightarrow> int \<Rightarrow> int \<Rightarrow> string \<Rightarrow> string\<close> where
  \<open>renderServiceYAML serviceName servicePort containerPort serviceType =
     (let name = service_or_default serviceName;
          typeValue = (let t = normalizeServiceType serviceType in if t = '''' then ''LoadBalancer'' else t)
      in lines_of [
    ''apiVersion: v1'', ''kind: Service'', ''metadata:'', ''  name: '' @ name, ''spec:'', ''  selector:'',
    ''    app: '' @ name, ''  ports:'', ''    - protocol: TCP'', ''      port: '' @ show_int servicePort,
    ''      targetPort: '' @ show_int containerPort, ''  type: '' @ typeValue])\<close>

definition ingress_host :: "string \<Rightarrow> string \<Rightarrow> string \<Rightarrow> string \<Rightarrow> string" where
  "ingress_host serviceName projectID stageSlug baseDomain =
     (if stageSlug = '''' \<or> stageSlug = ''production''
      then sanitizeName serviceName @ ''.'' @ sanitizeName projectID @ ''.'' @ baseDomain
      else sanitizeName serviceName @ ''.'' @ sanitizeName projectID @ ''.'' @ sanitizeName stageSlug @ ''.'' @ baseDomain)"

definition renderIngressYAML :: \<open>string \<Rightarrow> string \<Rightarrow> string \<Rightarrow> string \<Rightarrow> int \<Rightarrow> string\<close> where
  \<open>renderIngressYAML serviceName projectID stageSlug baseDomain servicePort =
     (let host = ingress_host serviceName projectID stageSlug baseDomain; name = sanitizeName serviceName
      in lines_of [
    ''apiVersion: networking.k8s.io/v1'', ''kind: Ingress'', ''metadata:'', ''  name: '' @ name, ''spec:'',
    ''  ingressClassName: nginx'', ''  rules:'', ''    - host: "'' @ host @ ''"'', ''      http:'',
    ''        paths:'', ''          - path: /'', ''            pathType: Prefix'', ''            backend:'',
    ''              service:'', ''                name: '' @ name, ''                port:'',
    ''                  number: '' @ show_int servicePort])\<close>

text \<open>The workflow. Without a slash, or with one only at its start, the path of the Dockerfile means the root.\<close>

definition build_context :: "string \<Rightarrow> string" where
  "build_context dockerfilePath =
     (let dir = take (length dockerfilePath - length (after_last_slash dockerfilePath) - 1) dockerfilePath
      in if dir = '''' then ''.'' else dir)"

text \<open>The names that \<open>sanitizeName\<close> makes, and paths in the repository.\<close>

type_synonym slug = string

type_synonym file_path = string

definition workflow_lines ::
  \<open>string \<Rightarrow> slug \<Rightarrow> slug \<Rightarrow> slug \<Rightarrow> slug \<Rightarrow> file_path \<Rightarrow> file_path \<Rightarrow> file_path \<Rightarrow> file_path \<Rightarrow> string \<Rightarrow> string list\<close> where
  \<open>workflow_lines baseBranch projectSlug defaultStageSlug repoSlug svcSlug buildContext dockerfilePath manifestPath
     servicePath ingressStep = [
    ''name: Deploy Service'', '''', ''on:'', ''  push:'', ''    branches:'', ''      - '' @ baseBranch,
    ''  workflow_dispatch:'', '''', ''env:'', ''  FORCE_JAVASCRIPT_ACTIONS_TO_NODE24: true'',
    ''  PROJECT_ID: '' @ projectSlug,
    quotes ''  STAGE_SLUG: ${{ vars.STAGE_SLUG || `'' @ defaultStageSlug @ quotes ''` }}'', '''', ''permissions:'',
    ''  contents: read'', ''  packages: write'', '''', ''jobs:'', ''  build_and_deploy:'',
    ''    runs-on: ubuntu-latest'', ''    env:'', ''      KUBECONFIG_BASE64: ${{ secrets.KUBECONFIG_BASE64 }}'',
    ''      YC_SERVICE_ACCOUNT_KEY_JSON: ${{ secrets.YC_SERVICE_ACCOUNT_KEY_JSON }}'',
    ''      YC_OAUTH_TOKEN: ${{ secrets.YC_OAUTH_TOKEN }}'',
    ''      YC_MANAGED_K8S_CLUSTER_ID: ${{ secrets.YC_MANAGED_K8S_CLUSTER_ID }}'', '''', ''    steps:'',
    ''      - name: Checkout'', ''        uses: actions/checkout@v4'', '''',
    ''      - name: Resolve IMAGE_NAME (lowercase owner)'', ''        run: |'',
    quotes ''          OWNER_LC=$(echo "${{ github.repository_owner }}" | tr `[:upper:]` `[:lower:]`)'',
    ''          echo "IMAGE_NAME=ghcr.io/${OWNER_LC}/'' @ repoSlug @ ''-'' @ svcSlug @ '':${GITHUB_SHA}" >> "$GITHUB_ENV"'',
    '''', ''      - name: Log in to GitHub Container Registry'', ''        uses: docker/login-action@v3'',
    ''        with:'', ''          registry: ghcr.io'', ''          username: ${{ github.actor }}'',
    ''          password: ${{ secrets.GITHUB_TOKEN }}'', '''', ''      - name: Validate deployment auth source'',
    ''        env:'', ''          KUBECONFIG_BASE64: ${{ secrets.KUBECONFIG_BASE64 }}'', ''        run: |'',
    ''          if [ -z "$KUBECONFIG_BASE64" ] && [ -z "$YC_MANAGED_K8S_CLUSTER_ID" ]; then'',
    ''            echo "Missing deployment auth source: set KUBECONFIG_BASE64 or YC_MANAGED_K8S_CLUSTER_ID"'',
    ''            exit 1'', ''          fi'',
    ''          if [ -z "$KUBECONFIG_BASE64" ] && [ -z "$YC_SERVICE_ACCOUNT_KEY_JSON" ] && [ -z "$YC_OAUTH_TOKEN" ]; then'',
    ''            echo "Missing YC credentials: set YC_SERVICE_ACCOUNT_KEY_JSON or YC_OAUTH_TOKEN to fetch kubeconfig"'',
    ''            exit 1'', ''          fi'', '''', ''      - name: Build and push image'',
    ''        uses: docker/build-push-action@v6'', ''        with:'', ''          context: '' @ buildContext,
    ''          file: '' @ dockerfilePath, ''          push: true'', ''          tags: ${{ env.IMAGE_NAME }}'',
    '''', ''      - name: Configure kubectl'', quotes ''        if: ${{ env.KUBECONFIG_BASE64 != `` }}'',
    ''        run: |'', ''          mkdir -p $HOME/.kube'',
    ''          echo "$KUBECONFIG_BASE64" | base64 --decode > $HOME/.kube/config'', '''',
    ''      - name: Install Yandex Cloud CLI'', ''        run: |'',
    ''          curl -sSL https://storage.yandexcloud.net/yandexcloud-yc/install.sh | bash -s -- -i $HOME/yandex-cloud -n'',
    ''          echo "$HOME/yandex-cloud/bin" >> $GITHUB_PATH'', '''',
    ''      - name: Configure Yandex Cloud profile'',
    quotes ''        if: ${{ env.YC_SERVICE_ACCOUNT_KEY_JSON != `` || env.YC_OAUTH_TOKEN != `` }}'',
    ''        run: |'', ''          yc config profile create default || true'',
    ''          if [ -n "$YC_SERVICE_ACCOUNT_KEY_JSON" ]; then'',
    quotes ''            printf `%s` "$YC_SERVICE_ACCOUNT_KEY_JSON" > $HOME/sa-key.json'',
    ''            yc config set service-account-key $HOME/sa-key.json'',
    ''          elif [ -n "$YC_OAUTH_TOKEN" ]; then'', ''            yc config set token "$YC_OAUTH_TOKEN"'',
    ''          fi'', '''', ''      - name: Refresh kubeconfig from Yandex Cloud (optional)'',
    quotes ''        if: ${{ env.YC_MANAGED_K8S_CLUSTER_ID != `` && (env.YC_SERVICE_ACCOUNT_KEY_JSON != `` || env.YC_OAUTH_TOKEN != ``) }}'',
    ''        run: |'',
    ''          yc managed-kubernetes cluster get-credentials "$YC_MANAGED_K8S_CLUSTER_ID" --external --force'',
    '''', ''      - name: Normalize kubeconfig exec command'', ''        run: |'',
    ''          CURRENT_CONTEXT=$(kubectl config current-context 2>/dev/null || true)'',
    ''          if [ -z "$CURRENT_CONTEXT" ]; then'',
    ''            CURRENT_CONTEXT=$(kubectl config view -o jsonpath="{.contexts[0].name}")'',
    ''            if [ -n "$CURRENT_CONTEXT" ]; then'',
    ''              kubectl config use-context "$CURRENT_CONTEXT"'', ''            fi'', ''          fi'',
    ''          CURRENT_USER=""'', ''          if [ -n "$CURRENT_CONTEXT" ]; then'',
    quotes ''            CURRENT_USER=$(kubectl config view -o jsonpath="{.contexts[?(@.name==~"$CURRENT_CONTEXT~")].context.user}")'',
    ''          fi'', ''          if [ -n "$CURRENT_USER" ]; then'',
    quotes ''            kubectl config set-credentials "$CURRENT_USER" ~'',
    quotes ''              --exec-command=yc ~'',
    quotes ''              --exec-api-version=client.authentication.k8s.io/v1beta1 ~'',
    quotes ''              --exec-arg=managed-kubernetes ~'', ''              --exec-arg=create-token'',
    ''          else'',
    ''            echo "Skipping kubeconfig exec normalization because no current user was found"'',
    ''          fi'', '''', ''      - name: Verify Kubernetes API connectivity'', ''        run: |'',
    ''          API_SERVER=$(kubectl config view --minify -o jsonpath="{.clusters[0].cluster.server}")'',
    ''          echo "Kubernetes API endpoint: $API_SERVER"'',
    ''          if ! kubectl --request-timeout=20s get --raw=/version > /tmp/k8s-version.json; then'',
    ''            echo "::error::'' @ utf8 [0x41D, 0x435, 0x20, 0x443, 0x434, 0x430, 0x43B, 0x43E, 0x441, 0x44C, 0x20, 0x43F, 0x43E, 0x434, 0x43A, 0x43B, 0x44E, 0x447, 0x438, 0x442, 0x44C, 0x441, 0x44F, 0x20, 0x43A, 0x20] @ ''Kubernetes API ($API_SERVER). '' @ utf8 [0x41F, 0x440, 0x43E, 0x432, 0x435, 0x440, 0x44C] @ '', '' @ utf8 [0x447, 0x442, 0x43E, 0x20] @ ''kubeconfig '' @ utf8 [0x443, 0x43A, 0x430, 0x437, 0x44B, 0x432, 0x430, 0x435, 0x442, 0x20, 0x43D, 0x430, 0x20, 0x432, 0x43D, 0x435, 0x448, 0x43D, 0x438, 0x439, 0x20] @ ''endpoint '' @ utf8 [0x43A, 0x43B, 0x430, 0x441, 0x442, 0x435, 0x440, 0x430] @ '', '' @ utf8 [0x43B, 0x438, 0x431, 0x43E, 0x20, 0x437, 0x430, 0x43F, 0x443, 0x441, 0x43A, 0x430, 0x439, 0x20, 0x434, 0x435, 0x43F, 0x43B, 0x43E, 0x439, 0x20, 0x43D, 0x430, 0x20] @ ''self-hosted runner '' @ utf8 [0x432, 0x20, 0x442, 0x43E, 0x439, 0x20, 0x436, 0x435, 0x20, 0x441, 0x435, 0x442, 0x438] @ ''."'',
    ''            exit 1'', ''          fi'', ''          cat /tmp/k8s-version.json'', '''',
    ''      - name: Verify kubeconfig targets project vcluster'', ''        run: |'',
    ''          HOST_PROJECT_NAMESPACE="project-${PROJECT_ID}"'',
    ''          if kubectl get namespace "$HOST_PROJECT_NAMESPACE" >/dev/null 2>&1; then'',
    ''            echo "::error::KUBECONFIG '' @ utf8 [0x443, 0x43A, 0x430, 0x437, 0x44B, 0x432, 0x430, 0x435, 0x442, 0x20, 0x43D, 0x430, 0x20] @ ''host cluster ('' @ utf8 [0x43D, 0x430, 0x439, 0x434, 0x435, 0x43D, 0x20] @ ''namespace $HOST_PROJECT_NAMESPACE). '' @ utf8 [0x414, 0x43B, 0x44F, 0x20] @ ''deploy '' @ utf8 [0x43D, 0x443, 0x436, 0x435, 0x43D, 0x20] @ ''kubeconfig vcluster '' @ utf8 [0x44D, 0x442, 0x43E, 0x433, 0x43E, 0x20, 0x43F, 0x440, 0x43E, 0x435, 0x43A, 0x442, 0x430] @ ''."'',
    ''            echo "::error::'' @ utf8 [0x41E, 0x442, 0x43A, 0x440, 0x43E, 0x439, 0x20] @ ''deploy-service UI -> '' @ utf8 [0x41F, 0x440, 0x43E, 0x435, 0x43A, 0x442, 0x20] @ ''-> '' @ utf8 [0x414, 0x43E, 0x441, 0x442, 0x443, 0x43F, 0x20] @ ''-> '' @ utf8 [0xAB, 0x421, 0x43A, 0x43E, 0x43F, 0x438, 0x440, 0x43E, 0x432, 0x430, 0x442, 0x44C, 0x20] @ ''KUBECONFIG_BASE64'' @ utf8 [0xBB, 0x20, 0x438, 0x20, 0x43E, 0x431, 0x43D, 0x43E, 0x432, 0x438, 0x20] @ ''repository secret."'',
    ''            exit 1'', ''          fi'', '''',
    quotes ''          if kubectl get namespace -o jsonpath=`{range .items[*]}{.metadata.name}{"~n"}{end}` | grep -q `^project-prj-`; then'',
    ''            echo "::error::KUBECONFIG '' @ utf8 [0x43F, 0x43E, 0x445, 0x43E, 0x436, 0x20, 0x43D, 0x430, 0x20] @ ''host cluster ('' @ utf8 [0x432, 0x438, 0x434, 0x43D, 0x44B, 0x20] @ ''namespace project-prj-*). '' @ utf8 [0x414, 0x43B, 0x44F, 0x20] @ ''deploy '' @ utf8 [0x43D, 0x443, 0x436, 0x435, 0x43D, 0x20] @ ''kubeconfig vcluster '' @ utf8 [0x43F, 0x440, 0x43E, 0x435, 0x43A, 0x442, 0x430] @ ''."'',
    ''            echo "::error::'' @ utf8 [0x418, 0x441, 0x43F, 0x43E, 0x43B, 0x44C, 0x437, 0x443, 0x439, 0x20, 0x441, 0x435, 0x43A, 0x440, 0x435, 0x442, 0x20] @ ''KUBECONFIG_BASE64 '' @ utf8 [0x438, 0x437, 0x20, 0x43A, 0x43D, 0x43E, 0x43F, 0x43A, 0x438, 0x20, 0xAB, 0x421, 0x43A, 0x43E, 0x43F, 0x438, 0x440, 0x43E, 0x432, 0x430, 0x442, 0x44C, 0x20] @ ''KUBECONFIG_BASE64'' @ utf8 [0xBB, 0x20, 0x432, 0x20] @ ''UI deploy-service."'',
    ''            exit 1'', ''          fi'', '''', ''      - name: Ensure namespace exists'', ''        run: |'',
    ''          retry_or_fail() {'', ''            description="$1"'', ''            shift'',
    ''            for attempt in 1 2 3 4 5; do'', ''              if "$@"; then'', ''                return 0'',
    ''              fi'', ''              echo "$description retry $attempt failed"'', ''              sleep 10'',
    ''            done'', ''            echo "$description failed after 5 attempts"'', ''            return 1'',
    ''          }'',
    quotes ''          retry_or_fail "namespace apply" sh -c `kubectl create namespace "$STAGE_SLUG" --dry-run=client -o yaml | kubectl apply --validate=false -f -`'',
    '''', ''      - name: Deploy manifests'', ''        run: |'', ''          retry_or_fail() {'',
    ''            description="$1"'', ''            shift'', ''            for attempt in 1 2 3 4 5; do'',
    ''              if "$@"; then'', ''                return 0'', ''              fi'',
    ''              echo "$description retry $attempt failed"'', ''              sleep 10'', ''            done'',
    ''            echo "$description failed after 5 attempts"'', ''            return 1'', ''          }'',
    quotes ''          retry_or_fail "deployment apply" sh -c `sed "s#IMAGE_PLACEHOLDER#${IMAGE_NAME}#g" '' @ manifestPath @ quotes '' | kubectl -n "$STAGE_SLUG" apply --validate=false -f -`'',
    ''          retry_or_fail "service apply" kubectl -n "$STAGE_SLUG" apply --validate=false -f '' @ servicePath @ ingressStep,
    '''', ''      - name: Verify deployment'', ''        run: |'',
    ''          # Run rollout status in the background; poll for crash states to fail fast.'',
    ''          kubectl -n "$STAGE_SLUG" rollout status deployment/'' @ svcSlug @ '' --timeout=180s &'',
    ''          ROLLOUT_PID=$!'', ''          CRASHED=0'', ''          for _i in $(seq 1 36); do'',
    ''            sleep 5'', ''            if ! kill -0 "$ROLLOUT_PID" 2>/dev/null; then'',
    ''              break'', ''            fi'',
    ''            REASONS=$(kubectl -n "$STAGE_SLUG" get pods -l app='' @ svcSlug @ quotes '' ~'',
    quotes ''              -o jsonpath=`{range .items[*]}{range .status.containerStatuses[*]}{.state.waiting.reason}{"~n"}{.lastState.terminated.reason}{"~n"}{end}{end}` 2>/dev/null || true)'',
    quotes ''            if echo "$REASONS" | grep -qE `^(CrashLoopBackOff|OOMKilled|ImagePullBackOff|ErrImagePull|CreateContainerConfigError)$`; then'',
    ''              CRASHED=1'', ''              kill "$ROLLOUT_PID" 2>/dev/null || true'',
    ''              wait "$ROLLOUT_PID" 2>/dev/null || true'', ''              break'', ''            fi'',
    ''          done'', ''          if [ "$CRASHED" = "1" ]; then'',
    ''            echo "::error::Pod '' @ utf8 [0x443, 0x43F, 0x430, 0x43B, 0x20] @ ''(CrashLoopBackOff/OOMKilled/ImagePullBackOff). '' @ utf8 [0x421, 0x43E, 0x431, 0x438, 0x440, 0x430, 0x435, 0x43C, 0x20, 0x434, 0x438, 0x430, 0x433, 0x43D, 0x43E, 0x441, 0x442, 0x438, 0x43A, 0x443] @ ''..."'',
    ''            kubectl -n "$STAGE_SLUG" get pods -l app='' @ svcSlug @ '' -o wide || true'',
    ''            kubectl -n "$STAGE_SLUG" describe pod -l app='' @ svcSlug @ '' || true'',
    ''            kubectl -n "$STAGE_SLUG" logs -l app='' @ svcSlug @ quotes '' --tail=100 --previous 2>/dev/null ~'',
    ''              || kubectl -n "$STAGE_SLUG" logs -l app='' @ svcSlug @ '' --tail=100 || true'',
    ''            kubectl -n "$STAGE_SLUG" get events --sort-by=.lastTimestamp | tail -n 30 || true'',
    ''            exit 1'', ''          fi'', ''          wait "$ROLLOUT_PID"'', ''          ROLLOUT_RC=$?'',
    ''          if [ "$ROLLOUT_RC" != "0" ]; then'',
    ''            DESIRED=$(kubectl -n "$STAGE_SLUG" get deployment/'' @ svcSlug @ quotes '' -o jsonpath=`{.spec.replicas}` 2>/dev/null || echo 0)'',
    ''            UPDATED=$(kubectl -n "$STAGE_SLUG" get deployment/'' @ svcSlug @ quotes '' -o jsonpath=`{.status.updatedReplicas}` 2>/dev/null || echo 0)'',
    ''            AVAILABLE=$(kubectl -n "$STAGE_SLUG" get deployment/'' @ svcSlug @ quotes '' -o jsonpath=`{.status.availableReplicas}` 2>/dev/null || echo 0)'',
    ''            if [ "${DESIRED:-0}" -gt 0 ] && [ "${UPDATED:-0}" -ge "${DESIRED:-0}" ] && [ "${AVAILABLE:-0}" -ge "${DESIRED:-0}" ]; then'',
    ''              echo "::warning::Rollout timed out while old replicas terminate, but new replicas are ready. Continuing."'',
    ''            else'',
    ''              echo "::error::Rollout deployment/'' @ svcSlug @ '' '' @ utf8 [0x43D, 0x435, 0x20, 0x437, 0x430, 0x432, 0x435, 0x440, 0x448, 0x438, 0x43B, 0x441, 0x44F, 0x20, 0x437, 0x430, 0x20] @ ''180s. '' @ utf8 [0x421, 0x43E, 0x431, 0x438, 0x440, 0x430, 0x435, 0x43C, 0x20, 0x434, 0x438, 0x430, 0x433, 0x43D, 0x43E, 0x441, 0x442, 0x438, 0x43A, 0x443] @ ''..."'',
    ''              kubectl -n "$STAGE_SLUG" get deployment/'' @ svcSlug @ '' -o wide || true'',
    ''              kubectl -n "$STAGE_SLUG" get rs,pods -l app='' @ svcSlug @ '' -o wide || true'',
    ''              kubectl -n "$STAGE_SLUG" describe deployment/'' @ svcSlug @ '' || true'',
    ''              kubectl -n "$STAGE_SLUG" describe pod -l app='' @ svcSlug @ '' || true'',
    ''              kubectl -n "$STAGE_SLUG" get events --sort-by=.lastTimestamp | tail -n 50 || true'',
    ''              exit 1'', ''            fi'', ''          fi'', ''          kubectl -n "$STAGE_SLUG" get pods'']\<close>

definition renderWorkflowYAML :: \<open>string \<Rightarrow> string \<Rightarrow> string \<Rightarrow> file_path \<Rightarrow> slug \<Rightarrow> string \<Rightarrow> bool \<Rightarrow> string\<close> where
  \<open>renderWorkflowYAML projectID repositoryName serviceName dockerfilePath stageSlug baseBranch includeIngress =
     (let projectSlug = (let s = sanitizeName projectID in if s = '''' then ''project'' else s);
          svcSlug = sanitizeName serviceName;
          defaultStageSlug = (let s = sanitizeName stageSlug in if s = '''' then ''production'' else s);
          base = ''k8s/'' @ defaultStageSlug @ ''/'' @ svcSlug;
          ingressStep = (if includeIngress
            then [newline] @ ''          retry_or_fail "ingress apply" kubectl -n "$STAGE_SLUG" apply --validate=false -f ''
                 @ base @ ''/ingress.yaml'' else '''')
      in lines_of (workflow_lines baseBranch projectSlug defaultStageSlug (sanitizeName repositoryName) svcSlug
           (build_context dockerfilePath) dockerfilePath (base @ ''/deployment.yaml'') (base @ ''/service.yaml'') ingressStep))\<close>

end
