(* ===== verification/GitHub.thy ===== *)
theory GitHub
  imports GitHubFiles KubeObjects Calls GoParse GoBase64
begin

text \<open>
  The client of GitHub, \<open>internal/integration/github/github_automation.go\<close>: each operation as a function from the
  log of the requests made so far. The answers to the requests, the texts of the decoders' errors and the clock are
  parameters. Logging is left out.
\<close>

section \<open>Requests\<close>

datatype api_request =
  ApiRequest (rq_verb: string) (rq_url: string) (rq_token: string) (rq_payload: "json option")

text \<open>A request cannot be built, cannot be sent, or its response cannot be read.\<close>

datatype http_failure = BuildFailed go_error | SendFailed go_error | ReadFailed go_error

record GitHubAutomation =
  gh_baseURL :: string
  gh_token :: string
  gh_baseDomain :: string
  gh_publicURL :: string
  gh_webhookSecret :: string
  gh_answer :: "nat \<Rightarrow> api_request \<Rightarrow> http_failure + nat \<times> string"
  gh_now :: "nat \<Rightarrow> gotime"
  gh_jsonError :: "string \<Rightarrow> go_error"
  gh_base64Error :: "string \<Rightarrow> go_error"

type_synonym requests = "api_request list"

definition NewGitHubAutomation ::
  "string \<Rightarrow> string \<Rightarrow> string \<Rightarrow> string \<Rightarrow> string \<Rightarrow> GitHubAutomation \<Rightarrow> GitHubAutomation" where
  "NewGitHubAutomation baseURL token baseDomain publicURL webhookSecret answers =
     answers\<lparr>gh_baseURL := trim_slashes baseURL, gh_token := token, gh_baseDomain := TrimSpace baseDomain,
       gh_publicURL := trim_slashes (TrimSpace publicURL), gh_webhookSecret := TrimSpace webhookSecret\<rparr>"

text \<open>\<open>None\<close> is the client without GitHub.\<close>

definition NewAutomationFromEnvironment :: "(string \<Rightarrow> string) \<Rightarrow> GitHubAutomation \<Rightarrow> GitHubAutomation option" where
  "NewAutomationFromEnvironment env answers =
     (let get = (\<lambda>name. TrimSpace (env name)); u = get ''GITHUB_API_BASE_URL''
      in if ToLower (get ''GITHUB_AUTOMATION_MODE'') = ''mock'' then None
         else Some (NewGitHubAutomation (if u = '''' then ''https://api.github.com'' else u) (get ''GITHUB_TOKEN'')
           (get ''APPS_BASE_DOMAIN'') (get ''PUBLIC_URL'') (get ''GITHUB_WEBHOOK_SECRET'') answers))"

definition withToken :: "GitHubAutomation \<Rightarrow> string \<Rightarrow> GitHubAutomation" where
  "withToken a override =
     (let token = TrimSpace override in a\<lparr>gh_token := (if token = '''' then gh_token a else token)\<rparr>)"

definition token_required :: go_error where
  "token_required = ErrText ''github token is required; needed permissions: Contents=read/write, Pull requests=read/write, Workflows=write, Webhooks=read/write, Metadata=read-only''"

definition api_message :: "nat \<Rightarrow> string \<Rightarrow> string \<Rightarrow> string" where
  "api_message status path body =
     (let message = TrimSpace body;
          message = (if status = 404 \<and> Contains path ''/contents/.github/workflows/''
            then message @ ''; check token permissions: repository Contents=write and Workflows=write'' else message)
      in if status = 403 \<and> Contains path ''/hooks''
         then message @ ''; check token permissions: repository Webhooks=read/write'' else message)"

definition response_of :: "string \<Rightarrow> string \<Rightarrow> http_failure + nat \<times> string \<Rightarrow> go_error + string" where
  "response_of verb path answer =
     (let place = verb @ '' '' @ path @ '': ''
      in case answer of
           Inl (BuildFailed e) \<Rightarrow> Inl (ErrWrap (''build request '' @ place) e '''')
         | Inl (SendFailed e) \<Rightarrow> Inl (ErrWrap (''request failed '' @ place) e '''')
         | Inl (ReadFailed e) \<Rightarrow> Inl (ErrWrap (''read response '' @ place) e '''')
         | Inr (status, body) \<Rightarrow>
             if status < 200 \<or> status > 299
             then Inl (ErrText (''github api status '' @ show_nat status @ '' for '' @ place @ api_message status path body))
             else Inr body)"

definition requestJSON ::
  "GitHubAutomation \<Rightarrow> string \<Rightarrow> string \<Rightarrow> json option \<Rightarrow> requests \<Rightarrow> (go_error + string) \<times> requests" where
  "requestJSON a verb path payload s =
     (if TrimSpace (gh_token a) = '''' then (Inl token_required, s)
      else (let r = ApiRequest verb (gh_baseURL a @ path) (gh_token a) payload
            in (response_of verb path (gh_answer a (length s) r), s @ [r])))"

definition repo_path :: "string \<Rightarrow> string \<Rightarrow> string" where
  "repo_path owner repo = ''/repos/'' @ owner @ ''/'' @ repo"

text \<open>\<open>json.Unmarshal\<close> of a response into one string field, which may be nested.\<close>

definition unmarshalled ::
  "GitHubAutomation \<Rightarrow> string \<Rightarrow> ((string \<times> json) list \<Rightarrow> 'a \<Rightarrow> 'a option) \<Rightarrow> 'a \<Rightarrow> string \<Rightarrow> requests
   \<Rightarrow> (go_error + 'a) \<times> requests" where
  "unmarshalled a what dec zero body s =
     (case Option.bind (json_whole body) (\<lambda>v. Option.bind (members_of v) (\<lambda>kvs. dec kvs zero)) of
        None \<Rightarrow> Inl (ErrWrap (''decode '' @ what @ '': '') (gh_jsonError a body) '''') | Some v \<Rightarrow> Inr v, s)"

section \<open>The repository\<close>

definition getDefaultBranch :: "GitHubAutomation \<Rightarrow> string \<Rightarrow> string \<Rightarrow> requests \<Rightarrow> (go_error + string) \<times> requests" where
  "getDefaultBranch a owner repo s =
     andthen (requestJSON a ''GET'' (repo_path owner repo) None s) (\<lambda>body s.
     andthen (unmarshalled a ''default branch response'' (field as_string ''default_branch'') '''' body s) (\<lambda>b s.
       (if TrimSpace b = '''' then Inl (ErrText ''repository default branch is empty'') else Inr b, s)))"

definition getBranchSHA ::
  "GitHubAutomation \<Rightarrow> string \<Rightarrow> string \<Rightarrow> string \<Rightarrow> requests \<Rightarrow> (go_error + string) \<times> requests" where
  "getBranchSHA a owner repo branch s =
     andthen (requestJSON a ''GET'' (repo_path owner repo @ ''/git/ref/heads/'' @ branch) None s) (\<lambda>body s.
     andthen (unmarshalled a ''branch ref response'' (in_record ''object'' (field as_string ''sha'')) '''' body s) (\<lambda>sha s.
       (if sha = '''' then Inl (ErrText ''branch sha is empty'') else Inr sha, s)))"

definition strings_payload :: "(string \<times> string) list \<Rightarrow> json option" where
  "strings_payload kvs = Some (JObj (map (\<lambda>(k, v). (k, JStr v)) kvs))"

definition createBranch ::
  "GitHubAutomation \<Rightarrow> string \<Rightarrow> string \<Rightarrow> string \<Rightarrow> string \<Rightarrow> requests \<Rightarrow> (go_error + string) \<times> requests" where
  "createBranch a owner repo branch sha s =
     wrapped (''create branch '' @ branch @ '': '')
       (requestJSON a ''POST'' (repo_path owner repo @ ''/git/refs'')
          (strings_payload [(''ref'', ''refs/heads/'' @ branch), (''sha'', sha)]) s)"

definition contents_path :: "string \<Rightarrow> string \<Rightarrow> string \<Rightarrow> string" where
  "contents_path owner repo path = repo_path owner repo @ ''/contents/'' @ path"

definition getFileSHA ::
  "GitHubAutomation \<Rightarrow> string \<Rightarrow> string \<Rightarrow> string \<Rightarrow> string \<Rightarrow> requests \<Rightarrow> (go_error + string) \<times> requests" where
  "getFileSHA a owner repo branch path s =
     (let (r, s) = requestJSON a ''GET'' (contents_path owner repo path @ ''?ref='' @ branch) None s
      in case r of
           Inl e \<Rightarrow> (if Contains (Error e) ''status 404'' then Inr '''' else Inl e, s)
         | Inr body \<Rightarrow> unmarshalled a (''content response for '' @ path) (field as_string ''sha'') '''' body s)"

definition decode_content :: "GitHubAutomation \<Rightarrow> string \<Rightarrow> string \<times> string \<Rightarrow> go_error + string" where
  "decode_content a path c =
     (if ToLower (fst c) \<noteq> ''base64''
      then Inl (ErrText (''unsupported content encoding for '' @ path @ '': '' @ fst c))
      else (let text = filter (\<lambda>x. x \<noteq> newline) (snd c)
            in case StdDecode text of
                 None \<Rightarrow> Inl (ErrWrap (''decode base64 content for '' @ path @ '': '') (gh_base64Error a text) '''')
               | Some t \<Rightarrow> Inr t))"

definition content_fields :: "(string \<times> json) list \<Rightarrow> string \<times> string \<Rightarrow> (string \<times> string) option" where
  "content_fields kvs c =
     Option.bind (field as_string ''encoding'' kvs (fst c)) (\<lambda>e.
     Option.bind (field as_string ''content'' kvs (snd c)) (\<lambda>t. Some (e, t)))"

definition getTextFile ::
  "GitHubAutomation \<Rightarrow> string \<Rightarrow> string \<Rightarrow> string \<Rightarrow> string \<Rightarrow> requests \<Rightarrow> (go_error + string) \<times> requests" where
  "getTextFile a owner repo branch path s =
     andthen (requestJSON a ''GET'' (contents_path owner repo path @ ''?ref='' @ branch) None s) (\<lambda>body s.
     andthen (unmarshalled a (''content response for '' @ path) content_fields ('''', '''') body s) (\<lambda>c s.
       (decode_content a path c, s)))"

text \<open>The keys of a payload are in the order in which \<open>json.Marshal\<close> writes a map.\<close>

definition put_payload :: "string \<Rightarrow> string \<Rightarrow> string \<Rightarrow> string \<Rightarrow> json option" where
  "put_payload branch content message sha =
     strings_payload ([(''branch'', branch), (''content'', StdEncode content), (''message'', message)]
       @ (if sha \<noteq> '''' then [(''sha'', sha)] else []))"

definition upsertFile ::
  "GitHubAutomation \<Rightarrow> string \<Rightarrow> string \<Rightarrow> string \<Rightarrow> file_path \<Rightarrow> string \<Rightarrow> string \<Rightarrow> requests
   \<Rightarrow> (go_error + unit) \<times> requests" where
  "upsertFile a owner repo branch path content message s =
     (let (existing, s) = getTextFile a owner repo branch path s
      in if existing = Inr content then (Inr (), s)
         else (let (r, s) = getFileSHA a owner repo branch path s; sha = (case r of Inr x \<Rightarrow> x | Inl _ \<Rightarrow> '''')
               in andthen (wrapped (''upsert file '' @ path @ '': '')
                    (requestJSON a ''PUT'' (contents_path owner repo path) (put_payload branch content message sha) s))
                    (\<lambda>_ s. (Inr (), s))))"

definition createPullRequest ::
  "GitHubAutomation \<Rightarrow> string \<Rightarrow> string \<Rightarrow> string \<Rightarrow> string \<Rightarrow> string \<Rightarrow> string \<Rightarrow> requests
   \<Rightarrow> (go_error + string) \<times> requests" where
  "createPullRequest a owner repo base head title body s =
     andthen (wrapped ''create pull request: ''
       (requestJSON a ''POST'' (repo_path owner repo @ ''/pulls'')
          (strings_payload [(''base'', base), (''body'', body), (''head'', head), (''title'', title)]) s)) (\<lambda>response s.
     andthen (unmarshalled a ''pull request response'' (field as_string ''html_url'') '''' response s) (\<lambda>url s.
       (if url = '''' then Inl (ErrText ''pull request url is empty'') else Inr url, s)))"

definition isNoCommitsBetweenBranchesError :: "go_error \<Rightarrow> bool" where
  "isNoCommitsBetweenBranchesError e \<longleftrightarrow> Contains (ToLower (Error e)) ''no commits between''"

definition ensureWorkflowWebhook ::
  "GitHubAutomation \<Rightarrow> string \<Rightarrow> string \<Rightarrow> requests \<Rightarrow> (go_error + unit) \<times> requests" where
  "ensureWorkflowWebhook a owner repo s =
     (if gh_publicURL a = ''''
      then (Inl (ErrText ''PUBLIC_URL is empty, cannot auto-register GitHub workflow_run webhook''), s)
      else (let config = [(''content_type'', JStr ''json''), (''insecure_ssl'', JStr ''0'')]
                  @ (if gh_webhookSecret a \<noteq> '''' then [(''secret'', JStr (gh_webhookSecret a))] else [])
                  @ [(''url'', JStr (gh_publicURL a @ ''/webhooks/github''))];
                payload = JObj [(''active'', JBool True), (''config'', JObj config), (''events'', JArr [JStr ''workflow_run'']),
                  (''name'', JStr ''web'')];
                (r, s) = requestJSON a ''POST'' (repo_path owner repo @ ''/hooks'') (Some payload) s
            in (case r of Inr _ \<Rightarrow> Inr ()
                | Inl e \<Rightarrow> if Contains (Error e) ''status 422'' then Inr () else Inl e, s)))"

section \<open>Bootstrap\<close>

record inferredBootstrapSettings =
  ib_baseBranch :: string
  ib_dockerfilePath :: string
  ib_serviceName :: string
  ib_containerPort :: int
  ib_servicePort :: int
  ib_serviceType :: string

definition inferBootstrapSettings ::
  "GitHubAutomation \<Rightarrow> string \<Rightarrow> string \<Rightarrow> string \<Rightarrow> string \<Rightarrow> string \<Rightarrow> requests
   \<Rightarrow> (go_error + inferredBootstrapSettings) \<times> requests" where
  "inferBootstrapSettings a owner repo baseBranchInput dockerfilePathInput serviceNameInput s =
     (let given = TrimSpace baseBranchInput;
          path = (let d = TrimSpace dockerfilePathInput in if d = '''' then ''Dockerfile'' else d);
          name = (let n = sanitizeName serviceNameInput
                  in if n \<noteq> '''' then n else let m = sanitizeName repo in if m \<noteq> '''' then m else ''service'')
      in andthen (if given = '''' then getDefaultBranch a owner repo s else (Inr given, s)) (\<lambda>baseBranch s.
         let (r, s) = getTextFile a owner repo baseBranch path s;
             detected = (case r of Inl _ \<Rightarrow> 0 | Inr text \<Rightarrow> detectPortFromDockerfile text);
             port = (if detected > 0 then detected else 8080)
         in (Inr \<lparr>ib_baseBranch = baseBranch, ib_dockerfilePath = path, ib_serviceName = name, ib_containerPort = port,
                  ib_servicePort = port, ib_serviceType = ''LoadBalancer''\<rparr>, s)))"

definition repository_required :: go_error where
  "repository_required = ErrText ''repository owner and repository name are required''"

definition stage_of_request :: "string \<Rightarrow> string" where
  "stage_of_request requested =
     (let slug = (let t = TrimSpace requested in if t = '''' then ''production'' else t); slug = sanitizeName slug
      in if slug = '''' then ''production'' else slug)"

definition bootstrap_branch :: "string \<Rightarrow> gotime \<Rightarrow> string" where
  "bootstrap_branch projectID t = ''deploy-service/'' @ sanitizeName projectID @ ''-'' @ show_int (t div Second)"

text \<open>The files of the flow, with their commit messages, in the order in which they are written.\<close>

definition bootstrap_files ::
  "GitHubAutomation \<Rightarrow> string \<Rightarrow> BootstrapGitHubFlowRequest \<Rightarrow> inferredBootstrapSettings \<Rightarrow> (string \<times> string \<times> string) list" where
  "bootstrap_files a projectID request st =
     (let stageSlug = stage_of_request (bf_StageSlug request);
          servicePort = (if bf_ServicePort request > 0 then bf_ServicePort request else ib_servicePort st);
          containerPort = (if bf_ContainerPort request > 0 then bf_ContainerPort request else ib_containerPort st);
          serviceType = (let t = normalizeServiceType (bf_ServiceType request) in if t \<noteq> '''' then t else ib_serviceType st);
          replicaCount = normalizedReplicaCount (bf_ReplicaCount request);
          profile = normalizedResourceProfile (bf_ResourceProfile request);
          name = ib_serviceName st;
          manifestBase = ''k8s/'' @ stageSlug @ ''/'' @ name;
          domain = (if TrimSpace (bf_AppsBaseDomain request) \<noteq> '''' then bf_AppsBaseDomain request else gh_baseDomain a);
          (manifestType, needsIngress) = resolveServiceExposure serviceType (bf_DedicatedLoadBalancer request) domain
      in [(GitHub_stageWorkflowPath stageSlug,
            renderWorkflowYAML projectID (bf_RepositoryName request) name (ib_dockerfilePath st) stageSlug (ib_baseBranch st) needsIngress,
            ''Add deploy-service GitHub Actions workflow''),
          (manifestBase @ ''/deployment.yaml'',
            renderDeploymentYAML name stageSlug containerPort servicePort replicaCount profile,
            ''Add Kubernetes deployment manifest''),
          (manifestBase @ ''/service.yaml'', renderServiceYAML name servicePort containerPort manifestType,
            ''Add Kubernetes service manifest'')]
         @ (if needsIngress
            then [(manifestBase @ ''/ingress.yaml'', renderIngressYAML name projectID stageSlug domain servicePort,
              ''Add Kubernetes Ingress manifest'')]
            else []))"

fun upsert_all ::
  "GitHubAutomation \<Rightarrow> string \<Rightarrow> string \<Rightarrow> string \<Rightarrow> (string \<times> string \<times> string) list \<Rightarrow> requests
   \<Rightarrow> (go_error + unit) \<times> requests" where
  "upsert_all a owner repo branch [] s = (Inr (), s)"
| "upsert_all a owner repo branch ((path, content, message) # fs) s =
     andthen (upsertFile a owner repo branch path content message s) (\<lambda>_ s. upsert_all a owner repo branch fs s)"

definition pull_request_body :: string where
  "pull_request_body = utf8 [0x414, 0x43E, 0x431, 0x430, 0x432, 0x43B, 0x435, 0x43D, 0x44B, 0x20] @ ''workflow '' @ utf8 [0x438, 0x20] @ ''Kubernetes '' @ utf8 [0x43C, 0x430, 0x43D, 0x438, 0x444, 0x435, 0x441, 0x442, 0x44B, 0x20, 0x434, 0x43B, 0x44F, 0x20, 0x430, 0x432, 0x442, 0x43E, 0x43C, 0x430, 0x442, 0x438, 0x447, 0x435, 0x441, 0x43A, 0x43E, 0x439, 0x20, 0x441, 0x431, 0x43E, 0x440, 0x43A, 0x438, 0x20, 0x438, 0x20, 0x434, 0x435, 0x43F, 0x43B, 0x43E, 0x44F] @ ''.''"

text \<open>A pull request without commits is no error, and a webhook that cannot be registered is only logged.\<close>

definition opened_pull_request ::
  "GitHubAutomation \<Rightarrow> string \<Rightarrow> string \<Rightarrow> string \<Rightarrow> string \<Rightarrow> requests \<Rightarrow> (go_error + string) \<times> requests" where
  "opened_pull_request a owner repo base head s =
     (let (r, s) = createPullRequest a owner repo base head ''Setup deploy-service automation'' pull_request_body s
      in (case r of Inl e \<Rightarrow> if isNoCommitsBetweenBranchesError e then Inr '''' else Inl e | Inr url \<Rightarrow> Inr url, s))"

definition GitHub_BootstrapRepositoryFlow ::
  "GitHubAutomation \<Rightarrow> string \<Rightarrow> BootstrapGitHubFlowRequest \<Rightarrow> requests
   \<Rightarrow> (go_error + BootstrapGitHubFlowResponse) \<times> requests" where
  "GitHub_BootstrapRepositoryFlow a projectID request s =
     (let client = withToken a (bf_GitHubToken request); owner = bf_RepositoryOwner request; repo = bf_RepositoryName request
      in if TrimSpace owner = '''' \<or> TrimSpace repo = '''' then (Inl repository_required, s)
         else andthen (inferBootstrapSettings client owner repo (bf_BaseBranch request) (bf_DockerfilePath request)
                (bf_ServiceName request) s) (\<lambda>st s.
           andthen (getBranchSHA client owner repo (ib_baseBranch st) s) (\<lambda>refSHA s.
           let branchName = bootstrap_branch projectID (gh_now client (length s))
           in andthen (createBranch client owner repo branchName refSHA s) (\<lambda>_ s.
              andthen (upsert_all client owner repo branchName (bootstrap_files client projectID request st) s) (\<lambda>_ s.
              andthen (opened_pull_request client owner repo (ib_baseBranch st) branchName s) (\<lambda>prURL s.
              let (_, s) = ensureWorkflowWebhook client owner repo s
              in (Inr \<lparr>br_ProjectID = projectID, br_RepositoryOwner = owner, br_RepositoryName = repo,
                    br_BranchName = branchName, br_PullRequestURL = prURL, br_NoChanges = (TrimSpace prURL = '''')\<rparr>, s)))))))"

section \<open>Questions\<close>

definition required_question :: "string \<Rightarrow> string \<Rightarrow> string \<Rightarrow> string \<Rightarrow> string list \<Rightarrow> GitHubBootstrapQuestion" where
  "required_question key title description dflt options =
     \<lparr>q_Key = key, q_Title = title, q_Description = description, q_Required = True, q_DefaultValue = dflt, q_Options = options\<rparr>"

definition bootstrap_questions :: "inferredBootstrapSettings \<Rightarrow> GitHubBootstrapQuestion list" where
  "bootstrap_questions st =
         [required_question ''serviceName'' (utf8 [0x418, 0x43C, 0x44F, 0x20, 0x441, 0x435, 0x440, 0x432, 0x438, 0x441, 0x430])
            (utf8 [0x418, 0x43C, 0x44F, 0x20] @ ''Deployment '' @ utf8 [0x438, 0x20] @ ''Service'')
            (ib_serviceName st) [],
          required_question ''dockerfilePath'' (utf8 [0x41F, 0x443, 0x442, 0x44C, 0x20, 0x43A, 0x20] @ ''Dockerfile'')
            (utf8 [0x41F, 0x443, 0x442, 0x44C, 0x20, 0x432, 0x20, 0x440, 0x435, 0x43F, 0x43E, 0x437, 0x438, 0x442, 0x43E, 0x440, 0x438, 0x438, 0x20, 0x43A, 0x20] @ ''Dockerfile'')
            (ib_dockerfilePath st) [],
          required_question ''containerPort'' (utf8 [0x41F, 0x43E, 0x440, 0x442, 0x20, 0x43A, 0x43E, 0x43D, 0x442, 0x435, 0x439, 0x43D, 0x435, 0x440, 0x430])
            (utf8 [0x41F, 0x43E, 0x440, 0x442, 0x20, 0x43F, 0x440, 0x438, 0x43B, 0x43E, 0x436, 0x435, 0x43D, 0x438, 0x44F, 0x20, 0x432, 0x43D, 0x443, 0x442, 0x440, 0x438, 0x20, 0x43A, 0x43E, 0x43D, 0x442, 0x435, 0x439, 0x43D, 0x435, 0x440, 0x430])
            (show_int (ib_containerPort st)) [],
          required_question ''servicePort'' (utf8 [0x41F, 0x43E, 0x440, 0x442, 0x20, 0x441, 0x435, 0x440, 0x432, 0x438, 0x441, 0x430])
            (utf8 [0x41F, 0x43E, 0x440, 0x442, 0x20] @ ''Kubernetes Service'')
            (show_int (ib_servicePort st)) [],
          required_question ''serviceType'' (utf8 [0x422, 0x438, 0x43F, 0x20, 0x441, 0x435, 0x440, 0x432, 0x438, 0x441, 0x430])
            (''LoadBalancer '' @ utf8 [0x434, 0x43B, 0x44F, 0x20, 0x432, 0x43D, 0x435, 0x448, 0x43D, 0x435, 0x433, 0x43E, 0x20, 0x434, 0x43E, 0x441, 0x442, 0x443, 0x43F, 0x430] @ '', ClusterIP '' @ utf8 [0x434, 0x43B, 0x44F, 0x20, 0x432, 0x43D, 0x443, 0x442, 0x440, 0x435, 0x43D, 0x43D, 0x435, 0x433, 0x43E, 0x20, 0x434, 0x43E, 0x441, 0x442, 0x443, 0x43F, 0x430])
            (ib_serviceType st) [''LoadBalancer'', ''ClusterIP'']]"

definition GitHub_BuildBootstrapQuestions ::
  "GitHubAutomation \<Rightarrow> GitHubBootstrapQuestionsRequest \<Rightarrow> requests \<Rightarrow> (go_error + GitHubBootstrapQuestionsResponse) \<times> requests" where
  "GitHub_BuildBootstrapQuestions a request s =
     (let client = withToken a (qr_GitHubToken request); owner = qr_RepositoryOwner request; repo = qr_RepositoryName request
      in if TrimSpace owner = '''' \<or> TrimSpace repo = '''' then (Inl repository_required, s)
         else andthen (inferBootstrapSettings client owner repo (qr_BaseBranch request) (qr_DockerfilePath request)
                (qr_ServiceName request) s) (\<lambda>st s.
           (Inr \<lparr>qs_RepositoryOwner = owner, qs_RepositoryName = repo, qs_BaseBranch = ib_baseBranch st,
              qs_DetectedDockerfile = ib_dockerfilePath st, qs_DetectedServiceName = ib_serviceName st,
              qs_DetectedContainerPort = ib_containerPort st, qs_DetectedServicePort = ib_servicePort st,
              qs_DetectedServiceType = ib_serviceType st, qs_Questions = bootstrap_questions st\<rparr>, s)))"

section \<open>Workflow runs\<close>

record workflowRun =
  wr_ID :: int
  wr_Status :: string
  wr_Conclusion :: string
  wr_HeadSHA :: string
  wr_Path :: string
  wr_CreatedAt :: gotime
  wr_UpdatedAt :: gotime
  wr_Message :: string

text \<open>\<open>time.Time\<close> is decoded from a string of RFC 3339.\<close>

definition as_time :: "json \<Rightarrow> gotime \<Rightarrow> gotime option" where
  "as_time v x = (case v of JStr s \<Rightarrow> ParseRFC3339 s | _ \<Rightarrow> None)"

definition decode_workflow_run :: "json \<Rightarrow> workflowRun \<Rightarrow> workflowRun option" where
  "decode_workflow_run = as_record (\<lambda>kvs r.
     Option.bind (field as_int ''id'' kvs (wr_ID r)) (\<lambda>i.
     Option.bind (field as_string ''status'' kvs (wr_Status r)) (\<lambda>st.
     Option.bind (field as_string ''conclusion'' kvs (wr_Conclusion r)) (\<lambda>co.
     Option.bind (field as_string ''head_sha'' kvs (wr_HeadSHA r)) (\<lambda>sha.
     Option.bind (field as_string ''path'' kvs (wr_Path r)) (\<lambda>path.
     Option.bind (field as_time ''created_at'' kvs (wr_CreatedAt r)) (\<lambda>cr.
     Option.bind (field as_time ''updated_at'' kvs (wr_UpdatedAt r)) (\<lambda>up.
     Option.bind (in_record ''head_commit'' (field as_string ''message'') kvs (wr_Message r)) (\<lambda>msg.
     Some \<lparr>wr_ID = i, wr_Status = st, wr_Conclusion = co, wr_HeadSHA = sha, wr_Path = path, wr_CreatedAt = cr,
           wr_UpdatedAt = up, wr_Message = msg\<rparr>)))))))))"

definition no_run :: workflowRun where
  "no_run = \<lparr>wr_ID = 0, wr_Status = '''', wr_Conclusion = '''', wr_HeadSHA = '''', wr_Path = '''',
     wr_CreatedAt = zero_time, wr_UpdatedAt = zero_time, wr_Message = ''''\<rparr>"

definition wanted_run :: "GitHubWorkflowRunLookupRequest \<Rightarrow> workflowRun \<Rightarrow> bool" where
  "wanted_run request r \<longleftrightarrow>
     (if lq_WorkflowPath request \<noteq> '''' then wr_Path r = lq_WorkflowPath request else isDeployWorkflowPath (wr_Path r))
     \<and> \<not> (lq_Since request \<noteq> zero_time \<and> wr_CreatedAt r < lq_Since request - 2 * Minute)"

definition lookup_result :: "workflowRun \<Rightarrow> GitHubWorkflowRunLookupResult" where
  "lookup_result r = \<lparr>lr_ID = wr_ID r, lr_Status = wr_Status r, lr_Conclusion = wr_Conclusion r, lr_HeadSHA = wr_HeadSHA r,
     lr_CommitMessage = wr_Message r, lr_CreatedAt = wr_CreatedAt r, lr_UpdatedAt = wr_UpdatedAt r\<rparr>"

definition GitHub_FindLatestDeployWorkflowRun ::
  "GitHubAutomation \<Rightarrow> GitHubWorkflowRunLookupRequest \<Rightarrow> requests \<Rightarrow> (go_error + GitHubWorkflowRunLookupResult list) \<times> requests" where
  "GitHub_FindLatestDeployWorkflowRun a request s =
     (let client = withToken a (lq_GitHubToken request); owner = lq_RepositoryOwner request; repo = lq_RepositoryName request
      in if TrimSpace owner = '''' \<or> TrimSpace repo = '''' then (Inr [], s)
         else andthen (requestJSON client ''GET'' (repo_path owner repo @ ''/actions/runs?per_page=20'') None s) (\<lambda>body s.
           andthen (unmarshalled client ''workflow runs response'' (field (as_list decode_workflow_run no_run) ''workflow_runs'') [] body s)
             (\<lambda>rs s. (Inr (map lookup_result (filter (wanted_run request) rs)), s))))"

section \<open>The client without GitHub\<close>

definition given_or :: "string \<Rightarrow> string \<Rightarrow> string" where
  "given_or dflt value = (let v = TrimSpace value in if v = '''' then dflt else v)"

definition mock_bootstrap_questions :: "GitHubBootstrapQuestionsRequest \<Rightarrow> GitHubBootstrapQuestionsResponse" where
  "mock_bootstrap_questions request =
     (let name = given_or ''service'' (qr_ServiceName request); path = given_or ''Dockerfile'' (qr_DockerfilePath request)
      in \<lparr>qs_RepositoryOwner = qr_RepositoryOwner request, qs_RepositoryName = qr_RepositoryName request,
         qs_BaseBranch = given_or ''main'' (qr_BaseBranch request), qs_DetectedDockerfile = path,
         qs_DetectedServiceName = name, qs_DetectedContainerPort = 8080, qs_DetectedServicePort = 8080,
         qs_DetectedServiceType = ''LoadBalancer'', qs_Questions =
         [required_question ''serviceName'' (utf8 [0x418, 0x43C, 0x44F, 0x20, 0x441, 0x435, 0x440, 0x432, 0x438, 0x441, 0x430])
            (utf8 [0x418, 0x441, 0x43F, 0x43E, 0x43B, 0x44C, 0x437, 0x443, 0x435, 0x442, 0x441, 0x44F, 0x20, 0x432, 0x20] @ ''Kubernetes '' @ utf8 [0x43C, 0x430, 0x43D, 0x438, 0x444, 0x435, 0x441, 0x442, 0x430, 0x445])
            (name) [],
          required_question ''dockerfilePath'' (utf8 [0x41F, 0x443, 0x442, 0x44C, 0x20, 0x43A, 0x20] @ ''Dockerfile'')
            (utf8 [0x41F, 0x443, 0x442, 0x44C, 0x20, 0x432, 0x20, 0x440, 0x435, 0x43F, 0x43E, 0x437, 0x438, 0x442, 0x43E, 0x440, 0x438, 0x438, 0x20, 0x43A, 0x20] @ ''Dockerfile'')
            (path) [],
          required_question ''containerPort'' (utf8 [0x41F, 0x43E, 0x440, 0x442, 0x20, 0x43A, 0x43E, 0x43D, 0x442, 0x435, 0x439, 0x43D, 0x435, 0x440, 0x430])
            (utf8 [0x41F, 0x43E, 0x440, 0x442] @ '', '' @ utf8 [0x43D, 0x430, 0x20, 0x43A, 0x43E, 0x442, 0x43E, 0x440, 0x43E, 0x43C, 0x20, 0x441, 0x43B, 0x443, 0x448, 0x430, 0x435, 0x442, 0x20, 0x43F, 0x440, 0x438, 0x43B, 0x43E, 0x436, 0x435, 0x43D, 0x438, 0x435])
            (''8080'') [],
          required_question ''servicePort'' (utf8 [0x41F, 0x43E, 0x440, 0x442, 0x20, 0x441, 0x435, 0x440, 0x432, 0x438, 0x441, 0x430])
            (utf8 [0x412, 0x43D, 0x435, 0x448, 0x43D, 0x438, 0x439, 0x20, 0x43F, 0x43E, 0x440, 0x442, 0x20] @ ''Kubernetes Service'')
            (''8080'') [],
          required_question ''serviceType'' (utf8 [0x422, 0x438, 0x43F, 0x20, 0x441, 0x435, 0x440, 0x432, 0x438, 0x441, 0x430])
            (''ClusterIP '' @ utf8 [0x434, 0x43B, 0x44F, 0x20, 0x432, 0x43D, 0x443, 0x442, 0x440, 0x435, 0x43D, 0x43D, 0x435, 0x433, 0x43E, 0x20, 0x434, 0x43E, 0x441, 0x442, 0x443, 0x43F, 0x430] @ '', LoadBalancer '' @ utf8 [0x434, 0x43B, 0x44F, 0x20, 0x432, 0x43D, 0x435, 0x448, 0x43D, 0x435, 0x433, 0x43E, 0x20, 0x434, 0x43E, 0x441, 0x442, 0x443, 0x43F, 0x430])
            (''LoadBalancer'') [''ClusterIP'', ''LoadBalancer'']]\<rparr>)"

definition mock_bootstrap_flow :: "string \<Rightarrow> BootstrapGitHubFlowRequest \<Rightarrow> BootstrapGitHubFlowResponse" where
  "mock_bootstrap_flow projectID request =
     (let owner = bf_RepositoryOwner request; repo = bf_RepositoryName request;
          branchName = ''deploy-service/'' @ projectID @ ''/bootstrap''
      in \<lparr>br_ProjectID = projectID, br_RepositoryOwner = owner, br_RepositoryName = repo, br_BranchName = branchName,
         br_PullRequestURL = ''https://github.com/'' @ owner @ ''/'' @ repo @ ''/pull/new/'' @ branchName,
         br_NoChanges = False\<rparr>)"

end
