(* ===== verification/Delivery.thy ===== *)
theory Delivery
  imports GitHub
begin

text \<open>
  What the GitHub client does to a repository: where it writes, how many requests it sends, that a successful
  bootstrap has delivered its files, and where its rules agree with those of the service.
\<close>

section \<open>Requests of a bootstrap\<close>

text \<open>A request that reads, and one that fills a branch: the creation of the branch, a file on it, the pull request from
  it, or the webhook. All go to the repository, with the token of the client.\<close>

definition repo_url :: "GitHubAutomation \<Rightarrow> string \<Rightarrow> string \<Rightarrow> string" where
  "repo_url a owner repo = gh_baseURL a @ repo_path owner repo"

definition payload_text :: "string \<Rightarrow> api_request \<Rightarrow> string option" where
  "payload_text key r =
     (case rq_payload r of
        Some (JObj kvs) \<Rightarrow> (case map_of kvs key of Some (JStr v) \<Rightarrow> Some v | _ \<Rightarrow> None)
      | _ \<Rightarrow> None)"

definition reading :: "GitHubAutomation \<Rightarrow> string \<Rightarrow> string \<Rightarrow> api_request \<Rightarrow> bool" where
  "reading a owner repo r \<longleftrightarrow>
     rq_token r = gh_token a \<and> prefix (repo_url a owner repo) (rq_url r) \<and> rq_verb r = ''GET'' \<and> rq_payload r = None"

definition filling :: "GitHubAutomation \<Rightarrow> string \<Rightarrow> string \<Rightarrow> string \<Rightarrow> api_request \<Rightarrow> bool" where
  "filling a owner repo branch r \<longleftrightarrow>
     rq_token r = gh_token a \<and>
     (rq_verb r = ''POST'' \<and> rq_url r = repo_url a owner repo @ ''/git/refs''
        \<and> payload_text ''ref'' r = Some (''refs/heads/'' @ branch)
      \<or> rq_verb r = ''PUT'' \<and> prefix (repo_url a owner repo @ ''/contents/'') (rq_url r)
        \<and> payload_text ''branch'' r = Some branch
      \<or> rq_verb r = ''POST'' \<and> rq_url r = repo_url a owner repo @ ''/pulls'' \<and> payload_text ''head'' r = Some branch
      \<or> rq_verb r = ''POST'' \<and> rq_url r = repo_url a owner repo @ ''/hooks'')"

definition confined :: "GitHubAutomation \<Rightarrow> string \<Rightarrow> string \<Rightarrow> string \<Rightarrow> api_request \<Rightarrow> bool" where
  "confined a owner repo branch r \<longleftrightarrow> reading a owner repo r \<or> filling a owner repo branch r"

lemma adds_request:
  assumes "P (ApiRequest verb (gh_baseURL a @ path) (gh_token a) payload)"
  shows "adds P 1 s (requestJSON a verb path payload s)"
  using assms by (simp add: adds_def requestJSON_def Let_def)

lemma adds_get: "adds (reading a owner repo) 1 s (requestJSON a ''GET'' (repo_path owner repo @ rest) None s)"
  by (rule adds_request) (simp add: reading_def repo_url_def prefix_def)

lemma adds_unmarshalled: "adds P 0 s (unmarshalled a what dec zero body s)"
  by (simp add: adds_def unmarshalled_def)

lemma adds_getTextFile: "adds (reading a owner repo) 1 s (getTextFile a owner repo branch path s)"
  unfolding getTextFile_def contents_path_def append_assoc
  by (rule adds_mono, (rule adds_get adds_unmarshalled adds_intro)+) simp

lemma adds_getBranchSHA: "adds (reading a owner repo) 1 s (getBranchSHA a owner repo branch s)"
  unfolding getBranchSHA_def append_assoc
  by (rule adds_mono, (rule adds_get adds_unmarshalled adds_intro)+) simp

lemma adds_getDefaultBranch: "adds (reading a owner repo) 1 s (getDefaultBranch a owner repo s)"
  unfolding getDefaultBranch_def
  by (rule adds_mono, (rule adds_get [where rest = "[]", unfolded append_Nil2] adds_unmarshalled adds_intro)+) simp

lemma adds_getFileSHA: "adds (reading a owner repo) 1 s (getFileSHA a owner repo branch path s)"
  unfolding getFileSHA_def contents_path_def append_assoc Let_def
  by (rule adds_mono, (rule adds_let adds_get adds_sum adds_unmarshalled adds_return [where N = 0])+) simp

lemma adds_inferBootstrapSettings:
  "adds (reading a owner repo) 2 s (inferBootstrapSettings a owner repo branch path name s)"
  unfolding inferBootstrapSettings_def Let_def
  by (rule adds_mono, (rule adds_andthen adds_if adds_getDefaultBranch adds_return [where N = 1] adds_let
      adds_getTextFile adds_return [where N = 0])+) simp

text \<open>The requests that fill the branch.\<close>

lemma adds_reading: "adds (reading a owner repo) N s m \<Longrightarrow> adds (confined a owner repo branch) N s m"
  by (erule adds_weaken) (simp add: confined_def)

lemma adds_put:
  assumes "filling a owner repo branch (ApiRequest verb (gh_baseURL a @ path) (gh_token a) payload)"
  shows "adds (confined a owner repo branch) 1 s (requestJSON a verb path payload s)"
  using assms by (intro adds_request) (simp add: confined_def)

lemma adds_createBranch: "adds (confined a owner repo branch) 1 s (createBranch a owner repo branch sha s)"
  unfolding createBranch_def
  by (rule adds_wrapped, rule adds_put) (simp add: filling_def repo_url_def payload_text_def strings_payload_def)

lemma adds_put_file:
  "adds (confined a owner repo branch) 1 s
     (requestJSON a ''PUT'' (contents_path owner repo path) (put_payload branch content message sha) s)"
  by (rule adds_put)
    (simp add: filling_def repo_url_def contents_path_def payload_text_def put_payload_def strings_payload_def)

lemma adds_upsertFile: "adds (confined a owner repo branch) 3 s (upsertFile a owner repo branch path content message s)"
  unfolding upsertFile_def Let_def
  by (rule adds_mono, (rule adds_let adds_reading adds_getTextFile adds_getFileSHA adds_if adds_andthen adds_wrapped
      adds_put_file adds_return [where N = 0] adds_return)+) simp

lemma adds_upsert_all:
  "adds (confined a owner repo branch) (3 * length fs) s (upsert_all a owner repo branch fs s)"
proof (induction fs arbitrary: s)
  case (Cons f fs)
  obtain path content message where "f = (path, content, message)" by (cases f)
  then show ?case using adds_andthen [OF adds_upsertFile Cons] by simp
qed (simp add: adds_return)

lemma adds_createPullRequest:
  "adds (confined a owner repo branch) 1 s (createPullRequest a owner repo base branch title body s)"
proof -
  have post: "adds (confined a owner repo branch) 1 s (requestJSON a ''POST'' (repo_path owner repo @ ''/pulls'')
      (strings_payload [(''base'', base), (''body'', body), (''head'', branch), (''title'', title)]) s)" for s
    by (rule adds_put) (simp add: filling_def repo_url_def payload_text_def strings_payload_def)
  show ?thesis
    unfolding createPullRequest_def by (rule adds_mono, (rule post adds_unmarshalled adds_intro)+) simp
qed

lemma adds_opened_pull_request:
  "adds (confined a owner repo branch) 1 s (opened_pull_request a owner repo base branch s)"
  unfolding opened_pull_request_def Let_def
  by (rule adds_mono, rule adds_let [OF adds_createPullRequest adds_return [where N = 0]]) simp

lemma adds_ensureWorkflowWebhook:
  "adds (confined a owner repo branch) 1 s (ensureWorkflowWebhook a owner repo s)"
proof -
  have post: "adds (confined a owner repo branch) 1 s (requestJSON a ''POST'' (repo_path owner repo @ ''/hooks'') payload s)"
    for payload s
    by (rule adds_put) (simp add: filling_def repo_url_def)
  show ?thesis
    unfolding ensureWorkflowWebhook_def Let_def
    by (rule adds_if [OF adds_return], rule adds_mono, rule adds_let [OF post adds_return [where N = 0]]) simp
qed

lemma length_bootstrap_files: "length (bootstrap_files a pid request st) \<le> 4"
  by (simp add: bootstrap_files_def Let_def split: prod.split)

text \<open>The flow after the settings and the commit of the base branch are known, for a given branch.\<close>

definition filled_branch ::
  "GitHubAutomation \<Rightarrow> string \<Rightarrow> BootstrapGitHubFlowRequest \<Rightarrow> inferredBootstrapSettings \<Rightarrow> string \<Rightarrow> string \<Rightarrow> requests
   \<Rightarrow> (go_error + BootstrapGitHubFlowResponse) \<times> requests" where
  "filled_branch a pid request st sha branch s =
     (let owner = bf_RepositoryOwner request; repo = bf_RepositoryName request
      in andthen (createBranch a owner repo branch sha s) (\<lambda>_ s.
         andthen (upsert_all a owner repo branch (bootstrap_files a pid request st) s) (\<lambda>_ s.
         andthen (opened_pull_request a owner repo (ib_baseBranch st) branch s) (\<lambda>prURL s.
         let (_, s) = ensureWorkflowWebhook a owner repo s
         in (Inr \<lparr>br_ProjectID = pid, br_RepositoryOwner = owner, br_RepositoryName = repo, br_BranchName = branch,
               br_PullRequestURL = prURL, br_NoChanges = (TrimSpace prURL = '''')\<rparr>, s)))))"

lemma bootstrap_flow:
  "GitHub_BootstrapRepositoryFlow a pid request s =
     (let client = withToken a (bf_GitHubToken request); owner = bf_RepositoryOwner request; repo = bf_RepositoryName request
      in if TrimSpace owner = '''' \<or> TrimSpace repo = '''' then (Inl repository_required, s)
         else andthen (inferBootstrapSettings client owner repo (bf_BaseBranch request) (bf_DockerfilePath request)
                (bf_ServiceName request) s) (\<lambda>st s.
           andthen (getBranchSHA client owner repo (ib_baseBranch st) s) (\<lambda>sha s.
           filled_branch client pid request st sha (bootstrap_branch pid (gh_now client (length s))) s)))"
  by (simp only: GitHub_BootstrapRepositoryFlow_def filled_branch_def Let_def)

lemma adds_filled_branch:
  "adds (confined a (bf_RepositoryOwner request) (bf_RepositoryName request) branch) 15 s
     (filled_branch a pid request st sha branch s)"
  unfolding filled_branch_def Let_def
  by (rule adds_mono, (rule adds_andthen adds_let adds_createBranch adds_upsert_all adds_opened_pull_request
      adds_ensureWorkflowWebhook adds_return [where N = 0])+)
    (use length_bootstrap_files [of a pid request st] in linarith)

section \<open>Delivered files\<close>

definition accepted_put :: "GitHubAutomation \<Rightarrow> string \<Rightarrow> string \<Rightarrow> string \<Rightarrow> string \<Rightarrow> string \<Rightarrow> nat \<Rightarrow> api_request \<Rightarrow> bool" where
  "accepted_put a owner repo branch path content i r \<longleftrightarrow>
     rq_verb r = ''PUT'' \<and> rq_url r = repo_url a owner repo @ ''/contents/'' @ path
     \<and> payload_text ''branch'' r = Some branch \<and> Option.bind (payload_text ''content'' r) StdDecode = Some content
     \<and> (case gh_answer a i r of Inr (status, _) \<Rightarrow> 200 \<le> status \<and> status \<le> 299 | Inl _ \<Rightarrow> False)"

text \<open>The log has a reading of the file from the branch that found the content, or a file written there and accepted.\<close>

definition delivered :: "GitHubAutomation \<Rightarrow> string \<Rightarrow> string \<Rightarrow> string \<Rightarrow> requests \<Rightarrow> string \<times> string \<times> string \<Rightarrow> bool" where
  "delivered a owner repo branch rs file =
     (case file of (path, content, _) \<Rightarrow>
        list_ex (\<lambda>i. getTextFile a owner repo branch path (take i rs) = (Inr content, take (Suc i) rs)
          \<or> accepted_put a owner repo branch path content i (rs ! i)) [0..<length rs])"

lemma delivered_later: "delivered a owner repo branch rs file \<Longrightarrow> delivered a owner repo branch (rs @ rs') file"
  unfolding delivered_def list_ex_iff by (auto simp: nth_append split: prod.splits)

lemma delivered_adds: "delivered a owner repo branch s file \<Longrightarrow> adds P N s m \<Longrightarrow> delivered a owner repo branch (snd m) file"
  by (auto simp: adds_def delivered_later)

lemma requestJSON_Inr:
  assumes "fst (requestJSON a verb path payload s) = Inr body"
  shows "snd (requestJSON a verb path payload s) = s @ [ApiRequest verb (gh_baseURL a @ path) (gh_token a) payload]
    \<and> (case gh_answer a (length s) (ApiRequest verb (gh_baseURL a @ path) (gh_token a) payload) of
         Inr (status, _) \<Rightarrow> 200 \<le> status \<and> status \<le> 299 | Inl _ \<Rightarrow> False)"
  using assms
  by (auto simp: requestJSON_def response_of_def Let_def split: if_splits sum.splits http_failure.splits prod.splits)

lemma snd_unmarshalled: "snd (andthen (unmarshalled a what dec zero body s) (\<lambda>v s. (g v, s))) = s"
  by (simp add: unmarshalled_def andthen_def split: sum.split)

lemma getTextFile_Inr:
  assumes "fst (getTextFile a owner repo branch path s) = Inr t"
  shows "\<exists>r. snd (getTextFile a owner repo branch path s) = s @ [r]"
proof -
  let ?get = "requestJSON a ''GET'' (contents_path owner repo path @ ''?ref='' @ branch) None s"
  obtain body where body: "fst ?get = Inr body" using assms unfolding getTextFile_def by (blast elim: andthen_InrE)
  then have "snd (getTextFile a owner repo branch path s) = snd ?get"
    unfolding getTextFile_def by (simp only: andthen_Inr snd_unmarshalled)
  then show ?thesis using requestJSON_Inr [OF body] by simp
qed

lemma upsertFile_delivers:
  assumes "fst (upsertFile a owner repo branch path content message s) = Inr ()"
  shows "delivered a owner repo branch (snd (upsertFile a owner repo branch path content message s)) (path, content, message)"
proof (cases "fst (getTextFile a owner repo branch path s) = Inr content")
  case True
  then obtain r where "snd (getTextFile a owner repo branch path s) = s @ [r]" using getTextFile_Inr by blast
  with True have "getTextFile a owner repo branch path s = (Inr content, s @ [r])" by (simp add: prod_eq_iff)
  then show ?thesis by (auto simp: upsertFile_def delivered_def list_ex_iff intro!: bexI [of _ "length s"])
next
  case False
  let ?rd = "getTextFile a owner repo branch path s"
  let ?sh = "getFileSHA a owner repo branch path (snd ?rd)"
  define sha where "sha = (case fst ?sh of Inr x \<Rightarrow> x | Inl _ \<Rightarrow> '''')"
  let ?put = "requestJSON a ''PUT'' (contents_path owner repo path) (put_payload branch content message sha) (snd ?sh)"
  have eq: "upsertFile a owner repo branch path content message s =
      andthen (wrapped (''upsert file '' @ path @ '': '') ?put) (\<lambda>_ s. (Inr (), s))"
    using False by (simp add: upsertFile_def sha_def Let_def case_prod_unfold)
  with assms obtain body where body: "fst ?put = Inr body" by (auto elim!: andthen_InrE dest!: wrapped_InrD)
  have "fst (wrapped (''upsert file '' @ path @ '': '') ?put) = Inr body"
    using body by (cases ?put) (simp add: wrapped_def)
  then have "snd (upsertFile a owner repo branch path content message s) = snd ?put"
    unfolding eq by (subst andthen_Inr) auto
  then show ?thesis
    using requestJSON_Inr [OF body]
    by (auto simp: delivered_def accepted_put_def list_ex_iff repo_url_def contents_path_def payload_text_def
        put_payload_def strings_payload_def Std_round_trip intro!: bexI [of _ "length (snd ?sh)"])
qed

lemma upsert_all_delivers:
  "fst (upsert_all a owner repo branch fs s) = Inr () \<Longrightarrow>
   list_all (delivered a owner repo branch (snd (upsert_all a owner repo branch fs s))) fs"
proof (induction fs arbitrary: s)
  case (Cons f fs)
  obtain path content message where f: "f = (path, content, message)" by (cases f)
  let ?up = "upsertFile a owner repo branch path content message s"
  from Cons.prems f have up: "fst ?up = Inr ()"
    and rest: "upsert_all a owner repo branch (f # fs) s = upsert_all a owner repo branch fs (snd ?up)"
    by (auto elim!: andthen_InrE)
  with Cons show ?case
    using delivered_adds [OF upsertFile_delivers [OF up] adds_upsert_all] by (simp add: f)
qed simp

lemma filled_branch_delivers:
  assumes "fst (filled_branch a pid request st sha branch s) = Inr resp"
  shows "br_BranchName resp = branch \<and>
    list_all (delivered a (bf_RepositoryOwner request) (bf_RepositoryName request) branch
      (snd (filled_branch a pid request st sha branch s))) (bootstrap_files a pid request st)"
proof -
  let ?owner = "bf_RepositoryOwner request" and ?repo = "bf_RepositoryName request"
  let ?up = "upsert_all a ?owner ?repo branch (bootstrap_files a pid request st)
    (snd (createBranch a ?owner ?repo branch sha s))"
  define finish where "finish s = andthen (opened_pull_request a ?owner ?repo (ib_baseBranch st) branch s) (\<lambda>prURL s.
      let (_, s) = ensureWorkflowWebhook a ?owner ?repo s
      in (Inr \<lparr>br_ProjectID = pid, br_RepositoryOwner = ?owner, br_RepositoryName = ?repo, br_BranchName = branch,
            br_PullRequestURL = prURL, br_NoChanges = (TrimSpace prURL = '''')\<rparr>, s))" for s
  have eq: "filled_branch a pid request st sha branch s = andthen (createBranch a ?owner ?repo branch sha s)
      (\<lambda>_ s. andthen (upsert_all a ?owner ?repo branch (bootstrap_files a pid request st) s) (\<lambda>_. finish))"
    by (simp only: filled_branch_def finish_def [abs_def] Let_def)
  from assms [unfolded eq] have "fst (andthen ?up (\<lambda>_. finish)) = Inr resp"
    and eq': "filled_branch a pid request st sha branch s = andthen ?up (\<lambda>_. finish)"
    by (elim andthen_InrE, simp only: eq)+
  from this(1) have up: "fst ?up = Inr ()" by (rule andthen_InrE) simp
  then have flow: "filled_branch a pid request st sha branch s = finish (snd ?up)"
    unfolding eq' by (rule andthen_Inr)
  have "adds (confined a ?owner ?repo branch) 2 s' (finish s')" for s'
    unfolding finish_def Let_def
    by (rule adds_mono, (rule adds_andthen adds_let adds_opened_pull_request adds_ensureWorkflowWebhook
        adds_return [where N = 0])+) simp
  then have "list_all (delivered a ?owner ?repo branch (snd (finish (snd ?up)))) (bootstrap_files a pid request st)"
    using upsert_all_delivers [OF up] delivered_adds by (blast intro: list.pred_mono_strong)
  moreover have "br_BranchName resp = branch"
    using assms unfolding flow finish_def by (auto elim!: andthen_InrE simp: Let_def case_prod_unfold)
  ultimately show ?thesis by (simp add: flow)
qed

section \<open>Properties\<close>

text \<open>C12 A bootstrap touches its own branch only: whatever GitHub answers, it sends at most 18 requests, all to the given
  repository and with the token of the request when there is one; those that are not readings create the branch named
  after the project, write files to it, open the pull request from it, or register the webhook.\<close>

theorem bootstrap_fills_its_own_branch:
  "\<exists>new n. snd (GitHub_BootstrapRepositoryFlow a pid request s) = s @ new \<and> length new \<le> 18
     \<and> list_all (confined (withToken a (bf_GitHubToken request)) (bf_RepositoryOwner request) (bf_RepositoryName request)
         (bootstrap_branch pid (gh_now a n))) new"
proof -
  let ?c = "withToken a (bf_GitHubToken request)" and ?owner = "bf_RepositoryOwner request"
    and ?repo = "bf_RepositoryName request"
  have now: "gh_now ?c = gh_now a" by (simp add: withToken_def Let_def)
  let ?Q = "\<lambda>n. confined ?c ?owner ?repo (bootstrap_branch pid (gh_now a n))"
  have "\<exists>n. adds (?Q n) (1 + 15) s' (andthen (getBranchSHA ?c ?owner ?repo b s')
      (\<lambda>sha s. filled_branch ?c pid request st sha (bootstrap_branch pid (gh_now ?c (length s))) s))" for b st s'
    by (rule adds_andthen_some [OF adds_reading [OF adds_getBranchSHA]], rule exI, subst now, rule adds_filled_branch)
  then have "\<exists>n. adds (?Q n) (2 + (1 + 15)) s (andthen (inferBootstrapSettings ?c ?owner ?repo (bf_BaseBranch request)
      (bf_DockerfilePath request) (bf_ServiceName request) s) (\<lambda>st s. andthen (getBranchSHA ?c ?owner ?repo (ib_baseBranch st) s)
      (\<lambda>sha s. filled_branch ?c pid request st sha (bootstrap_branch pid (gh_now ?c (length s))) s)))"
    by (intro adds_andthen_some [OF adds_reading [OF adds_inferBootstrapSettings]])
  then have "\<exists>n. adds (?Q n) 18 s (GitHub_BootstrapRepositoryFlow a pid request s)"
    unfolding bootstrap_flow Let_def by (simp add: adds_return)
  then show ?thesis by (auto simp: adds_def)
qed

text \<open>Without a token nothing is sent: a bootstrap with neither a token in the request nor one in the environment
  fails before the first request.\<close>

theorem no_request_without_token:
  assumes "TrimSpace (gh_token (withToken a (bf_GitHubToken request))) = ''''"
  shows "\<exists>e. GitHub_BootstrapRepositoryFlow a pid request s = (Inl e, s)"
proof -
  have fails: "requestJSON (withToken a (bf_GitHubToken request)) verb path payload s = (Inl token_required, s)"
    for verb path payload s
    using assms by (simp add: requestJSON_def)
  show ?thesis
    unfolding bootstrap_flow Let_def
    by (simp add: inferBootstrapSettings_def getDefaultBranch_def getTextFile_def getBranchSHA_def andthen_def fails Let_def)
qed

definition sample_answer :: string where
  \<open>sample_answer = ''{"default_branch":"main","object":{"sha":"f00"},"html_url":"u"}''\<close>

definition sample_client :: GitHubAutomation where
  "sample_client = \<lparr>gh_baseURL = ''https://api.github.com'', gh_token = ''t'', gh_baseDomain = ''apps.example.com'',
     gh_publicURL = '''', gh_webhookSecret = '''',
     gh_answer = (\<lambda>_ _. Inr (200, sample_answer)),
     gh_now = (\<lambda>_. 0), gh_jsonError = ErrText, gh_base64Error = ErrText\<rparr>"

definition sample_bootstrap :: BootstrapGitHubFlowRequest where
  "sample_bootstrap = \<lparr>bf_RepositoryOwner = ''o'', bf_RepositoryName = ''shop'', bf_BaseBranch = '''', bf_StageSlug = '''',
     bf_ServiceName = '''', bf_DockerfilePath = '''', bf_ServicePort = 0, bf_ContainerPort = 0, bf_ServiceType = '''',
     bf_ReplicaCount = 1, bf_ResourceProfile = '''', bf_DedicatedLoadBalancer = False, bf_GitHubToken = '''',
     bf_AppsBaseDomain = ''''\<rparr>"

theorem no_request_without_token_witness:
  "\<exists>e. GitHub_BootstrapRepositoryFlow (sample_client\<lparr>gh_token := '' ''\<rparr>) ''prj-1'' sample_bootstrap [] = (Inl e, [])"
proof (rule no_request_without_token)
  show "TrimSpace (gh_token (withToken (sample_client\<lparr>gh_token := '' ''\<rparr>) (bf_GitHubToken sample_bootstrap))) = ''''"
    by code_simp
qed

text \<open>C15 A successful bootstrap has delivered every file: for each of them the log has a reading of the new branch that
  found just this content, or an accepted request that writes it there, with a payload that decodes to the content.\<close>

theorem bootstrap_delivers_all_files:
  assumes "fst (GitHub_BootstrapRepositoryFlow a pid request s) = Inr resp"
  shows "\<exists>st. fst (inferBootstrapSettings (withToken a (bf_GitHubToken request)) (bf_RepositoryOwner request)
      (bf_RepositoryName request) (bf_BaseBranch request) (bf_DockerfilePath request) (bf_ServiceName request) s) = Inr st
    \<and> list_all (delivered (withToken a (bf_GitHubToken request)) (bf_RepositoryOwner request) (bf_RepositoryName request)
         (br_BranchName resp) (snd (GitHub_BootstrapRepositoryFlow a pid request s)))
        (bootstrap_files (withToken a (bf_GitHubToken request)) pid request st)"
proof -
  let ?c = "withToken a (bf_GitHubToken request)"
  from assms have "\<not> (TrimSpace (bf_RepositoryOwner request) = [] \<or> TrimSpace (bf_RepositoryName request) = [])"
    unfolding bootstrap_flow Let_def by (auto split: if_splits)
  then have flow: "GitHub_BootstrapRepositoryFlow a pid request s = andthen (inferBootstrapSettings ?c
      (bf_RepositoryOwner request) (bf_RepositoryName request) (bf_BaseBranch request) (bf_DockerfilePath request)
      (bf_ServiceName request) s) (\<lambda>st s. andthen (getBranchSHA ?c (bf_RepositoryOwner request)
      (bf_RepositoryName request) (ib_baseBranch st) s)
      (\<lambda>sha s. filled_branch ?c pid request st sha (bootstrap_branch pid (gh_now ?c (length s))) s))"
    unfolding bootstrap_flow Let_def by (simp only: if_False)
  show ?thesis using assms unfolding flow
    by (elim andthen_InrE) (auto dest!: filled_branch_delivers)
qed

lemma sample_json:
  "Option.bind (json_whole sample_answer) (\<lambda>v. Option.bind (members_of v) (\<lambda>kvs. field as_string ''default_branch'' kvs [])) = Some ''main''"
  "Option.bind (json_whole sample_answer) (\<lambda>v. Option.bind (members_of v)
     (\<lambda>kvs. in_record ''object'' (field as_string ''sha'') kvs [])) = Some ''f00''"
  "Option.bind (json_whole sample_answer) (\<lambda>v. Option.bind (members_of v) (\<lambda>kvs. field as_string ''html_url'' kvs [])) = Some ''u''"
  "Option.bind (json_whole sample_answer) (\<lambda>v. Option.bind (members_of v) (\<lambda>kvs. content_fields kvs ([], []))) = Some ([], [])"
  by code_simp+

lemma sample_steps:
  "fst (requestJSON sample_client verb path payload s) = Inr sample_answer"
  "fst (getDefaultBranch sample_client owner repo s) = Inr ''main''"
  "fst (getBranchSHA sample_client owner repo branch s) = Inr ''f00''"
  "fst (createPullRequest sample_client owner repo base branch title body s) = Inr ''u''"
proof -
  show sent: "fst (requestJSON sample_client verb path payload s) = Inr sample_answer" for verb path payload s
    by (simp add: requestJSON_def response_of_def sample_client_def TrimSpace_graph ascii_graph_def)
  then have wrap: "fst (wrapped what (requestJSON sample_client verb path payload s)) = Inr sample_answer"
    for what verb path payload s
    by (simp add: wrapped_def case_prod_unfold)
  show "fst (getDefaultBranch sample_client owner repo s) = Inr ''main''"
    unfolding getDefaultBranch_def
    by (subst andthen_Inr [OF sent]) (simp add: unmarshalled_def sample_json andthen_def TrimSpace_graph ascii_graph_def)
  show "fst (getBranchSHA sample_client owner repo branch s) = Inr ''f00''"
    unfolding getBranchSHA_def by (subst andthen_Inr [OF sent]) (simp add: unmarshalled_def sample_json andthen_def)
  show "fst (createPullRequest sample_client owner repo base branch title body s) = Inr ''u''"
    unfolding createPullRequest_def by (subst andthen_Inr [OF wrap]) (simp add: unmarshalled_def sample_json andthen_def)
qed

lemma sample_wrapped: "fst (wrapped what (requestJSON sample_client verb path payload s)) = Inr sample_answer"
  by (simp add: wrapped_def case_prod_unfold sample_steps)

lemma sample_upserts: "fst (upsert_all sample_client owner repo branch fs s) = Inr ()"
proof (induction fs arbitrary: s)
  case (Cons f fs)
  have "fst (andthen (wrapped what (requestJSON sample_client ''PUT'' path payload s)) (\<lambda>_ s. (Inr (), s))) = Inr ()"
    for what path payload s
    by (subst andthen_Inr [OF sample_wrapped]) simp
  then have "fst (upsertFile sample_client owner repo branch path content message s) = Inr ()" for path content message s
    by (simp add: upsertFile_def Let_def case_prod_unfold)
  then show ?case using Cons by (cases f) (simp add: andthen_Inr)
qed simp

lemma sample_flow: "\<exists>resp. fst (GitHub_BootstrapRepositoryFlow sample_client ''prj-1'' sample_bootstrap []) = Inr resp"
proof -
  have client: "withToken sample_client (bf_GitHubToken sample_bootstrap) = sample_client"
    by (simp add: withToken_def sample_bootstrap_def)
  have "fst (if g = [] then getDefaultBranch sample_client owner repo s else (Inr g, s)) = Inr (if g = [] then ''main'' else g)"
    for g owner repo s
    by (simp add: sample_steps)
  then have settings: "\<exists>st. fst (inferBootstrapSettings sample_client owner repo b d n s) = Inr st" for owner repo b d n s
    unfolding inferBootstrapSettings_def Let_def by (simp add: andthen_Inr case_prod_unfold del: if_split_asm split del: if_split)
  have pull: "fst (opened_pull_request sample_client owner repo base head s) = Inr ''u''" for owner repo base head s
    by (simp add: opened_pull_request_def Let_def case_prod_unfold sample_steps)
  have filled: "\<exists>resp. fst (filled_branch sample_client pid request st sha branch s) = Inr resp" for pid request st sha branch s
    unfolding filled_branch_def Let_def createBranch_def
    by (simp add: andthen_Inr [OF sample_wrapped] andthen_Inr [OF sample_upserts] andthen_Inr [OF pull] case_prod_unfold)
  have known: "\<not> (TrimSpace (bf_RepositoryOwner sample_bootstrap) = '''' \<or> TrimSpace (bf_RepositoryName sample_bootstrap) = '''')"
    by (simp add: sample_bootstrap_def TrimSpace_graph ascii_graph_def)
  obtain st where st: "fst (inferBootstrapSettings sample_client (bf_RepositoryOwner sample_bootstrap)
      (bf_RepositoryName sample_bootstrap) (bf_BaseBranch sample_bootstrap) (bf_DockerfilePath sample_bootstrap)
      (bf_ServiceName sample_bootstrap) []) = Inr st"
    using settings by blast
  show ?thesis
    unfolding bootstrap_flow Let_def client if_not_P [OF known] andthen_Inr [OF st] andthen_Inr [OF sample_steps(3)]
    by (rule filled)
qed

theorem bootstrap_delivers_all_files_witness:
  "\<exists>resp st. fst (GitHub_BootstrapRepositoryFlow sample_client ''prj-1'' sample_bootstrap []) = Inr resp
    \<and> list_all (delivered (withToken sample_client (bf_GitHubToken sample_bootstrap)) ''o'' ''shop'' (br_BranchName resp)
         (snd (GitHub_BootstrapRepositoryFlow sample_client ''prj-1'' sample_bootstrap [])))
        (bootstrap_files (withToken sample_client (bf_GitHubToken sample_bootstrap)) ''prj-1'' sample_bootstrap st)"
proof -
  obtain resp where "fst (GitHub_BootstrapRepositoryFlow sample_client ''prj-1'' sample_bootstrap []) = Inr resp"
    using sample_flow by blast
  moreover have "bf_RepositoryOwner sample_bootstrap = ''o''" "bf_RepositoryName sample_bootstrap = ''shop''"
    by (simp_all add: sample_bootstrap_def)
  ultimately show ?thesis
    using bootstrap_delivers_all_files [of sample_client "''prj-1''" sample_bootstrap "[]" resp] by auto
qed

section \<open>Agreement with the service\<close>

lemma sanitizeName_slug:
  assumes "slug_wf s"
  shows "sanitizeName s = s" and "TrimSpace s = s"
proof -
  have chars: "list_all (\<lambda>c. is_slug_char c \<or> c = CHR ''-'') s" using assms by (simp add: slug_wf_def)
  then have graph: "\<forall>c \<in> set s. ascii_graph c" and lower: "map lower_char s = s"
    by (auto simp: list_all_iff slug_char_graph intro!: map_idI)
  moreover have "map (\<lambda>c. if c = CHR ''_'' then CHR ''-'' else c) s = s"
    using chars by (intro map_idI) (auto simp: list_all_iff is_slug_char_def)
  ultimately show "TrimSpace s = s" "sanitizeName s = s"
    using assms dash_runes_fixed [OF chars]
    by (auto simp: TrimSpace_graph ToLower_ascii sanitizeName_def Let_def slug_wf_def intro: TrimChar_same)
qed

lemma lower_char_other: "\<not> ascii_graph c \<Longrightarrow> lower_char c = c"
  by (auto simp: lower_char_def ascii_graph_def)

lemma bytes_map_word:
  assumes "\<forall>(t, l) \<in> set sp. l \<notin> set w \<and> (\<forall>c \<in> set t. \<not> ascii_graph c)" and "\<forall>c \<in> set w. ascii_graph c"
  shows "bytes_map sp s = w \<longleftrightarrow> map lower_char s = w"
  using assms
proof (induction sp s arbitrary: w rule: bytes_map.induct)
  case (2 sp c cs)
  show ?case
  proof (cases "find (\<lambda>(t, _). t \<noteq> [] \<and> prefix t (c # cs)) sp")
    case None
    show ?thesis
    proof (cases w)
      case (Cons x xs)
      have "\<forall>(t, l) \<in> set sp. l \<notin> set xs \<and> (\<forall>c \<in> set t. \<not> ascii_graph c)" "\<forall>c \<in> set xs. ascii_graph c"
        using 2(3,4) Cons by auto
      from 2(1) [OF None this] show ?thesis by (simp add: Cons None)
    qed (simp add: None)
  next
    case (Some p)
    obtain t l where p: "p = (t, l)" by (cases p)
    have t: "(t, l) \<in> set sp" "t \<noteq> []" "prefix t (c # cs)"
      using find_Some_mem [OF Some] p by auto
    then have "\<not> ascii_graph c" using 2(3) by (cases t) auto
    then have "lower_char c \<notin> set w" using 2(4) by (auto simp: lower_char_other)
    moreover have "l \<notin> set w" using t 2(3) by auto
    ultimately show ?thesis using Some p by auto
  qed
qed simp

lemma load_balancer_spelling: "normalizeServiceType t = ''LoadBalancer'' \<longleftrightarrow> normalizedServiceType t = ''loadbalancer''"
proof -
  have name: "fold_case ''LoadBalancer'' = ''loadbalancer''" by code_simp
  have fold: "fold_case s = ''loadbalancer'' \<longleftrightarrow> map lower_char s = ''loadbalancer''" for s
    unfolding fold_case_def by (rule bytes_map_word) code_simp+
  have lower: "ToLower s = ''loadbalancer'' \<longleftrightarrow> map lower_char s = ''loadbalancer''" for s
    unfolding ToLower_def by (rule bytes_map_word) code_simp+
  have "EqualFold (TrimSpace t) ''LoadBalancer'' \<longleftrightarrow> ToLower (TrimSpace t) = ''loadbalancer''"
    unfolding EqualFold_def name fold lower ..
  then show ?thesis by (simp add: normalizeServiceType_def normalizedServiceType_def Let_def)
qed


text \<open>The client generates an Ingress just for the projects that the service publishes under a shared address, given a
  base domain, however the service type is written.\<close>

theorem ingress_iff_shared_address:
  "resolveServiceExposure (p_ServiceType p) (p_DedicatedLoadBalancer p) base = (''ClusterIP'', True)
     \<longleftrightarrow> usesSharedProjectIngress p \<and> TrimSpace base \<noteq> ''''"
  unfolding usesSharedProjectIngress_def load_balancer_spelling [symmetric]
  by (simp add: resolveServiceExposure_def Let_def)

text \<open>A request without a service type is a load balancer for the client, whatever the type of the project is: an Ingress
  is generated for a project that the service regards as internal.\<close>

lemma blank_type_is_exposed:
  assumes "ib_serviceType st = ''LoadBalancer''"
  shows "length (bootstrap_files sample_client pid sample_bootstrap st) = 4"
    and "\<not> usesSharedProjectIngress (p\<lparr>p_ServiceType := ''ClusterIP''\<rparr>)"
proof -
  have "normalizeServiceType '''' = ''''" "resolveServiceExposure ''LoadBalancer'' False ''apps.example.com'' = (''ClusterIP'', True)"
    "TrimSpace '''' = ''''" "normalizedServiceType ''ClusterIP'' = ''clusterip''"
    by code_simp+
  with assms show "length (bootstrap_files sample_client pid sample_bootstrap st) = 4"
    and "\<not> usesSharedProjectIngress (p\<lparr>p_ServiceType := ''ClusterIP''\<rparr>)"
    by (simp_all add: bootstrap_files_def Let_def sample_bootstrap_def sample_client_def usesSharedProjectIngress_def)
qed

text \<open>The host of that Ingress is not the one that the service publishes.\<close>

lemma published_address_is_not_the_ingress_host:
  assumes "effectiveBaseDomain w p \<noteq> ''''" and "sanitizeName (p_ID p) = p_ID p"
  shows "projectPublicURL w p \<noteq> with_port w (ingress_host name (p_ID p) ''production'' (effectiveBaseDomain w p))"
proof
  assume "projectPublicURL w p = with_port w (ingress_host name (p_ID p) ''production'' (effectiveBaseDomain w p))"
  then have "p_ID p @ ''.'' @ effectiveBaseDomain w p = ingress_host name (p_ID p) ''production'' (effectiveBaseDomain w p)"
    using assms(1) by (auto simp: projectPublicURL_def Let_def dest: with_port_inj)
  with assms(2) have "length (''.'' @ effectiveBaseDomain w p) =
      length (sanitizeName name @ ''.'' @ ''.'' @ effectiveBaseDomain w p)"
    by (simp add: ingress_host_def)
  then show False by simp
qed

lemma digits_value_less: "list_all is_digit ds \<Longrightarrow> digits_value ds < 10 ^ length ds"
proof (induction ds rule: rev_induct)
  case (snoc d ds)
  then show ?case by (auto simp: digits_value_def is_digit_def)
qed (simp add: digits_value_def)

lemma exposeRe_digits: "exposeRe t = Some (ds, rest) \<Longrightarrow> list_all is_digit ds \<and> length ds \<le> 5"
  by (auto simp: exposeRe_def Let_def list_all_iff split: option.splits if_splits
      dest!: set_takeWhileD in_set_takeD)

lemma re_find_group: "re_find re bol t = Some g \<Longrightarrow> \<exists>u rest. re u = Some (g, rest)"
  by (induction re bol t rule: re_find.induct) (auto split: option.splits if_splits)

text \<open>A port read from a Dockerfile has at most five digits.\<close>

theorem detected_port_bounds: "0 \<le> detectPortFromDockerfile t \<and> detectPortFromDockerfile t \<le> 99999"
proof (cases "re_find exposeRe True t")
  case (Some ds)
  then obtain u rest where "exposeRe u = Some (ds, rest)" using re_find_group by blast
  then have "list_all is_digit ds" "length ds \<le> 5" using exposeRe_digits by blast+
  moreover from this have "digits_value ds < 10 ^ 5"
    using digits_value_less [of ds] power_increasing [of "length ds" 5 "10 :: nat"] by linarith
  ultimately show ?thesis by (simp add: detectPortFromDockerfile_def Some)
qed (simp add: detectPortFromDockerfile_def)

lemma ports_above_the_range: "detectPortFromDockerfile ''EXPOSE 99999'' = 99999"
proof -
  have "re_find exposeRe True ''EXPOSE 99999'' = Some ''99999''" by code_simp
  moreover have "digits_value ''99999'' = 99999" by (simp add: digits_value_def)
  ultimately show ?thesis by (simp only: detectPortFromDockerfile_def option.case)
qed

end
