(* ===== verification/GoQuote.thy ===== *)
theory GoQuote
  imports GoJson Sha1
begin

text \<open>
  \<open>strconv.Quote\<close>, the verb \<open>%q\<close> of \<open>fmt\<close>: a text between double quotes, with escapes for quotes, backslashes, control
  characters, bytes that are no UTF-8 and runes that are not printable. Which runes above ASCII are printable is a
  table of Go's and a parameter here. The reader of such literals is the grammar of Go strings, which LogQL uses too;
  what it reads from a quoted text is the text, whatever its bytes are.
\<close>

section \<open>Quoting\<close>

definition rune_of :: "string \<Rightarrow> nat" where
  "rune_of t =
     (case map byte_of t of
        [a] \<Rightarrow> a
      | [a, b] \<Rightarrow> (a - 0xC0) * 64 + (b - 0x80)
      | [a, b, c] \<Rightarrow> ((a - 0xE0) * 64 + (b - 0x80)) * 64 + (c - 0x80)
      | [a, b, c, d] \<Rightarrow> (((a - 0xF0) * 64 + (b - 0x80)) * 64 + (c - 0x80)) * 64 + (d - 0x80)
      | _ \<Rightarrow> 0)"

fun hex_text :: "nat \<Rightarrow> nat \<Rightarrow> string" where
  "hex_text 0 n = []"
| "hex_text (Suc k) n = hex_text k (n div 16) @ [hex_digit (n mod 16)]"

abbreviation backslash :: char where
  "backslash \<equiv> CHR 0x5C"

definition control_escape :: "nat \<Rightarrow> char option" where
  "control_escape r =
     map_of [(7, CHR ''a''), (8, CHR ''b''), (12, CHR ''f''), (10, CHR ''n''), (13, CHR ''r''), (9, CHR ''t''), (11, CHR ''v'')] r"

text \<open>\<open>appendEscapedRune\<close>, of the bytes of one rune.\<close>

definition escaped_rune :: "(nat \<Rightarrow> bool) \<Rightarrow> string \<Rightarrow> string" where
  "escaped_rune printable t =
     (let r = rune_of t
      in if r = 0x22 \<or> r = 0x5C then backslash # t
         else if (if r < 0x80 then 0x20 \<le> r \<and> r \<le> 0x7E else printable r) then t
         else case control_escape r of
                Some c \<Rightarrow> [backslash, c]
              | None \<Rightarrow>
                  if r < 0x20 \<or> r = 0x7F then [backslash, CHR ''x''] @ hex_text 2 r
                  else if r < 0x10000 then [backslash, CHR ''u''] @ hex_text 4 r
                  else [backslash, CHR ''U''] @ hex_text 8 r)"

function quote_chars :: "(nat \<Rightarrow> bool) \<Rightarrow> string \<Rightarrow> string" where
  "quote_chars printable [] = []"
| "quote_chars printable (c # cs) =
     (let n = utf8_len (c # cs)
      in if n = 0 then [backslash, CHR ''x''] @ hex_text 2 (byte_of c) @ quote_chars printable cs
         else escaped_rune printable (take n (c # cs)) @ quote_chars printable (drop (n - 1) cs))"
  by pat_completeness auto
termination
  by (relation "measure (\<lambda>(p, s). length s)") auto

definition Quote :: "(nat \<Rightarrow> bool) \<Rightarrow> string \<Rightarrow> string" where
  "Quote printable s = CHR 0x22 # quote_chars printable s @ [CHR 0x22]"

section \<open>Reading\<close>

definition read_hex :: "nat \<Rightarrow> string \<Rightarrow> nat option" where
  "read_hex k s =
     (let ds = map hex_value (take k s)
      in if length ds = k \<and> None \<notin> set ds then Some (foldl (\<lambda>n d. n * 16 + the d) 0 ds) else None)"

definition plain_escape :: "char \<Rightarrow> char option" where
  "plain_escape e =
     map_of [(CHR ''a'', CHR 0x07), (CHR ''b'', CHR 0x08), (CHR ''f'', CHR 0x0C), (CHR ''n'', CHR 0x0A), (CHR ''r'', CHR 0x0D),
       (CHR ''t'', CHR 0x09), (CHR ''v'', CHR 0x0B), (backslash, backslash), (CHR 0x22, CHR 0x22)] e"

text \<open>What follows an opening quote: the text and what is left after the closing quote.\<close>

function read_quoted :: "string \<Rightarrow> (string \<times> string) option" where
  "read_quoted [] = None"
| "read_quoted (c # cs) =
     (if c = CHR 0x22 then Some ([], cs)
      else if c = CHR 0x0A then None
      else if c = backslash
      then (case cs of
              [] \<Rightarrow> None
            | e # r \<Rightarrow>
               if e = CHR ''x'' then Option.bind (read_hex 2 r) (\<lambda>n. map_option (apfst ((#) (char_at n))) (read_quoted (drop 2 r)))
               else if e = CHR ''u'' then Option.bind (read_hex 4 r) (\<lambda>n. map_option (apfst ((@) (utf8_rune n))) (read_quoted (drop 4 r)))
               else if e = CHR ''U'' then Option.bind (read_hex 8 r) (\<lambda>n. map_option (apfst ((@) (utf8_rune n))) (read_quoted (drop 8 r)))
               else Option.bind (plain_escape e) (\<lambda>x. map_option (apfst ((#) x)) (read_quoted r)))
      else map_option (apfst ((#) c)) (read_quoted cs))"
  by pat_completeness auto
termination
  by (relation "measure length") auto

section \<open>Lemmas\<close>

lemma length_hex_text [simp]: "length (hex_text k n) = k"
  by (induction k arbitrary: n) simp_all

lemma hex_value_digit: "n < 16 \<Longrightarrow> hex_value (hex_digit n) = Some n"
proof -
  assume "n < 16"
  then have "n \<in> set [0..<16]" by simp
  moreover have "list_all (\<lambda>n. hex_value (hex_digit n) = Some n) [0..<16]" by code_simp
  ultimately show ?thesis by (simp add: list_all_iff)
qed

lemma hex_text_values: "None \<notin> set (map hex_value (hex_text k n))"
  by (induction k arbitrary: n) (auto simp: hex_value_digit)

lemma hex_text_value: "n < 16 ^ k \<Longrightarrow> foldl (\<lambda>n d. n * 16 + the d) 0 (map hex_value (hex_text k n)) = n"
proof (induction k arbitrary: n)
  case (Suc k)
  then have "n div 16 < 16 ^ k" by (simp add: less_mult_imp_div_less mult.commute)
  with Suc.IH [of "n div 16"] show ?case by (simp add: hex_value_digit)
qed simp

lemma read_hex_text: "n < 16 ^ k \<Longrightarrow> read_hex k (hex_text k n @ rest) = Some n"
  using hex_text_values [of k n] hex_text_value [of n k] by (simp add: read_hex_def Let_def)

lemma byte_split: "lo \<le> byte_of c \<Longrightarrow> \<exists>p. c = char_at (lo + p) \<and> byte_of c = lo + p"
  by (metis char_at_byte_of le_iff_add)

definition proper_rune :: "string \<Rightarrow> bool" where
  "proper_rune t \<longleftrightarrow> utf8_rune (rune_of t) = t \<and> rune_of t < 0x110000
     \<and> (rune_of t < 0x80 \<longrightarrow> t = [char_at (rune_of t)]) \<and> (0x80 \<le> rune_of t \<longrightarrow> list_all (\<lambda>c. 0x80 \<le> byte_of c) t)"

lemma rune_1: "byte_of a < 0x80 \<Longrightarrow> proper_rune [a]"
  by (simp add: proper_rune_def rune_of_def utf8_rune_def)

lemma rune_2:
  assumes "0xC2 \<le> byte_of a" "byte_of a \<le> 0xDF" "0x80 \<le> byte_of b" "byte_of b \<le> 0xBF"
  shows "proper_rune [a, b]"
proof -
  obtain p q where a: "a = char_at (0xC0 + p)" "byte_of a = 0xC0 + p" and b: "b = char_at (0x80 + q)" "byte_of b = 0x80 + q"
    using byte_split [of "0xC0" a] byte_split [of "0x80" b] assms by auto
  have r: "rune_of [a, b] = p * 64 + q" by (simp add: rune_of_def a(2) b(2))
  have "2 \<le> p" "p < 32" "q < 64" using assms a(2) b(2) by linarith+
  then show ?thesis
    unfolding proper_rune_def r using a b by (auto simp: utf8_rune_def)
qed

lemma base_64: "s < 64 \<Longrightarrow> (p * 64 + s) div 64 = (p :: nat) \<and> (p * 64 + s) mod 64 = s"
  by simp

lemma rune_3:
  assumes "0xE0 \<le> byte_of a" "byte_of a \<le> 0xEF" "0x80 \<le> byte_of b" "byte_of b \<le> 0xBF" "0x80 \<le> byte_of c" "byte_of c \<le> 0xBF"
    and "byte_of a = 0xE0 \<longrightarrow> 0xA0 \<le> byte_of b"
  shows "proper_rune [a, b, c]"
proof -
  obtain p q s where a: "a = char_at (0xE0 + p)" "byte_of a = 0xE0 + p" and b: "b = char_at (0x80 + q)" "byte_of b = 0x80 + q"
    and c: "c = char_at (0x80 + s)" "byte_of c = 0x80 + s"
    using byte_split [of "0xE0" a] byte_split [of "0x80" b] byte_split [of "0x80" c] assms by auto
  define r where "r = (p * 64 + q) * 64 + s"
  have r: "rune_of [a, b, c] = r" by (simp add: rune_of_def a(2) b(2) c(2) r_def)
  have q: "p < 16" "q < 64" "s < 64" and "p = 0 \<longrightarrow> 32 \<le> q" using assms a(2) b(2) c(2) by linarith+
  then have "0x800 \<le> r \<and> r < 0x10000" unfolding r_def by (cases p) auto
  moreover have "r div 64 = p * 64 + q" "r mod 64 = s" "r div 4096 = r div 64 div 64"
    using q(3) base_64 [of s "p * 64 + q"] div_mult2_eq [of r 64 64] by (simp_all only: r_def) simp_all
  ultimately show ?thesis
    unfolding proper_rune_def r using a b c base_64 [of q p] q by (auto simp: utf8_rune_def)
qed

lemma rune_4:
  assumes "0xF0 \<le> byte_of a" "byte_of a \<le> 0xF4" "0x80 \<le> byte_of b" "byte_of b \<le> 0xBF" "0x80 \<le> byte_of c" "byte_of c \<le> 0xBF"
    and "0x80 \<le> byte_of d" "byte_of d \<le> 0xBF"
    and "byte_of a = 0xF0 \<longrightarrow> 0x90 \<le> byte_of b" and "byte_of a = 0xF4 \<longrightarrow> byte_of b \<le> 0x8F"
  shows "proper_rune [a, b, c, d]"
proof -
  obtain p q s u where a: "a = char_at (0xF0 + p)" "byte_of a = 0xF0 + p" and b: "b = char_at (0x80 + q)" "byte_of b = 0x80 + q"
    and c: "c = char_at (0x80 + s)" "byte_of c = 0x80 + s" and d: "d = char_at (0x80 + u)" "byte_of d = 0x80 + u"
    using byte_split [of "0xF0" a] byte_split [of "0x80" b] byte_split [of "0x80" c] byte_split [of "0x80" d] assms by auto
  define m where "m = (p * 64 + q) * 64 + s"
  define r where "r = m * 64 + u"
  have r: "rune_of [a, b, c, d] = r" by (simp add: rune_of_def a(2) b(2) c(2) d(2) r_def m_def)
  have q: "p \<le> 4" "q < 64" "s < 64" "u < 64" and edge: "p = 0 \<longrightarrow> 16 \<le> q" "p = 4 \<longrightarrow> q \<le> 15"
    using assms a(2) b(2) c(2) d(2) by linarith+
  have "0x10000 \<le> r" using q edge(1) unfolding r_def m_def by (cases "p = 0") simp_all
  moreover have "r < 0x110000" using q edge(2) unfolding r_def m_def by (cases "p = 4") simp_all
  moreover have m: "m div 64 = p * 64 + q" "m mod 64 = s"
    using base_64 [OF q(3), of "p * 64 + q"] unfolding m_def by simp_all
  moreover have "r div 64 = m" "r mod 64 = u" "r div 4096 = r div 64 div 64" "r div 262144 = r div 64 div 64 div 64"
    using base_64 [OF q(4), of m] div_mult2_eq [of r 64 64] div_mult2_eq [of r 4096 64] unfolding r_def by simp_all
  ultimately show ?thesis
    unfolding proper_rune_def r using a b c d base_64 [OF q(2), of p] by (auto simp: utf8_rune_def)
qed

lemma utf8_len_proper:
  assumes "utf8_len s \<noteq> 0"
  shows "proper_rune (take (utf8_len s) s)"
proof (cases s)
  case (Cons a s1)
  show ?thesis
  proof (cases s1)
    case Nil
    with Cons assms show ?thesis by (auto simp: utf8_len_def cont_byte_def Let_def split: if_splits intro: rune_1)
  next
    case s1: (Cons b s2)
    show ?thesis
    proof (cases s2)
      case Nil
      with Cons s1 assms show ?thesis
        by (auto simp: utf8_len_def cont_byte_def Let_def split: if_splits intro: rune_1 rune_2)
    next
      case s2: (Cons c s3)
      show ?thesis
      proof (cases s3)
        case Nil
        with Cons s1 s2 assms show ?thesis
          by (auto simp: utf8_len_def cont_byte_def Let_def split: if_splits intro!: rune_1 rune_2 rune_3)
      next
        case s3: (Cons d s4)
        with Cons s1 s2 assms show ?thesis
          by (auto simp: utf8_len_def cont_byte_def Let_def split: if_splits intro!: rune_1 rune_2 rune_3 rune_4)
      qed
    qed
  qed
qed (use assms in \<open>simp add: utf8_len_def\<close>)

section \<open>What is read is what was quoted\<close>

lemma char_at_eq: "n < 256 \<Longrightarrow> char_at n = c \<longleftrightarrow> n = byte_of c"
  by (metis byte_of_char_at char_at_byte_of)

lemma mark_bytes: "byte_of (CHR 0x22) = 0x22" "byte_of backslash = 0x5C" "byte_of (CHR 0x0A) = 0x0A"
  by code_simp+

lemma read_plain:
  "c \<noteq> CHR 0x22 \<Longrightarrow> c \<noteq> CHR 0x0A \<Longrightarrow> c \<noteq> backslash \<Longrightarrow> read_quoted (c # cs) = map_option (apfst ((#) c)) (read_quoted cs)"
  by simp

lemma read_high: "list_all (\<lambda>c. 0x80 \<le> byte_of c) t \<Longrightarrow> read_quoted (t @ rest) = map_option (apfst ((@) t)) (read_quoted rest)"
proof (induction t)
  case (Cons c t)
  then have "c \<noteq> CHR 0x22 \<and> c \<noteq> CHR 0x0A \<and> c \<noteq> backslash" using mark_bytes by auto
  with Cons show ?case by (simp add: option.map_comp comp_def apfst_def map_prod_def case_prod_unfold del: read_quoted.simps add: read_plain)
qed (simp add: apfst_def map_prod_def option.map_id)

lemma read_escaped_hex:
  "n < 16 ^ 2 \<Longrightarrow> read_quoted (backslash # CHR ''x'' # hex_text 2 n @ rest) = map_option (apfst ((#) (char_at n))) (read_quoted rest)"
  "n < 16 ^ 4 \<Longrightarrow> read_quoted (backslash # CHR ''u'' # hex_text 4 n @ rest) = map_option (apfst ((@) (utf8_rune n))) (read_quoted rest)"
  "n < 16 ^ 8 \<Longrightarrow> read_quoted (backslash # CHR ''U'' # hex_text 8 n @ rest) = map_option (apfst ((@) (utf8_rune n))) (read_quoted rest)"
  using read_hex_text [of n 2 rest] read_hex_text [of n 4 rest] read_hex_text [of n 8 rest]
  by (simp_all del: hex_text.simps)

lemma read_control:
  assumes "control_escape r = Some c"
  shows "r < 0x80" and "read_quoted (backslash # c # rest) = map_option (apfst ((#) (char_at r))) (read_quoted rest)"
proof -
  from assms have "(r, c) \<in> set [(7, CHR ''a''), (8, CHR ''b''), (12, CHR ''f''), (10, CHR ''n''), (13, CHR ''r''), (9, CHR ''t''), (11, CHR ''v'')]"
    unfolding control_escape_def by (rule map_of_SomeD)
  moreover have "list_all (\<lambda>(r, c). r < 0x80 \<and> c \<notin> set ''xuU'' \<and> plain_escape c = Some (char_at r))
      [(7, CHR ''a''), (8, CHR ''b''), (12, CHR ''f''), (10, CHR ''n''), (13, CHR ''r''), (9, CHR ''t''), (11, CHR ''v'')]"
    by code_simp
  ultimately have "r < 0x80 \<and> c \<notin> set ''xuU'' \<and> plain_escape c = Some (char_at r)" unfolding list_all_iff by blast
  then show "r < 0x80" "read_quoted (backslash # c # rest) = map_option (apfst ((#) (char_at r))) (read_quoted rest)"
    by simp_all
qed

lemma read_escaped_rune:
  assumes "proper_rune t"
  shows "read_quoted (escaped_rune printable t @ rest) = map_option (apfst ((@) t)) (read_quoted rest)"
proof -
  define r where "r = rune_of t"
  have enc: "utf8_rune r = t" and small: "r < 0x110000" and low: "r < 0x80 \<Longrightarrow> t = [char_at r]"
    and high: "0x80 \<le> r \<Longrightarrow> list_all (\<lambda>c. 0x80 \<le> byte_of c) t"
    using assms by (simp_all add: proper_rune_def r_def)
  consider "r = 0x22 \<or> r = 0x5C" | "r \<noteq> 0x22" "r \<noteq> 0x5C" "if r < 0x80 then 0x20 \<le> r \<and> r \<le> 0x7E else printable r"
    | c where "r \<noteq> 0x22" "r \<noteq> 0x5C" "\<not> (if r < 0x80 then 0x20 \<le> r \<and> r \<le> 0x7E else printable r)" "control_escape r = Some c"
    | "r \<noteq> 0x22" "r \<noteq> 0x5C" "\<not> (if r < 0x80 then 0x20 \<le> r \<and> r \<le> 0x7E else printable r)" "control_escape r = None"
    by (cases "control_escape r") blast+
  then show ?thesis
  proof cases
    case 1
    then have "escaped_rune printable t = backslash # t" by (simp add: escaped_rune_def r_def [symmetric])
    moreover have "t = [CHR 0x22] \<or> t = [backslash]" using 1 low by (auto simp: char_at_eq mark_bytes)
    moreover have "plain_escape (CHR 0x22) = Some (CHR 0x22)" "plain_escape backslash = Some backslash" by code_simp+
    ultimately show ?thesis by (auto simp: apfst_def map_prod_def)
  next
    case 2
    then have esc: "escaped_rune printable t = t" by (simp add: escaped_rune_def r_def [symmetric])
    show ?thesis
    proof (cases "r < 0x80")
      case True
      with 2 low have "t = [char_at r]" "char_at r \<noteq> CHR 0x22" "char_at r \<noteq> CHR 0x0A" "char_at r \<noteq> backslash"
        by (auto simp: char_at_eq mark_bytes)
      then show ?thesis unfolding esc by (simp del: read_quoted.simps add: read_plain apfst_def map_prod_def)
    qed (use high esc read_high in simp)
  next
    case 3
    then have "escaped_rune printable t = [backslash, c]" by (simp add: escaped_rune_def r_def [symmetric])
    with read_control [OF 3(4)] low show ?thesis by (simp del: read_quoted.simps add: apfst_def map_prod_def)
  next
    case 4
    then have "escaped_rune printable t =
        (if r < 0x20 \<or> r = 0x7F then [backslash, CHR ''x''] @ hex_text 2 r
         else if r < 0x10000 then [backslash, CHR ''u''] @ hex_text 4 r else [backslash, CHR ''U''] @ hex_text 8 r)"
      by (simp add: escaped_rune_def r_def [symmetric])
    with small low enc read_escaped_hex [of r rest] show ?thesis
      by (auto simp del: read_quoted.simps hex_text.simps simp: apfst_def map_prod_def)
  qed
qed

lemma read_quote_chars: "read_quoted (quote_chars printable s @ CHR 0x22 # rest) = Some (s, rest)"
proof (induction printable s rule: quote_chars.induct)
  case (2 printable c cs)
  let ?n = "utf8_len (c # cs)"
  show ?case
  proof (cases "?n = 0")
    case True
    with 2 show ?thesis
      using read_escaped_hex(1) [of "byte_of c"]
      by (simp del: read_quoted.simps hex_text.simps)
  next
    case False
    then have "c # cs = take ?n (c # cs) @ drop (?n - 1) cs"
      by (metis append_take_drop_id drop_Cons')
    with False 2 read_escaped_rune [OF utf8_len_proper [OF False]] show ?thesis
      by (simp del: read_quoted.simps add: Let_def)
  qed
qed simp

end
