(* ===== verification/LokiReader.thy ===== *)
theory LokiReader
  imports GoQuote GoParse GoDuration KubeObjects KubeNames Calls Requests
begin

text \<open>
  The reader of logs, \<open>internal/integration/logs/loki.go\<close>: the LogQL query of a request, the request to Loki and
  the entries of its answer. The answers, the readings of the clock and the order in which the sort leaves entries of
  the same time are parameters.
\<close>

section \<open>The query\<close>

definition query_matchers :: "string \<Rightarrow> ProjectLogsRequest \<Rightarrow> (string \<times> string) list" where
  "query_matchers namespace request =
     (let stage = TrimSpace (pl_StageSlug request); pod = TrimSpace (pl_Pod request); cont = TrimSpace (pl_Container request)
      in [(''namespace'', namespace)] @ (if stage \<noteq> '''' then [(''stage'', stage)] else [])
         @ (if pod \<noteq> '''' then [(''pod'', pod)] else []) @ (if cont \<noteq> '''' then [(''container'', cont)] else []))"

definition buildQuery :: "(nat \<Rightarrow> bool) \<Rightarrow> string \<Rightarrow> ProjectLogsRequest \<Rightarrow> string" where
  \<open>buildQuery printable namespace request =
     (let selector = map (\<lambda>(label, v). label @ ''='' @ Quote printable v) (query_matchers namespace request);
          level = ToLower (TrimSpace (pl_Level request));
          query = ''{'' @ Join selector '','' @ ''}'';
          search = TrimSpace (pl_Search request);
          query = (if search \<noteq> [] then query @ '' |= '' @ Quote printable search else query)
      in if level = ''error'' then query @ '' |~ "(?i)(error|fatal|panic)"''
         else if level = ''warn'' \<or> level = ''warning'' then query @ '' |~ "(?i)(warn|warning)"'' else query)\<close>

section \<open>Entries\<close>

definition detectLevel :: "string \<Rightarrow> string" where
  "detectLevel message =
     (let lower = ToLower message
      in if Contains lower ''panic'' \<or> Contains lower ''fatal'' \<or> Contains lower ''error'' then ''error''
         else if Contains lower ''warn'' then ''warn''
         else if Contains lower ''info'' then ''info'' else '''')"

record lokiStreamResult =
  ls_Stream :: "(string \<times> string) list"
  ls_Values :: "string list list"

definition stream_label :: "lokiStreamResult \<Rightarrow> string \<Rightarrow> string" where
  "stream_label stream key = (case map_of (ls_Stream stream) key of None \<Rightarrow> '''' | Some v \<Rightarrow> v)"

definition entry_of :: "lokiStreamResult \<Rightarrow> string list \<Rightarrow> ProjectLogEntry option" where
  "entry_of stream item =
     (if length item < 2 then None
      else map_option (\<lambda>ts. \<lparr>le_Timestamp = ts, le_Pod = TrimSpace (stream_label stream ''pod''),
             le_Container = TrimSpace (stream_label stream ''container''), le_Stage = TrimSpace (stream_label stream ''stage''),
             le_Level = detectLevel (item ! 1), le_Message = item ! 1\<rparr>) (Atoi (item ! 0)))"

text \<open>The newest entry first; \<open>sort.Slice\<close> is not stable, so the order among entries of one time is a parameter.\<close>

definition flattenEntries :: "(nat \<Rightarrow> nat) \<Rightarrow> lokiStreamResult list \<Rightarrow> ProjectLogEntry list" where
  "flattenEntries ord results =
     (let entries = concat (map (\<lambda>stream. List.map_filter (entry_of stream) (ls_Values stream)) results)
      in map snd (sort_key (\<lambda>(i, e). (- le_Timestamp e, ord i)) (enumerate 0 entries)))"

section \<open>The answer\<close>

record lokiQueryResponse =
  lo_Status :: string
  lo_Result :: "lokiStreamResult list"
  lo_Error :: string

text \<open>A map of strings: a null is an empty string, and the last member of a key wins.\<close>

definition as_string_map :: "json \<Rightarrow> (string \<times> string) list \<Rightarrow> (string \<times> string) list option" where
  "as_string_map v m =
     (case v of
        JObj kvs \<Rightarrow>
          map_option (\<lambda>new. rev new @ m)
            (those (map (\<lambda>(k, e). case e of JStr t \<Rightarrow> Some (k, t) | JNull \<Rightarrow> Some (k, '''') | _ \<Rightarrow> None) kvs))
      | _ \<Rightarrow> None)"

definition decode_stream :: "json \<Rightarrow> lokiStreamResult \<Rightarrow> lokiStreamResult option" where
  "decode_stream = as_record (\<lambda>kvs r.
     Option.bind (field as_string_map ''stream'' kvs (ls_Stream r)) (\<lambda>st.
     Option.bind (field (as_list (as_list as_string '''') []) ''values'' kvs (ls_Values r)) (\<lambda>vs.
     Some \<lparr>ls_Stream = st, ls_Values = vs\<rparr>)))"

definition decode_loki_response :: "string \<Rightarrow> lokiQueryResponse option" where
  "decode_loki_response body =
     Option.bind (json_whole body) (\<lambda>v. Option.bind (members_of v) (\<lambda>kvs.
     Option.bind (field as_string ''status'' kvs '''') (\<lambda>st.
     Option.bind (in_record ''data'' (\<lambda>kvs d.
         Option.bind (field as_string ''resultType'' kvs (fst d)) (\<lambda>t.
         Option.bind (field (as_list decode_stream \<lparr>ls_Stream = [], ls_Values = []\<rparr>) ''result'' kvs (snd d)) (\<lambda>rs.
         Some (t, rs)))) kvs ('''', [])) (\<lambda>d.
     Option.bind (field as_string ''error'' kvs '''') (\<lambda>e.
     Some \<lparr>lo_Status = st, lo_Result = snd d, lo_Error = e\<rparr>)))))"

section \<open>The request\<close>

text \<open>\<open>url.QueryEscape\<close>, and the parameters of the request, which \<open>Encode\<close> sorts by name.\<close>

definition url_plain :: "char \<Rightarrow> bool" where
  "url_plain c \<longleftrightarrow> (let n = byte_of c in 0x61 \<le> n \<and> n \<le> 0x7A \<or> 0x41 \<le> n \<and> n \<le> 0x5A \<or> 0x30 \<le> n \<and> n \<le> 0x39)
     \<or> c \<in> set ''-_.~''"

definition upper_hex :: "nat \<Rightarrow> char" where
  "upper_hex n = ''0123456789ABCDEF'' ! n"

definition QueryEscape :: "string \<Rightarrow> string" where
  "QueryEscape s =
     concat (map (\<lambda>c. if url_plain c then [c] else if c = CHR '' '' then ''+''
       else [CHR 0x25, upper_hex (byte_of c div 16), upper_hex (byte_of c mod 16)]) s)"

definition url_values :: "(string \<times> string) list \<Rightarrow> string" where
  "url_values kvs = Join (map (\<lambda>(k, v). QueryEscape k @ ''='' @ QueryEscape v) kvs) [CHR 0x26]"

datatype loki_request = LokiRequest (lq_endpoint: string) (lq_rawquery: string)

datatype loki_failure = BadURL go_error | NotBuilt go_error | NotSent go_error | NotRead go_error

record loki_response =
  lp_Code :: nat
  lp_Text :: string
  lp_Body :: string

record LokiReader =
  lk_baseURL :: string
  lk_answer :: "nat \<Rightarrow> loki_request \<Rightarrow> loki_failure + loki_response"
  lk_now :: "nat \<Rightarrow> nat \<Rightarrow> gotime"
  lk_printable :: "nat \<Rightarrow> bool"
  lk_order :: "nat \<Rightarrow> nat"
  lk_jsonError :: "string \<Rightarrow> go_error"

definition NewLokiReaderFromEnvironment :: "(string \<Rightarrow> string) \<Rightarrow> LokiReader \<Rightarrow> LokiReader option" where
  "NewLokiReaderFromEnvironment env reader =
     (let u = trim_slashes (TrimSpace (env ''LOKI_BASE_URL'')) in if u = '''' then None else Some (reader\<lparr>lk_baseURL := u\<rparr>))"

definition loki_limit :: "int \<Rightarrow> int" where
  "loki_limit requested = (let n = (if requested \<le> 0 then 200 else requested) in if n > 1000 then 1000 else n)"

definition loki_since :: "string \<Rightarrow> duration" where
  "loki_since text =
     (case (if text = '''' then None else ParseDuration text) of
        Some d \<Rightarrow> if d > 0 then d else 15 * Minute
      | None \<Rightarrow> 15 * Minute)"

definition answered_logs :: "LokiReader \<Rightarrow> string \<Rightarrow> ProjectLogsRequest \<Rightarrow> loki_failure + loki_response
    \<Rightarrow> go_error + ProjectLogsResponse" where
  "answered_logs r projectID request answer =
     (case answer of
        Inl (BadURL e) \<Rightarrow> Inl (ErrWrap ''parse loki url: '' e '''')
      | Inl (NotBuilt e) \<Rightarrow> Inl (ErrWrap ''build loki request: '' e '''')
      | Inl (NotSent e) \<Rightarrow> Inl (ErrWrap ''query loki: '' e '''')
      | Inl (NotRead e) \<Rightarrow> Inl (ErrWrap ''read loki response: '' e '''')
      | Inr response \<Rightarrow>
          if lp_Code response \<ge> 400
          then (let message = TrimSpace (lp_Body response)
                in Inl (ErrText (''loki api: '' @ (if message = '''' then lp_Text response else message))))
          else case decode_loki_response (lp_Body response) of
                 None \<Rightarrow> Inl (ErrWrap ''decode loki response: '' (lk_jsonError r (lp_Body response)) '''')
               | Some payload \<Rightarrow>
                   if lo_Status payload \<noteq> ''success''
                   then Inl (ErrText (if lo_Error payload = '''' then ''unexpected loki status'' else lo_Error payload))
                   else (let namespace = NamespaceForProject projectID
                         in Inr \<lparr>ps_ProjectID = projectID, ps_Namespace = namespace, ps_StageID = pl_StageID request,
                              ps_StageSlug = pl_StageSlug request, ps_Query = buildQuery (lk_printable r) namespace request,
                              ps_Entries = take (nat (loki_limit (pl_Limit request)))
                                (flattenEntries (lk_order r) (lo_Result payload))\<rparr>))"

definition Loki_ListProjectLogs ::
  "LokiReader \<Rightarrow> string \<Rightarrow> ProjectLogsRequest \<Rightarrow> loki_request list \<Rightarrow> (go_error + ProjectLogsResponse) \<times> loki_request list" where
  "Loki_ListProjectLogs r projectID request s =
     (if TrimSpace projectID = '''' then (Inl (ErrText ''project id is required''), s)
      else if TrimSpace (lk_baseURL r) = '''' then (Inl (ErrText ''loki is not configured''), s)
      else (let query = buildQuery (lk_printable r) (NamespaceForProject projectID) request;
                now = lk_now r (length s);
                rq = LokiRequest (lk_baseURL r @ ''/loki/api/v1/query_range'')
                  (url_values [(''direction'', ''backward''), (''end'', show_int (now 1)),
                     (''limit'', show_int (loki_limit (pl_Limit request))), (''query'', query),
                     (''start'', show_int (now 0 - loki_since (pl_Since request)))])
            in (answered_logs r projectID request (lk_answer r (length s) rq), s @ [rq])))"

section \<open>Reading a query\<close>

text \<open>LogQL as far as these queries use it: a selector of labels with quoted values, then line filters with a quoted text
  each. The first argument bounds the number of matchers and of filters.\<close>

definition read_literal :: "string \<Rightarrow> (string \<times> string) option" where
  "read_literal s = (if s \<noteq> [] \<and> hd s = CHR 0x22 then read_quoted (tl s) else None)"

fun read_selector :: "nat \<Rightarrow> string \<Rightarrow> ((string \<times> string) list \<times> string) option" where
  "read_selector 0 s = None"
| "read_selector (Suc n) s =
     (let label = takeWhile (\<lambda>c. c \<noteq> CHR ''='') s
      in Option.bind (read_literal (drop (length label + 1) s)) (\<lambda>(v, rest).
           if HasPrefix rest ''}'' then Some ([(label, v)], tl rest)
           else if HasPrefix rest '','' then map_option (apfst ((#) (label, v))) (read_selector n (tl rest))
           else None))"

fun read_filters :: "nat \<Rightarrow> string \<Rightarrow> (string \<times> string) list option" where
  "read_filters n [] = Some []"
| "read_filters 0 s = None"
| "read_filters (Suc n) s =
     (if HasPrefix s '' |= '' \<or> HasPrefix s '' |~ ''
      then Option.bind (read_literal (drop 4 s)) (\<lambda>(v, rest). map_option ((#) (take 2 (drop 1 s), v)) (read_filters n rest))
      else None)"

definition read_logql :: "string \<Rightarrow> ((string \<times> string) list \<times> (string \<times> string) list) option" where
  "read_logql s =
     (if HasPrefix s ''{''
      then Option.bind (read_selector (length s) (tl s)) (\<lambda>(ms, rest). map_option (\<lambda>fs. (ms, fs)) (read_filters (length rest) rest))
      else None)"

lemma read_literal_Quote [simp]: "read_literal (Quote printable v @ rest) = Some (v, rest)"
  by (simp add: read_literal_def Quote_def read_quote_chars)

lemma read_selector_matchers:
  assumes "ms \<noteq> []" and "length ms \<le> n" and "list_all (\<lambda>(label, _). CHR ''='' \<notin> set label) ms"
  shows "read_selector n (Join (map (\<lambda>(label, v). label @ ''='' @ Quote printable v) ms) '','' @ ''}'' @ rest) = Some (ms, rest)"
  using assms
proof (induction ms arbitrary: n)
  case (Cons m ms)
  obtain label v where m: "m = (label, v)" by (cases m)
  from Cons.prems obtain k where n: "n = Suc k" "length ms \<le> k" by (cases n) auto
  from Cons.prems m have l: "takeWhile (\<lambda>c. c \<noteq> CHR ''='') (label @ CHR ''='' # s) = label" for s
    by (subst takeWhile_append2) auto
  show ?case
  proof (cases ms)
    case Nil
    then show ?thesis by (simp add: m n Join_def l)
  next
    case (Cons m' ms')
    have "Join (map (\<lambda>(label, v). label @ ''='' @ Quote printable v) (m # ms)) '','' @ ''}'' @ rest
      = label @ CHR ''='' # Quote printable v @ CHR '','' # Join (map (\<lambda>(label, v). label @ ''='' @ Quote printable v) ms) '','' @ ''}'' @ rest"
      by (simp add: m Join_def Cons)
    with Cons.prems show ?thesis
      using Cons.IH [of k] n by (simp add: l m Cons)
  qed
qed simp

definition query_filters :: "ProjectLogsRequest \<Rightarrow> (string \<times> string) list" where
  "query_filters request =
     (let search = TrimSpace (pl_Search request); level = ToLower (TrimSpace (pl_Level request))
      in (if search \<noteq> '''' then [(''|='', search)] else [])
         @ (if level = ''error'' then [(''|~'', ''(?i)(error|fatal|panic)'')]
            else if level = ''warn'' \<or> level = ''warning'' then [(''|~'', ''(?i)(warn|warning)'')] else []))"

definition search_text :: "(nat \<Rightarrow> bool) \<Rightarrow> ProjectLogsRequest \<Rightarrow> string" where
  "search_text printable request =
     (let search = TrimSpace (pl_Search request) in if search \<noteq> '''' then '' |= '' @ Quote printable search else '''')"

definition level_text :: "ProjectLogsRequest \<Rightarrow> string" where
  \<open>level_text request =
     (let level = ToLower (TrimSpace (pl_Level request))
      in if level = ''error'' then '' |~ "(?i)(error|fatal|panic)"''
         else if level = ''warn'' \<or> level = ''warning'' then '' |~ "(?i)(warn|warning)"'' else '''')\<close>

lemma buildQuery_parts:
  "buildQuery printable ns request =
     ''{'' @ Join (map (\<lambda>(label, v). label @ ''='' @ Quote printable v) (query_matchers ns request)) '','' @ ''}''
       @ search_text printable request @ level_text request"
  by (simp add: buildQuery_def search_text_def level_text_def Let_def)

lemma read_level:
  "read_filters (Suc n) (level_text request) =
     (let level = ToLower (TrimSpace (pl_Level request))
      in Some (if level = ''error'' then [(''|~'', ''(?i)(error|fatal|panic)'')]
        else if level = ''warn'' \<or> level = ''warning'' then [(''|~'', ''(?i)(warn|warning)'')] else []))"
proof -
  have lit: \<open>read_literal ''"(?i)(error|fatal|panic)"'' = Some (''(?i)(error|fatal|panic)'', '''')\<close>
    \<open>read_literal ''"(?i)(warn|warning)"'' = Some (''(?i)(warn|warning)'', '''')\<close>
    by code_simp+
  then show ?thesis by (simp add: level_text_def Let_def)
qed

lemma read_query_filters:
  "read_filters (Suc (Suc n)) (search_text printable request @ level_text request) = Some (query_filters request)"
proof -
  have "read_filters (Suc m) ('' |= '' @ Quote printable v @ rest) = map_option ((#) (''|='', v)) (read_filters m rest)" for m v rest
    by simp
  then show ?thesis
    using read_level [of n request] read_level [of "Suc n" request]
    by (simp add: search_text_def query_filters_def Let_def del: read_filters.simps)
qed

lemma read_buildQuery:
  "read_logql (buildQuery printable ns request) = Some (query_matchers ns request, query_filters request)"
proof -
  let ?ms = "query_matchers ns request" and ?fs = "search_text printable request @ level_text request"
  let ?sel = "Join (map (\<lambda>(label, v). label @ ''='' @ Quote printable v) ?ms) '','' @ ''}'' @ ?fs"
  have ms: "?ms \<noteq> []" "length ?ms \<le> 4" "list_all (\<lambda>(label, _). CHR ''='' \<notin> set label) ?ms"
    by (simp_all add: query_matchers_def Let_def)
  have q: "buildQuery printable ns request = ''{'' @ ?sel" by (simp add: buildQuery_parts)
  have "4 \<le> length ?sel"
    by (simp add: query_matchers_def Join_def Let_def)
  with ms(2) have "read_selector (length (''{'' @ ?sel)) ?sel = Some (?ms, ?fs)"
    by (intro read_selector_matchers ms) simp
  moreover have "read_filters (length ?fs) ?fs = Some (query_filters request)"
  proof (cases "length ?fs \<ge> 2")
    case True
    then obtain n where "length ?fs = Suc (Suc n)" by (metis Suc_le_D numeral_2_eq_2 Suc_le_mono)
    then show ?thesis by (simp only: read_query_filters)
  next
    case False
    then have "?fs = []" by (auto simp: search_text_def level_text_def Let_def split: if_splits)
    then show ?thesis using read_query_filters [of 0 printable request] by simp
  qed
  ultimately show ?thesis unfolding q read_logql_def by simp
qed

text \<open>C17 A query for logs cannot leave the namespace of its project: whatever the request contains, Loki reads from the
  query exactly the labels and the filters that were asked for, the first of them the namespace, and the other labels
  only name a stage, a pod or a container.\<close>

theorem log_queries_stay_in_namespace:
  "read_logql (buildQuery printable ns request) = Some (query_matchers ns request, query_filters request)
   \<and> hd (query_matchers ns request) = (''namespace'', ns)
   \<and> set (map fst (tl (query_matchers ns request))) \<subseteq> {''stage'', ''pod'', ''container''}"
  using read_buildQuery by (auto simp: query_matchers_def Let_def)

lemma flattenEntries_newest_first:
  "sorted_wrt (\<lambda>a b. le_Timestamp b \<le> le_Timestamp a) (flattenEntries ord results)"
proof -
  let ?f = "\<lambda>(i, e). (- le_Timestamp e, ord i)"
  have "sorted (map ?f (sort_key ?f xs))" for xs :: "(nat \<times> ProjectLogEntry) list"
    by simp
  then have "sorted_wrt (\<lambda>x y. ?f x \<le> ?f y) (sort_key ?f xs)" for xs :: "(nat \<times> ProjectLogEntry) list"
    by (simp only: sorted_map)
  then have "sorted_wrt (\<lambda>x y. le_Timestamp (snd y) \<le> le_Timestamp (snd x)) (sort_key ?f xs)"
    for xs :: "(nat \<times> ProjectLogEntry) list"
    by (rule sorted_wrt_mono_rel [rotated]) auto
  then show ?thesis by (simp add: flattenEntries_def Let_def sorted_wrt_map)
qed

text \<open>The logs that a reader returns are those of the project's namespace, at most a thousand, the newest first, each
  with the level found in its text.\<close>

lemma loki_response:
  assumes "fst (Loki_ListProjectLogs r projectID request s) = Inr resp"
  shows "ps_Namespace resp = NamespaceForProject projectID"
    and "ps_Query resp = buildQuery (lk_printable r) (NamespaceForProject projectID) request"
    and "length (ps_Entries resp) \<le> 1000"
    and "sorted_wrt (\<lambda>a b. le_Timestamp b \<le> le_Timestamp a) (ps_Entries resp)"
    and "list_all (\<lambda>e. le_Level e = detectLevel (le_Message e)) (ps_Entries resp)"
proof -
  obtain results where resp: "ps_Namespace resp = NamespaceForProject projectID"
      "ps_Query resp = buildQuery (lk_printable r) (NamespaceForProject projectID) request"
      "ps_Entries resp = take (nat (loki_limit (pl_Limit request))) (flattenEntries (lk_order r) results)"
    using assms
    by (auto simp: Loki_ListProjectLogs_def answered_logs_def Let_def
        split: if_splits sum.splits loki_failure.splits option.splits)
  have "loki_limit (pl_Limit request) \<le> 1000" by (simp add: loki_limit_def Let_def)
  moreover have "list_all (\<lambda>e. le_Level e = detectLevel (le_Message e)) (flattenEntries (lk_order r) results)"
    by (auto simp: flattenEntries_def Let_def list_all_iff in_set_enumerate_eq entry_of_def List.map_filter_def
        dest!: nth_mem split: if_splits)
  ultimately show "ps_Namespace resp = NamespaceForProject projectID"
      "ps_Query resp = buildQuery (lk_printable r) (NamespaceForProject projectID) request" "length (ps_Entries resp) \<le> 1000"
      "sorted_wrt (\<lambda>a b. le_Timestamp b \<le> le_Timestamp a) (ps_Entries resp)"
      "list_all (\<lambda>e. le_Level e = detectLevel (le_Message e)) (ps_Entries resp)"
    using resp sorted_wrt_take [OF flattenEntries_newest_first]
    by (auto simp: list_all_iff dest: in_set_takeD)
qed

definition sample_logs_body :: string where
  \<open>sample_logs_body =
     ''{"status":"success","data":{"result":[{"stream":{"pod":"a"},"values":[["1","info: up"],["x","lost"],["2","panic"]]}]}}''\<close>

definition sample_reader :: LokiReader where
  "sample_reader = \<lparr>lk_baseURL = ''http://loki:3100'',
     lk_answer = (\<lambda>_ _. Inr \<lparr>lp_Code = 200, lp_Text = ''200 OK'', lp_Body = sample_logs_body\<rparr>),
     lk_now = (\<lambda>_ _. 0), lk_printable = (\<lambda>_. True), lk_order = id, lk_jsonError = ErrText\<rparr>"

definition sample_stream :: lokiStreamResult where
  "sample_stream = \<lparr>ls_Stream = [(''pod'', ''a'')], ls_Values = [[''1'', ''info: up''], [''x'', ''lost''], [''2'', ''panic'']]\<rparr>"

lemma sample_decoded:
  "decode_loki_response sample_logs_body = Some \<lparr>lo_Status = ''success'', lo_Result = [sample_stream], lo_Error = ''''\<rparr>"
  by code_simp

text \<open>The reader of the sample answers every request.\<close>

lemma sample_logs:
  assumes "TrimSpace pid \<noteq> ''''"
  shows "\<exists>resp. fst (Loki_ListProjectLogs sample_reader pid request s) = Inr resp"
proof -
  have "TrimSpace (lk_baseURL sample_reader) = ''http://loki:3100''" by code_simp
  moreover have "\<exists>resp. answered_logs sample_reader pid request (lk_answer sample_reader n rq) = Inr resp" for n rq
    by (simp add: answered_logs_def sample_reader_def sample_decoded Let_def)
  ultimately show ?thesis
    using assms unfolding Loki_ListProjectLogs_def Let_def by simp
qed

end
