(* ===== verification/Gateways.thy ===== *)
theory Gateways
  imports KubeObjects Calls GoTime MemoryStores
begin

text \<open>
  The clients of Telegram (\<open>internal/integration/telegram/client.go\<close>) and YooKassa
  (\<open>internal/integration/yookassa\<close>), each with one request. The answers and the texts of the decoder's errors are
  parameters; a payload is the JSON value that is sent.
\<close>

datatype post_request =
  PostRequest (po_url: string) (po_headers: "(string \<times> string) list") (po_body: json)

text \<open>A request cannot be built, cannot be sent, or its response cannot be read.\<close>

datatype post_failure = PostBuild go_error | PostSend go_error | PostRead go_error

type_synonym posts = "post_request list"

section \<open>Telegram\<close>

record Client =
  tg_token :: string
  tg_botUsername :: string
  tg_baseURL :: string
  tg_answer :: "nat \<Rightarrow> post_request \<Rightarrow> post_failure + nat"

text \<open>\<open>None\<close> is the nil client.\<close>

definition Telegram_NewClientFromEnvironment :: "(string \<Rightarrow> string) \<Rightarrow> Client \<Rightarrow> Client option" where
  "Telegram_NewClientFromEnvironment env answers =
     (let token = TrimSpace (env ''TELEGRAM_BOT_TOKEN'')
      in if token = '''' then None
         else Some (answers\<lparr>tg_token := token,
           tg_botUsername := TrimPrefix (TrimSpace (env ''TELEGRAM_BOT_USERNAME'')) ''@'',
           tg_baseURL := ''https://api.telegram.org/bot'' @ token\<rparr>))"

definition BotUsername :: "Client option \<Rightarrow> string" where
  "BotUsername c = (case c of None \<Rightarrow> '''' | Some c \<Rightarrow> tg_botUsername c)"

definition Telegram_SendMessage :: "Client option \<Rightarrow> int \<Rightarrow> string \<Rightarrow> posts \<Rightarrow> go_error option \<times> posts" where
  "Telegram_SendMessage client chatID text s =
     (case client of
        None \<Rightarrow> (None, s)
      | Some c \<Rightarrow>
          (let rq = PostRequest (tg_baseURL c @ ''/sendMessage'') [(''Content-Type'', ''application/json'')]
                 (JObj [(''chat_id'', JNum (show_int chatID)), (''disable_web_page_preview'', JBool True), (''text'', JStr text)])
           in (case tg_answer c (length s) rq of
                 Inl (PostBuild e) \<Rightarrow> Some e | Inl (PostSend e) \<Rightarrow> Some e | Inl (PostRead e) \<Rightarrow> Some e
               | Inr status \<Rightarrow>
                   if status < 200 \<or> status > 299
                   then Some (ErrText (''telegram sendMessage returned status '' @ show_nat status)) else None,
               s @ [rq])))"

section \<open>YooKassa\<close>

definition yookassa_defaultBaseURL :: string where
  "yookassa_defaultBaseURL = ''https://api.yookassa.ru/v3''"

record YooKassaClient =
  yc_shopID :: string
  yc_secretKey :: string
  yc_baseURL :: string
  yc_answer :: "nat \<Rightarrow> post_request \<Rightarrow> post_failure + nat \<times> string"
  yc_jsonError :: "string \<Rightarrow> go_error"

definition YooKassa_NewClient :: "string \<Rightarrow> string \<Rightarrow> YooKassaClient \<Rightarrow> YooKassaClient" where
  "YooKassa_NewClient shopID secretKey answers =
     answers\<lparr>yc_shopID := shopID, yc_secretKey := secretKey, yc_baseURL := yookassa_defaultBaseURL\<rparr>"

definition YooKassa_NewClientFromEnvironment :: "(string \<Rightarrow> string) \<Rightarrow> YooKassaClient \<Rightarrow> YooKassaClient option" where
  "YooKassa_NewClientFromEnvironment env answers =
     (let shopID = TrimSpace (env ''YOOKASSA_SHOP_ID''); secretKey = TrimSpace (env ''YOOKASSA_SECRET_KEY'')
      in if shopID = '''' \<or> secretKey = '''' then None else Some (YooKassa_NewClient shopID secretKey answers))"

record createPaymentRequest =
  cp_Value :: string
  cp_Currency :: string
  cp_ConfirmationType :: string
  cp_ReturnURL :: string
  cp_Description :: string
  cp_Metadata :: "(string \<times> string) list"
  cp_Capture :: bool

text \<open>The fields in the order of the struct, those marked \<open>omitempty\<close> left out when empty; a map by its sorted keys.\<close>

definition payment_json :: "createPaymentRequest \<Rightarrow> json" where
  "payment_json r =
     JObj ([(''amount'', JObj [(''value'', JStr (cp_Value r)), (''currency'', JStr (cp_Currency r))]),
         (''confirmation'', JObj [(''type'', JStr (cp_ConfirmationType r)), (''return_url'', JStr (cp_ReturnURL r))])]
       @ (if cp_Description r \<noteq> '''' then [(''description'', JStr (cp_Description r))] else [])
       @ (if cp_Metadata r \<noteq> [] then [(''metadata'', JObj (map (apsnd JStr) (sort_key fst (cp_Metadata r))))] else [])
       @ [(''capture'', JBool (cp_Capture r))])"

record apiError =
  ae_Code :: string
  ae_Description :: string

definition decode_api_error :: "string \<Rightarrow> apiError option" where
  "decode_api_error body =
     Option.bind (json_whole body) (\<lambda>v. Option.bind (members_of v) (\<lambda>kvs.
     Option.bind (field as_string ''type'' kvs '''') (\<lambda>_. Option.bind (field as_string ''id'' kvs '''') (\<lambda>_.
     Option.bind (field as_string ''code'' kvs '''') (\<lambda>c. Option.bind (field as_string ''description'' kvs '''') (\<lambda>d.
     Option.bind (field as_string ''parameter'' kvs '''') (\<lambda>_. Some \<lparr>ae_Code = c, ae_Description = d\<rparr>)))))))"

text \<open>The identifier and the confirmation URL of a created payment.\<close>

definition createPaymentResponse :: "string \<Rightarrow> (string \<times> string) option" where
  "createPaymentResponse body =
     Option.bind (json_whole body) (\<lambda>v. Option.bind (members_of v) (\<lambda>kvs.
     Option.bind (field as_string ''id'' kvs '''') (\<lambda>i. Option.bind (field as_string ''status'' kvs '''') (\<lambda>_.
     Option.bind (in_record ''confirmation'' (\<lambda>kvs d.
         Option.bind (field as_string ''type'' kvs (fst d)) (\<lambda>t.
         map_option (Pair t) (field as_string ''confirmation_url'' kvs (snd d)))) kvs ('''', '''')) (\<lambda>d.
     Some (i, snd d))))))"

definition payment_result :: "YooKassaClient \<Rightarrow> post_failure + nat \<times> string \<Rightarrow> go_error + string \<times> string" where
  "payment_result c answer =
     (case answer of
        Inl (PostBuild e) \<Rightarrow> Inl (ErrWrap ''create request: '' e '''')
      | Inl (PostSend e) \<Rightarrow> Inl (ErrWrap ''send request: '' e '''')
      | Inl (PostRead e) \<Rightarrow> Inl (ErrWrap ''read response: '' e '''')
      | Inr (status, body) \<Rightarrow>
          if status \<noteq> 200 \<and> status \<noteq> 201
          then Inl (ErrText (case decode_api_error body of
                 Some e \<Rightarrow> if ae_Description e \<noteq> '''' then ''yookassa error '' @ ae_Code e @ '': '' @ ae_Description e
                   else ''yookassa HTTP '' @ show_nat status @ '': '' @ body
               | None \<Rightarrow> ''yookassa HTTP '' @ show_nat status @ '': '' @ body))
          else (case createPaymentResponse body of
                  None \<Rightarrow> Inl (ErrWrap ''unmarshal response: '' (yc_jsonError c body) '''')
                | Some p \<Rightarrow> Inr p))"

definition YooKassa_CreatePayment ::
  "YooKassaClient \<Rightarrow> f64 \<Rightarrow> string \<Rightarrow> string \<Rightarrow> string \<Rightarrow> (string \<times> string) list \<Rightarrow> posts
   \<Rightarrow> (go_error + string \<times> string) \<times> posts" where
  "YooKassa_CreatePayment c amountRUB idempotenceKey returnURL description metadata s =
     (let body = payment_json \<lparr>cp_Value = format_2f amountRUB, cp_Currency = ''RUB'', cp_ConfirmationType = ''redirect'',
            cp_ReturnURL = returnURL, cp_Description = description, cp_Metadata = metadata, cp_Capture = True\<rparr>;
          rq = PostRequest (yc_baseURL c @ ''/payments'')
            [(''Authorization'', ''Basic '' @ StdEncode (yc_shopID c @ '':'' @ yc_secretKey c)),
             (''Content-Type'', ''application/json''), (''Idempotence-Key'', idempotenceKey)] body
      in (payment_result c (yc_answer c (length s) rq), s @ [rq]))"

section \<open>Properties\<close>

lemma rnd_even_near: "\<bar>of_int (rnd_even x) - x\<bar> \<le> (1 / 2 :: rat)"
proof -
  have "of_int \<lfloor>x\<rfloor> \<le> x" "x < of_int \<lfloor>x\<rfloor> + 1" by linarith+
  then show ?thesis unfolding rnd_even_def Let_def by (auto simp: abs_le_iff)
qed

lemma payment_json_amount:
  "\<exists>rest. payment_json p = JObj ((''amount'', JObj [(''value'', JStr (cp_Value p)), (''currency'', JStr (cp_Currency p))]) # rest)"
  by (simp add: payment_json_def)

text \<open>C18 The amount that is charged is the amount that was asked for, to half a kopeck: a payment sends one request, whose
  value is a number of roubles with two decimals that differs from the amount by at most 0.005.\<close>

theorem charged_amount_is_rounded:
  assumes "0 \<le> r"
  shows "\<exists>rq k rest. snd (YooKassa_CreatePayment c (Fin r) key returnURL description metadata s) = s @ [rq]
    \<and> po_body rq = JObj ((''amount'', JObj [(''value'', JStr (show_nat (k div 100) @ ''.'' @ pad_nat 2 (k mod 100))),
        (''currency'', JStr ''RUB'')]) # rest)
    \<and> \<bar>of_nat k / 100 - r\<bar> \<le> 1 / 200"
proof -
  define k where "k = nat (rnd_even (\<bar>r\<bar> * 100))"
  have "format_2f (Fin r) = show_nat (k div 100) @ ''.'' @ pad_nat 2 (k mod 100)"
    using assms by (simp add: format_2f_def k_def Let_def)
  moreover have "0 \<le> \<lfloor>r * 100\<rfloor>" using assms by simp
  then have "0 \<le> rnd_even (r * 100)" by (simp add: rnd_even_def Let_def)
  then have k: "of_nat k = (of_int (rnd_even (r * 100)) :: rat)" using assms by (simp add: k_def)
  have near: "\<bar>of_int (rnd_even (r * 100)) - r * 100\<bar> \<le> 1 / 2" by (rule rnd_even_near)
  have "\<bar>of_nat k / 100 - r\<bar> \<le> 1 / 200" using near unfolding k [symmetric] by linarith
  ultimately show ?thesis
    using payment_json_amount [of "\<lparr>cp_Value = format_2f (Fin r), cp_Currency = ''RUB'', cp_ConfirmationType = ''redirect'',
      cp_ReturnURL = returnURL, cp_Description = description, cp_Metadata = metadata, cp_Capture = True\<rparr>"]
    by (simp only: YooKassa_CreatePayment_def Let_def snd_conv append_same_eq same_append_eq) auto
qed

definition sample_shop :: YooKassaClient where
  "sample_shop = YooKassa_NewClient ''shop'' ''key'' \<lparr>yc_shopID = '''', yc_secretKey = '''', yc_baseURL = '''',
     yc_answer = (\<lambda>_ _. Inl (PostSend (ErrText ''no route''))), yc_jsonError = ErrText\<rparr>"

theorem charged_amount_is_rounded_witness:
  "\<exists>rq k rest. snd (YooKassa_CreatePayment sample_shop (Fin (1999 / 2)) ''id'' ''u'' ''d'' [] []) = [] @ [rq]
    \<and> po_body rq = JObj ((''amount'', JObj [(''value'', JStr (show_nat (k div 100) @ ''.'' @ pad_nat 2 (k mod 100))),
        (''currency'', JStr ''RUB'')]) # rest)
    \<and> \<bar>of_nat k / 100 - 1999 / 2\<bar> \<le> (1 / 200 :: rat)"
  by (rule charged_amount_is_rounded) simp

text \<open>What is credited later is not rounded: an account can be credited a little more than was charged.\<close>

lemma part_of_a_kopeck_is_not_charged: "format_2f (Fin (257 / 256)) = ''1.00''"
  by code_simp

end
