(* ===== verification/Wiring.thy ===== *)
theory Wiring
  imports Server Environments Collector Delivery LokiReader Gateways
begin

text \<open>
  \<open>app.New\<close>: the configuration from the environment, and the services joined to the clients behind their ports. The world of
  the services, a parameter in the other theories, is here the one that the models of the clients make of what is
  outside the process: the cluster, GitHub, Loki, Telegram, YooKassa, the clock and the random source.
\<close>

section \<open>Settings\<close>

text \<open>\<open>hex.DecodeString\<close>.\<close>

fun decode_hex :: "string \<Rightarrow> byte list option" where
  "decode_hex [] = Some []"
| "decode_hex [c] = None"
| "decode_hex (a # b # r) =
     (case (hex_value a, hex_value b) of
        (Some x, Some y) \<Rightarrow> map_option ((#) (word_of_nat (16 * x + y))) (decode_hex r) | _ \<Rightarrow> None)"

text \<open>The key of the cipher; a missing or an invalid one becomes the key of zeros.\<close>

definition buildCryptoService :: "(string \<Rightarrow> string) \<Rightarrow> byte list" where
  "buildCryptoService env =
     (let keyHex = TrimSpace (env ''ENCRYPTION_KEY'')
      in if keyHex = '''' then replicate 32 0
         else case decode_hex keyHex of
                None \<Rightarrow> replicate 32 0 | Some key \<Rightarrow> if length key \<noteq> 32 then replicate 32 0 else key)"

definition jwt_secret :: "(string \<Rightarrow> string) \<Rightarrow> string" where
  "jwt_secret env = (let s = TrimSpace (env ''JWT_SECRET'') in if s = '''' then ''dev-secret-change-in-production'' else s)"

definition jwt_ttl :: "(string \<Rightarrow> string) \<Rightarrow> duration" where
  "jwt_ttl env =
     (let s = TrimSpace (env ''JWT_TTL'')
      in case (if s = '''' then None else ParseDuration s) of None \<Rightarrow> 24 * Hour | Some d \<Rightarrow> d)"

section \<open>What is outside\<close>

text \<open>At each moment of a run: the answers the clients get, the clock, the random bytes, and the library functions that
  are not modelled. The steps of opening the database can fail.\<close>

record Outside =
  o_clock :: "nat \<Rightarrow> gotime"
  o_random :: "nat \<Rightarrow> byte list"
  o_linkCode :: "nat \<Rightarrow> string"
  o_rank :: "nat \<Rightarrow> string \<Rightarrow> nat"
  o_nonce :: "nat \<Rightarrow> byte list option"
  o_hash :: "nat \<Rightarrow> string \<Rightarrow> go_error + string"
  o_compare :: "nat \<Rightarrow> string \<Rightarrow> string \<Rightarrow> go_error option"
  o_sleep :: "nat \<Rightarrow> duration \<Rightarrow> go_error option"
  o_text :: "Message \<Rightarrow> string"
  o_description :: "f64 \<Rightarrow> string"
  o_cluster :: "nat \<Rightarrow> Cluster"
  o_github :: "nat \<Rightarrow> GitHubAutomation"
  o_loki :: "nat \<Rightarrow> LokiReader"
  o_telegram :: "nat \<Rightarrow> Client"
  o_yookassa :: "nat \<Rightarrow> YooKassaClient"
  o_collector :: "nat \<Rightarrow> KubectlMetricsCollector"
  o_connect :: "go_error option"
  o_ping :: "go_error option"
  o_migrate :: "go_error option"

text \<open>True with PostgreSQL, False with the stores in memory.\<close>

definition buildStore :: "(string \<Rightarrow> string) \<Rightarrow> Outside \<Rightarrow> go_error + bool" where
  "buildStore env out =
     (if TrimSpace (env ''DATABASE_URL'') = '''' then Inr False
      else case o_connect out of Some e \<Rightarrow> Inl (ErrWrap ''connect to database: '' e '''')
      | None \<Rightarrow> (case o_ping out of Some e \<Rightarrow> Inl (ErrWrap ''ping database: '' e '''')
      | None \<Rightarrow> (case o_migrate out of Some e \<Rightarrow> Inl (ErrWrap ''run migrations: '' e '''')
      | None \<Rightarrow> Inr True)))"

section \<open>The ports\<close>

definition error_of :: "(go_error + 'a) \<times> 's \<Rightarrow> go_error option" where
  "error_of m = (case fst m of Inl e \<Rightarrow> Some e | Inr _ \<Rightarrow> None)"

definition on_cluster :: "(string \<Rightarrow> string) \<Rightarrow> Outside \<Rightarrow> nat \<Rightarrow> 'r \<Rightarrow> (Cluster \<Rightarrow> 'r) \<Rightarrow> 'r" where
  "on_cluster env out n mock f = (case NewProvisionerFromEnvironment env (o_cluster out n) of None \<Rightarrow> mock | Some k \<Rightarrow> f k)"

definition mock_kubeconfig :: string where
  "mock_kubeconfig = lines_of [''apiVersion: v1'', ''clusters: []'', ''contexts: []'', ''kind: Config'', ''preferences: {}'', ''users: []'']"

definition wired_err :: "(string \<Rightarrow> string) \<Rightarrow> Outside \<Rightarrow> nat \<Rightarrow> ext_call \<Rightarrow> go_error option" where
  "wired_err env out n c =
     (let cluster = on_cluster env out n None
      in case c of
        DeleteProjectEnvironment pid \<Rightarrow> cluster (\<lambda>k. error_of (Kubectl_DeleteProjectEnvironment k pid start_runs))
      | SuspendProjectEnvironment pid \<Rightarrow> cluster (\<lambda>k. error_of (Kubectl_SuspendProjectEnvironment k pid start_runs))
      | ResumeProjectEnvironment pid \<Rightarrow> cluster (\<lambda>k. error_of (Kubectl_ResumeProjectEnvironment k pid start_runs))
      | ApplyImage pid tag \<Rightarrow> cluster (\<lambda>k. error_of (Kubectl_ApplyImage k pid tag start_runs))
      | CreateStageEnvironment pid slug \<Rightarrow> cluster (\<lambda>k. error_of (Kubectl_CreateStageEnvironment k pid slug start_runs))
      | DeleteStageEnvironment pid slug \<Rightarrow> cluster (\<lambda>k. error_of (Kubectl_DeleteStageEnvironment k pid slug start_runs))
      | ApplyImageToStage pid slug tag \<Rightarrow> cluster (\<lambda>k. error_of (Kubectl_ApplyImageToStage k pid slug tag start_runs))
      | SendMessage chat m \<Rightarrow>
          fst (Telegram_SendMessage (Telegram_NewClientFromEnvironment env (o_telegram out n)) chat (o_text out m) [])
      | Sleep d \<Rightarrow> o_sleep out n d
      | ComparePassword hashed password \<Rightarrow> o_compare out n hashed password
      | _ \<Rightarrow> None)"

definition wired_text :: "(string \<Rightarrow> string) \<Rightarrow> Outside \<Rightarrow> nat \<Rightarrow> ext_call \<Rightarrow> go_error + string" where
  "wired_text env out n c =
     (case c of
        CreateProjectEnvironment pid \<Rightarrow> on_cluster env out n (Inr '''') (\<lambda>k. fst (Kubectl_CreateProjectEnvironment k pid start_runs))
      | FetchProjectKubeconfig pid \<Rightarrow>
          on_cluster env out n (Inr mock_kubeconfig) (\<lambda>k. fst (Kubectl_GetProjectKubeconfig k pid start_runs))
      | Encrypt plaintext \<Rightarrow> EncryptSecret (buildCryptoService env) (o_nonce out n) plaintext
      | Decrypt ciphertext \<Rightarrow> DecryptSecret (buildCryptoService env) ciphertext
      | HashPassword password \<Rightarrow> o_hash out n password
      | _ \<Rightarrow> Inr '''')"

definition wired_status :: "(string \<Rightarrow> string) \<Rightarrow> Outside \<Rightarrow> nat \<Rightarrow> ext_call \<Rightarrow> go_error + ProjectRuntimeStatus" where
  "wired_status env out n c =
     (case c of
        FetchProjectRuntimeStatus pid \<Rightarrow>
          on_cluster env out n (Inr (mock_runtime_status pid (NamespaceForProject pid) (o_clock out n)))
            (\<lambda>k. fst (Kubectl_GetProjectRuntimeStatus k pid start_runs))
      | FetchStageRuntimeStatus pid slug \<Rightarrow>
          on_cluster env out n (Inr (mock_runtime_status pid slug (o_clock out n)))
            (\<lambda>k. fst (Kubectl_GetStageRuntimeStatus k pid slug start_runs))
      | _ \<Rightarrow> Inl (ErrText ''''))"

definition wired_questions ::
  "(string \<Rightarrow> string) \<Rightarrow> Outside \<Rightarrow> nat \<Rightarrow> ext_call \<Rightarrow> go_error + GitHubBootstrapQuestionsResponse" where
  "wired_questions env out n c =
     (case c of
        BuildBootstrapQuestions pid request \<Rightarrow>
          (case NewAutomationFromEnvironment env (o_github out n) of
             None \<Rightarrow> Inr (mock_bootstrap_questions request) | Some a \<Rightarrow> fst (GitHub_BuildBootstrapQuestions a request []))
      | _ \<Rightarrow> Inl (ErrText ''''))"

definition wired_flow :: "(string \<Rightarrow> string) \<Rightarrow> Outside \<Rightarrow> nat \<Rightarrow> ext_call \<Rightarrow> go_error + BootstrapGitHubFlowResponse" where
  "wired_flow env out n c =
     (case c of
        BootstrapRepositoryFlow pid request \<Rightarrow>
          (case NewAutomationFromEnvironment env (o_github out n) of
             None \<Rightarrow> Inr (mock_bootstrap_flow pid request) | Some a \<Rightarrow> fst (GitHub_BootstrapRepositoryFlow a pid request []))
      | _ \<Rightarrow> Inl (ErrText ''''))"

definition wired_runs :: "(string \<Rightarrow> string) \<Rightarrow> Outside \<Rightarrow> nat \<Rightarrow> ext_call \<Rightarrow> go_error + GitHubWorkflowRunLookupResult list" where
  "wired_runs env out n c =
     (case c of
        FindLatestDeployWorkflowRun request \<Rightarrow>
          (case NewAutomationFromEnvironment env (o_github out n) of
             None \<Rightarrow> Inr [] | Some a \<Rightarrow> fst (GitHub_FindLatestDeployWorkflowRun a request []))
      | _ \<Rightarrow> Inl (ErrText ''''))"

definition wired_logs :: "(string \<Rightarrow> string) \<Rightarrow> Outside \<Rightarrow> nat \<Rightarrow> ext_call \<Rightarrow> go_error + ProjectLogsResponse" where
  "wired_logs env out n c =
     (case c of
        ReadProjectLogs pid request \<Rightarrow>
          (case NewLokiReaderFromEnvironment env (o_loki out n) of
             None \<Rightarrow> Inl ErrLogsUnavailable | Some r \<Rightarrow> fst (Loki_ListProjectLogs r pid request []))
      | _ \<Rightarrow> Inl (ErrText ''''))"

definition wired_payment :: "(string \<Rightarrow> string) \<Rightarrow> Outside \<Rightarrow> nat \<Rightarrow> ext_call \<Rightarrow> go_error + string \<times> string" where
  "wired_payment env out n c =
     (case c of
        CreatePayment amount key returnURL metadata \<Rightarrow>
          (case YooKassa_NewClientFromEnvironment env (o_yookassa out n) of
             None \<Rightarrow> Inl (ErrText '''')
           | Some y \<Rightarrow> fst (YooKassa_CreatePayment y amount key returnURL (o_description out amount) metadata []))
      | _ \<Rightarrow> Inl (ErrText ''''))"

definition wired_usage :: "(string \<Rightarrow> string) \<Rightarrow> Outside \<Rightarrow> nat \<Rightarrow> ext_call \<Rightarrow> go_error + ResourceSnapshot" where
  "wired_usage env out n c =
     (case c of
        CollectUsage pid \<Rightarrow>
          (case NewMetricsCollectorFromEnvironment env (metricsCollectorInterval (env ''METRICS_COLLECTOR_INTERVAL''))
                  (o_collector out n) of
             None \<Rightarrow> Inr mock_usage | Some m \<Rightarrow> fst (CollectProjectUsage m pid []))
      | _ \<Rightarrow> Inl (ErrText ''''))"

section \<open>The application\<close>

record Application =
  ap_Address :: string
  ap_handler :: Handler
  ap_world :: World
  ap_start :: Sys
  ap_metering :: bool

definition wired_world :: "(string \<Rightarrow> string) \<Rightarrow> Outside \<Rightarrow> bool \<Rightarrow> World" where
  "wired_world env out persistent =
     (let get = (\<lambda>name. TrimSpace (env name)); scheme = get ''APPS_PUBLIC_SCHEME'';
          telegram = Telegram_NewClientFromEnvironment env (o_telegram out 0);
          gateway = YooKassa_NewClientFromEnvironment env (o_yookassa out 0) \<noteq> None
      in \<lparr>appsBaseDomain = get ''APPS_BASE_DOMAIN'', appsURLScheme = (if scheme = '''' then ''https'' else scheme),
          appsURLPort = get ''APPS_PUBLIC_PORT'',
          monetization = (if persistent then PostgresEngine (TariffFromEnvironment env) else EngineMock), hasNotifications = True,
          hasSender = (telegram \<noteq> None), hasLogReader = (NewLokiReaderFromEnvironment env (o_loki out 0) \<noteq> None),
          hasPaymentGateway = gateway, hasPaymentStore = gateway,
          botUsername = TrimPrefix (TrimSpace (BotUsername telegram)) ''@'',
          adminTelegramUsers = SetAdminTelegramUsernames (systemTelegramAdminUsernames (env ''TELEGRAM_ADMIN_USERNAMES'')),
          defaultBalanceRUB = defaultBalance_from (env ''DEFAULT_USER_BALANCE_RUB''),
          yookassaReturn = get ''YOOKASSA_RETURN_URL'',
          clock = o_clock out, newID = (\<lambda>n. NewID (o_random out n)), newLinkCode = o_linkCode out, rank = o_rank out,
          ans_err = wired_err env out, ans_text = wired_text env out, ans_status = wired_status env out,
          ans_questions = wired_questions env out, ans_flow = wired_flow env out, ans_runs = wired_runs env out,
          ans_logs = wired_logs env out, ans_payment = wired_payment env out, ans_usage = wired_usage env out,
          new_token = (\<lambda>n uid email. Inr (GenerateToken (o_clock out n) uid email (jwt_secret env) (jwt_ttl env)))\<rparr>)"

text \<open>\<open>app.New\<close>. The metering worker runs with PostgreSQL only.\<close>

definition New :: "(string \<Rightarrow> string) \<Rightarrow> Outside \<Rightarrow> go_error + Application" where
  "New env out =
     (let get = (\<lambda>name. TrimSpace (env name)); address = get ''HTTP_ADDRESS''
      in case buildStore env out of
           Inl e \<Rightarrow> Inl (ErrWrap ''init store: '' e '''')
         | Inr persistent \<Rightarrow>
             Inr \<lparr>ap_Address = (if address = '''' then '':8080'' else address),
               ap_handler = SetTelegramWebhookSecret (get ''TELEGRAM_WEBHOOK_SECRET'')
                 \<lparr>h_jwtSecret = jwt_secret env, h_notifications = True, h_webhookSecret = get ''GITHUB_WEBHOOK_SECRET'',
                  h_telegramWebhookSecret = ''''\<rparr>,
               ap_world = wired_world env out persistent,
               ap_start = started (billingGuardGracePeriod (env ''BILLING_GUARD_GRACE_PERIOD''))
                 (billingGuardRetentionPeriod (env ''BILLING_GUARD_RETENTION_PERIOD'')),
               ap_metering = persistent\<rparr>)"

section \<open>Lemmas\<close>

lemma wired_fields:
  "ans_text (wired_world env out db) = wired_text env out" "ans_err (wired_world env out db) = wired_err env out"
  "ans_logs (wired_world env out db) = wired_logs env out" "ans_flow (wired_world env out db) = wired_flow env out"
  "clock (wired_world env out db) = o_clock out" "newID (wired_world env out db) n = NewID (o_random out n)"
  "new_token (wired_world env out db) n uid email = Inr (GenerateToken (o_clock out n) uid email (jwt_secret env) (jwt_ttl env))"
  "monetization (wired_world env out db) = (if db then PostgresEngine (TariffFromEnvironment env) else EngineMock)"
  "hasLogReader (wired_world env out db) \<longleftrightarrow> NewLokiReaderFromEnvironment env (o_loki out 0) \<noteq> None"
  by (simp_all add: wired_world_def Let_def)

lemma key_length: "length (buildCryptoService env) = 32"
  by (simp add: buildCryptoService_def Let_def split: option.split)

lemma NewE:
  assumes "New env out = Inr app"
  obtains db where "ap_world app = wired_world env out db" "h_jwtSecret (ap_handler app) = jwt_secret env"
    "ap_start app = started (billingGuardGracePeriod (env ''BILLING_GUARD_GRACE_PERIOD''))
       (billingGuardRetentionPeriod (env ''BILLING_GUARD_RETENTION_PERIOD''))"
    "ap_metering app = db" "db \<longleftrightarrow> TrimSpace (env ''DATABASE_URL'') \<noteq> ''''"
  using assms that
  by (auto simp: New_def Let_def SetTelegramWebhookSecret_def buildStore_def split: sum.splits if_splits option.splits)

lemma nonneg_or: "0 \<le> dflt \<Longrightarrow> 0 \<le> nonneg_or dflt env"
  by (simp add: nonneg_or_def Let_def split: option.split)

lemma started_periods:
  "0 \<le> g \<Longrightarrow> billingGracePeriod (started g r) = g" "0 \<le> r \<Longrightarrow> billingRetentionPeriod (started g r) = r"
  by (simp_all add: started_def SetBillingGuardRetentionPeriod_def SetBillingGuardGracePeriod_def)

text \<open>The balance of a new account is whatever \<open>ParseFloat\<close> reads, also a value that is not a number, and the life
  time of a token may be negative, so that no token is ever valid.\<close>

lemma settings_are_not_checked:
  "defaultBalanceRUB (wired_world (\<lambda>_. ''NaN'') out db) = FNaN"
  "jwt_ttl (\<lambda>_. ''-1h'') = - (1 * Hour)"
proof -
  have "defaultBalance_from ''NaN'' = FNaN" by code_simp
  then show "defaultBalanceRUB (wired_world (\<lambda>_. ''NaN'') out db) = FNaN" by (simp add: wired_world_def Let_def)
  show "jwt_ttl (\<lambda>_. ''-1h'') = - (1 * Hour)" by code_simp
qed

section \<open>Properties\<close>


text \<open>C13 Through the whole stack, an owner reads the logs of the own project only: what \<open>ListProjectLogs\<close> of the started
  application returns is for a stored project of the caller, from its namespace, by a query that Loki reads with that
  namespace as its first label, at most a thousand entries, the newest first.\<close>

theorem logs_of_own_project_only:
  assumes "New env out = Inr app" and "ListProjectLogs (ap_world app) pid uid request s = (Inr resp, s')"
  shows "map_option p_OwnerID (ProjectStore_GetByID (y_projects s) pid) = Some uid
    \<and> ps_Namespace resp = NamespaceForProject pid
    \<and> (\<exists>labels filters. read_logql (ps_Query resp) = Some ((''namespace'', NamespaceForProject pid) # labels, filters))
    \<and> length (ps_Entries resp) \<le> 1000
    \<and> sorted_wrt (\<lambda>a b. le_Timestamp b \<le> le_Timestamp a) (ps_Entries resp)"
proof -
  obtain db where app: "ap_world app = wired_world env out db" using assms(1) by (rule NewE)
  obtain p where p: "owned_project pid uid s = Inr p"
    using assms(2) by (auto simp: ListProjectLogs_def split: sum.splits)
  obtain n req where "wired_logs env out n (ReadProjectLogs pid req) = Inr resp"
    using assms(2) unfolding ListProjectLogs_def p app wired_fields
    by (auto simp: call_def Let_def split: if_splits option.splits)
  then obtain r where r: "fst (Loki_ListProjectLogs r pid req []) = Inr resp"
    by (auto simp: wired_logs_def split: option.splits)
  have "\<exists>labels. query_matchers (NamespaceForProject pid) req = (''namespace'', NamespaceForProject pid) # labels"
    by (simp add: query_matchers_def Let_def)
  then have "\<exists>labels filters. read_logql (ps_Query resp) = Some ((''namespace'', NamespaceForProject pid) # labels, filters)"
    using read_buildQuery loki_response(2) [OF r] by force
  moreover have "map_option p_OwnerID (ProjectStore_GetByID (y_projects s) pid) = Some uid"
    using p by (auto simp: owned_project_def split: option.splits if_splits)
  ultimately show ?thesis using loki_response [OF r] by simp
qed

section \<open>An application with a log reader and no database\<close>

definition sample_env :: "string \<Rightarrow> string" where
  "sample_env = (\<lambda>_. '''')(''LOKI_BASE_URL'' := ''http://loki:3100'')"

definition sample_outside :: Outside where
  "sample_outside = \<lparr>o_clock = (\<lambda>n. int n * Second), o_random = (\<lambda>n. replicate 16 (word_of_nat n)), o_linkCode = id_of,
     o_rank = (\<lambda>_. length), o_nonce = (\<lambda>n. Some (replicate 12 (word_of_nat n))), o_hash = (\<lambda>_. Inr),
     o_compare = (\<lambda>_ _ _. None), o_sleep = (\<lambda>_ _. None), o_text = (\<lambda>_. ''''), o_description = (\<lambda>_. ''''),
     o_cluster = (\<lambda>_. willing_cluster), o_github = (\<lambda>_. sample_client), o_loki = (\<lambda>_. sample_reader),
     o_telegram = (\<lambda>_. \<lparr>tg_token = '''', tg_botUsername = '''', tg_baseURL = '''',
       tg_answer = (\<lambda>_ _. Inr 200)\<rparr>),
     o_yookassa = (\<lambda>_. sample_shop), o_collector = (\<lambda>_. sample_collector),
     o_connect = None, o_ping = None, o_migrate = None\<rparr>"

lemma sample_New: "\<exists>app. New sample_env sample_outside = Inr app"
  by (simp add: New_def buildStore_def sample_env_def)


definition sample_logs_request :: ProjectLogsRequest where
  "sample_logs_request = \<lparr>pl_StageID = '''', pl_StageSlug = '''', pl_Pod = '''', pl_Container = '''', pl_Search = ''panic'',
     pl_Level = '''', pl_Since = '''', pl_Limit = 0\<rparr>"

lemma sample_loki: "NewLokiReaderFromEnvironment sample_env (o_loki sample_outside n) = Some sample_reader"
proof -
  have "trim_slashes (TrimSpace (sample_env ''LOKI_BASE_URL'')) = ''http://loki:3100''" by code_simp
  then show ?thesis by (simp add: NewLokiReaderFromEnvironment_def Let_def sample_outside_def sample_reader_def)
qed

theorem logs_of_own_project_only_witness:
  "\<exists>app resp. New sample_env sample_outside = Inr app
     \<and> fst (ListProjectLogs (ap_world app) ''p1'' ''u1'' sample_logs_request one_project) = Inr resp
     \<and> ps_Namespace resp = NamespaceForProject ''p1'' \<and> length (ps_Entries resp) \<le> 1000"
proof -
  obtain app where app: "New sample_env sample_outside = Inr app" using sample_New by blast
  then obtain db where w: "ap_world app = wired_world sample_env sample_outside db" by (rule NewE)
  have trimmed: "TrimSpace ''p1'' \<noteq> ''''" "TrimSpace '''' = ''''" by code_simp+
  have "owned_project ''p1'' ''u1'' one_project = Inr sample_project" by code_simp
  moreover obtain resp where "fst (Loki_ListProjectLogs sample_reader ''p1''
      (sample_logs_request\<lparr>pl_Limit := 200, pl_Since := ''15m''\<rparr>) []) = Inr resp"
    using sample_logs [OF trimmed(1)] by blast
  ultimately have "fst (ListProjectLogs (ap_world app) ''p1'' ''u1'' sample_logs_request one_project) = Inr resp"
    by (simp add: ListProjectLogs_def w wired_fields sample_loki wired_logs_def call_def sample_logs_request_def
        log_limit_def log_since_def Let_def trimmed)
  then show ?thesis using logs_of_own_project_only [OF app] app by (metis prod.collapse)
qed

end
