(* ===== verification/SqlTables.thy ===== *)
theory SqlTables
  imports Domain "HOL-Library.Multiset"
begin

text \<open>
  What the PostgreSQL stores use of SQL: tables as lists of rows, and statements that insert into, update or read one table.
  A statement is numbered. The record \<open>Session\<close> has what the code cannot decide: which statements fail and how, the order
  of rows that no \<open>ORDER BY\<close> fixes, what a column of type \<open>TIMESTAMPTZ\<close> keeps of a time, the case mapping of the locale,
  and the error values of the driver. The values that a column refuses (a text with a zero byte, a number out of its range)
  are failures of the statement like a lost connection.
\<close>

section \<open>Statements\<close>

text \<open>A statement is not carried out, or it is but its answer does not arrive, or the connection breaks after some rows.\<close>

datatype fault = Refused go_error | Lost go_error | Broken nat go_error

record Session =
  q_fault :: "nat \<Rightarrow> fault option"
  q_rank :: "nat \<Rightarrow> nat \<Rightarrow> nat"
  q_stamp :: "gotime \<Rightarrow> gotime"
  q_lower :: "string \<Rightarrow> string"
  q_error :: "string \<Rightarrow> go_error"

fun fault_error :: "fault \<Rightarrow> go_error" where
  "fault_error (Refused e) = e"
| "fault_error (Lost e) = e"
| "fault_error (Broken k e) = e"

text \<open>\<open>Exec\<close> of a statement, which changes the table as a whole or not at all.\<close>

definition executed :: "Session \<Rightarrow> nat \<Rightarrow> ('t \<Rightarrow> go_error + nat \<times> 't) \<Rightarrow> 't \<Rightarrow> (go_error + nat) \<times> 't" where
  "executed q n f t =
     (let (r, t') = (case f t of Inl e \<Rightarrow> (Inl e, t) | Inr (k, t') \<Rightarrow> (Inr k, t'))
      in case q_fault q n of
           None \<Rightarrow> (r, t') | Some (Refused e) \<Rightarrow> (Inl e, t) | Some why \<Rightarrow> (Inl (fault_error why), t'))"

text \<open>The table's constraints: the columns that are unique, by the name of the constraint, and the reference to another
  table.\<close>

type_synonym 'r constraint = "string \<times> ('r \<Rightarrow> 'r \<Rightarrow> bool)"

definition insert_row :: "Session \<Rightarrow> 'r constraint list \<Rightarrow> bool \<Rightarrow> 'r \<Rightarrow> 'r list \<Rightarrow> go_error + nat \<times> 'r list" where
  "insert_row q unique referenced r t =
     (case find (\<lambda>(name, same). list_ex (same r) t) unique of
        Some (name, _) \<Rightarrow> Inl (q_error q name)
      | None \<Rightarrow> if referenced then Inr (1, t @ [r]) else Inl (q_error q ''foreign key''))"

definition update_rows :: "('r \<Rightarrow> bool) \<Rightarrow> ('r \<Rightarrow> 'r) \<Rightarrow> 'r list \<Rightarrow> go_error + nat \<times> 'r list" where
  "update_rows p f t = Inr (length (filter p t), map (\<lambda>r. if p r then f r else r) t)"

text \<open>The rows that a query finds, in the order of the database.\<close>

definition found_rows :: "Session \<Rightarrow> nat \<Rightarrow> ('r \<Rightarrow> bool) \<Rightarrow> 'r list \<Rightarrow> 'r list" where
  "found_rows q n p t = map snd (sort_key (\<lambda>(i, r). q_rank q n i) (enumerate 0 (filter p t)))"

section \<open>Reading the results\<close>

text \<open>\<open>QueryRow\<close> and \<open>Scan\<close>, as the stores use them: any error is as good as no row.\<close>

definition first_row :: "Session \<Rightarrow> nat \<Rightarrow> 'r list \<Rightarrow> 'r option" where
  "first_row q n rows = (if q_fault q n \<noteq> None then None else case rows of [] \<Rightarrow> None | r # _ \<Rightarrow> Some r)"

text \<open>\<open>Query\<close> and the loop over the rows: without a look at \<open>rows.Err()\<close> a connection that breaks ends the list.\<close>

definition all_rows :: "Session \<Rightarrow> nat \<Rightarrow> 'r list \<Rightarrow> 'r list" where
  "all_rows q n rows =
     (case q_fault q n of
        None \<Rightarrow> rows | Some (Refused e) \<Rightarrow> [] | Some (Lost e) \<Rightarrow> [] | Some (Broken k e) \<Rightarrow> take k rows)"

definition checked_rows :: "Session \<Rightarrow> nat \<Rightarrow> 'r list \<Rightarrow> go_error + 'r list" where
  "checked_rows q n rows = (case q_fault q n of None \<Rightarrow> Inr rows | Some f \<Rightarrow> Inl (fault_error f))"

definition only_error :: "(go_error + nat) \<times> 't \<Rightarrow> go_error option \<times> 't" where
  "only_error m = (case m of (Inl e, t) \<Rightarrow> (Some e, t) | (Inr _, t) \<Rightarrow> (None, t))"

text \<open>The check of \<open>RowsAffected\<close>.\<close>

definition must_affect :: "go_error \<Rightarrow> (go_error + nat) \<times> 't \<Rightarrow> go_error option \<times> 't" where
  "must_affect missing m =
     (case m of (Inl e, t) \<Rightarrow> (Some e, t) | (Inr k, t) \<Rightarrow> (if k = 0 then Some missing else None, t))"

section \<open>Aggregates\<close>

text \<open>\<open>SUM\<close> of \<open>FLOAT\<close> values fails on an overflow; \<open>MAX\<close> counts NaN as the greatest. Of no rows both are null.\<close>

definition sql_plus :: "f64 option \<Rightarrow> f64 \<Rightarrow> f64 option" where
  "sql_plus a x =
     Option.bind a (\<lambda>a. case fadd a x of
       FInf m \<Rightarrow> (case (a, x) of (Fin _, Fin _) \<Rightarrow> None | _ \<Rightarrow> Some (FInf m))
     | v \<Rightarrow> Some v)"

fun sql_sum :: "f64 list \<Rightarrow> f64 option" where
  "sql_sum [] = Some (Fin 0)"
| "sql_sum (x # xs) = foldl sql_plus (Some x) xs"

definition sql_larger :: "f64 \<Rightarrow> f64 \<Rightarrow> f64" where
  "sql_larger a b = (if a = FNaN \<and> b \<noteq> FNaN \<or> a \<noteq> FNaN \<and> flt b a then a else b)"

fun sql_max :: "f64 list \<Rightarrow> f64" where
  "sql_max [] = Fin 0"
| "sql_max (x # xs) = foldl sql_larger x xs"

section \<open>Lemmas\<close>

text \<open>A session without failures.\<close>

definition healthy :: "Session \<Rightarrow> bool" where
  "healthy q \<longleftrightarrow> (\<forall>n. q_fault q n = None)"

lemma healthy_fault [simp]: "healthy q \<Longrightarrow> q_fault q n = None"
  by (simp add: healthy_def)

lemma healthy_reads [simp]:
  "healthy q \<Longrightarrow> first_row q n rows = (case rows of [] \<Rightarrow> None | r # _ \<Rightarrow> Some r)"
  "healthy q \<Longrightarrow> all_rows q n rows = rows" "healthy q \<Longrightarrow> checked_rows q n rows = Inr rows"
  by (simp_all add: first_row_def all_rows_def checked_rows_def)

lemma mset_found_rows: "mset (found_rows q n p t) = mset (filter p t)"
proof -
  have "mset (found_rows q n p t) = image_mset snd (mset (enumerate 0 (filter p t)))"
    by (simp add: found_rows_def)
  also have "\<dots> = mset (map snd (enumerate 0 (filter p t)))" by (simp only: mset_map)
  finally show ?thesis by simp
qed

lemma set_found_rows [simp]: "set (found_rows q n p t) = {r \<in> set t. p r}"
  using arg_cong [OF mset_found_rows [of q n p t], of set_mset] by simp

lemma sort_key_const: "sort_key (\<lambda>x. c) xs = xs"
proof (induction xs)
  case (Cons x xs)
  have "insort_key (\<lambda>x. c) x ys = x # ys" for ys by (cases ys) simp_all
  with Cons show ?case by simp
qed simp

lemma found_rows_in_order: "(\<And>i. q_rank q n i = 0) \<Longrightarrow> found_rows q n p t = filter p t"
  by (simp add: found_rows_def case_prod_beta' sort_key_const)

text \<open>Rows that a key identifies.\<close>

definition row_at :: "('r \<Rightarrow> 'k) \<Rightarrow> 'k \<Rightarrow> 'r list \<Rightarrow> 'r option" where
  "row_at key k t = find (\<lambda>r. key r = k) t"

lemma row_at_SomeD: "row_at key k t = Some r \<Longrightarrow> r \<in> set t \<and> key r = k"
  by (auto simp: row_at_def find_Some_iff)

lemma row_at_None: "row_at key k t = None \<longleftrightarrow> k \<notin> key ` set t"
  by (auto simp: row_at_def find_None_iff)

lemma row_at_mem:
  assumes "distinct (map key t)" "r \<in> set t"
  shows "row_at key (key r) t = Some r"
proof -
  obtain r' where r': "row_at key (key r) t = Some r'"
    using assms(2) row_at_None [of key "key r" t] by (cases "row_at key (key r) t") auto
  with row_at_SomeD [OF r'] assms show ?thesis by (metis distinct_map inj_onD)
qed

lemma row_at_append:
  "row_at key k (t @ [r]) = (case row_at key k t of None \<Rightarrow> if key r = k then Some r else None | Some x \<Rightarrow> Some x)"
  by (induction t) (auto simp: row_at_def)

lemma row_at_map:
  assumes "\<And>r. key (f r) = key r"
  shows "row_at key k (map (\<lambda>r. if p r then f r else r) t) = map_option (\<lambda>r. if p r then f r else r) (row_at key k t)"
  using assms by (induction t) (auto simp: row_at_def)

text \<open>A query for one value of a unique column.\<close>

lemma one_row:
  assumes "healthy q" "distinct (map key t)"
  shows "first_row q n (found_rows q n (\<lambda>r. key r = k) t) = row_at key k t"
proof (cases "row_at key k t")
  case None
  then have "set (found_rows q n (\<lambda>r. key r = k) t) = {}" by (auto simp: row_at_None)
  with None assms show ?thesis by (simp del: set_found_rows)
next
  case (Some r)
  have "\<forall>x \<in> set (found_rows q n (\<lambda>r. key r = k) t). x = r"
    using row_at_mem [OF assms(2)] Some by fastforce
  moreover have "r \<in> set (found_rows q n (\<lambda>r. key r = k) t)" using row_at_SomeD [OF Some] by simp
  ultimately show ?thesis using assms(1) Some by (cases "found_rows q n (\<lambda>r. key r = k) t") auto
qed

end
