(* ===== verification/PostgresStores.thy ===== *)
theory PostgresStores
  imports SqlTables MemoryStores UserStores "HOL-Library.List_Lexorder" "HOL-Library.Char_ord"
begin

text \<open>
  The stores of \<open>internal/store/postgres\<close>, each operation the one statement that it sends, numbered by its second argument.
  A row is a value of the domain type, whose columns have the constraints of the migrations; \<open>..._row\<close> is what an
  \<open>INSERT\<close> makes of a value. The result of an operation is its error and the table after it.
\<close>

section \<open>Projects\<close>

text \<open>The statement leaves the token and the two dates of a suspension to their defaults.\<close>

definition project_row :: "Session \<Rightarrow> Project \<Rightarrow> Project" where
  "project_row q p = p\<lparr>p_GitHubTokenEncrypted := '''', p_SuspendedAt := None, p_DeletionDueAt := None,
     p_CreatedAt := q_stamp q (p_CreatedAt p), p_UpdatedAt := q_stamp q (p_UpdatedAt p)\<rparr>"

text \<open>The queries do not ask for the dates of a suspension.\<close>

definition scanned_project :: "Project \<Rightarrow> Project" where
  "scanned_project r = r\<lparr>p_SuspendedAt := None, p_DeletionDueAt := None\<rparr>"

definition Pg_ProjectStore_Create :: "Session \<Rightarrow> nat \<Rightarrow> Project \<Rightarrow> Project list \<Rightarrow> go_error option \<times> Project list" where
  "Pg_ProjectStore_Create q n p t =
     only_error (executed q n (insert_row q [(''projects_pkey'', \<lambda>a b. p_ID a = p_ID b)] True (project_row q p)) t)"

definition Pg_ProjectStore_GetByID :: "Session \<Rightarrow> nat \<Rightarrow> string \<Rightarrow> Project list \<Rightarrow> Project option" where
  "Pg_ProjectStore_GetByID q n pid t =
     map_option scanned_project (first_row q n (found_rows q n (\<lambda>r. p_ID r = pid) t))"

definition Pg_ProjectStore_List :: "Session \<Rightarrow> nat \<Rightarrow> Project list \<Rightarrow> Project list" where
  "Pg_ProjectStore_List q n t =
     map scanned_project (all_rows q n (sort_key (\<lambda>r. - p_CreatedAt r) (found_rows q n (\<lambda>r. True) t)))"

definition updated_project :: "Session \<Rightarrow> Project \<Rightarrow> Project \<Rightarrow> Project" where
  "updated_project q p r =
     p\<lparr>p_ID := p_ID r, p_KubeconfigEncrypted := p_KubeconfigEncrypted r, p_GitHubTokenEncrypted := p_GitHubTokenEncrypted r,
       p_SuspendedAt := p_SuspendedAt r, p_DeletionDueAt := p_DeletionDueAt r, p_CreatedAt := p_CreatedAt r,
       p_UpdatedAt := q_stamp q (p_UpdatedAt p)\<rparr>"

definition project_missing :: go_error where
  "project_missing = ErrText ''project not found''"

definition Pg_ProjectStore_Update :: "Session \<Rightarrow> nat \<Rightarrow> Project \<Rightarrow> Project list \<Rightarrow> go_error option \<times> Project list" where
  "Pg_ProjectStore_Update q n p t =
     must_affect project_missing (executed q n (update_rows (\<lambda>r. p_ID r = p_ID p) (updated_project q p)) t)"

definition Pg_ProjectStore_UpdateGitHubToken ::
  "Session \<Rightarrow> nat \<Rightarrow> string \<Rightarrow> string \<Rightarrow> Project list \<Rightarrow> go_error option \<times> Project list" where
  "Pg_ProjectStore_UpdateGitHubToken q n pid enc t =
     must_affect project_missing
       (executed q n (update_rows (\<lambda>r. p_ID r = pid) (\<lambda>r. r\<lparr>p_GitHubTokenEncrypted := enc\<rparr>)) t)"

definition Pg_ProjectStore_UpdateKubeconfig ::
  "Session \<Rightarrow> nat \<Rightarrow> string \<Rightarrow> string \<Rightarrow> Project list \<Rightarrow> go_error option \<times> Project list" where
  "Pg_ProjectStore_UpdateKubeconfig q n pid enc t =
     must_affect project_missing
       (executed q n (update_rows (\<lambda>r. p_ID r = pid) (\<lambda>r. r\<lparr>p_KubeconfigEncrypted := enc\<rparr>)) t)"

section \<open>Stages and releases\<close>

definition stage_row :: "Session \<Rightarrow> Stage \<Rightarrow> Stage" where
  "stage_row q st = st\<lparr>s_CreatedAt := q_stamp q (s_CreatedAt st), s_UpdatedAt := q_stamp q (s_UpdatedAt st)\<rparr>"

definition Pg_StageStore_Create :: "Session \<Rightarrow> nat \<Rightarrow> Stage \<Rightarrow> Stage list \<Rightarrow> go_error option \<times> Stage list" where
  "Pg_StageStore_Create q n st t =
     only_error (executed q n (insert_row q
       [(''stages_pkey'', \<lambda>a b. s_ID a = s_ID b),
        (''stages_project_id_slug_key'', \<lambda>a b. s_ProjectID a = s_ProjectID b \<and> s_Slug a = s_Slug b)]
       True (stage_row q st)) t)"

definition Pg_StageStore_GetByID :: "Session \<Rightarrow> nat \<Rightarrow> string \<Rightarrow> Stage list \<Rightarrow> Stage option" where
  "Pg_StageStore_GetByID q n sid t = first_row q n (found_rows q n (\<lambda>r. s_ID r = sid) t)"

definition Pg_StageStore_GetBySlug :: "Session \<Rightarrow> nat \<Rightarrow> string \<Rightarrow> string \<Rightarrow> Stage list \<Rightarrow> Stage option" where
  "Pg_StageStore_GetBySlug q n pid slug t =
     first_row q n (found_rows q n (\<lambda>r. s_ProjectID r = pid \<and> s_Slug r = slug) t)"

definition Pg_StageStore_ListByProject :: "Session \<Rightarrow> nat \<Rightarrow> string \<Rightarrow> Stage list \<Rightarrow> Stage list" where
  "Pg_StageStore_ListByProject q n pid t =
     all_rows q n (sort_key s_CreatedAt (found_rows q n (\<lambda>r. s_ProjectID r = pid) t))"

definition Pg_StageStore_Update :: "Session \<Rightarrow> nat \<Rightarrow> Stage \<Rightarrow> Stage list \<Rightarrow> go_error option \<times> Stage list" where
  "Pg_StageStore_Update q n st t =
     only_error (executed q n (update_rows (\<lambda>r. s_ID r = s_ID st)
       (\<lambda>r. r\<lparr>s_Name := s_Name st, s_Status := s_Status st, s_PublicURL := s_PublicURL st,
           s_UpdatedAt := q_stamp q (s_UpdatedAt st)\<rparr>)) t)"

definition release_row :: "Session \<Rightarrow> Release \<Rightarrow> Release" where
  "release_row q r = r\<lparr>r_CreatedAt := q_stamp q (r_CreatedAt r), r_UpdatedAt := q_stamp q (r_UpdatedAt r)\<rparr>"

text \<open>A release refers to its project; its workflow run is not unique.\<close>

definition Pg_ReleaseStore_Create ::
  "Session \<Rightarrow> nat \<Rightarrow> Project list \<Rightarrow> Release \<Rightarrow> Release list \<Rightarrow> go_error option \<times> Release list" where
  "Pg_ReleaseStore_Create q n projects r t =
     only_error (executed q n (insert_row q [(''releases_pkey'', \<lambda>a b. r_ID a = r_ID b)]
       (r_ProjectID r \<in> p_ID ` set projects) (release_row q r)) t)"

definition Pg_ReleaseStore_GetByID :: "Session \<Rightarrow> nat \<Rightarrow> string \<Rightarrow> Release list \<Rightarrow> Release option" where
  "Pg_ReleaseStore_GetByID q n rid t = first_row q n (found_rows q n (\<lambda>r. r_ID r = rid) t)"

definition Pg_ReleaseStore_ListByProject :: "Session \<Rightarrow> nat \<Rightarrow> string \<Rightarrow> Release list \<Rightarrow> Release list" where
  "Pg_ReleaseStore_ListByProject q n pid t =
     all_rows q n (sort_key (\<lambda>r. - r_CreatedAt r) (found_rows q n (\<lambda>r. r_ProjectID r = pid) t))"

definition Pg_ReleaseStore_Update :: "Session \<Rightarrow> nat \<Rightarrow> Release \<Rightarrow> Release list \<Rightarrow> go_error option \<times> Release list" where
  "Pg_ReleaseStore_Update q n x t =
     only_error (executed q n (update_rows (\<lambda>r. r_ID r = r_ID x)
       (\<lambda>r. r\<lparr>r_StageID := r_StageID x, r_CommitSHA := r_CommitSHA x, r_CommitMessage := r_CommitMessage x,
           r_Status := r_Status x, r_WorkflowRunID := r_WorkflowRunID x, r_ImageTag := r_ImageTag x,
           r_UpdatedAt := q_stamp q (r_UpdatedAt x)\<rparr>)) t)"

definition Pg_ReleaseStore_GetByWorkflowRunID :: "Session \<Rightarrow> nat \<Rightarrow> int \<Rightarrow> Release list \<Rightarrow> Release option" where
  "Pg_ReleaseStore_GetByWorkflowRunID q n run t = first_row q n (found_rows q n (\<lambda>r. r_WorkflowRunID r = run) t)"

section \<open>Users\<close>

definition user_row :: "Session \<Rightarrow> User \<Rightarrow> User" where
  "user_row q u = u\<lparr>u_TelegramLinkedAt := map_option (q_stamp q) (u_TelegramLinkedAt u),
     u_TelegramLinkExpiresAt := map_option (q_stamp q) (u_TelegramLinkExpiresAt u), u_CreatedAt := q_stamp q (u_CreatedAt u)\<rparr>"

definition Pg_UserStore_Create :: "Session \<Rightarrow> nat \<Rightarrow> User \<Rightarrow> User list \<Rightarrow> go_error option \<times> User list" where
  "Pg_UserStore_Create q n u t =
     only_error (executed q n (insert_row q
       [(''users_pkey'', \<lambda>a b. u_ID a = u_ID b), (''users_email_key'', \<lambda>a b. u_Email a = u_Email b)]
       True (user_row q u)) t)"

definition Pg_UserStore_GetByEmail :: "Session \<Rightarrow> nat \<Rightarrow> string \<Rightarrow> User list \<Rightarrow> User option" where
  "Pg_UserStore_GetByEmail q n email t = first_row q n (found_rows q n (\<lambda>r. u_Email r = email) t)"

definition Pg_UserStore_GetByID :: "Session \<Rightarrow> nat \<Rightarrow> string \<Rightarrow> User list \<Rightarrow> User option" where
  "Pg_UserStore_GetByID q n uid t = first_row q n (found_rows q n (\<lambda>r. u_ID r = uid) t)"

definition normalizedTelegramUsername :: "string \<Rightarrow> string" where
  "normalizedTelegramUsername value = TrimPrefix (TrimSpace value) ''@''"

definition Pg_UserStore_GetByTelegramUsername :: "Session \<Rightarrow> nat \<Rightarrow> string \<Rightarrow> User list \<Rightarrow> User option" where
  "Pg_UserStore_GetByTelegramUsername q n username t =
     (let normalized = normalizedTelegramUsername username
      in if normalized = '''' then None
         else first_row q n (found_rows q n (\<lambda>r. q_lower q (u_TelegramUsername r) = q_lower q normalized) t))"

definition Pg_UserStore_GetByTelegramLinkCode :: "Session \<Rightarrow> nat \<Rightarrow> string \<Rightarrow> User list \<Rightarrow> User option" where
  "Pg_UserStore_GetByTelegramLinkCode q n code t = first_row q n (found_rows q n (\<lambda>r. u_TelegramLinkCode r = code) t)"

definition Pg_UserStore_GetByTelegramChatID :: "Session \<Rightarrow> nat \<Rightarrow> int \<Rightarrow> User list \<Rightarrow> User option" where
  "Pg_UserStore_GetByTelegramChatID q n chat t = first_row q n (found_rows q n (\<lambda>r. u_TelegramChatID r = chat) t)"

text \<open>The six updates of one user.\<close>

definition change_user :: "Session \<Rightarrow> nat \<Rightarrow> string \<Rightarrow> (User \<Rightarrow> User) \<Rightarrow> User list \<Rightarrow> go_error option \<times> User list" where
  "change_user q n uid f t = must_affect ErrUserNotFound (executed q n (update_rows (\<lambda>r. u_ID r = uid) f) t)"

definition Pg_UserStore_UpdateBalance :: "Session \<Rightarrow> nat \<Rightarrow> string \<Rightarrow> f64 \<Rightarrow> User list \<Rightarrow> go_error option \<times> User list" where
  "Pg_UserStore_UpdateBalance q n uid balance t = change_user q n uid (\<lambda>r. r\<lparr>u_BalanceRUB := balance\<rparr>) t"

definition Pg_UserStore_UpdateGitHubToken ::
  "Session \<Rightarrow> nat \<Rightarrow> string \<Rightarrow> string \<Rightarrow> User list \<Rightarrow> go_error option \<times> User list" where
  "Pg_UserStore_UpdateGitHubToken q n uid enc t = change_user q n uid (\<lambda>r. r\<lparr>u_GitHubTokenEncrypted := enc\<rparr>) t"

definition Pg_UserStore_UpdateTelegramSettings ::
  "Session \<Rightarrow> nat \<Rightarrow> string \<Rightarrow> string \<Rightarrow> string \<Rightarrow> gotime option \<Rightarrow> bool \<Rightarrow> User list \<Rightarrow> go_error option \<times> User list" where
  "Pg_UserStore_UpdateTelegramSettings q n uid username code expires enabled t =
     change_user q n uid (\<lambda>r. r\<lparr>u_TelegramUsername := username, u_TelegramLinkCode := code,
       u_TelegramLinkExpiresAt := map_option (q_stamp q) expires, u_TelegramNotificationsEnabled := enabled,
       u_TelegramChatID := (if username = '''' then 0 else u_TelegramChatID r),
       u_TelegramLinkedAt := (if username = '''' then None else u_TelegramLinkedAt r)\<rparr>) t"

definition Pg_UserStore_LinkTelegramChat ::
  "Session \<Rightarrow> nat \<Rightarrow> string \<Rightarrow> int \<Rightarrow> gotime \<Rightarrow> User list \<Rightarrow> go_error option \<times> User list" where
  "Pg_UserStore_LinkTelegramChat q n uid chat linked_at t =
     change_user q n uid (\<lambda>r. r\<lparr>u_TelegramChatID := chat, u_TelegramLinkedAt := Some (q_stamp q linked_at),
       u_TelegramLinkCode := '''', u_TelegramLinkExpiresAt := None, u_TelegramNotificationsEnabled := True\<rparr>) t"

definition Pg_UserStore_DisableTelegramNotifications ::
  "Session \<Rightarrow> nat \<Rightarrow> string \<Rightarrow> User list \<Rightarrow> go_error option \<times> User list" where
  "Pg_UserStore_DisableTelegramNotifications q n uid t =
     change_user q n uid (\<lambda>r. r\<lparr>u_TelegramNotificationsEnabled := False\<rparr>) t"

definition Pg_UserStore_ClearTelegramSettings ::
  "Session \<Rightarrow> nat \<Rightarrow> string \<Rightarrow> User list \<Rightarrow> go_error option \<times> User list" where
  "Pg_UserStore_ClearTelegramSettings q n uid t =
     change_user q n uid (\<lambda>r. r\<lparr>u_TelegramUsername := '''', u_TelegramChatID := 0, u_TelegramLinkedAt := None,
       u_TelegramLinkCode := '''', u_TelegramLinkExpiresAt := None, u_TelegramNotificationsEnabled := False\<rparr>) t"

section \<open>Usage, transactions and payments\<close>

definition usage_row :: "Session \<Rightarrow> ResourceUsage \<Rightarrow> ResourceUsage" where
  "usage_row q u = u\<lparr>ru_PeriodStart := q_stamp q (ru_PeriodStart u), ru_PeriodEnd := q_stamp q (ru_PeriodEnd u),
     ru_RecordedAt := q_stamp q (ru_RecordedAt u)\<rparr>"

definition Pg_UsageStore_Record ::
  "Session \<Rightarrow> nat \<Rightarrow> Project list \<Rightarrow> ResourceUsage \<Rightarrow> ResourceUsage list \<Rightarrow> go_error option \<times> ResourceUsage list" where
  "Pg_UsageStore_Record q n projects u t =
     only_error (executed q n (insert_row q [(''resource_usage_pkey'', \<lambda>a b. ru_ID a = ru_ID b)]
       (ru_ProjectID u \<in> p_ID ` set projects) (usage_row q u)) t)"

definition Pg_UsageStore_AggregateForProject ::
  "Session \<Rightarrow> nat \<Rightarrow> string \<Rightarrow> gotime \<Rightarrow> gotime \<Rightarrow> ResourceUsage list \<Rightarrow> go_error + UsageAggregate" where
  "Pg_UsageStore_AggregateForProject q n pid from_t to_t t =
     (let rows = found_rows q n (in_window pid (q_stamp q from_t) (q_stamp q to_t)) t
      in case q_fault q n of
           Some why \<Rightarrow> Inl (fault_error why)
         | None \<Rightarrow>
            (case (sql_sum (map ru_CPUCoreHours rows), sql_sum (map ru_MemoryGBHours rows), sql_sum (map ru_EgressGB rows),
                sql_sum (map ru_DedicatedLoadBalancerHours rows)) of
               (Some cpu, Some memory, Some egress, Some lb) \<Rightarrow>
                 Inr \<lparr>ua_CPUCoreHours = cpu, ua_MemoryGBHours = memory, ua_StorageGB = sql_max (map ru_StorageGB rows),
                   ua_EgressGB = egress, ua_DedicatedLoadBalancerHours = lb\<rparr>
             | _ \<Rightarrow> Inl (q_error q ''value out of range: overflow'')))"

definition tx_row :: "Session \<Rightarrow> BillingTransaction \<Rightarrow> BillingTransaction" where
  "tx_row q tx = tx\<lparr>tx_CreatedAt := q_stamp q (tx_CreatedAt tx)\<rparr>"

definition Pg_TxStore_Record ::
  "Session \<Rightarrow> nat \<Rightarrow> BillingTransaction \<Rightarrow> BillingTransaction list \<Rightarrow> go_error option \<times> BillingTransaction list" where
  "Pg_TxStore_Record q n tx t =
     only_error (executed q n (insert_row q [(''billing_transactions_pkey'', \<lambda>a b. tx_ID a = tx_ID b)] True (tx_row q tx)) t)"

definition Pg_TxStore_ListByUser ::
  "Session \<Rightarrow> nat \<Rightarrow> string \<Rightarrow> BillingTransaction list \<Rightarrow> go_error + BillingTransaction list" where
  "Pg_TxStore_ListByUser q n uid t =
     checked_rows q n (sort_key (\<lambda>r. - tx_CreatedAt r) (found_rows q n (\<lambda>r. tx_UserID r = uid) t))"

definition Pg_TxStore_ListByProject ::
  "Session \<Rightarrow> nat \<Rightarrow> string \<Rightarrow> BillingTransaction list \<Rightarrow> go_error + BillingTransaction list" where
  "Pg_TxStore_ListByProject q n pid t =
     checked_rows q n (sort_key (\<lambda>r. - tx_CreatedAt r) (found_rows q n (\<lambda>r. tx_ProjectID r = pid) t))"

definition payment_row :: "Session \<Rightarrow> YooKassaPayment \<Rightarrow> YooKassaPayment" where
  "payment_row q p = p\<lparr>yk_CreatedAt := q_stamp q (yk_CreatedAt p), yk_UpdatedAt := q_stamp q (yk_UpdatedAt p)\<rparr>"

definition Pg_PaymentStore_Create ::
  "Session \<Rightarrow> nat \<Rightarrow> YooKassaPayment \<Rightarrow> YooKassaPayment list \<Rightarrow> go_error option \<times> YooKassaPayment list" where
  "Pg_PaymentStore_Create q n p t =
     only_error (executed q n (insert_row q
       [(''yookassa_payments_pkey'', \<lambda>a b. yk_ID a = yk_ID b),
        (''yookassa_payments_yookassa_id_key'', \<lambda>a b. yk_YooKassaID a = yk_YooKassaID b)]
       True (payment_row q p)) t)"

definition Pg_PaymentStore_GetByYooKassaID ::
  "Session \<Rightarrow> nat \<Rightarrow> string \<Rightarrow> YooKassaPayment list \<Rightarrow> YooKassaPayment option" where
  "Pg_PaymentStore_GetByYooKassaID q n yid t = first_row q n (found_rows q n (\<lambda>r. yk_YooKassaID r = yid) t)"

definition Pg_PaymentStore_MarkSucceeded ::
  "Session \<Rightarrow> nat \<Rightarrow> gotime \<Rightarrow> string \<Rightarrow> YooKassaPayment list \<Rightarrow> go_error option \<times> YooKassaPayment list" where
  "Pg_PaymentStore_MarkSucceeded q n now yid t =
     only_error (executed q n (update_rows (\<lambda>r. yk_YooKassaID r = yid)
       (\<lambda>r. r\<lparr>yk_Status := YKSucceeded, yk_UpdatedAt := q_stamp q now\<rparr>)) t)"

section \<open>Migrations\<close>

text \<open>The database as the migrations see it: the names of those applied, in the order of their rows, and everything else,
  which the scripts change. What a script does is a parameter.\<close>

type_synonym 'd schema = "string list \<times> 'd"

definition listMigrationFiles :: "(string \<times> bool) list \<Rightarrow> string list" where
  "listMigrationFiles entries = sort (map fst (filter (\<lambda>(name, isDir). \<not> isDir \<and> HasSuffix name ''.sql'') entries))"

text \<open>The statements of one migration form a transaction: begin, the script, the row with the name, commit. The deferred
  rollback makes every failure before the commit leave nothing behind.\<close>

definition applyMigration ::
  "Session \<Rightarrow> nat \<Rightarrow> (string \<Rightarrow> 'd \<Rightarrow> go_error + 'd) \<Rightarrow> string \<Rightarrow> 'd schema \<Rightarrow> go_error option \<times> 'd schema" where
  "applyMigration q n script name db =
     (case q_fault q n of Some why \<Rightarrow> (Some (fault_error why), db)
      | None \<Rightarrow> (case q_fault q (n + 1) of Some why \<Rightarrow> (Some (fault_error why), db)
      | None \<Rightarrow> (case script name (snd db) of Inl e \<Rightarrow> (Some e, db)
      | Inr d \<Rightarrow> (case q_fault q (n + 2) of Some why \<Rightarrow> (Some (fault_error why), db)
      | None \<Rightarrow> if name \<in> set (fst db) then (Some (q_error q ''schema_migrations_pkey''), db)
          else only_error (executed q (n + 3) (\<lambda>_. Inr (0, (fst db @ [name], d))) db)))))"

fun apply_migrations ::
  "Session \<Rightarrow> nat \<Rightarrow> (string \<Rightarrow> 'd \<Rightarrow> go_error + 'd) \<Rightarrow> string set \<Rightarrow> string list \<Rightarrow> 'd schema \<Rightarrow> go_error option \<times> 'd schema"
where
  "apply_migrations q n script applied [] db = (None, db)"
| "apply_migrations q n script applied (name # names) db =
     (if name \<in> applied then apply_migrations q n script applied names db
      else (case applyMigration q n script name db of
              (Some e, db) \<Rightarrow> (Some (ErrWrap (''apply migration '' @ name @ '': '') e ''''), db)
            | (None, db) \<Rightarrow> apply_migrations q (n + 4) script applied names db))"

definition Migrate ::
  "Session \<Rightarrow> nat \<Rightarrow> (string \<Rightarrow> 'd \<Rightarrow> go_error + 'd) \<Rightarrow> (string \<times> bool) list \<Rightarrow> 'd schema \<Rightarrow> go_error option \<times> 'd schema" where
  "Migrate q n script entries db =
     (case q_fault q n of Some why \<Rightarrow> (Some (ErrWrap ''create migrations table: '' (fault_error why) ''''), db)
      | None \<Rightarrow> (case checked_rows q (n + 1) (fst db) of
          Inl e \<Rightarrow> (Some (ErrWrap ''fetch applied migrations: '' e ''''), db)
        | Inr applied \<Rightarrow> apply_migrations q (n + 2) script (set applied) (listMigrationFiles entries) db))"

end
