(* ===== verification/PostgresProofs.thy ===== *)
theory PostgresProofs
  imports PostgresStores Guard
begin

text \<open>
  What the PostgreSQL stores promise. They satisfy the contracts of the ports that the stores in memory satisfy, in the form
  in which the database keeps a value; a run of operations on the users has the same results with both; the migrations that
  were applied are always a beginning of the sorted list; and what differs between the stores is stated.
\<close>

section \<open>Statements without failures\<close>

definition outcome :: "go_error option \<times> 't \<Rightarrow> go_error + 't" where
  "outcome m = (case fst m of Some e \<Rightarrow> Inl e | None \<Rightarrow> Inr (snd m))"

definition steady :: "Session \<Rightarrow> Session" where
  "steady q = q\<lparr>q_fault := \<lambda>_. None\<rparr>"

lemma healthy_steady [simp]: "healthy (steady q)"
  by (simp add: healthy_def steady_def)

lemma steady_stamp [simp]: "q_stamp (steady q) = q_stamp q" "q_error (steady q) = q_error q"
  by (simp_all add: steady_def)

lemma steady_row [simp]: "user_row (steady q) = user_row q" "project_row (steady q) = project_row q"
    "updated_project (steady q) = updated_project q"
  by (simp_all add: fun_eq_iff user_row_def project_row_def updated_project_def)

lemma executed_steady:
  "executed (steady q) n f t = (case f t of Inl e \<Rightarrow> (Inl e, t) | Inr (k, t') \<Rightarrow> (Inr k, t'))"
  by (auto simp: executed_def steady_def Let_def split: sum.splits prod.splits)

text \<open>Whatever goes wrong, a statement is carried out or it is not, and one that reports no error was carried out.\<close>

lemma statement_is_atomic:
  "snd (executed q n f t) = t \<or> snd (executed q n f t) = snd (executed (steady q) n f t)"
  "fst (executed q n f t) = Inr k \<Longrightarrow> executed q n f t = executed (steady q) n f t"
  by (auto simp: executed_def steady_def Let_def split: sum.splits prod.splits option.splits fault.splits)

lemma found_rows_map: "found_rows q n p (map g t) = map g (found_rows q n (\<lambda>r. p (g r)) t)"
proof -
  have ins: "insort_key f (h x) (map h ys) = map h (insort_key (\<lambda>y. f (h y)) x ys)"
    for f :: "'x \<Rightarrow> nat" and h :: "'y \<Rightarrow> 'x" and x ys
    by (induction ys) auto
  have sort: "sort_key f (map h ys) = map h (sort_key (\<lambda>y. f (h y)) ys)" for f :: "'x \<Rightarrow> nat" and h :: "'y \<Rightarrow> 'x" and ys
    by (induction ys) (simp_all add: ins)
  have "enumerate i (map g ys) = map (\<lambda>(i, r). (i, g r)) (enumerate i ys)" for i ys
    by (induction ys arbitrary: i) simp_all
  then show ?thesis
    by (simp add: found_rows_def filter_map o_def sort case_prod_beta')
qed

text \<open>A row that an update of another one leaves alone, and the updated row.\<close>

lemma found_after_update:
  assumes "\<And>r. key (f r) = key r"
  shows "found_rows q n (\<lambda>r. key r = k) (map (\<lambda>r. if key r = k' then f r else r) t) =
    map (\<lambda>r. if k = k' then f r else r) (found_rows q n (\<lambda>r. key r = k) t)"
proof -
  have "key (if key r = k' then f r else r) = key r" for r using assms by simp
  then have "found_rows q n (\<lambda>r. key r = k) (map (\<lambda>r. if key r = k' then f r else r) t) =
      map (\<lambda>r. if key r = k' then f r else r) (found_rows q n (\<lambda>r. key r = k) t)"
    by (simp add: found_rows_map)
  also have "\<dots> = map (\<lambda>r. if k = k' then f r else r) (found_rows q n (\<lambda>r. key r = k) t)"
    by (intro map_cong) auto
  finally show ?thesis .
qed

lemma found_after_insert:
  "key x \<noteq> k \<Longrightarrow> found_rows q n (\<lambda>r. key r = k) (t @ [x]) = found_rows q n (\<lambda>r. key r = k) t"
  by (simp add: found_rows_def)

lemma found_new: "k \<notin> key ` set t \<Longrightarrow> key x = k \<Longrightarrow> found_rows q n (\<lambda>r. key r = k) (t @ [x]) = [x]"
proof -
  assume k: "k \<notin> key ` set t" and x: "key x = k"
  from k have "filter (\<lambda>r. key r = k) t = []" by (auto simp: filter_empty_conv)
  with x have "filter (\<lambda>r. key r = k) (t @ [x]) = [x]" by simp
  then show ?thesis by (simp add: found_rows_def)
qed

lemma first_none: "first_row (steady q) n (found_rows q' m (\<lambda>r. key r = k) t) = None \<longleftrightarrow> k \<notin> key ` set t"
proof -
  have "first_row (steady q) n rows = None \<longleftrightarrow> set rows = {}" for rows :: "'a list"
    by (cases rows) simp_all
  note none = this [of "found_rows q' m (\<lambda>r. key r = k) t"]
  show ?thesis unfolding none set_found_rows by blast
qed

lemma first_map: "first_row (steady q) n (map f rows) = map_option f (first_row (steady q) n rows)"
  by (cases rows) simp_all

lemma update_one:
  "must_affect e (executed (steady q) n (update_rows (\<lambda>r. key r = k) f) t) =
    (if k \<in> key ` set t then (None, map (\<lambda>r. if key r = k then f r else r) t) else (Some e, t))"
proof (cases "k \<in> key ` set t")
  case True
  then have "filter (\<lambda>r. key r = k) t \<noteq> []" by (auto simp: filter_empty_conv)
  with True show ?thesis by (simp add: executed_steady update_rows_def must_affect_def)
next
  case False
  then have "filter (\<lambda>r. key r = k) t = []" by (auto simp: filter_empty_conv)
  moreover from False have "map (\<lambda>r. if key r = k then f r else r) t = t" by (intro map_idI) auto
  ultimately show ?thesis using False by (simp add: executed_steady update_rows_def must_affect_def)
qed

lemma insert_one:
  "only_error (executed (steady q) n (insert_row (steady q) [(name, \<lambda>a b. key a = key b)] True x) t) =
    (if key x \<in> key ` set t then (Some (q_error q name), t) else (None, t @ [x]))"
  by (auto simp: executed_steady insert_row_def only_error_def list_ex_iff image_iff)

section \<open>The ports\<close>

lemma project_forms:
  "scanned_project (project_row q x) = project_row q x" "p_ID (project_row q x) = p_ID x"
  "scanned_project (updated_project q x r) = updated_project q x (scanned_project r)" "p_ID (updated_project q x r) = p_ID r"
  by (simp_all add: scanned_project_def project_row_def updated_project_def)

text \<open>What the three operations do without failures.\<close>

lemma pg_project_get: "Pg_ProjectStore_GetByID (steady q) n k t = None \<longleftrightarrow> k \<notin> p_ID ` set t"
  by (simp only: Pg_ProjectStore_GetByID_def map_option_is_None first_none)

lemma pg_project_known: "Pg_ProjectStore_GetByID (steady q) n k t = Some p \<Longrightarrow> k \<in> p_ID ` set t"
  using pg_project_get [of q n k t] by simp

lemma pg_project_create:
  "outcome (Pg_ProjectStore_Create (steady q) n x t) =
     (if p_ID x \<in> p_ID ` set t then Inl (q_error q ''projects_pkey'') else Inr (t @ [project_row q x]))"
  by (simp add: Pg_ProjectStore_Create_def insert_one [where key = p_ID] outcome_def project_forms)

lemma pg_project_update:
  "outcome (Pg_ProjectStore_Update (steady q) n x t) =
     (if p_ID x \<in> p_ID ` set t then Inr (map (\<lambda>r. if p_ID r = p_ID x then updated_project q x r else r) t)
      else Inl project_missing)"
  by (simp add: Pg_ProjectStore_Update_def update_one [where key = p_ID] outcome_def)

lemma pg_project_read_insert:
  assumes "p_ID x \<notin> p_ID ` set t"
  shows "Pg_ProjectStore_GetByID (steady q) n k (t @ [project_row q x]) =
    (if k = p_ID x then Some (project_row q x) else Pg_ProjectStore_GetByID (steady q) n k t)"
  using found_new [of "p_ID x" p_ID t "project_row q x" "steady q" n]
    found_after_insert [of p_ID "project_row q x" k "steady q" n t] assms
  by (auto simp: Pg_ProjectStore_GetByID_def project_forms)

lemma pg_project_read_update:
  "Pg_ProjectStore_GetByID (steady q) n k (map (\<lambda>r. if p_ID r = p_ID x then updated_project q x r else r) t) =
    (if k = p_ID x then map_option (updated_project q x) (Pg_ProjectStore_GetByID (steady q) n k t)
     else Pg_ProjectStore_GetByID (steady q) n k t)"
proof -
  have "(\<lambda>r. scanned_project (updated_project q x r)) = (\<lambda>r. updated_project q x (scanned_project r))"
    by (simp add: project_forms)
  then show ?thesis
    unfolding Pg_ProjectStore_GetByID_def found_after_update [where key = p_ID, OF project_forms(4)] first_map
    by (simp add: option.map_comp o_def)
qed

interpretation pg_projects: guarded_store "\<lambda>t k. Pg_ProjectStore_GetByID (steady q) n k t"
  "\<lambda>t p. outcome (Pg_ProjectStore_Create (steady q) m p t)" "\<lambda>t p. outcome (Pg_ProjectStore_Update (steady q) m p t)"
  p_ID "project_row q" "\<lambda>old p. updated_project q p old" for q n m
  by unfold_locales (auto simp: pg_project_create pg_project_update pg_project_get pg_project_read_insert
      pg_project_read_update dest: pg_project_known)

section \<open>The users of both stores\<close>

definition users_ok :: "User list \<Rightarrow> bool" where
  "users_ok t \<longleftrightarrow> distinct (map u_ID t) \<and> distinct (map u_Email t)"

lemma pg_user_get: "Pg_UserStore_GetByID (steady q) n uid t = None \<longleftrightarrow> uid \<notin> u_ID ` set t"
  by (simp only: Pg_UserStore_GetByID_def first_none)

lemma change_one:
  "outcome (change_user (steady q) n uid f t) =
     (if uid \<in> u_ID ` set t then Inr (map (\<lambda>r. if u_ID r = uid then f r else r) t) else Inl ErrUserNotFound)"
  by (simp add: change_user_def update_one [where key = u_ID] outcome_def)

lemma pg_user_read:
  assumes "\<And>r. u_ID (f r) = u_ID r"
  shows "Pg_UserStore_GetByID (steady q) n k (map (\<lambda>r. if u_ID r = uid then f r else r) t) =
    map_option (\<lambda>r. if k = uid then f r else r) (Pg_UserStore_GetByID (steady q) n k t)"
  unfolding Pg_UserStore_GetByID_def found_after_update [where key = u_ID, OF assms] first_map ..

text \<open>An update of one user that keeps the identifier and the email address satisfies the contract of the port.\<close>

lemma user_port_change:
  assumes "\<And>r. u_ID (f r) = u_ID r" "\<And>r. u_Email (f r) = u_Email r"
  shows "user_port (\<lambda>t k. Pg_UserStore_GetByID (steady q) n k t) users_ok (\<lambda>t uid. outcome (change_user (steady q) m uid f t)) f"
proof unfold_locales
  fix t uid u t'
  have same: "map u_ID (map (\<lambda>r. if u_ID r = uid then f r else r) t) = map u_ID t"
    "map u_Email (map (\<lambda>r. if u_ID r = uid then f r else r) t) = map u_Email t"
    using assms by simp_all
  show "outcome (change_user (steady q) m uid f t) = Inl ErrUserNotFound" if "Pg_UserStore_GetByID (steady q) n uid t = None"
    using that by (simp add: change_one pg_user_get)
  show "\<exists>s'. outcome (change_user (steady q) m uid f t) = Inr s' \<and> (\<forall>k. Pg_UserStore_GetByID (steady q) n k s' =
      (if k = uid then Some (f u) else Pg_UserStore_GetByID (steady q) n k t))"
    if "Pg_UserStore_GetByID (steady q) n uid t = Some u"
  proof -
    have "uid \<in> u_ID ` set t" using that pg_user_get [of q n uid t] by simp
    with that show ?thesis by (simp add: change_one pg_user_read [OF assms(1)] option.map_ident)
  qed
  show "users_ok t'" if "users_ok t" "outcome (change_user (steady q) m uid f t) = Inr t'"
  proof -
    have "t' = map (\<lambda>r. if u_ID r = uid then f r else r) t" using that(2) by (simp add: change_one split: if_splits)
    with that(1) same show ?thesis by (simp only: users_ok_def)
  qed
qed

interpretation pg_balances: user_port "\<lambda>t k. Pg_UserStore_GetByID (steady q) n k t" users_ok
  "\<lambda>t uid. outcome (Pg_UserStore_UpdateBalance (steady q) m uid b t)" "\<lambda>u. u\<lparr>u_BalanceRUB := b\<rparr>" for q n m b
  unfolding Pg_UserStore_UpdateBalance_def by (rule user_port_change) simp_all

interpretation pg_tokens: user_port "\<lambda>t k. Pg_UserStore_GetByID (steady q) n k t" users_ok
  "\<lambda>t uid. outcome (Pg_UserStore_UpdateGitHubToken (steady q) m uid enc t)" "\<lambda>u. u\<lparr>u_GitHubTokenEncrypted := enc\<rparr>" for q n m enc
  unfolding Pg_UserStore_UpdateGitHubToken_def by (rule user_port_change) simp_all

interpretation pg_chat_links: user_port "\<lambda>t k. Pg_UserStore_GetByID (steady q) n k t" users_ok
  "\<lambda>t uid. outcome (Pg_UserStore_LinkTelegramChat (steady q) m uid chat x t)"
  "\<lambda>u. u\<lparr>u_TelegramChatID := chat, u_TelegramLinkedAt := Some (q_stamp q x), u_TelegramLinkCode := '''',
     u_TelegramLinkExpiresAt := None, u_TelegramNotificationsEnabled := True\<rparr>" for q n m chat x
  unfolding Pg_UserStore_LinkTelegramChat_def steady_stamp by (rule user_port_change) simp_all

interpretation pg_muting: user_port "\<lambda>t k. Pg_UserStore_GetByID (steady q) n k t" users_ok
  "\<lambda>t uid. outcome (Pg_UserStore_DisableTelegramNotifications (steady q) m uid t)"
  "\<lambda>u. u\<lparr>u_TelegramNotificationsEnabled := False\<rparr>" for q n m
  unfolding Pg_UserStore_DisableTelegramNotifications_def by (rule user_port_change) simp_all

interpretation pg_clearing: user_port "\<lambda>t k. Pg_UserStore_GetByID (steady q) n k t" users_ok
  "\<lambda>t uid. outcome (Pg_UserStore_ClearTelegramSettings (steady q) m uid t)" telegram_cleared for q n m
  unfolding Pg_UserStore_ClearTelegramSettings_def telegram_cleared_def [abs_def] by (rule user_port_change) simp_all

interpretation pg_settings: user_port "\<lambda>t k. Pg_UserStore_GetByID (steady q) n k t" users_ok
  "\<lambda>t uid. outcome (Pg_UserStore_UpdateTelegramSettings (steady q) m uid name code expires enabled t)"
  "\<lambda>u. u\<lparr>u_TelegramUsername := name, u_TelegramLinkCode := code, u_TelegramLinkExpiresAt := map_option (q_stamp q) expires,
     u_TelegramNotificationsEnabled := enabled, u_TelegramChatID := (if name = '''' then 0 else u_TelegramChatID u),
     u_TelegramLinkedAt := (if name = '''' then None else u_TelegramLinkedAt u)\<rparr>" for q n m name code expires enabled
  unfolding Pg_UserStore_UpdateTelegramSettings_def steady_stamp by (rule user_port_change) simp_all

text \<open>Two providers of the port whose changes agree up to the form of a user: an update has the same result with both.\<close>

locale port_pair = first: user_port get1 ok1 update1 change1 + second: user_port get2 ok2 update2 change2
  for get1 :: "'s \<Rightarrow> string \<Rightarrow> User option" and ok1 update1 change1
    and get2 :: "'t \<Rightarrow> string \<Rightarrow> User option" and ok2 update2 change2 +
  fixes form :: "User \<Rightarrow> User"
  assumes same_change: "form (change1 u) = change2 (form u)"
begin

lemma same_result:
  assumes "\<And>k. get2 t k = map_option form (get1 s k)"
  shows "(\<exists>e. update1 s uid = Inl e \<and> update2 t uid = Inl e) \<or>
    (\<exists>s' t'. update1 s uid = Inr s' \<and> update2 t uid = Inr t' \<and> (\<forall>k. get2 t' k = map_option form (get1 s' k)))"
proof (cases "get1 s uid")
  case None
  then show ?thesis using first.unknown [OF None] second.unknown [of t uid] assms by simp
next
  case (Some u)
  then have "get2 t uid = Some (form u)" by (simp add: assms)
  from second.known [OF this] first.known [OF Some] show ?thesis by (auto simp: assms same_change)
qed

end

interpretation both_balances: port_pair UserStore_GetByID user_store_ok
  "\<lambda>s uid. UserStore_UpdateBalance s uid b" "\<lambda>u. u\<lparr>u_BalanceRUB := b\<rparr>"
  "\<lambda>t k. Pg_UserStore_GetByID (steady q) n k t" users_ok "\<lambda>t uid. outcome (Pg_UserStore_UpdateBalance (steady q) m uid b t)"
  "\<lambda>u. u\<lparr>u_BalanceRUB := b\<rparr>" "user_row q" for q n m b
  by unfold_locales (simp add: user_row_def)

interpretation both_tokens: port_pair UserStore_GetByID user_store_ok
  "\<lambda>s uid. UserStore_UpdateGitHubToken s uid enc" "\<lambda>u. u\<lparr>u_GitHubTokenEncrypted := enc\<rparr>"
  "\<lambda>t k. Pg_UserStore_GetByID (steady q) n k t" users_ok
  "\<lambda>t uid. outcome (Pg_UserStore_UpdateGitHubToken (steady q) m uid enc t)"
  "\<lambda>u. u\<lparr>u_GitHubTokenEncrypted := enc\<rparr>" "user_row q" for q n m enc
  by unfold_locales (simp add: user_row_def)

interpretation both_chat_links: port_pair UserStore_GetByID user_store_ok
  "\<lambda>s uid. UserStore_LinkTelegramChat s uid chat x"
  "\<lambda>u. u\<lparr>u_TelegramChatID := chat, u_TelegramLinkedAt := Some x, u_TelegramLinkCode := '''',
     u_TelegramLinkExpiresAt := None, u_TelegramNotificationsEnabled := True\<rparr>"
  "\<lambda>t k. Pg_UserStore_GetByID (steady q) n k t" users_ok
  "\<lambda>t uid. outcome (Pg_UserStore_LinkTelegramChat (steady q) m uid chat x t)"
  "\<lambda>u. u\<lparr>u_TelegramChatID := chat, u_TelegramLinkedAt := Some (q_stamp q x), u_TelegramLinkCode := '''',
     u_TelegramLinkExpiresAt := None, u_TelegramNotificationsEnabled := True\<rparr>" "user_row q" for q n m chat x
  by unfold_locales (simp add: user_row_def)

interpretation both_muting: port_pair UserStore_GetByID user_store_ok
  UserStore_DisableTelegramNotifications "\<lambda>u. u\<lparr>u_TelegramNotificationsEnabled := False\<rparr>"
  "\<lambda>t k. Pg_UserStore_GetByID (steady q) n k t" users_ok
  "\<lambda>t uid. outcome (Pg_UserStore_DisableTelegramNotifications (steady q) m uid t)"
  "\<lambda>u. u\<lparr>u_TelegramNotificationsEnabled := False\<rparr>" "user_row q" for q n m
  by unfold_locales (simp add: user_row_def)

interpretation both_clearing: port_pair UserStore_GetByID user_store_ok
  UserStore_ClearTelegramSettings telegram_cleared
  "\<lambda>t k. Pg_UserStore_GetByID (steady q) n k t" users_ok
  "\<lambda>t uid. outcome (Pg_UserStore_ClearTelegramSettings (steady q) m uid t)" telegram_cleared "user_row q" for q n m
  by unfold_locales (simp add: user_row_def telegram_cleared_def)

text \<open>For a user name that is not blank; with a blank one the store in memory clears more than the statement does.\<close>

interpretation both_settings: port_pair UserStore_GetByID user_store_ok
  "\<lambda>s uid. UserStore_UpdateTelegramSettings s uid (c # name) code expires enabled"
  "\<lambda>u. let u' = u\<lparr>u_TelegramUsername := c # name, u_TelegramLinkCode := code,
        u_TelegramLinkExpiresAt := expires, u_TelegramNotificationsEnabled := enabled\<rparr>
       in if c # name = '''' then telegram_cleared u' else u'"
  "\<lambda>t k. Pg_UserStore_GetByID (steady q) n k t" users_ok
  "\<lambda>t uid. outcome (Pg_UserStore_UpdateTelegramSettings (steady q) m uid (c # name) code expires enabled t)"
  "\<lambda>u. u\<lparr>u_TelegramUsername := c # name, u_TelegramLinkCode := code,
     u_TelegramLinkExpiresAt := map_option (q_stamp q) expires, u_TelegramNotificationsEnabled := enabled,
     u_TelegramChatID := (if c # name = '''' then 0 else u_TelegramChatID u),
     u_TelegramLinkedAt := (if c # name = '''' then None else u_TelegramLinkedAt u)\<rparr>" "user_row q"
  for q n m c name code expires enabled
  by unfold_locales (simp add: user_row_def)

section \<open>Runs of operations on the users\<close>

datatype user_op =
  CreateUser User
| SetBalance string f64
| SetToken string string
| SetTelegram string string string "gotime option" bool
| LinkChat string int gotime
| Mute string
| Unlink string

fun memory_op :: "user_op \<Rightarrow> UserStore \<Rightarrow> go_error + UserStore" where
  "memory_op (CreateUser u) s = UserStore_Create s u"
| "memory_op (SetBalance uid b) s = UserStore_UpdateBalance s uid b"
| "memory_op (SetToken uid enc) s = UserStore_UpdateGitHubToken s uid enc"
| "memory_op (SetTelegram uid name code expires enabled) s = UserStore_UpdateTelegramSettings s uid name code expires enabled"
| "memory_op (LinkChat uid chat x) s = UserStore_LinkTelegramChat s uid chat x"
| "memory_op (Mute uid) s = UserStore_DisableTelegramNotifications s uid"
| "memory_op (Unlink uid) s = UserStore_ClearTelegramSettings s uid"

fun database_op :: "Session \<Rightarrow> nat \<Rightarrow> user_op \<Rightarrow> User list \<Rightarrow> go_error option \<times> User list" where
  "database_op q n (CreateUser u) t = Pg_UserStore_Create q n u t"
| "database_op q n (SetBalance uid b) t = Pg_UserStore_UpdateBalance q n uid b t"
| "database_op q n (SetToken uid enc) t = Pg_UserStore_UpdateGitHubToken q n uid enc t"
| "database_op q n (SetTelegram uid name code expires enabled) t =
     Pg_UserStore_UpdateTelegramSettings q n uid name code expires enabled t"
| "database_op q n (LinkChat uid chat x) t = Pg_UserStore_LinkTelegramChat q n uid chat x t"
| "database_op q n (Mute uid) t = Pg_UserStore_DisableTelegramNotifications q n uid t"
| "database_op q n (Unlink uid) t = Pg_UserStore_ClearTelegramSettings q n uid t"

text \<open>The successes of a run, and the store after it.\<close>

fun memory_run :: "user_op list \<Rightarrow> UserStore \<Rightarrow> bool list \<times> UserStore" where
  "memory_run [] s = ([], s)"
| "memory_run (op # ops) s = (case memory_op op s of
     Inl e \<Rightarrow> apfst ((#) False) (memory_run ops s) | Inr s' \<Rightarrow> apfst ((#) True) (memory_run ops s'))"

fun database_run :: "Session \<Rightarrow> nat \<Rightarrow> user_op list \<Rightarrow> User list \<Rightarrow> bool list \<times> User list" where
  "database_run q n [] t = ([], t)"
| "database_run q n (op # ops) t =
     (let (err, t') = database_op q n op t in apfst ((#) (err = None)) (database_run q (Suc n) ops t'))"

definition created_users :: "user_op list \<Rightarrow> string list" where
  "created_users ops = List.map_filter (\<lambda>op. case op of CreateUser u \<Rightarrow> Some (u_ID u) | _ \<Rightarrow> None) ops"

definition named :: "user_op \<Rightarrow> bool" where
  "named op \<longleftrightarrow> (case op of SetTelegram uid name code expires enabled \<Rightarrow> name \<noteq> '''' | _ \<Rightarrow> True)"

text \<open>The relation between the stores.\<close>

definition same_users :: "Session \<Rightarrow> User list \<Rightarrow> UserStore \<Rightarrow> bool" where
  "same_users q t s \<longleftrightarrow> users_ok t \<and> user_store_ok s
     \<and> (\<forall>k. row_at u_ID k t = map_option (user_row q) (UserStore_GetByID s k))"

lemma pg_get_row: "users_ok t \<Longrightarrow> Pg_UserStore_GetByID (steady q) n k t = row_at u_ID k t"
  "users_ok t \<Longrightarrow> Pg_UserStore_GetByEmail (steady q) n e t = row_at u_Email e t"
  by (simp_all add: Pg_UserStore_GetByID_def Pg_UserStore_GetByEmail_def one_row users_ok_def del: healthy_reads)

lemma user_row_same [simp]: "u_ID (user_row q u) = u_ID u" "u_Email (user_row q u) = u_Email u"
  by (simp_all add: user_row_def)

lemma user_indexes:
  assumes "user_store_ok s"
  shows "UserStore_GetByID s k = Some u \<Longrightarrow> UserStore_GetByEmail s (u_Email u) = Some u"
    and "UserStore_GetByEmail s e = Some u \<Longrightarrow> u_Email u = e \<and> UserStore_GetByID s (u_ID u) = Some u"
  using assms by (simp_all add: user_store_ok_def UserStore_GetByID_def UserStore_GetByEmail_def)

lemma same_users_email:
  assumes "same_users q t s"
  shows "row_at u_Email e t = map_option (user_row q) (UserStore_GetByEmail s e)"
proof -
  have ok: "users_ok t" "user_store_ok s" and rows: "row_at u_ID k t = map_option (user_row q) (UserStore_GetByID s k)" for k
    using assms by (simp_all add: same_users_def)
  have distinct: "distinct (map u_ID t)" "distinct (map u_Email t)" using ok(1) by (simp_all add: users_ok_def)
  have mem: "\<exists>u. r = user_row q u \<and> UserStore_GetByEmail s (u_Email r) = Some u" if "r \<in> set t" for r
  proof -
    have "map_option (user_row q) (UserStore_GetByID s (u_ID r)) = Some r"
      using row_at_mem [OF distinct(1) that] rows [of "u_ID r"] by simp
    then obtain u where u: "UserStore_GetByID s (u_ID r) = Some u" and "r = user_row q u" by auto
    with user_indexes(1) [OF ok(2) u] show ?thesis by auto
  qed
  show ?thesis
  proof (cases "row_at u_Email e t")
    case None
    have "UserStore_GetByEmail s e = None"
    proof (rule ccontr)
      assume "UserStore_GetByEmail s e \<noteq> None"
      then obtain u where u: "UserStore_GetByEmail s e = Some u" by blast
      note i = user_indexes(2) [OF ok(2) u]
      then have "row_at u_ID (u_ID u) t = Some (user_row q u)" by (simp add: rows)
      from row_at_SomeD [OF this] have "u_Email (user_row q u) \<in> u_Email ` set t" by blast
      with i have "e \<in> u_Email ` set t" by simp
      with None row_at_None [of u_Email e t] show False by blast
    qed
    with None show ?thesis by simp
  next
    case (Some r)
    with mem [of r] row_at_SomeD [OF Some] show ?thesis by auto
  qed
qed

lemma create_agrees:
  assumes "same_users q t s" and new: "UserStore_GetByID s (u_ID u) = None"
  shows "case UserStore_Create s u of
      Inl e \<Rightarrow> fst (Pg_UserStore_Create (steady q) n u t) \<noteq> None \<and> snd (Pg_UserStore_Create (steady q) n u t) = t
    | Inr s' \<Rightarrow> fst (Pg_UserStore_Create (steady q) n u t) = None \<and> same_users q (snd (Pg_UserStore_Create (steady q) n u t)) s'"
proof -
  have id: "u_ID u \<notin> u_ID ` set t" using assms by (simp add: same_users_def flip: row_at_None)
  have mail: "u_Email u \<in> u_Email ` set t \<longleftrightarrow> map_of (us_byEmail s) (u_Email u) \<noteq> None"
    using same_users_email [OF assms(1), of "u_Email u"] row_at_None [of u_Email "u_Email u" t]
    by (cases "map_of (us_byEmail s) (u_Email u)") (auto simp: UserStore_GetByEmail_def)
  have create: "Pg_UserStore_Create (steady q) n u t =
      (if u_Email u \<in> u_Email ` set t then (Some (q_error q ''users_email_key''), t) else (None, t @ [user_row q u]))"
    using id by (auto simp: Pg_UserStore_Create_def executed_steady insert_row_def only_error_def list_ex_iff image_iff)
  show ?thesis
  proof (cases "map_of (us_byEmail s) (u_Email u)")
    case None
    have "user_store_ok (us_write s (u_ID u) u)"
      using assms None by (intro user_store_ok_create) (auto simp: same_users_def UserStore_GetByID_def)
    moreover have "users_ok (t @ [user_row q u])"
      using assms(1) id mail None by (auto simp: same_users_def users_ok_def)
    moreover have "row_at u_ID k (t @ [user_row q u]) =
        map_option (user_row q) (UserStore_GetByID (us_write s (u_ID u) u) k)" for k
      using assms by (auto simp: same_users_def row_at_append UserStore_GetByID_def split: option.split)
    ultimately show ?thesis using None mail by (simp add: UserStore_Create_def create same_users_def)
  qed (use mail in \<open>simp add: UserStore_Create_def create\<close>)
qed

text \<open>An update that has the same result with both providers keeps the relation.\<close>

lemma update_agrees:
  assumes same: "same_users q t s"
    and result: "(\<exists>e. r = Inl e \<and> outcome m = Inl e) \<or>
      (\<exists>s' t'. r = Inr s' \<and> outcome m = Inr t'
        \<and> (\<forall>k. Pg_UserStore_GetByID (steady q) 0 k t' = map_option (user_row q) (UserStore_GetByID s' k)))"
    and ok: "\<And>s'. r = Inr s' \<Longrightarrow> user_store_ok s'" "\<And>t'. outcome m = Inr t' \<Longrightarrow> users_ok t'"
    and failed: "\<And>e. outcome m = Inl e \<Longrightarrow> snd m = t"
  shows "case r of
      Inl e \<Rightarrow> fst m \<noteq> None \<and> same_users q (snd m) s
    | Inr s' \<Rightarrow> fst m = None \<and> same_users q (snd m) s'"
  using result
proof (elim disjE exE conjE)
  fix e assume "r = Inl e" "outcome m = Inl e"
  with same failed show ?thesis by (auto simp: outcome_def split: option.splits)
next
  fix s' t' assume r: "r = Inr s'" "outcome m = Inr t'"
    and agree: "\<forall>k. Pg_UserStore_GetByID (steady q) 0 k t' = map_option (user_row q) (UserStore_GetByID s' k)"
  from ok r have "users_ok t'" "user_store_ok s'" by auto
  with agree have "same_users q t' s'" by (simp add: same_users_def pg_get_row)
  with r show ?thesis by (auto simp: outcome_def split: option.splits)
qed

lemma change_failed: "outcome (change_user (steady q) n uid f t) = Inl e \<Longrightarrow> snd (change_user (steady q) n uid f t) = t"
  by (simp add: change_user_def update_one [where key = u_ID] outcome_def split: if_splits)

lemmas change_defs = Pg_UserStore_UpdateBalance_def Pg_UserStore_UpdateGitHubToken_def
  Pg_UserStore_UpdateTelegramSettings_def Pg_UserStore_LinkTelegramChat_def
  Pg_UserStore_DisableTelegramNotifications_def Pg_UserStore_ClearTelegramSettings_def

text \<open>One operation.\<close>

lemma same_users_step:
  assumes same: "same_users q t s" and "named op"
    and new: "\<And>u. op = CreateUser u \<Longrightarrow> UserStore_GetByID s (u_ID u) = None"
  shows "case memory_op op s of
      Inl e \<Rightarrow> fst (database_op (steady q) n op t) \<noteq> None \<and> same_users q (snd (database_op (steady q) n op t)) s
    | Inr s' \<Rightarrow> fst (database_op (steady q) n op t) = None \<and> same_users q (snd (database_op (steady q) n op t)) s'"
proof -
  have get: "Pg_UserStore_GetByID (steady q) 0 k t = map_option (user_row q) (UserStore_GetByID s k)" for k
    using same by (simp add: same_users_def pg_get_row)
  from same have ok: "user_store_ok s" "users_ok t" by (simp_all add: same_users_def)
  show ?thesis
  proof (cases op)
    case (CreateUser u)
    with create_agrees [OF same new [OF CreateUser], of n] same show ?thesis by (auto split: sum.splits)
  next
    case (SetBalance uid b)
    show ?thesis unfolding SetBalance memory_op.simps database_op.simps
      by (rule update_agrees [OF same both_balances.same_result [OF get] balances.keeps_ok [OF ok(1)] pg_balances.keeps_ok [OF ok(2)]])
        (assumption | unfold change_defs, erule change_failed)+
  next
    case (SetToken uid enc)
    show ?thesis unfolding SetToken memory_op.simps database_op.simps
      by (rule update_agrees [OF same both_tokens.same_result [OF get] tokens.keeps_ok [OF ok(1)] pg_tokens.keeps_ok [OF ok(2)]])
        (assumption | unfold change_defs, erule change_failed)+
  next
    case (SetTelegram uid name code expires enabled)
    then obtain c cs where name: "name = c # cs" using assms(2) by (cases name) (auto simp: named_def)
    show ?thesis unfolding SetTelegram name memory_op.simps database_op.simps
      by (rule update_agrees [OF same both_settings.same_result [OF get] settings.keeps_ok [OF ok(1)] pg_settings.keeps_ok [OF ok(2)]])
        (assumption | unfold change_defs, erule change_failed)+
  next
    case (LinkChat uid chat x)
    show ?thesis unfolding LinkChat memory_op.simps database_op.simps
      by (rule update_agrees [OF same both_chat_links.same_result [OF get] chat_links.keeps_ok [OF ok(1)] pg_chat_links.keeps_ok [OF ok(2)]])
        (assumption | unfold change_defs, erule change_failed)+
  next
    case (Mute uid)
    show ?thesis unfolding Mute memory_op.simps database_op.simps
      by (rule update_agrees [OF same both_muting.same_result [OF get] muting.keeps_ok [OF ok(1)] pg_muting.keeps_ok [OF ok(2)]])
        (assumption | unfold change_defs, erule change_failed)+
  next
    case (Unlink uid)
    show ?thesis unfolding Unlink memory_op.simps database_op.simps
      by (rule update_agrees [OF same both_clearing.same_result [OF get] clearing.keeps_ok [OF ok(1)] pg_clearing.keeps_ok [OF ok(2)]])
        (assumption | unfold change_defs, erule change_failed)+
  qed
qed

lemma memory_created:
  "memory_op op s = Inr s' \<Longrightarrow> UserStore_GetByID s' k \<noteq> None \<Longrightarrow>
    UserStore_GetByID s k \<noteq> None \<or> (\<exists>u. op = CreateUser u \<and> u_ID u = k)"
  by (cases op) (auto simp: UserStore_Create_def user_store_defs UserStore_GetByID_def Let_def split: option.splits if_splits)

lemma same_users_run:
  assumes "same_users q t s" and "list_all named ops" and "distinct (created_users ops)"
    and "\<And>k. k \<in> set (created_users ops) \<Longrightarrow> UserStore_GetByID s k = None"
  shows "fst (database_run (steady q) n ops t) = fst (memory_run ops s)
    \<and> same_users q (snd (database_run (steady q) n ops t)) (snd (memory_run ops s))"
  using assms
proof (induction ops arbitrary: t s n)
  case (Cons op ops)
  have new: "op = CreateUser u \<Longrightarrow> UserStore_GetByID s (u_ID u) = None" for u
    using Cons.prems(4) by (simp add: created_users_def List.map_filter_def)
  note step = same_users_step [where op = op and n = n, OF Cons.prems(1) _ new]
  have created: "created_users (op # ops) = (case op of CreateUser u \<Rightarrow> [u_ID u] | _ \<Rightarrow> []) @ created_users ops"
    by (simp add: created_users_def List.map_filter_def split: user_op.split)
  show ?case
  proof (cases "memory_op op s")
    case (Inl e)
    then have "fst (database_op (steady q) n op t) \<noteq> None" "same_users q (snd (database_op (steady q) n op t)) s"
      using step Cons.prems(2) by auto
    then show ?thesis
      using Cons.IH [of "snd (database_op (steady q) n op t)" s "Suc n"] Cons.prems Inl
      by (auto simp: case_prod_beta' created)
  next
    case (Inr s')
    then have "fst (database_op (steady q) n op t) = None" "same_users q (snd (database_op (steady q) n op t)) s'"
      using step Cons.prems(2) by auto
    moreover have "UserStore_GetByID s' k = None" if "k \<in> set (created_users ops)" for k
    proof (rule ccontr)
      assume "UserStore_GetByID s' k \<noteq> None"
      from memory_created [OF Inr this] that Cons.prems(3,4) show False by (auto simp: created)
    qed
    ultimately show ?thesis
      using Cons.IH [of "snd (database_op (steady q) n op t)" s' "Suc n"] Cons.prems Inr
      by (auto simp: case_prod_beta' created)
  qed
qed simp


definition sample_account :: User where
  "sample_account = \<lparr>u_ID = ''u1'', u_Email = ''a@b.c'', u_BalanceRUB = Fin 0, u_PasswordHash = ''h'', u_GitHubTokenEncrypted = '''',
     u_TelegramUsername = '''', u_TelegramChatID = 0, u_TelegramLinkedAt = None, u_TelegramLinkCode = '''',
     u_TelegramLinkExpiresAt = None, u_TelegramNotificationsEnabled = False, u_CreatedAt = 1500\<rparr>"

definition sample_ops :: "user_op list" where
  "sample_ops = [CreateUser sample_account, CreateUser (sample_account\<lparr>u_ID := ''u2''\<rparr>), SetBalance ''u1'' (Fin 7), Mute ''u3'']"

text \<open>A database that keeps microseconds.\<close>

definition sample_session :: Session where
  "sample_session = \<lparr>q_fault = (\<lambda>_. None), q_rank = (\<lambda>_ i. i), q_stamp = (\<lambda>x. x div 1000 * 1000), q_lower = ToLower,
     q_error = ErrText\<rparr>"


section \<open>Lists and aggregates\<close>

lemma newest_first: "sorted_wrt (\<lambda>a b. f b \<le> f a) (sort_key (\<lambda>r. - f r :: int) xs)"
proof -
  have "sorted_wrt (\<lambda>x y. - f x \<le> - f y) (sort_key (\<lambda>r. - f r) xs)" using sorted_sort_key [of "\<lambda>r. - f r" xs] by (simp add: sorted_map)
  then show ?thesis by simp
qed

text \<open>C34 The list of the transactions of a user has each of them once, as the journal in memory has, the newest first; a
  failure is an error, never a shorter list.\<close>

theorem transactions_are_listed:
  assumes "Pg_TxStore_ListByUser q n uid t = Inr xs"
  shows "mset xs = mset (TxStore_ListByUser t uid) \<and> sorted_wrt (\<lambda>a b. tx_CreatedAt b \<le> tx_CreatedAt a) xs"
proof -
  have "xs = sort_key (\<lambda>r. - tx_CreatedAt r) (found_rows q n (\<lambda>r. tx_UserID r = uid) t)"
    using assms by (simp add: Pg_TxStore_ListByUser_def checked_rows_def split: option.splits)
  then show ?thesis by (simp add: newest_first mset_found_rows TxStore_ListByUser_def)
qed

definition sample_txs :: "BillingTransaction list" where
  "sample_txs = map (\<lambda>i. \<lparr>tx_ID = show_nat i, tx_UserID = ''u1'', tx_ProjectID = '''', tx_Type = TCharge, tx_AmountRUB = Fin 1,
     tx_Description = '''', tx_CreatedAt = int i\<rparr>) [0..<3]"

theorem transactions_are_listed_witness:
  "\<exists>xs. Pg_TxStore_ListByUser sample_session 0 ''u1'' sample_txs = Inr xs \<and> xs = rev sample_txs
     \<and> mset xs = mset (TxStore_ListByUser sample_txs ''u1'')"
proof -
  have list: "Pg_TxStore_ListByUser sample_session 0 ''u1'' sample_txs = Inr (rev sample_txs)" by code_simp
  from transactions_are_listed [OF this] list show ?thesis by blast
qed

lemma sum_of_costs:
  assumes "sql_sum xs = Some v" and "list_all frep xs"
  shows "foldl fadd (Fin 0) xs = v"
proof (cases xs)
  case (Cons x ys)
  have "foldl sql_plus None zs = None" for zs by (induction zs) (simp_all add: sql_plus_def)
  moreover have "sql_plus (Some a) b = Some c \<Longrightarrow> c = fadd a b" for a b c
    by (auto simp: sql_plus_def split: f64.splits)
  ultimately have "foldl sql_plus (Some a) zs = Some v \<Longrightarrow> foldl fadd a zs = v" for a zs
  proof (induction zs arbitrary: a)
    case (Cons z zs)
    then show ?case by (cases "sql_plus (Some a) z") fastforce+
  qed simp
  then show ?thesis using assms Cons by simp
qed (use assms in simp)

definition size_value :: "f64 \<Rightarrow> bool" where
  "size_value v \<longleftrightarrow> fnn v \<and> v \<noteq> FNaN"

lemma max_of_sizes:
  assumes "list_all size_value xs"
  shows "foldl (\<lambda>a r. if flt a r then r else a) (Fin 0) xs = sql_max xs"
proof (cases xs)
  case (Cons x ys)
  have step: "(if flt a r then r else a) = sql_larger a r" if "size_value a" "size_value r" for a r
    using that by (cases a; cases r) (auto simp: sql_larger_def size_value_def fnn_def)
  have "size_value a \<Longrightarrow> list_all size_value zs \<Longrightarrow>
      foldl (\<lambda>a r. if flt a r then r else a) a zs = foldl sql_larger a zs" for a zs
  proof (induction zs arbitrary: a)
    case (Cons z zs)
    then have "size_value (sql_larger a z)" by (simp add: sql_larger_def)
    with Cons show ?case by (simp add: step)
  qed simp
  moreover have "(if flt (Fin 0) x then x else Fin 0) = x"
    using assms Cons by (cases x) (auto simp: size_value_def fnn_def)
  ultimately show ?thesis using assms Cons by simp
qed simp

definition countable :: "ResourceUsage \<Rightarrow> bool" where
  "countable u \<longleftrightarrow> frep (ru_CPUCoreHours u) \<and> frep (ru_MemoryGBHours u) \<and> frep (ru_EgressGB u) \<and> size_value (ru_StorageGB u)"

lemma memory_aggregate:
  "list_all (in_window pid a b) us \<Longrightarrow> fold (add_usage pid a b) us agg =
    agg\<lparr>ua_CPUCoreHours := foldl fadd (ua_CPUCoreHours agg) (map ru_CPUCoreHours us),
      ua_MemoryGBHours := foldl fadd (ua_MemoryGBHours agg) (map ru_MemoryGBHours us),
      ua_StorageGB := foldl (\<lambda>a r. if flt a r then r else a) (ua_StorageGB agg) (map ru_StorageGB us),
      ua_EgressGB := foldl fadd (ua_EgressGB agg) (map ru_EgressGB us)\<rparr>"
  by (induction us arbitrary: agg) (simp_all add: add_usage_def)


definition sample_usages :: "ResourceUsage list" where
  "sample_usages = [\<lparr>ru_ID = ''r1'', ru_ProjectID = ''p1'', ru_PeriodStart = 0, ru_PeriodEnd = 3000, ru_CPUCores = Fin 1,
     ru_MemoryGB = Fin 1, ru_StorageGB = Fin 5, ru_EgressGB = Fin 0, ru_ReplicaCount = 1, ru_PodUptimeHours = Fin 1,
     ru_CPUCoreHours = Fin (1/2), ru_MemoryGBHours = Fin 2, ru_DedicatedLoadBalancerHours = Fin 3, ru_RecordedAt = 3000\<rparr>]"


section \<open>What the database does not keep or check\<close>

text \<open>The dates of a suspension are never read back, so the guard never finds a project whose deletion is due.\<close>

lemma retention_dates_are_lost:
  "p \<in> set (Pg_ProjectStore_List q n t) \<Longrightarrow> p_SuspendedAt p = None \<and> \<not> deletion_due x p"
  by (auto simp: Pg_ProjectStore_List_def scanned_project_def deletion_due_def)

text \<open>A statement that fails reads like a missing row.\<close>

lemma failure_reads_as_absence:
  assumes "q_fault q n \<noteq> None"
  shows "Pg_ProjectStore_GetByID q n pid t = None" "Pg_UserStore_GetByID q n uid u = None"
    "Pg_PaymentStore_GetByYooKassaID q n yid ps = None" "Pg_ReleaseStore_GetByWorkflowRunID q n run rs = None"
  using assms
  by (simp_all add: Pg_ProjectStore_GetByID_def Pg_UserStore_GetByID_def Pg_PaymentStore_GetByYooKassaID_def
      Pg_ReleaseStore_GetByWorkflowRunID_def first_row_def)

text \<open>Two releases of one workflow run are accepted, so a webhook whose lookup failed stores the run a second time.\<close>

lemma runs_are_not_unique:
  assumes "r_ProjectID r \<in> p_ID ` set projects" and "rid \<noteq> r_ID r"
  shows "\<exists>t. Pg_ReleaseStore_Create (steady q) n projects r [] = (None, t)
    \<and> fst (Pg_ReleaseStore_Create (steady q) m projects (r\<lparr>r_ID := rid\<rparr>) t) = None"
proof -
  have "Pg_ReleaseStore_Create (steady q) n projects x t =
      (if r_ID x \<in> r_ID ` set t then (Some (q_error q ''releases_pkey''), t) else (None, t @ [release_row (steady q) x]))"
    if "r_ProjectID x = r_ProjectID r" for n x t
    using assms(1) that insert_one [of q n "''releases_pkey''" r_ID "release_row (steady q) x" t]
    by (simp add: Pg_ReleaseStore_Create_def release_row_def)
  with assms(2) show ?thesis by (auto simp: release_row_def)
qed

section \<open>Migrations\<close>

text \<open>The scripts of a list, one after the other.\<close>

fun replay :: "(string \<Rightarrow> 'd \<Rightarrow> go_error + 'd) \<Rightarrow> string list \<Rightarrow> 'd \<Rightarrow> go_error + 'd" where
  "replay script [] d = Inr d"
| "replay script (name # names) d = (case script name d of Inl e \<Rightarrow> Inl e | Inr d' \<Rightarrow> replay script names d')"

lemma replay_append:
  "replay script (xs @ ys) d = (case replay script xs d of Inl e \<Rightarrow> Inl e | Inr d' \<Rightarrow> replay script ys d')"
  by (induction xs arbitrary: d) (simp_all split: sum.split)

text \<open>A migration that succeeds is applied and recorded; one that fails is not, or both and only the answer is lost.\<close>

lemma applyMigration_cases:
  assumes "applyMigration q n script name db = (err, db')"
  shows "err \<noteq> None \<and> db' = db \<or> (\<exists>d. script name (snd db) = Inr d \<and> db' = (fst db @ [name], d))"
  using assms
  by (auto simp: applyMigration_def only_error_def executed_def Let_def
      split: option.splits sum.splits if_splits fault.splits prod.splits)

lemma applyMigration_done:
  "applyMigration q n script name db = (None, db') \<Longrightarrow> \<exists>d. script name (snd db) = Inr d \<and> db' = (fst db @ [name], d)"
  using applyMigration_cases by fastforce

lemma apply_skips:
  "set old \<subseteq> applied \<Longrightarrow> apply_migrations q n script applied (old @ rest) db = apply_migrations q n script applied rest db"
  by (induction old) simp_all

lemma apply_prefix:
  assumes "apply_migrations q n script applied rest db = (err, db')" and "applied \<inter> set rest = {}"
  shows "\<exists>i. fst db' = fst db @ take i rest \<and> replay script (take i rest) (snd db) = Inr (snd db')
    \<and> (err = None \<longrightarrow> take i rest = rest)"
  using assms
proof (induction rest arbitrary: n db)
  case (Cons name rest)
  obtain e db1 where step: "applyMigration q n script name db = (e, db1)" by (cases "applyMigration q n script name db")
  show ?case
  proof (cases e)
    case None
    from applyMigration_done [of q n script name db db1] step None
    obtain d where d: "script name (snd db) = Inr d" "db1 = (fst db @ [name], d)" by auto
    from Cons.IH [of "n + 4" db1] Cons.prems step None obtain i where
      "fst db' = fst db1 @ take i rest" "replay script (take i rest) (snd db1) = Inr (snd db')" "err = None \<longrightarrow> take i rest = rest"
      by auto
    with d show ?thesis by (intro exI [of _ "Suc i"]) auto
  next
    case (Some x)
    with Cons.prems step have err: "err \<noteq> None" "db' = db1" by auto
    from applyMigration_cases [OF step] show ?thesis
    proof (elim disjE exE conjE)
      assume "db1 = db"
      with err show ?thesis by (intro exI [of _ 0]) simp
    next
      fix d assume "script name (snd db) = Inr d" "db1 = (fst db @ [name], d)"
      with err show ?thesis by (intro exI [of _ 1]) auto
    qed
  qed
qed auto

text \<open>The state after some files of a directory were applied to an empty database.\<close>

definition migrated :: "(string \<Rightarrow> 'd \<Rightarrow> go_error + 'd) \<Rightarrow> string list \<Rightarrow> 'd \<Rightarrow> nat \<Rightarrow> 'd schema \<Rightarrow> bool" where
  "migrated script files d0 k db \<longleftrightarrow> fst db = take k files \<and> replay script (take k files) d0 = Inr (snd db)"

lemma distinct_files: "distinct (map fst entries) \<Longrightarrow> distinct (listMigrationFiles entries)"
  by (simp add: listMigrationFiles_def distinct_map_filter)

lemma Migrate_step:
  assumes "migrated script (listMigrationFiles entries) d0 k db" and "distinct (map fst entries)"
  shows "\<exists>k'. migrated script (listMigrationFiles entries) d0 k' (snd (Migrate q n script entries db))
    \<and> (fst (Migrate q n script entries db) = None \<longrightarrow> take k' (listMigrationFiles entries) = listMigrationFiles entries)"
proof (cases "q_fault q n = None \<and> q_fault q (n + 1) = None")
  case True
  let ?files = "listMigrationFiles entries"
  obtain err db' where run: "apply_migrations q (n + 2) script (set (fst db)) ?files db = (err, db')"
    by (cases "apply_migrations q (n + 2) script (set (fst db)) ?files db")
  have m: "Migrate q n script entries db = (err, db')" using True run by (simp add: Migrate_def checked_rows_def)
  have db: "fst db = take k ?files" "replay script (take k ?files) d0 = Inr (snd db)"
    using assms(1) by (simp_all add: migrated_def)
  have "distinct (take k ?files @ drop k ?files)" using distinct_files [OF assms(2)] by simp
  then have disjoint: "set (fst db) \<inter> set (drop k ?files) = {}" unfolding db(1) distinct_append by blast
  have "apply_migrations q (n + 2) script (set (fst db)) (take k ?files @ drop k ?files) db = (err, db')" using run by simp
  then have "apply_migrations q (n + 2) script (set (fst db)) (drop k ?files) db = (err, db')"
    by (subst (asm) apply_skips) (simp_all add: db(1))
  from apply_prefix [OF this disjoint] obtain i where i: "fst db' = fst db @ take i (drop k ?files)"
      "replay script (take i (drop k ?files)) (snd db) = Inr (snd db')" "err = None \<longrightarrow> take i (drop k ?files) = drop k ?files"
    by blast
  have files: "take (k + i) ?files = take k ?files @ take i (drop k ?files)" by (rule take_add)
  with i(3) have "err = None \<longrightarrow> take (k + i) ?files = ?files" by (metis append_take_drop_id)
  moreover have "migrated script ?files d0 (k + i) db'"
    unfolding migrated_def files replay_append using i db by simp
  ultimately show ?thesis unfolding m by auto
next
  case False
  then have "fst (Migrate q n script entries db) \<noteq> None \<and> snd (Migrate q n script entries db) = db"
    by (auto simp: Migrate_def checked_rows_def split: option.splits)
  with assms(1) show ?thesis by auto
qed

text \<open>Starts of the server, each with the failures of its own session.\<close>

fun starts :: "(string \<Rightarrow> 'd \<Rightarrow> go_error + 'd) \<Rightarrow> (string \<times> bool) list \<Rightarrow> Session list \<Rightarrow> 'd schema \<Rightarrow> 'd schema" where
  "starts script entries [] db = db"
| "starts script entries (q # qs) db = starts script entries qs (snd (Migrate q 0 script entries db))"

lemma starts_migrated:
  assumes "migrated script (listMigrationFiles entries) d0 k db" and "distinct (map fst entries)"
  shows "\<exists>k. migrated script (listMigrationFiles entries) d0 k (starts script entries qs db)"
  using assms
proof (induction qs arbitrary: db k)
  case (Cons q qs)
  from Migrate_step [OF Cons.prems, of q 0] obtain k' where
    "migrated script (listMigrationFiles entries) d0 k' (snd (Migrate q 0 script entries db))" by blast
  from Cons.IH [OF this Cons.prems(2)] show ?case by simp
qed auto

text \<open>C33 However often the server is started and whatever fails meanwhile, the migrations that the database records are a
  beginning of the sorted list of files, each once, and the rest of the database is what exactly these scripts make of an
  empty one; after a start that succeeds they are all the files.\<close>

theorem migrations_form_a_prefix:
  assumes "distinct (map fst entries)"
  shows "let db = starts script entries qs ([], d0)
    in (\<exists>k. migrated script (listMigrationFiles entries) d0 k db)
     \<and> (fst (Migrate q n script entries db) = None \<longrightarrow>
          fst (snd (Migrate q n script entries db)) = listMigrationFiles entries
        \<and> replay script (listMigrationFiles entries) d0 = Inr (snd (snd (Migrate q n script entries db))))"
proof -
  let ?files = "listMigrationFiles entries" and ?db = "starts script entries qs ([], d0)"
  have "migrated script ?files d0 0 ([], d0)" by (simp add: migrated_def)
  from starts_migrated [OF this assms, of qs] obtain k where k: "migrated script ?files d0 k ?db" by blast
  from Migrate_step [OF k assms, of q n] obtain k' where
    "migrated script ?files d0 k' (snd (Migrate q n script entries ?db))
      \<and> (fst (Migrate q n script entries ?db) = None \<longrightarrow> take k' ?files = ?files)" by (rule exE)
  note last = conjunct1 [OF this] conjunct2 [OF this]
  have "fst (snd (Migrate q n script entries ?db)) = ?files \<and> replay script ?files d0 = Inr (snd (snd (Migrate q n script entries ?db)))"
    if "fst (Migrate q n script entries ?db) = None"
    using last(1) mp [OF last(2) that] unfolding migrated_def by simp
  with k show ?thesis unfolding Let_def by blast
qed

text \<open>A first start fails at the commit of the second file, whose answer is lost; the second start completes the list.\<close>

definition sample_entries :: "(string \<times> bool) list" where
  "sample_entries = [(''002.sql'', False), (''old'', True), (''001.sql'', False), (''003.sql'', False), (''README'', False)]"

definition lossy_session :: Session where
  "lossy_session = sample_session\<lparr>q_fault := (\<lambda>n. if n = 9 then Some (Lost (ErrText ''reset'')) else None)\<rparr>"

theorem migrations_form_a_prefix_witness:
  "starts (\<lambda>name d. Inr (d @ [name])) sample_entries [lossy_session] ([], []) = ([''001.sql'', ''002.sql''], [''001.sql'', ''002.sql''])
   \<and> snd (Migrate sample_session 0 (\<lambda>name d. Inr (d @ [name])) sample_entries ([''001.sql'', ''002.sql''], [''001.sql'', ''002.sql'']))
     = ([''001.sql'', ''002.sql'', ''003.sql''], [''001.sql'', ''002.sql'', ''003.sql''])"
proof -
  let ?script = "\<lambda>name d. Inr (d @ [name])" and ?db = "([''001.sql'', ''002.sql''], [''001.sql'', ''002.sql''])"
  have "distinct (map fst sample_entries)" by code_simp
  note prefix = migrations_form_a_prefix [OF this, of ?script "[lossy_session]" "[]" sample_session 0]
  have db: "starts ?script sample_entries [lossy_session] ([], []) = ?db" by code_simp
  have ok: "fst (Migrate sample_session 0 ?script sample_entries ?db) = None" by code_simp
  have files: "listMigrationFiles sample_entries = [''001.sql'', ''002.sql'', ''003.sql'']" by code_simp
  from prefix have "fst (snd (Migrate sample_session 0 ?script sample_entries ?db)) = [''001.sql'', ''002.sql'', ''003.sql'']
      \<and> replay ?script [''001.sql'', ''002.sql'', ''003.sql''] [] = Inr (snd (snd (Migrate sample_session 0 ?script sample_entries ?db)))"
    unfolding Let_def db files using ok by blast
  then show ?thesis unfolding db by (simp add: prod_eq_iff)
qed

end
