(* ===== verification/Spec2Isabelle.thy ===== *)
theory Spec2Isabelle
  imports Server Environments Collector Wiring PostgresProofs
begin

text \<open>
  Verification of the deploy service, the Go program in \<open>src/deploy-service\<close>. Paths below are relative to
  its directory \<open>internal\<close>.

  \<^bold>\<open>The program.\<close> A user registers, tops up a balance, creates projects and connects a GitHub repository to
  each. A project gets an environment in a cluster (a background goroutine with retries), stages, releases that
  follow the workflow runs of GitHub, and addresses. Two workers run beside the HTTP server: one meters the
  resources of the active projects and charges their owners, the other checks each account and, after a grace
  period without funds, suspends its projects and later deletes them. Telegram tells the users about all that.

  \<^bold>\<open>The libraries of Go.\<close> \<open>Prelude\<close> has the association lists that stand for Go maps, whose iteration order is
  a parameter, and the collections of hints; \<open>GoStrings\<close>, \<open>GoNumbers\<close>, \<open>GoFloat\<close> (\<open>float64\<close> with its rounding),
  \<open>GoTime\<close>, \<open>GoDuration\<close>, \<open>GoBase64\<close>, \<open>GoCipher\<close> (AES-GCM, SHA-256, HMAC), \<open>GoJson\<close>, \<open>GoNet\<close>,
  \<open>GoParse\<close> (time stamps, more functions of \<open>strings\<close>) and \<open>GoQuote\<close> (\<open>strconv.Quote\<close> and its reading) write out
  what the program uses of Go's library; \<open>Sha1\<close> is the digest in a dashboard identifier. \<open>Calls\<close> is the log of calls
  to the outside that all clients below share, with the combinators for calls that may fail.

  \<^bold>\<open>The data.\<close> \<open>Domain\<close> has the records and enumerations of \<open>domain/\<close> and the error values, which wrap each
  other; \<open>MemoryStores\<close> and \<open>UserStores\<close> the stores of \<open>store/memory/\<close>. The store ports are locales
  (\<open>keyed_store\<close>, \<open>guarded_store\<close>, \<open>journal\<close>, \<open>user_port\<close>), interpreted on these stores. \<open>Secrets\<close> is
  \<open>crypto/aes.go\<close> and \<open>auth/jwt.go\<close> with the locale \<open>cipher\<close>; \<open>Monetization\<close> is the tariff and the cost
  engine of \<open>monetization/\<close>.

  \<^bold>\<open>The state.\<close> \<open>Runtime\<close> has one record \<open>Sys\<close> for all mutable data: the stores, the fields of the services
  (pending charges, starts of the grace periods, quiet periods of alerts, the cache of addresses), the started
  goroutines that wait to run, a counter of the steps taken and the trace of the outgoing calls. What the code cannot
  decide is in the record \<open>World\<close>: the configuration, the clock, generated identifiers and map orders at each
  step, and the answer to each outgoing call (datatype \<open>ext_call\<close>, one constructor per method of the ports of
  \<open>service/deps.go\<close>). The theorems hold for every world, that is for every behaviour of the outside.

  \<^bold>\<open>The services.\<close> Each operation of \<open>service/\<close> is a function from the world, its arguments and the state to
  its result and the new state, with errors as \<open>Inl\<close> or \<open>Some\<close>: \<open>Notifications\<close> (\<open>notification_service.go\<close>,
  \<open>telegram_helpers.go\<close>), \<open>Accounts\<close> (\<open>auth_service.go\<close>), \<open>Billing\<close> and \<open>Guard\<close> (\<open>billing_guard.go\<close>: reading
  the billing state and reserving a budget; deciding and acting), and \<open>project_service.go\<close> in
  \<open>ProjectHelpers\<close> (pure functions), \<open>Stages\<close>, \<open>Projects\<close>, \<open>Releases\<close> and \<open>Bootstrap\<close>. \<open>Metering\<close> is the
  worker part of \<open>app/app.go\<close>.

  \<^bold>\<open>The API.\<close> \<open>Requests\<close> and \<open>Handlers\<close> are \<open>http/\<close>: decoding of bodies, authentication, the handlers with
  their status codes and the routes. \<open>Server\<close> composes everything to a transition system with the steps request,
  goroutine, metering pass and guard check.

  \<^bold>\<open>The cluster.\<close> \<open>integration/kubernetes/\<close> is modelled beside the services, as what one implementation of the
  ports does. \<open>Identifiers\<close> (\<open>domain/uuid.go\<close>) and \<open>KubeNames\<close> have the names of an environment, \<open>Manifests\<close> the
  texts that are applied and the dashboard of a project, \<open>Kubeconfig\<close> the rewriting of kubeconfigs with its regular
  expressions, \<open>KubeObjects\<close> the decoding of the lists of \<open>kubectl\<close>. In \<open>Kubectl\<close> and \<open>Environments\<close> an operation of
  the provisioner is a function on the list of the commands run so far (record \<open>Runs\<close>); the record \<open>Cluster\<close> has the
  settings of the provisioner and the answer of the cluster to each command at each step, so waiting, retries and
  early returns are explicit. \<open>Collector\<close> does the same for \<open>metrics_collector.go\<close>. One predicate per theory
  (\<open>runs\<close>, \<open>adds\<close>) carries what a call adds to the log through all operations.

  \<^bold>\<open>The other clients.\<close> \<open>integration/github/\<close>: \<open>GitHubFiles\<close> has the generated workflow and manifests and the
  reading of a Dockerfile, \<open>GitHub\<close> the operations as sequences of HTTP requests, each with the answer of GitHub to it at
  its position in the log, \<open>Delivery\<close> their lemmas. \<open>LokiReader\<close> is \<open>integration/logs/\<close>, \<open>Gateways\<close> the clients of
  Telegram and YooKassa. \<open>Wiring\<close> is \<open>New\<close> of \<open>app/app.go\<close>: it builds from the environment variables the
  configuration and a \<open>World\<close> whose answers are those of these clients, the provisioner and the collector, or of the mocks;
  what remains outside (the answers of the servers, the clock, random bytes) is its record \<open>Outside\<close>.

  \<^bold>\<open>The database.\<close> \<open>PostgresStores\<close> is \<open>store/postgres/\<close>: each method is the statement that it sends, on a
  table of \<open>SqlTables\<close>, where inserting, updating and selecting have their standard meaning and the record \<open>Session\<close> has
  what the code leaves to the database: which statement fails and whether it took effect, the order of rows without
  \<open>ORDER BY\<close>, the precision of times, the errors. The migrations are transactions on an abstract rest of the database.
  \<open>PostgresProofs\<close> shows that these stores keep the contracts of the ports, by interpretations of the same locales, and
  compares them with the stores in memory. The services run on the stores in memory, as the server does without a database.

  \<^bold>\<open>What the theorems show.\<close> Access: a foreign project is never touched through the API and a protected
  handler runs only under a token that was signed. Money: the journals and balances of top-ups, charges and
  reservations, the refinement of the abstract account by the top-ups, the webhook of the payment provider, the
  rounding of the charged amount.
  Guard: its decision, the grace period, suspension, deletion, recovery. Provisioning: it ends, after a bounded
  number of steps, in one of two outcomes. Releases: one per workflow run, whatever the order of webhook and
  synchronisation. Environments: they have names of their own, their operations stay inside them and end, a new one is
  fenced in, and its dashboard shows nothing else. Repositories: the bootstrap writes to its own branch only, and a
  bootstrap that succeeds has delivered every generated file. Logs: a query stays in the namespace of the project
  whatever the request contains, and the wired application returns entries of the caller's own project only. Round
  trips: encryption, tokens, stored tokens and kubeconfigs, queries. Server: the
  invariant of all reachable states and the history that no step changes. Wiring: the assumptions that the theorems make
  of a world hold for the one that is wired; that generated identifiers differ is an idealisation of 128 random bits.
  Database: the users refine those in memory, lists and sums agree, and the migrations are applied in order and once.

  \<^bold>\<open>Bounds.\<close> The parser of JSON has the length of its input as fuel, and every call reads at least one byte;
  the other loops are structural. The retries of the provisioning are bounded by the list of delays, the waits of
  the provisioner by the constants of the code (180, 45 and 60 attempts), which are the fuel of the loops.

  \<^bold>\<open>Concurrency.\<close> A step of the server runs to its end. The stores are guarded by mutexes, so single store
  operations are atomic in the code as well, but whole requests are not; \<open>Accounts\<close> shows for the top-ups what
  an interleaving can do.

  \<^bold>\<open>Not modelled.\<close> The scripts of the migrations (a parameter). The functions without callers:
  \<open>EnsureProjectPublicIngress\<close> of the provisioner, \<open>reconcileProjectGrafana\<close>, \<open>reconcileProjectPublicAccess\<close> and
  \<open>releaseMessageForStatus\<close>. Processes, the forwarding of a port by the operating system, HTTP and TCP themselves;
  tickers, timeouts, panics and contexts; the pages of the user interface, the request log and test support.
\<close>

end
